(* ===== verification/Prelude.thy ===== *)
theory Prelude
  imports Main "HOL-Library.Word"
begin

text \<open>
  Prelude of the development: the collections of lemmas the component theories share and the
  generic facts they rest on. It holds
  \<^item> the decimal text of integers as JavaScript prints a bigint, with its injectivity,
  \<^item> \<open>find\<close>, \<open>the first element that\<close>, and default-valued map reads,
  \<^item> floor and ceiling division by basis points, the arithmetic of every limit of the protocol.
\<close>

named_theorems ops_defs \<open>definitions of operations that proofs about a component unfold\<close>
named_theorems inv_intros \<open>preservation lemmas of the invariants of the components\<close>

section \<open>Maps with a default\<close>

text \<open>Clarity's \<open>default-to d (map-get? m k)\<close> and JavaScript's \<open>m[k] ?? d\<close>.\<close>

definition get_or :: "'v \<Rightarrow> ('k \<rightharpoonup> 'v) \<Rightarrow> 'k \<Rightarrow> 'v" where
  "get_or d m k = (case m k of None \<Rightarrow> d | Some v \<Rightarrow> v)"

lemma get_or_upd_same [simp]: "get_or d (m(k \<mapsto> v)) k = v"
  by (simp add: get_or_def)

lemma get_or_upd_other [simp]: "k' \<noteq> k \<Longrightarrow> get_or d (m(k \<mapsto> v)) k' = get_or d m k'"
  by (simp add: get_or_def)

lemma get_or_upd: "get_or d (m(k \<mapsto> v)) k' = (if k' = k then v else get_or d m k')"
  by simp

lemma get_or_empty [simp]: "get_or d Map.empty k = d"
  by (simp add: get_or_def)

text \<open>
  The total of the entries of a map whose keys satisfy a predicate: the supply of a share
  class, the capital of a pool, the funds of a contract.
\<close>

definition sum_over :: "('k \<rightharpoonup> nat) \<Rightarrow> ('k \<Rightarrow> bool) \<Rightarrow> nat" where
  "sum_over m P = (\<Sum>k\<in>{k \<in> dom m. P k}. get_or 0 m k)"

lemma sum_over_empty [simp]: "sum_over Map.empty P = 0"
  by (simp add: sum_over_def)

lemma sum_over_upd:
  assumes "finite (dom m)"
  shows "sum_over (m(k \<mapsto> v)) P + (if P k then get_or 0 m k else 0) = sum_over m P + (if P k then v else 0)"
proof (cases "P k")
  case True
  let ?D = "{x \<in> dom m. P x}"
  have fin: "finite ?D" using assms by simp
  have dom': "{x \<in> dom (m(k \<mapsto> v)). P x} = insert k (?D - {k})" using True by auto
  have "sum_over (m(k \<mapsto> v)) P = v + (\<Sum>x\<in>?D - {k}. get_or 0 (m(k \<mapsto> v)) x)"
    unfolding sum_over_def dom' using fin by (subst sum.insert) auto
  also have "(\<Sum>x\<in>?D - {k}. get_or 0 (m(k \<mapsto> v)) x) = (\<Sum>x\<in>?D - {k}. get_or 0 m x)"
    by (rule sum.cong) (auto simp: get_or_upd)
  finally have upd: "sum_over (m(k \<mapsto> v)) P = v + (\<Sum>x\<in>?D - {k}. get_or 0 m x)" .
  have "(\<Sum>x\<in>?D - {k}. get_or 0 m x) + get_or 0 m k = sum_over m P"
  proof (cases "k \<in> dom m")
    case True
    with \<open>P k\<close> fin show ?thesis
      unfolding sum_over_def by (subst (2) sum.remove [of _ k]) auto
  next
    case False
    then have "?D - {k} = ?D" and "get_or 0 m k = 0" by (auto simp: get_or_def dom_def)
    then show ?thesis by (simp add: sum_over_def)
  qed
  with upd show ?thesis using True by simp
next
  case False
  have "sum_over (m(k \<mapsto> v)) P = sum_over m P"
    unfolding sum_over_def
    by (rule sum.cong) (use False in \<open>auto simp: get_or_upd\<close>)
  with False show ?thesis by simp
qed

lemma get_or_le_sum_over:
  assumes "finite (dom m)" and "P k"
  shows "get_or 0 m k \<le> sum_over m P"
proof (cases "k \<in> dom m")
  case True
  then show ?thesis unfolding sum_over_def
    by (intro member_le_sum) (use assms in auto)
next
  case False
  then show ?thesis by (simp add: get_or_def dom_def)
qed

lemma sum_over_upd_other:
  "finite (dom m) \<Longrightarrow> \<not> P k \<Longrightarrow> sum_over (m(k \<mapsto> v)) P = sum_over m P"
  using sum_over_upd [of m k v P] by simp

lemma sum_over_upd_add:
  "finite (dom m) \<Longrightarrow> P k \<Longrightarrow> v = get_or 0 m k + a \<Longrightarrow> sum_over (m(k \<mapsto> v)) P = sum_over m P + a"
  using sum_over_upd [of m k v P] by simp

lemma sum_over_upd_sub:
  "finite (dom m) \<Longrightarrow> P k \<Longrightarrow> a \<le> get_or 0 m k \<Longrightarrow> v = get_or 0 m k - a \<Longrightarrow>
     sum_over (m(k \<mapsto> v)) P = sum_over m P - a"
  using sum_over_upd [of m k v P] get_or_le_sum_over [of m P k] by simp

section \<open>Finding list elements\<close>

lemma find_Some_mem: "List.find P xs = Some x \<Longrightarrow> x \<in> set xs \<and> P x"
  by (auto simp: find_Some_iff in_set_conv_nth)

lemma find_filter_hd: "filter P xs = y # ys \<Longrightarrow> List.find P xs = Some y"
  by (induction xs) (auto split: if_splits)

section \<open>Floor and ceiling division by basis points\<close>

text \<open>
  Every limit of the protocol is a share in basis points (1/10000) of a pool. The contracts
  floor, the agent floors a cap and takes the ceiling of a floor. The four facts below are
  what makes the two roundings agree.
\<close>

lemma bps_floor_cap:
  fixes x t c :: nat
  assumes "0 < t" and "x \<le> t * c div 10000"
  shows "x * 10000 div t \<le> c"
proof -
  have "x * 10000 \<le> (t * c div 10000) * 10000" using assms(2) by (rule mult_le_mono1)
  also have "\<dots> \<le> t * c" by simp
  finally have "x * 10000 div t \<le> t * c div t" by (rule div_le_mono)
  with assms(1) show ?thesis by simp
qed

lemma ceiling_bps_ge: "z \<le> (z + 9999) div 10000 * (10000::nat)"
proof -
  have "(z + 9999) mod 10000 < 10000" by simp
  moreover have "(z + 9999) div 10000 * 10000 + (z + 9999) mod 10000 = z + 9999"
    by (rule div_mult_mod_eq)
  ultimately show ?thesis by linarith
qed

lemma bps_ceiling_floor:
  fixes x t c :: nat
  assumes "0 < t" and "(t * c + 9999) div 10000 \<le> x"
  shows "c \<le> x * 10000 div t"
proof -
  have "t * c \<le> (t * c + 9999) div 10000 * 10000" by (rule ceiling_bps_ge)
  also have "\<dots> \<le> x * 10000" using assms(2) by simp
  finally have "t * c div t \<le> x * 10000 div t" by (rule div_le_mono)
  with assms(1) show ?thesis by simp
qed

text \<open>Proportional shares, rounded down, never exceed the proportion.\<close>

lemma floor_share_le: "(a * s div t) * t \<le> a * (s::nat)"
  by simp

lemma floor_share_lt: "0 < t \<Longrightarrow> a * s < (a * s div t + 1) * (t::nat)"
  by (metis Suc_eq_plus1 dividend_less_div_times mult_Suc add.commute)

section \<open>Decimal text\<close>

text \<open>\<open>BigInt.toString()\<close> and the decimal text of a non-negative integer.\<close>

definition digit_char :: "nat \<Rightarrow> char" where
  "digit_char d = char_of (48 + d)"

fun nat_text :: "nat \<Rightarrow> string" where
  "nat_text n = (if n < 10 then [digit_char n] else nat_text (n div 10) @ [digit_char (n mod 10)])"

declare nat_text.simps [simp del]

definition int_text :: "int \<Rightarrow> string" where
  "int_text i = (if i < 0 then CHR ''-'' # nat_text (nat (- i)) else nat_text (nat i))"

definition is_digit :: "char \<Rightarrow> bool" where
  "is_digit c \<longleftrightarrow> 48 \<le> (of_char c :: nat) \<and> (of_char c :: nat) \<le> 57"

definition digit_val :: "char \<Rightarrow> nat" where
  "digit_val c = of_char c - 48"

text \<open>\<open>BigInt(s)\<close> on a text of digits only: the base-10 value, leading zeros allowed.\<close>

definition digits_val :: "string \<Rightarrow> nat" where
  "digits_val s = foldl (\<lambda>a c. 10 * a + digit_val c) 0 s"

lemma of_char_digit_char: "d < 10 \<Longrightarrow> of_char (digit_char d) = (48 + d :: nat)"
  by (simp add: digit_char_def)

lemma digit_val_digit_char [simp]: "d < 10 \<Longrightarrow> digit_val (digit_char d) = d"
  by (simp add: digit_val_def of_char_digit_char)

lemma is_digit_digit_char [simp]: "d < 10 \<Longrightarrow> is_digit (digit_char d)"
  by (simp add: is_digit_def of_char_digit_char)

lemma digits_val_snoc: "digits_val (s @ [c]) = 10 * digits_val s + digit_val c"
  by (simp add: digits_val_def)

lemma digits_val_nat_text [simp]: "digits_val (nat_text n) = n"
proof (induction n rule: nat_text.induct)
  case (1 n)
  show ?case
  proof (cases "n < 10")
    case True
    then show ?thesis by (simp add: nat_text.simps [of n] digits_val_def)
  next
    case False
    with "1" show ?thesis
      by (simp add: nat_text.simps [of n] digits_val_snoc)
  qed
qed

lemma nat_text_digits: "list_all is_digit (nat_text n)"
proof (induction n rule: nat_text.induct)
  case (1 n)
  then show ?case by (cases "n < 10") (simp_all add: nat_text.simps [of n])
qed

lemma nat_text_ne [simp]: "nat_text n \<noteq> []"
  by (simp add: nat_text.simps [of n])

lemma nat_text_inj [simp]: "nat_text m = nat_text n \<longleftrightarrow> m = n"
  by (metis digits_val_nat_text)

lemma is_digit_not_minus: "is_digit c \<Longrightarrow> c \<noteq> CHR ''-''"
  by (auto simp: is_digit_def)

lemma int_text_inj [simp]: "int_text i = int_text j \<longleftrightarrow> i = j"
proof -
  have nm: "nat_text n \<noteq> CHR ''-'' # s" for n s
    using nat_text_digits [of n] by (auto dest: is_digit_not_minus)
  show ?thesis
    by (auto simp: int_text_def nm nm [symmetric] split: if_splits)
qed

lemma int_text_ne [simp]: "int_text i \<noteq> []"
  by (simp add: int_text_def)

end
