(* ===== verification/Clarity_Core.thy ===== *)
theory Clarity_Core
  imports Prelude
begin

text \<open>
  The part of the Clarity language the contracts under \<^verbatim>\<open>src/contracts/\<close> use: responses,
  128-bit unsigned arithmetic whose overflow, underflow and division by zero abort the
  transaction, printed events, and the block environment every contract reads. A public
  function returns the new state only with \<open>Ok\<close>: an \<open>(err ..)\<close> response and an abort both
  roll every change of the call back, which is Clarity's rule.
\<close>

type_synonym principal = string

datatype 'a resp = Ok 'a | Err nat | Abort

fun rbind :: "'a resp \<Rightarrow> ('a \<Rightarrow> 'b resp) \<Rightarrow> 'b resp" where
  "rbind (Ok x) f = f x"
| "rbind (Err e) f = Err e"
| "rbind Abort f = Abort"

lemma rbind_Ok_iff: "rbind m f = Ok y \<longleftrightarrow> (\<exists>x. m = Ok x \<and> f x = Ok y)"
  by (cases m) auto

lemma rbind_OkE:
  assumes "rbind m f = Ok y"
  obtains x where "m = Ok x" and "f x = Ok y"
  using assms by (auto simp: rbind_Ok_iff)

section \<open>Unsigned 128-bit arithmetic\<close>

definition u128 :: nat where
  "u128 = 2 ^ 128"

definition uadd :: "nat \<Rightarrow> nat \<Rightarrow> nat resp" where
  "uadd a b = (if a + b < u128 then Ok (a + b) else Abort)"

definition usub :: "nat \<Rightarrow> nat \<Rightarrow> nat resp" where
  "usub a b = (if b \<le> a then Ok (a - b) else Abort)"

definition umul :: "nat \<Rightarrow> nat \<Rightarrow> nat resp" where
  "umul a b = (if a * b < u128 then Ok (a * b) else Abort)"

definition udiv :: "nat \<Rightarrow> nat \<Rightarrow> nat resp" where
  "udiv a b = (if b = 0 then Abort else Ok (a div b))"

lemma uadd_Ok [simp]: "uadd a b = Ok c \<longleftrightarrow> c = a + b \<and> a + b < u128"
  by (auto simp: uadd_def)

lemma usub_Ok [simp]: "usub a b = Ok c \<longleftrightarrow> c = a - b \<and> b \<le> a"
  by (auto simp: usub_def)

lemma umul_Ok [simp]: "umul a b = Ok c \<longleftrightarrow> c = a * b \<and> a * b < u128"
  by (auto simp: umul_def)

lemma udiv_Ok [simp]: "udiv a b = Ok c \<longleftrightarrow> c = a div b \<and> b \<noteq> 0"
  by (auto simp: udiv_def)

lemma arith_no_Err [simp]:
  "uadd a b \<noteq> Err e" "usub a b \<noteq> Err e" "umul a b \<noteq> Err e" "udiv a b \<noteq> Err e"
  by (auto simp: uadd_def usub_def umul_def udiv_def)

section \<open>Block environment and printed events\<close>

datatype cval = CUint nat | CBool bool | CText string | CPrincipal principal

type_synonym print_event = "(string \<times> cval) list"

record block_env =
  deployer :: string
  chain_id :: nat
  block_height :: nat
  printed :: "print_event list"

definition emit :: "print_event \<Rightarrow> 'a block_env_scheme \<Rightarrow> 'a block_env_scheme" where
  "emit e s = s\<lparr>printed := printed s @ [e]\<rparr>"

text \<open>A relative contract reference \<open>.name\<close> names the contract deployed by the deployer.\<close>

definition contract_of :: "'a block_env_scheme \<Rightarrow> string \<Rightarrow> principal" where
  "contract_of s n = deployer s @ ''.'' @ n"

definition MAINNET_CHAIN_ID :: nat where
  "MAINNET_CHAIN_ID = 1"

definition ASSET_STX :: string where
  "ASSET_STX = ''STX''"

definition ASSET_SBTC :: string where
  "ASSET_SBTC = ''SBTC''"

definition is_valid_asset :: "string \<Rightarrow> bool" where
  "is_valid_asset a \<longleftrightarrow> a = ASSET_STX \<or> a = ASSET_SBTC"

lemma asset_distinct [simp]: "ASSET_STX \<noteq> ASSET_SBTC" "ASSET_SBTC \<noteq> ASSET_STX"
  by (simp_all add: ASSET_STX_def ASSET_SBTC_def)

lemma emit_sel [simp]:
  "deployer (emit e s) = deployer s" "chain_id (emit e s) = chain_id s"
  "block_height (emit e s) = block_height s" "block_env.more (emit e s) = block_env.more s"
  by (simp_all add: emit_def)

end
