(* ===== verification/Protocol_Admin.thy ===== *)
theory Protocol_Admin
  imports Clarity_Core
begin

text \<open>
  \<^verbatim>\<open>contracts/sovereignty-protocol-admin-v4.clar\<close>: the admin identity with its two-step
  transfer, and the protocol pause.
\<close>

record protocol_admin = block_env +
  admin :: principal
  pending_admin :: "principal option"
  protocol_paused :: bool

definition is_admin :: "principal \<Rightarrow> 'a protocol_admin_scheme \<Rightarrow> bool" where
  "is_admin who s \<longleftrightarrow> who = admin s"

definition propose_admin ::
  "principal \<Rightarrow> principal \<Rightarrow> 'a protocol_admin_scheme \<Rightarrow> (bool \<times> 'a protocol_admin_scheme) resp" where
  "propose_admin sender new_admin s =
     (if sender \<noteq> admin s then Err 600
      else if new_admin = admin s then Err 604
      else Ok (True, emit [(''event'', CText ''admin-proposed''), (''current-admin'', CPrincipal (admin s)),
                           (''pending-admin'', CPrincipal new_admin)]
                     (s\<lparr>pending_admin := Some new_admin\<rparr>)))"

definition accept_admin ::
  "principal \<Rightarrow> 'a protocol_admin_scheme \<Rightarrow> (bool \<times> 'a protocol_admin_scheme) resp" where
  "accept_admin sender s =
     (if pending_admin s = None then Err 601
      else if Some sender \<noteq> pending_admin s then Err 600
      else Ok (True, emit [(''event'', CText ''admin-transferred''), (''new-admin'', CPrincipal sender)]
                     (s\<lparr>admin := sender, pending_admin := None\<rparr>)))"

definition pause_protocol ::
  "principal \<Rightarrow> 'a protocol_admin_scheme \<Rightarrow> (bool \<times> 'a protocol_admin_scheme) resp" where
  "pause_protocol sender s =
     (if sender \<noteq> admin s then Err 600
      else if protocol_paused s then Err 602
      else Ok (True, emit [(''event'', CText ''protocol-paused''), (''admin'', CPrincipal sender)]
                     (s\<lparr>protocol_paused := True\<rparr>)))"

definition unpause_protocol ::
  "principal \<Rightarrow> 'a protocol_admin_scheme \<Rightarrow> (bool \<times> 'a protocol_admin_scheme) resp" where
  "unpause_protocol sender s =
     (if sender \<noteq> admin s then Err 600
      else if \<not> protocol_paused s then Err 603
      else Ok (True, emit [(''event'', CText ''protocol-unpaused''), (''admin'', CPrincipal sender)]
                     (s\<lparr>protocol_paused := False\<rparr>)))"

lemmas protocol_admin_ops [ops_defs] =
  propose_admin_def accept_admin_def pause_protocol_def unpause_protocol_def

text \<open>The admin changes only when the nominee accepts: no call by anybody else installs one.\<close>

lemma admin_changes_only_by_accept:
  "propose_admin c n s = Ok (b, s') \<Longrightarrow> admin s' = admin s"
  "pause_protocol c s = Ok (b, s') \<Longrightarrow> admin s' = admin s"
  "unpause_protocol c s = Ok (b, s') \<Longrightarrow> admin s' = admin s"
  "accept_admin c s = Ok (b, s') \<Longrightarrow> pending_admin s = Some c \<and> admin s' = c"
  by (auto simp: protocol_admin_ops emit_def split: if_splits)

end
