(* ===== verification/Agent_Registry.thy ===== *)
theory Agent_Registry
  imports Protocol_Admin
begin

text \<open>
  \<^verbatim>\<open>contracts/agent-registry-v4.clar\<close>: the AI executor identities authorised to submit
  execution intents. Only the protocol admin changes it.
\<close>

record executor_entry =
  exec_active :: bool
  exec_label :: string
  exec_registered_at :: nat
  exec_registered_by :: principal

record agent_registry = protocol_admin +
  executors :: "principal \<rightharpoonup> executor_entry"

definition is_authorized_executor :: "principal \<Rightarrow> 'a agent_registry_scheme \<Rightarrow> bool" where
  "is_authorized_executor who s =
     (case executors s who of None \<Rightarrow> False | Some e \<Rightarrow> exec_active e)"

definition register_executor ::
  "principal \<Rightarrow> principal \<Rightarrow> string \<Rightarrow> 'a agent_registry_scheme \<Rightarrow> (bool \<times> 'a agent_registry_scheme) resp" where
  "register_executor sender executor label s =
     (if \<not> is_admin sender s then Err 500
      else if executors s executor \<noteq> None then Err 501
      else Ok (True, emit [(''event'', CText ''executor-registered''), (''executor'', CPrincipal executor),
                           (''label'', CText label), (''admin'', CPrincipal sender)]
                     (s\<lparr>executors := (executors s)(executor \<mapsto>
                          \<lparr>exec_active = True, exec_label = label,
                           exec_registered_at = block_height s, exec_registered_by = sender\<rparr>)\<rparr>)))"

definition revoke_executor ::
  "principal \<Rightarrow> principal \<Rightarrow> 'a agent_registry_scheme \<Rightarrow> (bool \<times> 'a agent_registry_scheme) resp" where
  "revoke_executor sender executor s =
     (case executors s executor of None \<Rightarrow> Err 502
      | Some e \<Rightarrow>
          if \<not> is_admin sender s then Err 500
          else if \<not> exec_active e then Err 503
          else Ok (True, emit [(''event'', CText ''executor-revoked''), (''executor'', CPrincipal executor),
                               (''admin'', CPrincipal sender)]
                         (s\<lparr>executors := (executors s)(executor \<mapsto> e\<lparr>exec_active := False\<rparr>)\<rparr>)))"

definition reactivate_executor ::
  "principal \<Rightarrow> principal \<Rightarrow> 'a agent_registry_scheme \<Rightarrow> (bool \<times> 'a agent_registry_scheme) resp" where
  "reactivate_executor sender executor s =
     (case executors s executor of None \<Rightarrow> Err 502
      | Some e \<Rightarrow>
          if \<not> is_admin sender s then Err 500
          else if exec_active e then Err 503
          else Ok (True, emit [(''event'', CText ''executor-reactivated''), (''executor'', CPrincipal executor),
                               (''admin'', CPrincipal sender)]
                         (s\<lparr>executors := (executors s)(executor \<mapsto> e\<lparr>exec_active := True\<rparr>)\<rparr>)))"

lemmas agent_registry_ops [ops_defs] =
  register_executor_def revoke_executor_def reactivate_executor_def

text \<open>An executor never changes the registry: every successful write was sent by the admin.\<close>

lemma registry_writes_are_admin:
  "register_executor c e l s = Ok r \<Longrightarrow> is_admin c s"
  "revoke_executor c e s = Ok r \<Longrightarrow> is_admin c s"
  "reactivate_executor c e s = Ok r \<Longrightarrow> is_admin c s"
  by (auto simp: agent_registry_ops split: if_splits option.splits)

end
