(* ===== verification/Strategy_Registry.thy ===== *)
theory Strategy_Registry
  imports Agent_Registry
begin

text \<open>
  \<^verbatim>\<open>contracts/strategy-registry-v6.clar\<close>: the destinations a vault's funds may be allocated
  to. Id 0 is the reserved IDLE destination. Strategies are registered inactive and activated
  by a separate admin call.
\<close>

record strategy_entry =
  strat_name :: string
  strategy_contract :: principal
  strat_asset :: string
  strat_active :: bool
  strat_max_allocation_bps :: nat
  strat_registered_at :: nat

record strategy_registry = agent_registry +
  next_strategy_id :: nat
  strategies :: "nat \<rightharpoonup> strategy_entry"

definition get_strategy_asset :: "nat \<Rightarrow> 'a strategy_registry_scheme \<Rightarrow> string option" where
  "get_strategy_asset i s = map_option strat_asset (strategies s i)"

definition is_idle :: "nat \<Rightarrow> bool" where
  "is_idle i \<longleftrightarrow> i = 0"

definition is_strategy_active :: "nat \<Rightarrow> 'a strategy_registry_scheme \<Rightarrow> bool" where
  "is_strategy_active i s =
     (if is_idle i then True else (case strategies s i of None \<Rightarrow> False | Some e \<Rightarrow> strat_active e))"

definition get_strategy_contract :: "nat \<Rightarrow> 'a strategy_registry_scheme \<Rightarrow> principal option" where
  "get_strategy_contract i s = map_option strategy_contract (strategies s i)"

definition get_max_allocation_bps :: "nat \<Rightarrow> 'a strategy_registry_scheme \<Rightarrow> nat" where
  "get_max_allocation_bps i s =
     (if is_idle i then 10000
      else (case strategies s i of None \<Rightarrow> 0 | Some e \<Rightarrow> strat_max_allocation_bps e))"

definition register_strategy ::
  "principal \<Rightarrow> string \<Rightarrow> principal \<Rightarrow> string \<Rightarrow> nat \<Rightarrow> 'a strategy_registry_scheme
     \<Rightarrow> (nat \<times> 'a strategy_registry_scheme) resp" where
  "register_strategy sender nm contract asset max_bps s =
     (let i = next_strategy_id s in
      if \<not> is_admin sender s then Err 400
      else if \<not> is_valid_asset asset then Err 404
      else if \<not> (0 < max_bps \<and> max_bps \<le> 10000) then Err 403
      else rbind (uadd i 1) (\<lambda>i'.
        Ok (i, emit [(''event'', CText ''strategy-registered''), (''strategy-id'', CUint i), (''name'', CText nm),
                     (''strategy-contract'', CPrincipal contract), (''asset'', CText asset)]
               (s\<lparr>strategies := (strategies s)(i \<mapsto>
                    \<lparr>strat_name = nm, strategy_contract = contract, strat_asset = asset, strat_active = False,
                     strat_max_allocation_bps = max_bps, strat_registered_at = block_height s\<rparr>),
                  next_strategy_id := i'\<rparr>))))"

definition activate_strategy ::
  "principal \<Rightarrow> nat \<Rightarrow> 'a strategy_registry_scheme \<Rightarrow> (bool \<times> 'a strategy_registry_scheme) resp" where
  "activate_strategy sender i s =
     (case strategies s i of None \<Rightarrow> Err 402
      | Some e \<Rightarrow>
          if \<not> is_admin sender s then Err 400
          else Ok (True, emit [(''event'', CText ''strategy-activated''), (''strategy-id'', CUint i), (''admin'', CPrincipal sender)]
                         (s\<lparr>strategies := (strategies s)(i \<mapsto> e\<lparr>strat_active := True\<rparr>)\<rparr>)))"

definition deactivate_strategy ::
  "principal \<Rightarrow> nat \<Rightarrow> 'a strategy_registry_scheme \<Rightarrow> (bool \<times> 'a strategy_registry_scheme) resp" where
  "deactivate_strategy sender i s =
     (case strategies s i of None \<Rightarrow> Err 402
      | Some e \<Rightarrow>
          if \<not> is_admin sender s then Err 400
          else Ok (True, emit [(''event'', CText ''strategy-deactivated''), (''strategy-id'', CUint i), (''admin'', CPrincipal sender)]
                         (s\<lparr>strategies := (strategies s)(i \<mapsto> e\<lparr>strat_active := False\<rparr>)\<rparr>)))"

lemmas strategy_registry_ops [ops_defs] =
  register_strategy_def activate_strategy_def deactivate_strategy_def

text \<open>
  The registry is a prefix of the positive integers: exactly the ids from 1 up to the next id
  are registered, each with a valid asset and a cap between 1 and 10000 basis points.
\<close>

definition registry_ok :: "'a strategy_registry_scheme \<Rightarrow> bool" where
  "registry_ok s \<longleftrightarrow>
     0 < next_strategy_id s \<and>
     (\<forall>i. strategies s i \<noteq> None \<longleftrightarrow> 0 < i \<and> i < next_strategy_id s) \<and>
     (\<forall>i e. strategies s i = Some e \<longrightarrow>
        is_valid_asset (strat_asset e) \<and> 0 < strat_max_allocation_bps e \<and> strat_max_allocation_bps e \<le> 10000)"

lemma registry_ok_emit [simp]: "registry_ok (emit e s) \<longleftrightarrow> registry_ok s"
  by (simp add: registry_ok_def emit_def)

lemma register_strategy_ok [inv_intros]:
  assumes "registry_ok s" and "register_strategy c n p a m s = Ok (i, s')"
  shows "registry_ok s'"
proof -
  let ?e = "\<lparr>strat_name = n, strategy_contract = p, strat_asset = a, strat_active = False,
             strat_max_allocation_bps = m, strat_registered_at = block_height s\<rparr>"
  from assms(2) have s': "strategies s' = (strategies s)(next_strategy_id s \<mapsto> ?e)"
      "next_strategy_id s' = Suc (next_strategy_id s)"
    and new: "is_valid_asset a" "0 < m" "m \<le> 10000"
    by (auto simp: register_strategy_def Let_def rbind_Ok_iff emit_def split: if_splits)
  from assms(1) new show ?thesis
    unfolding registry_ok_def s' by (simp add: less_Suc_eq)
qed

lemma activate_strategy_ok [inv_intros]:
  assumes "registry_ok s" and "activate_strategy c i s = Ok (b, s')"
  shows "registry_ok s'"
proof -
  from assms(2) obtain e where e: "strategies s i = Some e"
    and s': "strategies s' = (strategies s)(i \<mapsto> e\<lparr>strat_active := True\<rparr>)"
      "next_strategy_id s' = next_strategy_id s"
    by (auto simp: activate_strategy_def emit_def split: if_splits option.splits)
  from assms(1) e show ?thesis by (auto simp: registry_ok_def s')
qed

lemma deactivate_strategy_ok [inv_intros]:
  assumes "registry_ok s" and "deactivate_strategy c i s = Ok (b, s')"
  shows "registry_ok s'"
proof -
  from assms(2) obtain e where e: "strategies s i = Some e"
    and s': "strategies s' = (strategies s)(i \<mapsto> e\<lparr>strat_active := False\<rparr>)"
      "next_strategy_id s' = next_strategy_id s"
    by (auto simp: deactivate_strategy_def emit_def split: if_splits option.splits)
  from assms(1) e show ?thesis by (auto simp: registry_ok_def s')
qed

end
