(* ===== verification/Risk_Guard.thy ===== *)
theory Risk_Guard
  imports Strategy_Registry
begin

text \<open>
  \<^verbatim>\<open>contracts/risk-guard-v7.clar\<close>: the per-vault risk configuration, the protocol-wide
  ceilings, the testnet execution gate and the pure validation of an execution intent.
\<close>

record vault_config =
  max_exposure_bps :: nat
  max_stx_tx_amount :: nat
  max_sbtc_tx_amount :: nat
  max_slippage_bps :: nat
  min_idle_bps :: nat
  autonomous_enabled :: bool
  cooldown_blocks :: nat
  last_used_nonce :: nat
  last_execution_height :: nat

record risk_guard = strategy_registry +
  protocol_max_slippage_bps :: nat
  protocol_max_exposure_bps :: nat
  protocol_min_cooldown_blocks :: nat
  protocol_min_liquidity_bps :: nat
  approved_sbtc_asset :: "principal option"
  mainnet_execution_armed :: bool
  vault_configs :: "nat \<rightharpoonup> vault_config"

definition vault_contract :: "'a block_env_scheme \<Rightarrow> principal" where
  "vault_contract s = contract_of s ''sovereignty-vault-v7''"

definition engine_contract :: "'a block_env_scheme \<Rightarrow> principal" where
  "engine_contract s = contract_of s ''execution-engine-v7''"

definition max_tx_amount_for :: "vault_config \<Rightarrow> string \<Rightarrow> nat" where
  "max_tx_amount_for cfg asset = (if asset = ASSET_STX then max_stx_tx_amount cfg else max_sbtc_tx_amount cfg)"

definition is_mainnet_chain :: "'a block_env_scheme \<Rightarrow> bool" where
  "is_mainnet_chain s \<longleftrightarrow> chain_id s = MAINNET_CHAIN_ID"

definition is_strategy_execution_enabled :: "'a risk_guard_scheme \<Rightarrow> bool" where
  "is_strategy_execution_enabled s \<longleftrightarrow> is_mainnet_chain s \<and> mainnet_execution_armed s"

record environment_tuple =
  env_network :: string
  env_chain_id :: nat
  env_mainnet_execution_armed :: bool
  env_strategy_execution_enabled :: bool

definition get_execution_environment :: "'a risk_guard_scheme \<Rightarrow> environment_tuple" where
  "get_execution_environment s =
     \<lparr>env_network = (if is_mainnet_chain s then ''MAINNET'' else ''TESTNET''), env_chain_id = chain_id s,
      env_mainnet_execution_armed = mainnet_execution_armed s,
      env_strategy_execution_enabled = is_strategy_execution_enabled s\<rparr>"

section \<open>Admin calls\<close>

definition set_approved_sbtc_asset ::
  "principal \<Rightarrow> principal \<Rightarrow> 'a risk_guard_scheme \<Rightarrow> (bool \<times> 'a risk_guard_scheme) resp" where
  "set_approved_sbtc_asset sender asset s =
     (if \<not> is_admin sender s then Err 300
      else Ok (True, emit [(''event'', CText ''approved-sbtc-asset-set''), (''asset'', CPrincipal asset)]
                     (s\<lparr>approved_sbtc_asset := Some asset\<rparr>)))"

definition set_protocol_limits ::
  "principal \<Rightarrow> nat \<Rightarrow> nat \<Rightarrow> nat \<Rightarrow> nat \<Rightarrow> 'a risk_guard_scheme \<Rightarrow> (bool \<times> 'a risk_guard_scheme) resp" where
  "set_protocol_limits sender max_slip max_exp min_cool min_liq s =
     (if \<not> is_admin sender s then Err 300
      else if \<not> (0 < max_slip \<and> max_slip \<le> 10000) then Err 317
      else if \<not> (0 < max_exp \<and> max_exp \<le> 10000) then Err 317
      else if \<not> min_liq \<le> 10000 then Err 317
      else Ok (True, emit [(''event'', CText ''protocol-limits-updated''), (''max-slippage-bps'', CUint max_slip),
                           (''max-exposure-bps'', CUint max_exp), (''min-cooldown-blocks'', CUint min_cool),
                           (''min-liquidity-bps'', CUint min_liq)]
                     (s\<lparr>protocol_max_slippage_bps := max_slip, protocol_max_exposure_bps := max_exp,
                        protocol_min_cooldown_blocks := min_cool, protocol_min_liquidity_bps := min_liq\<rparr>)))"

definition set_mainnet_execution_armed ::
  "principal \<Rightarrow> bool \<Rightarrow> 'a risk_guard_scheme \<Rightarrow> (bool \<times> 'a risk_guard_scheme) resp" where
  "set_mainnet_execution_armed sender armed s =
     (if \<not> is_admin sender s then Err 300
      else if \<not> is_mainnet_chain s then Err 321
      else Ok (True, emit [(''event'', CText ''mainnet-execution-armed-set''), (''armed'', CBool armed)]
                     (s\<lparr>mainnet_execution_armed := armed\<rparr>)))"

section \<open>Vault-only calls: the configuration of a vault\<close>

definition params_valid ::
  "nat \<Rightarrow> nat \<Rightarrow> nat \<Rightarrow> nat \<Rightarrow> nat \<Rightarrow> nat \<Rightarrow> 'a risk_guard_scheme \<Rightarrow> bool" where
  "params_valid max_exp max_stx max_sbtc max_slip min_idle cooldown s \<longleftrightarrow>
     0 < max_exp \<and> max_exp \<le> protocol_max_exposure_bps s \<and>
     0 < max_slip \<and> max_slip \<le> protocol_max_slippage_bps s \<and>
     protocol_min_liquidity_bps s \<le> min_idle \<and> min_idle \<le> 10000 \<and>
     protocol_min_cooldown_blocks s \<le> cooldown \<and> 0 < max_stx \<and> 0 < max_sbtc"

definition init_vault_config ::
  "principal \<Rightarrow> nat \<Rightarrow> nat \<Rightarrow> nat \<Rightarrow> nat \<Rightarrow> nat \<Rightarrow> nat \<Rightarrow> bool \<Rightarrow> nat
     \<Rightarrow> 'a risk_guard_scheme \<Rightarrow> (bool \<times> 'a risk_guard_scheme) resp" where
  "init_vault_config caller vid max_exp max_stx max_sbtc max_slip min_idle auto cooldown s =
     (if caller \<noteq> vault_contract s then Err 301
      else if vault_configs s vid \<noteq> None then Err 305
      else if \<not> params_valid max_exp max_stx max_sbtc max_slip min_idle cooldown s then Err 317
      else Ok (True, s\<lparr>vault_configs := (vault_configs s)(vid \<mapsto>
             \<lparr>max_exposure_bps = max_exp, max_stx_tx_amount = max_stx, max_sbtc_tx_amount = max_sbtc,
              max_slippage_bps = max_slip, min_idle_bps = min_idle, autonomous_enabled = auto,
              cooldown_blocks = cooldown, last_used_nonce = 0, last_execution_height = 0\<rparr>)\<rparr>))"

definition set_vault_risk_config ::
  "principal \<Rightarrow> nat \<Rightarrow> nat \<Rightarrow> nat \<Rightarrow> nat \<Rightarrow> nat \<Rightarrow> nat \<Rightarrow> bool \<Rightarrow> nat
     \<Rightarrow> 'a risk_guard_scheme \<Rightarrow> (bool \<times> 'a risk_guard_scheme) resp" where
  "set_vault_risk_config caller vid max_exp max_stx max_sbtc max_slip min_idle auto cooldown s =
     (case vault_configs s vid of None \<Rightarrow> Err 304
      | Some existing \<Rightarrow>
          if caller \<noteq> vault_contract s then Err 301
          else if \<not> params_valid max_exp max_stx max_sbtc max_slip min_idle cooldown s then Err 317
          else Ok (True, s\<lparr>vault_configs := (vault_configs s)(vid \<mapsto>
                 existing\<lparr>max_exposure_bps := max_exp, max_stx_tx_amount := max_stx, max_sbtc_tx_amount := max_sbtc,
                   max_slippage_bps := max_slip, min_idle_bps := min_idle, autonomous_enabled := auto,
                   cooldown_blocks := cooldown\<rparr>)\<rparr>))"

definition set_autonomous_enabled ::
  "principal \<Rightarrow> nat \<Rightarrow> bool \<Rightarrow> 'a risk_guard_scheme \<Rightarrow> (bool \<times> 'a risk_guard_scheme) resp" where
  "set_autonomous_enabled caller vid enabled s =
     (case vault_configs s vid of None \<Rightarrow> Err 304
      | Some existing \<Rightarrow>
          if caller \<noteq> vault_contract s then Err 301
          else Ok (True, s\<lparr>vault_configs := (vault_configs s)(vid \<mapsto> existing\<lparr>autonomous_enabled := enabled\<rparr>)\<rparr>))"

section \<open>Intent validation\<close>

text \<open>
  The block \<open>cooldown_over\<close> is the disjunction of the source; its second disjunct, an addition
  that may overflow, is evaluated only when the first is false.
\<close>

definition cooldown_over :: "vault_config \<Rightarrow> nat \<Rightarrow> bool resp" where
  "cooldown_over cfg height =
     (if last_execution_height cfg = 0 then Ok True
      else rbind (uadd (last_execution_height cfg) (cooldown_blocks cfg)) (\<lambda>t. Ok (t \<le> height)))"

definition allocation_bps :: "nat \<Rightarrow> nat \<Rightarrow> nat \<Rightarrow> nat resp" where
  "allocation_bps current amount tot =
     rbind (uadd current amount) (\<lambda>sm. rbind (umul sm 10000) (\<lambda>p. udiv p tot))"

definition idle_bps_after :: "nat \<Rightarrow> nat \<Rightarrow> nat \<Rightarrow> nat resp" where
  "idle_bps_after idle amount tot =
     rbind (usub idle amount) (\<lambda>d. rbind (umul d 10000) (\<lambda>p. udiv p tot))"

definition check_intent ::
  "nat \<Rightarrow> string \<Rightarrow> nat \<Rightarrow> nat \<Rightarrow> nat \<Rightarrow> nat \<Rightarrow> bool \<Rightarrow> nat \<Rightarrow> nat \<Rightarrow> nat \<Rightarrow> nat
     \<Rightarrow> 'a risk_guard_scheme \<Rightarrow> bool resp" where
  "check_intent vid asset amount slippage nonce deadline caller_is_owner source_available
      vault_total dest_allocation dest_max_bps s =
     (case vault_configs s vid of None \<Rightarrow> Err 304
      | Some cfg \<Rightarrow>
          if \<not> is_valid_asset asset then Err 319
          else if protocol_paused s then Err 303
          else if \<not> (caller_is_owner \<or> autonomous_enabled cfg) then Err 306
          else if \<not> block_height s \<le> deadline then Err 307
          else if \<not> last_used_nonce cfg < nonce then Err 308
          else rbind (cooldown_over cfg (block_height s)) (\<lambda>over.
               if \<not> over then Err 309
               else if \<not> 0 < amount then Err 310
               else if \<not> amount \<le> max_tx_amount_for cfg asset then Err 311
               else if \<not> amount \<le> source_available then Err 315
               else if \<not> 0 < vault_total then Err 317
               else if \<not> slippage \<le> max_slippage_bps cfg then Err 314
               else rbind (allocation_bps dest_allocation amount vault_total) (\<lambda>alloc.
                    rbind (idle_bps_after source_available amount vault_total) (\<lambda>idle.
                    if \<not> alloc \<le> max_exposure_bps cfg then Err 312
                    else if \<not> alloc \<le> dest_max_bps then Err 313
                    else if \<not> min_idle_bps cfg \<le> idle then Err 316
                    else Ok True))))"

definition validate_and_record_intent ::
  "principal \<Rightarrow> nat \<Rightarrow> string \<Rightarrow> nat \<Rightarrow> nat \<Rightarrow> nat \<Rightarrow> nat \<Rightarrow> bool \<Rightarrow> nat \<Rightarrow> nat \<Rightarrow> nat \<Rightarrow> nat
     \<Rightarrow> 'a risk_guard_scheme \<Rightarrow> (bool \<times> 'a risk_guard_scheme) resp" where
  "validate_and_record_intent caller vid asset amount slippage nonce deadline caller_is_owner source_available
      vault_total dest_allocation dest_max_bps s =
     (case vault_configs s vid of None \<Rightarrow> Err 304
      | Some cfg \<Rightarrow>
          if caller \<noteq> engine_contract s then Err 302
          else rbind (check_intent vid asset amount slippage nonce deadline caller_is_owner source_available
                        vault_total dest_allocation dest_max_bps s) (\<lambda>_.
               if \<not> is_strategy_execution_enabled s then Err 320
               else Ok (True, s\<lparr>vault_configs := (vault_configs s)(vid \<mapsto>
                      cfg\<lparr>last_used_nonce := nonce, last_execution_height := block_height s\<rparr>)\<rparr>)))"

lemmas risk_guard_ops [ops_defs] =
  set_approved_sbtc_asset_def set_protocol_limits_def set_mainnet_execution_armed_def
  init_vault_config_def set_vault_risk_config_def set_autonomous_enabled_def validate_and_record_intent_def

section \<open>What an accepted intent satisfies\<close>

text \<open>
  The acceptance condition in one place, over mathematical numbers: \<open>check_intent\<close> accepts
  exactly when it holds and no intermediate value leaves 128 bits.
\<close>

definition intent_admissible ::
  "vault_config \<Rightarrow> bool \<Rightarrow> nat \<Rightarrow> string \<Rightarrow> nat \<Rightarrow> nat \<Rightarrow> nat \<Rightarrow> nat \<Rightarrow> bool \<Rightarrow> nat \<Rightarrow> nat \<Rightarrow> nat \<Rightarrow> nat \<Rightarrow> bool" where
  "intent_admissible cfg paused height asset amount slippage nonce deadline owner idle tot current cap \<longleftrightarrow>
     is_valid_asset asset \<and> \<not> paused \<and> (owner \<or> autonomous_enabled cfg) \<and> height \<le> deadline \<and>
     last_used_nonce cfg < nonce \<and>
     (last_execution_height cfg = 0 \<or> last_execution_height cfg + cooldown_blocks cfg \<le> height) \<and>
     0 < amount \<and> amount \<le> max_tx_amount_for cfg asset \<and> amount \<le> idle \<and> 0 < tot \<and>
     slippage \<le> max_slippage_bps cfg \<and>
     (current + amount) * 10000 div tot \<le> max_exposure_bps cfg \<and>
     (current + amount) * 10000 div tot \<le> cap \<and>
     min_idle_bps cfg \<le> (idle - amount) * 10000 div tot"

definition intent_fits :: "vault_config \<Rightarrow> nat \<Rightarrow> nat \<Rightarrow> nat \<Rightarrow> bool" where
  "intent_fits cfg amount idle current \<longleftrightarrow>
     (last_execution_height cfg = 0 \<or> last_execution_height cfg + cooldown_blocks cfg < u128) \<and>
     (current + amount) * 10000 < u128 \<and> (idle - amount) * 10000 < u128"

lemma allocation_bps_Ok:
  "allocation_bps c a t = Ok r \<longleftrightarrow> r = (c + a) * 10000 div t \<and> (c + a) * 10000 < u128 \<and> t \<noteq> 0"
  by (auto simp: allocation_bps_def rbind_Ok_iff)

lemma idle_bps_after_Ok:
  "idle_bps_after i a t = Ok r \<longleftrightarrow> r = (i - a) * 10000 div t \<and> a \<le> i \<and> (i - a) * 10000 < u128 \<and> t \<noteq> 0"
  by (auto simp: idle_bps_after_def rbind_Ok_iff)

lemma cooldown_over_Ok:
  "cooldown_over cfg h = Ok r \<longleftrightarrow>
     (if last_execution_height cfg = 0 then r
      else last_execution_height cfg + cooldown_blocks cfg < u128 \<and>
           r = (last_execution_height cfg + cooldown_blocks cfg \<le> h))"
  by (auto simp: cooldown_over_def rbind_Ok_iff)

lemma check_intent_Ok:
  "check_intent vid asset amount slippage nonce deadline owner idle tot current cap s = Ok b \<longleftrightarrow>
     (\<exists>cfg. b \<and> vault_configs s vid = Some cfg \<and> intent_fits cfg amount idle current \<and>
        intent_admissible cfg (protocol_paused s) (block_height s) asset amount slippage nonce deadline
          owner idle tot current cap)"
  by (auto simp: check_intent_def intent_fits_def intent_admissible_def rbind_Ok_iff allocation_bps_Ok
      idle_bps_after_Ok cooldown_over_Ok split: option.splits if_splits)

text \<open>The two parts of the testnet gate: the switch cannot be armed, and nothing is recorded.\<close>

lemma not_armed_on_testnet:
  "\<not> is_mainnet_chain s \<Longrightarrow> set_mainnet_execution_armed c a s \<noteq> Ok r"
  by (auto simp: set_mainnet_execution_armed_def split: if_splits)

lemma nothing_recorded_when_disabled:
  "\<not> is_strategy_execution_enabled s \<Longrightarrow>
     validate_and_record_intent c v a am sl n d ow i t al cp s \<noteq> Ok r"
  by (auto simp: validate_and_record_intent_def rbind_Ok_iff split: option.splits if_splits)

section \<open>Configurations stay inside the ceilings of their time\<close>

definition config_ok :: "vault_config \<Rightarrow> bool" where
  "config_ok cfg \<longleftrightarrow> 0 < max_exposure_bps cfg \<and> max_exposure_bps cfg \<le> 10000 \<and>
     0 < max_slippage_bps cfg \<and> max_slippage_bps cfg \<le> 10000 \<and> min_idle_bps cfg \<le> 10000 \<and>
     0 < max_stx_tx_amount cfg \<and> 0 < max_sbtc_tx_amount cfg"

definition limits_ok :: "'a risk_guard_scheme \<Rightarrow> bool" where
  "limits_ok s \<longleftrightarrow> 0 < protocol_max_slippage_bps s \<and> protocol_max_slippage_bps s \<le> 10000 \<and>
     0 < protocol_max_exposure_bps s \<and> protocol_max_exposure_bps s \<le> 10000 \<and>
     protocol_min_liquidity_bps s \<le> 10000"

definition guard_ok :: "'a risk_guard_scheme \<Rightarrow> bool" where
  "guard_ok s \<longleftrightarrow> limits_ok s \<and> (\<forall>vid cfg. vault_configs s vid = Some cfg \<longrightarrow> config_ok cfg)"

lemma guard_ok_emit [simp]: "guard_ok (emit e s) \<longleftrightarrow> guard_ok s"
  by (simp add: guard_ok_def limits_ok_def emit_def)

lemma init_vault_config_ok [inv_intros]:
  "guard_ok s \<Longrightarrow> init_vault_config c v me ms mb sl mi au cd s = Ok (b, s') \<Longrightarrow> guard_ok s'"
  by (auto simp: init_vault_config_def guard_ok_def params_valid_def limits_ok_def config_ok_def
      split: if_splits)

lemma set_vault_risk_config_ok [inv_intros]:
  "guard_ok s \<Longrightarrow> set_vault_risk_config c v me ms mb sl mi au cd s = Ok (b, s') \<Longrightarrow> guard_ok s'"
  by (auto simp: set_vault_risk_config_def guard_ok_def params_valid_def limits_ok_def config_ok_def
      split: if_splits option.splits)

lemma set_autonomous_enabled_ok [inv_intros]:
  "guard_ok s \<Longrightarrow> set_autonomous_enabled c v e s = Ok (b, s') \<Longrightarrow> guard_ok s'"
  by (auto simp: set_autonomous_enabled_def guard_ok_def limits_ok_def config_ok_def
      split: if_splits option.splits)

lemma validate_and_record_intent_ok [inv_intros]:
  "guard_ok s \<Longrightarrow> validate_and_record_intent c v a am sl n d ow i t al cp s = Ok (b, s') \<Longrightarrow> guard_ok s'"
  by (auto simp: validate_and_record_intent_def guard_ok_def limits_ok_def config_ok_def rbind_Ok_iff
      split: if_splits option.splits)

lemma set_protocol_limits_ok [inv_intros]:
  "guard_ok s \<Longrightarrow> set_protocol_limits c a b e d s = Ok (r, s') \<Longrightarrow> guard_ok s'"
  by (auto simp: set_protocol_limits_def guard_ok_def limits_ok_def emit_def split: if_splits)

end
