(* ===== verification/Receipt_Token.thy ===== *)
theory Receipt_Token
  imports Risk_Guard
begin

text \<open>
  \<^verbatim>\<open>contracts/receipt-token-v7.clar\<close>: receipt shares, an accounting claim on the pool of one
  asset of one vault. Only the vault contract mints and burns; transfer always fails.
\<close>

record receipt_token = risk_guard +
  balances :: "nat \<times> string \<times> principal \<rightharpoonup> nat"
  supplies :: "nat \<times> string \<rightharpoonup> nat"

definition get_balance :: "nat \<Rightarrow> string \<Rightarrow> principal \<Rightarrow> 'a receipt_token_scheme \<Rightarrow> nat" where
  "get_balance vid asset holder s = get_or 0 (balances s) (vid, asset, holder)"

definition get_total_supply :: "nat \<Rightarrow> string \<Rightarrow> 'a receipt_token_scheme \<Rightarrow> nat" where
  "get_total_supply vid asset s = get_or 0 (supplies s) (vid, asset)"

definition get_decimals :: "string \<Rightarrow> nat option" where
  "get_decimals asset =
     (if asset = ASSET_STX then Some 6 else if asset = ASSET_SBTC then Some 8 else None)"

definition mint ::
  "principal \<Rightarrow> nat \<Rightarrow> string \<Rightarrow> nat \<Rightarrow> principal \<Rightarrow> 'a receipt_token_scheme
     \<Rightarrow> (bool \<times> 'a receipt_token_scheme) resp" where
  "mint caller vid asset amount recipient s =
     (let balance = get_balance vid asset recipient s; supply = get_total_supply vid asset s in
      if caller \<noteq> vault_contract s then Err 700
      else if \<not> is_valid_asset asset then Err 701
      else if \<not> 0 < amount then Err 702
      else rbind (uadd balance amount) (\<lambda>balance'.
           rbind (uadd supply amount) (\<lambda>supply'.
           Ok (True, emit [(''event'', CText ''receipts-minted''), (''vault-id'', CUint vid), (''asset'', CText asset),
                           (''holder'', CPrincipal recipient), (''amount'', CUint amount), (''new-supply'', CUint supply')]
                     (s\<lparr>balances := (balances s)((vid, asset, recipient) \<mapsto> balance'),
                        supplies := (supplies s)((vid, asset) \<mapsto> supply')\<rparr>)))))"

definition burn ::
  "principal \<Rightarrow> nat \<Rightarrow> string \<Rightarrow> nat \<Rightarrow> principal \<Rightarrow> 'a receipt_token_scheme
     \<Rightarrow> (bool \<times> 'a receipt_token_scheme) resp" where
  "burn caller vid asset amount holder s =
     (let balance = get_balance vid asset holder s; supply = get_total_supply vid asset s in
      if caller \<noteq> vault_contract s then Err 700
      else if \<not> is_valid_asset asset then Err 701
      else if \<not> 0 < amount then Err 702
      else if \<not> amount \<le> balance then Err 703
      else rbind (usub balance amount) (\<lambda>balance'.
           rbind (usub supply amount) (\<lambda>supply'.
           Ok (True, emit [(''event'', CText ''receipts-burned''), (''vault-id'', CUint vid), (''asset'', CText asset),
                           (''holder'', CPrincipal holder), (''amount'', CUint amount), (''new-supply'', CUint supply')]
                     (s\<lparr>balances := (balances s)((vid, asset, holder) \<mapsto> balance'),
                        supplies := (supplies s)((vid, asset) \<mapsto> supply')\<rparr>)))))"

definition transfer_shares ::
  "nat \<Rightarrow> string \<Rightarrow> nat \<Rightarrow> principal \<Rightarrow> principal \<Rightarrow> 'a receipt_token_scheme
     \<Rightarrow> (bool \<times> 'a receipt_token_scheme) resp" where
  "transfer_shares vid asset amount from_holder to_holder s = Err 704"

section \<open>Balances and supply move in lock-step\<close>

definition in_class :: "nat \<Rightarrow> string \<Rightarrow> nat \<times> string \<times> principal \<Rightarrow> bool" where
  "in_class vid asset k \<longleftrightarrow> fst k = vid \<and> fst (snd k) = asset"

definition receipts_ok :: "'a receipt_token_scheme \<Rightarrow> bool" where
  "receipts_ok s \<longleftrightarrow> finite (dom (balances s)) \<and>
     (\<forall>vid asset. get_total_supply vid asset s = sum_over (balances s) (in_class vid asset))"

lemma receipts_ok_cong:
  "balances t = balances s \<Longrightarrow> supplies t = supplies s \<Longrightarrow> receipts_ok t \<longleftrightarrow> receipts_ok s"
  by (simp add: receipts_ok_def get_total_supply_def)

lemma mint_effect:
  assumes "mint c vid asset amount h s = Ok (b, s')"
  shows "s' = emit [(''event'', CText ''receipts-minted''), (''vault-id'', CUint vid), (''asset'', CText asset),
                    (''holder'', CPrincipal h), (''amount'', CUint amount),
                    (''new-supply'', CUint (get_total_supply vid asset s + amount))]
           (s\<lparr>balances := (balances s)((vid, asset, h) \<mapsto> get_balance vid asset h s + amount),
              supplies := (supplies s)((vid, asset) \<mapsto> get_total_supply vid asset s + amount)\<rparr>)"
    and "0 < amount" and "is_valid_asset asset" and "c = vault_contract s"
  using assms by (auto simp: mint_def Let_def rbind_Ok_iff split: if_splits)

lemma burn_effect:
  assumes "burn c vid asset amount h s = Ok (b, s')"
  shows "s' = emit [(''event'', CText ''receipts-burned''), (''vault-id'', CUint vid), (''asset'', CText asset),
                    (''holder'', CPrincipal h), (''amount'', CUint amount),
                    (''new-supply'', CUint (get_total_supply vid asset s - amount))]
           (s\<lparr>balances := (balances s)((vid, asset, h) \<mapsto> get_balance vid asset h s - amount),
              supplies := (supplies s)((vid, asset) \<mapsto> get_total_supply vid asset s - amount)\<rparr>)"
    and "0 < amount" and "amount \<le> get_balance vid asset h s" and "amount \<le> get_total_supply vid asset s"
    and "c = vault_contract s"
  using assms by (auto simp: burn_def Let_def rbind_Ok_iff split: if_splits)

lemma mint_receipts_ok [inv_intros]:
  assumes ok: "receipts_ok s" and m: "mint c vid asset amount h s = Ok (b, s')"
  shows "receipts_ok s'"
proof -
  have s': "balances s' = (balances s)((vid, asset, h) \<mapsto> get_or 0 (balances s) (vid, asset, h) + amount)"
    "supplies s' = (supplies s)((vid, asset) \<mapsto> get_total_supply vid asset s + amount)"
    using mint_effect(1) [OF m] by (simp_all add: emit_def get_balance_def)
  from ok have fin: "finite (dom (balances s))" by (simp add: receipts_ok_def)
  have sum: "sum_over (balances s') (in_class v a) =
      sum_over (balances s) (in_class v a) + (if v = vid \<and> a = asset then amount else 0)" for v a
    unfolding s'
    by (cases "v = vid \<and> a = asset")
      (auto simp: in_class_def fin intro!: sum_over_upd_add sum_over_upd_other)
  have "get_total_supply v a s' = get_total_supply v a s + (if v = vid \<and> a = asset then amount else 0)" for v a
    by (auto simp: get_total_supply_def s' get_or_upd)
  with ok fin sum show ?thesis by (simp add: receipts_ok_def s')
qed

lemma burn_receipts_ok [inv_intros]:
  assumes ok: "receipts_ok s" and m: "burn c vid asset amount h s = Ok (b, s')"
  shows "receipts_ok s'"
proof -
  note eff = burn_effect [OF m]
  have s': "balances s' = (balances s)((vid, asset, h) \<mapsto> get_or 0 (balances s) (vid, asset, h) - amount)"
    "supplies s' = (supplies s)((vid, asset) \<mapsto> get_total_supply vid asset s - amount)"
    using eff(1) by (simp_all add: emit_def get_balance_def)
  from ok have fin: "finite (dom (balances s))" by (simp add: receipts_ok_def)
  have sum: "sum_over (balances s') (in_class v a) =
      sum_over (balances s) (in_class v a) - (if v = vid \<and> a = asset then amount else 0)" for v a
    unfolding s' using eff(3)
    by (cases "v = vid \<and> a = asset")
      (auto simp: in_class_def fin get_balance_def intro!: sum_over_upd_sub sum_over_upd_other)
  have "get_total_supply v a s' = get_total_supply v a s - (if v = vid \<and> a = asset then amount else 0)" for v a
    by (auto simp: get_total_supply_def s' get_or_upd)
  with ok fin sum show ?thesis by (simp add: receipts_ok_def s')
qed

lemma balance_le_supply:
  "receipts_ok s \<Longrightarrow> get_balance vid asset h s \<le> get_total_supply vid asset s"
  by (simp add: receipts_ok_def get_balance_def get_or_le_sum_over in_class_def)

end
