(* ===== verification/Sovereignty_Vault.thy ===== *)
theory Sovereignty_Vault
  imports Receipt_Token
begin

text \<open>
  \<^verbatim>\<open>contracts/sovereignty-vault-v7.clar\<close>: many independent vaults in one contract, their
  pools, and the share accounting of deposits and redemptions. The native STX ledger is the
  chain's own; the state behind SIP-010 token and strategy contracts, which are not in the
  repository, is the abstract component \<open>world\<close>, changed only by the functions given as
  parameters: \<open>token_transfer contract amount from to\<close> and \<open>strategy_deposit contract amount\<close>,
  both returning \<open>None\<close> where the external call fails.
\<close>

record vault_entry =
  v_owner :: principal
  v_name :: string
  v_purpose :: nat
  v_assets :: nat
  v_open_deposits :: bool
  v_paused :: bool
  v_created_at :: nat

record 'x sovereignty_vault = receipt_token +
  next_vault_id :: nat
  vaults :: "nat \<rightharpoonup> vault_entry"
  owner_vault_count :: "principal \<rightharpoonup> nat"
  owner_vaults :: "principal \<times> nat \<rightharpoonup> nat"
  holder_vault_count :: "principal \<rightharpoonup> nat"
  holder_vaults :: "principal \<times> nat \<rightharpoonup> nat"
  holder_registered :: "principal \<times> nat \<rightharpoonup> bool"
  idle_balances :: "nat \<times> string \<rightharpoonup> nat"
  total_balances :: "nat \<times> string \<rightharpoonup> nat"
  strategy_allocations :: "nat \<times> nat \<times> string \<rightharpoonup> nat"
  stx_ledger :: "principal \<Rightarrow> nat"
  world :: 'x

type_synonym ('x, 'a, 'b) vault_call =
  "('x, 'b) sovereignty_vault_scheme \<Rightarrow> ('a \<times> ('x, 'b) sovereignty_vault_scheme) resp"

section \<open>Reads\<close>

definition get_vault_count :: "('x, 'b) sovereignty_vault_scheme \<Rightarrow> nat resp" where
  "get_vault_count s = usub (next_vault_id s) 1"

definition get_idle_balance :: "nat \<Rightarrow> string \<Rightarrow> ('x, 'b) sovereignty_vault_scheme \<Rightarrow> nat" where
  "get_idle_balance vid asset s = get_or 0 (idle_balances s) (vid, asset)"

definition get_total_balance :: "nat \<Rightarrow> string \<Rightarrow> ('x, 'b) sovereignty_vault_scheme \<Rightarrow> nat" where
  "get_total_balance vid asset s = get_or 0 (total_balances s) (vid, asset)"

definition get_strategy_allocation :: "nat \<Rightarrow> nat \<Rightarrow> string \<Rightarrow> ('x, 'b) sovereignty_vault_scheme \<Rightarrow> nat" where
  "get_strategy_allocation vid sid asset s = get_or 0 (strategy_allocations s) (vid, sid, asset)"

definition asset_in_mode :: "nat \<Rightarrow> string \<Rightarrow> bool" where
  "asset_in_mode mode asset =
     (if asset = ASSET_STX then mode = 1 \<or> mode = 3
      else if asset = ASSET_SBTC then mode = 2 \<or> mode = 3
      else False)"

definition supports_asset :: "nat \<Rightarrow> string \<Rightarrow> ('x, 'b) sovereignty_vault_scheme \<Rightarrow> bool" where
  "supports_asset vid asset s =
     (case vaults s vid of None \<Rightarrow> False | Some v \<Rightarrow> asset_in_mode (v_assets v) asset)"

definition is_vault_paused :: "nat \<Rightarrow> ('x, 'b) sovereignty_vault_scheme \<Rightarrow> bool" where
  "is_vault_paused vid s = (case vaults s vid of None \<Rightarrow> False | Some v \<Rightarrow> v_paused v)"

definition min_initial_deposit_for :: "string \<Rightarrow> nat" where
  "min_initial_deposit_for asset = (if asset = ASSET_STX then 1000000 else 10000)"

text \<open>The share price arithmetic: minting and payout both round down, in the pool's favour.\<close>

definition compute_deposit_shares :: "nat \<Rightarrow> nat \<Rightarrow> nat \<Rightarrow> nat \<Rightarrow> nat resp" where
  "compute_deposit_shares supply tot amount min_initial =
     (if \<not> 0 < amount then Err 104
      else if supply = 0 then
        (if tot \<noteq> 0 then Err 116
         else if \<not> min_initial \<le> amount then Err 114
         else Ok amount)
      else if \<not> 0 < tot then Err 116
      else rbind (umul amount supply) (\<lambda>p. rbind (udiv p tot) (\<lambda>shares.
           if \<not> 0 < shares then Err 115 else Ok shares)))"

definition compute_redeem_assets :: "nat \<Rightarrow> nat \<Rightarrow> nat \<Rightarrow> nat resp" where
  "compute_redeem_assets shares supply tot =
     (if \<not> 0 < shares then Err 104
      else if \<not> 0 < supply then Err 117
      else if \<not> shares \<le> supply then Err 117
      else rbind (umul shares tot) (\<lambda>p. rbind (udiv p supply) (\<lambda>payout.
           if \<not> 0 < payout then Err 118 else Ok payout)))"

definition preview_deposit :: "nat \<Rightarrow> string \<Rightarrow> nat \<Rightarrow> ('x, 'b) sovereignty_vault_scheme \<Rightarrow> nat resp" where
  "preview_deposit vid asset amount s =
     compute_deposit_shares (get_total_supply vid asset s) (get_total_balance vid asset s) amount
       (min_initial_deposit_for asset)"

definition preview_redeem :: "nat \<Rightarrow> string \<Rightarrow> nat \<Rightarrow> ('x, 'b) sovereignty_vault_scheme \<Rightarrow> nat resp" where
  "preview_redeem vid asset shares s =
     compute_redeem_assets shares (get_total_supply vid asset s) (get_total_balance vid asset s)"

record position =
  pos_shares :: nat
  pos_supply :: nat
  pos_total_assets :: nat
  pos_idle :: nat
  pos_ownership_bps :: nat
  pos_claim :: nat
  pos_redeemable :: nat

definition get_position :: "nat \<Rightarrow> string \<Rightarrow> principal \<Rightarrow> ('x, 'b) sovereignty_vault_scheme \<Rightarrow> position resp" where
  "get_position vid asset holder s =
     (let shares = get_balance vid asset holder s; supply = get_total_supply vid asset s;
          tot = get_total_balance vid asset s; idle = get_idle_balance vid asset s in
      rbind (if supply = 0 then Ok 0 else rbind (umul shares tot) (\<lambda>p. udiv p supply)) (\<lambda>claim.
      rbind (if supply = 0 then Ok 0 else rbind (umul shares 10000) (\<lambda>p. udiv p supply)) (\<lambda>own.
      Ok \<lparr>pos_shares = shares, pos_supply = supply, pos_total_assets = tot, pos_idle = idle,
          pos_ownership_bps = own, pos_claim = claim,
          pos_redeemable = (if claim < idle then claim else idle)\<rparr>)))"

section \<open>Lifecycle\<close>

definition create_vault ::
  "principal \<Rightarrow> string \<Rightarrow> nat \<Rightarrow> nat \<Rightarrow> bool \<Rightarrow> nat \<Rightarrow> nat \<Rightarrow> nat \<Rightarrow> nat \<Rightarrow> nat \<Rightarrow> bool \<Rightarrow> nat
     \<Rightarrow> ('x, nat, 'b) vault_call" where
  "create_vault sender nm purpose assets open_deposits max_exp max_stx max_sbtc max_slip min_idle auto cooldown s =
     (let vid = next_vault_id s; owner_index = get_or 0 (owner_vault_count s) sender in
      if protocol_paused s then Err 102
      else if \<not> 0 < length nm then Err 119
      else if \<not> purpose \<le> 5 then Err 120
      else if \<not> (1 \<le> assets \<and> assets \<le> 3) then Err 121
      else rbind (uadd owner_index 1) (\<lambda>owner_index'. rbind (uadd vid 1) (\<lambda>vid'.
           rbind (init_vault_config (vault_contract s) vid max_exp max_stx max_sbtc max_slip min_idle auto cooldown
             (s\<lparr>vaults := (vaults s)(vid \<mapsto> \<lparr>v_owner = sender, v_name = nm, v_purpose = purpose, v_assets = assets,
                   v_open_deposits = open_deposits, v_paused = False, v_created_at = block_height s\<rparr>),
                owner_vaults := (owner_vaults s)((sender, owner_index) \<mapsto> vid),
                owner_vault_count := (owner_vault_count s)(sender \<mapsto> owner_index'),
                next_vault_id := vid'\<rparr>)) (\<lambda>(_, s').
           Ok (vid, emit [(''event'', CText ''vault-created''), (''vault-id'', CUint vid), (''owner'', CPrincipal sender),
                          (''name'', CText nm), (''purpose'', CUint purpose), (''assets'', CUint assets),
                          (''open-deposits'', CBool open_deposits)] s')))))"

definition set_vault_config ::
  "principal \<Rightarrow> nat \<Rightarrow> string \<Rightarrow> bool \<Rightarrow> ('x, bool, 'b) vault_call" where
  "set_vault_config sender vid nm open_deposits s =
     (case vaults s vid of None \<Rightarrow> Err 101
      | Some v \<Rightarrow>
          if sender \<noteq> v_owner v then Err 100
          else if \<not> 0 < length nm then Err 119
          else Ok (True, emit [(''event'', CText ''vault-config-updated''), (''vault-id'', CUint vid),
                               (''owner'', CPrincipal sender), (''name'', CText nm), (''open-deposits'', CBool open_deposits)]
                 (s\<lparr>vaults := (vaults s)(vid \<mapsto> v\<lparr>v_name := nm, v_open_deposits := open_deposits\<rparr>)\<rparr>)))"

definition set_risk_config ::
  "principal \<Rightarrow> nat \<Rightarrow> nat \<Rightarrow> nat \<Rightarrow> nat \<Rightarrow> nat \<Rightarrow> nat \<Rightarrow> bool \<Rightarrow> nat \<Rightarrow> ('x, bool, 'b) vault_call" where
  "set_risk_config sender vid max_exp max_stx max_sbtc max_slip min_idle auto cooldown s =
     (case vaults s vid of None \<Rightarrow> Err 101
      | Some v \<Rightarrow>
          if sender \<noteq> v_owner v then Err 100
          else rbind (set_vault_risk_config (vault_contract s) vid max_exp max_stx max_sbtc max_slip min_idle
                        auto cooldown s) (\<lambda>(_, s').
               Ok (True, emit [(''event'', CText ''risk-config-updated''), (''vault-id'', CUint vid),
                               (''owner'', CPrincipal sender), (''autonomous-enabled'', CBool auto)] s')))"

definition set_autonomous_mode :: "principal \<Rightarrow> nat \<Rightarrow> bool \<Rightarrow> ('x, bool, 'b) vault_call" where
  "set_autonomous_mode sender vid enabled s =
     (case vaults s vid of None \<Rightarrow> Err 101
      | Some v \<Rightarrow>
          if sender \<noteq> v_owner v then Err 100
          else rbind (set_autonomous_enabled (vault_contract s) vid enabled s) (\<lambda>(_, s').
               Ok (True, emit [(''event'', CText ''autonomous-mode-updated''), (''vault-id'', CUint vid),
                               (''owner'', CPrincipal sender), (''autonomous-enabled'', CBool enabled)] s')))"

definition pause_vault :: "principal \<Rightarrow> nat \<Rightarrow> ('x, bool, 'b) vault_call" where
  "pause_vault sender vid s =
     (case vaults s vid of None \<Rightarrow> Err 101
      | Some v \<Rightarrow>
          if sender \<noteq> v_owner v then Err 100
          else if v_paused v then Err 122
          else Ok (True, emit [(''event'', CText ''vault-paused''), (''vault-id'', CUint vid), (''owner'', CPrincipal sender)]
                 (s\<lparr>vaults := (vaults s)(vid \<mapsto> v\<lparr>v_paused := True\<rparr>)\<rparr>)))"

definition unpause_vault :: "principal \<Rightarrow> nat \<Rightarrow> ('x, bool, 'b) vault_call" where
  "unpause_vault sender vid s =
     (case vaults s vid of None \<Rightarrow> Err 101
      | Some v \<Rightarrow>
          if sender \<noteq> v_owner v then Err 100
          else if \<not> v_paused v then Err 123
          else Ok (True, emit [(''event'', CText ''vault-unpaused''), (''vault-id'', CUint vid), (''owner'', CPrincipal sender)]
                 (s\<lparr>vaults := (vaults s)(vid \<mapsto> v\<lparr>v_paused := False\<rparr>)\<rparr>)))"

section \<open>Deposits and redemptions\<close>

definition register_holder ::
  "principal \<Rightarrow> nat \<Rightarrow> ('x, bool, 'b) vault_call" where
  "register_holder holder vid s =
     (if get_or False (holder_registered s) (holder, vid) then Ok (True, s)
      else let i = get_or 0 (holder_vault_count s) holder in
           rbind (uadd i 1) (\<lambda>i'.
           Ok (True, s\<lparr>holder_registered := (holder_registered s)((holder, vid) \<mapsto> True),
                       holder_vaults := (holder_vaults s)((holder, i) \<mapsto> vid),
                       holder_vault_count := (holder_vault_count s)(holder \<mapsto> i')\<rparr>)))"

text \<open>The native \<open>stx-transfer?\<close>, by the owner of the funds: its three failure cases are \<open>None\<close>.\<close>

definition stx_transfer :: "nat \<Rightarrow> principal \<Rightarrow> principal \<Rightarrow> (principal \<Rightarrow> nat) \<Rightarrow> (principal \<Rightarrow> nat) option" where
  "stx_transfer amount frm rcpt ledger =
     (if amount = 0 \<or> frm = rcpt \<or> ledger frm < amount then None
      else Some (ledger(frm := ledger frm - amount, rcpt := ledger rcpt + amount)))"

definition credit_pool :: "nat \<Rightarrow> string \<Rightarrow> nat \<Rightarrow> ('x, bool, 'b) vault_call" where
  "credit_pool vid asset amount s =
     rbind (uadd (get_idle_balance vid asset s) amount) (\<lambda>idle'.
     rbind (uadd (get_total_balance vid asset s) amount) (\<lambda>tot'.
     Ok (True, s\<lparr>idle_balances := (idle_balances s)((vid, asset) \<mapsto> idle'),
                 total_balances := (total_balances s)((vid, asset) \<mapsto> tot')\<rparr>)))"

definition debit_pool :: "nat \<Rightarrow> string \<Rightarrow> nat \<Rightarrow> ('x, bool, 'b) vault_call" where
  "debit_pool vid asset payout s =
     rbind (usub (get_idle_balance vid asset s) payout) (\<lambda>idle'.
     rbind (usub (get_total_balance vid asset s) payout) (\<lambda>tot'.
     Ok (True, s\<lparr>idle_balances := (idle_balances s)((vid, asset) \<mapsto> idle'),
                 total_balances := (total_balances s)((vid, asset) \<mapsto> tot')\<rparr>)))"

definition deposit_stx :: "principal \<Rightarrow> nat \<Rightarrow> nat \<Rightarrow> ('x, nat, 'b) vault_call" where
  "deposit_stx depositor vid amount s =
     (case vaults s vid of None \<Rightarrow> Err 101
      | Some v \<Rightarrow>
          rbind (preview_deposit vid ASSET_STX amount s) (\<lambda>shares.
          if \<not> asset_in_mode (v_assets v) ASSET_STX then Err 111
          else if protocol_paused s then Err 102
          else if v_paused v then Err 112
          else if \<not> (depositor = v_owner v \<or> v_open_deposits v) then Err 113
          else case stx_transfer amount depositor (vault_contract s) (stx_ledger s) of None \<Rightarrow> Err 106
               | Some ledger \<Rightarrow>
                   rbind (credit_pool vid ASSET_STX amount (s\<lparr>stx_ledger := ledger\<rparr>)) (\<lambda>(_, s1).
                   rbind (mint (vault_contract s) vid ASSET_STX shares depositor s1) (\<lambda>(_, s2).
                   rbind (register_holder depositor vid s2) (\<lambda>(_, s3).
                   Ok (shares, emit [(''event'', CText ''deposit''), (''vault-id'', CUint vid),
                                     (''depositor'', CPrincipal depositor), (''asset'', CText ASSET_STX),
                                     (''amount'', CUint amount), (''shares'', CUint shares)] s3))))))"

definition deposit_sbtc ::
  "(principal \<Rightarrow> nat \<Rightarrow> principal \<Rightarrow> principal \<Rightarrow> 'x \<Rightarrow> 'x option) \<Rightarrow> principal \<Rightarrow> nat \<Rightarrow> nat \<Rightarrow> principal
     \<Rightarrow> ('x, nat, 'b) vault_call" where
  "deposit_sbtc token_transfer depositor vid amount asset s =
     (case vaults s vid of None \<Rightarrow> Err 101
      | Some v \<Rightarrow>
        (case approved_sbtc_asset s of None \<Rightarrow> Err 109
         | Some approved \<Rightarrow>
          rbind (preview_deposit vid ASSET_SBTC amount s) (\<lambda>shares.
          if \<not> asset_in_mode (v_assets v) ASSET_SBTC then Err 111
          else if protocol_paused s then Err 102
          else if v_paused v then Err 112
          else if \<not> (depositor = v_owner v \<or> v_open_deposits v) then Err 113
          else if asset \<noteq> approved then Err 103
          else case token_transfer asset amount depositor (vault_contract s) (world s) of None \<Rightarrow> Err 106
               | Some w \<Rightarrow>
                   rbind (credit_pool vid ASSET_SBTC amount (s\<lparr>world := w\<rparr>)) (\<lambda>(_, s1).
                   rbind (mint (vault_contract s) vid ASSET_SBTC shares depositor s1) (\<lambda>(_, s2).
                   rbind (register_holder depositor vid s2) (\<lambda>(_, s3).
                   Ok (shares, emit [(''event'', CText ''deposit''), (''vault-id'', CUint vid),
                                     (''depositor'', CPrincipal depositor), (''asset'', CText ASSET_SBTC),
                                     (''amount'', CUint amount), (''shares'', CUint shares)] s3)))))))"

definition redeem_stx :: "principal \<Rightarrow> nat \<Rightarrow> nat \<Rightarrow> ('x, nat, 'b) vault_call" where
  "redeem_stx holder vid shares s =
     (case vaults s vid of None \<Rightarrow> Err 101
      | Some v \<Rightarrow>
          rbind (compute_redeem_assets shares (get_total_supply vid ASSET_STX s) (get_total_balance vid ASSET_STX s)) (\<lambda>payout.
          if \<not> asset_in_mode (v_assets v) ASSET_STX then Err 111
          else if \<not> shares \<le> get_balance vid ASSET_STX holder s then Err 117
          else if \<not> payout \<le> get_idle_balance vid ASSET_STX s then Err 105
          else rbind (burn (vault_contract s) vid ASSET_STX shares holder s) (\<lambda>(_, s1).
               rbind (debit_pool vid ASSET_STX payout s1) (\<lambda>(_, s2).
               case stx_transfer payout (vault_contract s) holder (stx_ledger s2) of None \<Rightarrow> Err 106
               | Some ledger \<Rightarrow>
                   Ok (payout, emit [(''event'', CText ''redeem''), (''vault-id'', CUint vid), (''holder'', CPrincipal holder),
                                     (''asset'', CText ASSET_STX), (''shares'', CUint shares), (''amount'', CUint payout)]
                                (s2\<lparr>stx_ledger := ledger\<rparr>))))))"

definition redeem_sbtc ::
  "(principal \<Rightarrow> nat \<Rightarrow> principal \<Rightarrow> principal \<Rightarrow> 'x \<Rightarrow> 'x option) \<Rightarrow> principal \<Rightarrow> nat \<Rightarrow> nat \<Rightarrow> principal
     \<Rightarrow> ('x, nat, 'b) vault_call" where
  "redeem_sbtc token_transfer holder vid shares asset s =
     (case vaults s vid of None \<Rightarrow> Err 101
      | Some v \<Rightarrow>
        (case approved_sbtc_asset s of None \<Rightarrow> Err 109
         | Some approved \<Rightarrow>
          rbind (compute_redeem_assets shares (get_total_supply vid ASSET_SBTC s) (get_total_balance vid ASSET_SBTC s)) (\<lambda>payout.
          if \<not> asset_in_mode (v_assets v) ASSET_SBTC then Err 111
          else if asset \<noteq> approved then Err 103
          else if \<not> shares \<le> get_balance vid ASSET_SBTC holder s then Err 117
          else if \<not> payout \<le> get_idle_balance vid ASSET_SBTC s then Err 105
          else rbind (burn (vault_contract s) vid ASSET_SBTC shares holder s) (\<lambda>(_, s1).
               rbind (debit_pool vid ASSET_SBTC payout s1) (\<lambda>(_, s2).
               case token_transfer asset payout (vault_contract s) holder (world s2) of None \<Rightarrow> Err 106
               | Some w \<Rightarrow>
                   Ok (payout, emit [(''event'', CText ''redeem''), (''vault-id'', CUint vid), (''holder'', CPrincipal holder),
                                     (''asset'', CText ASSET_SBTC), (''shares'', CUint shares), (''amount'', CUint payout)]
                                (s2\<lparr>world := w\<rparr>)))))))"

section \<open>Strategy allocation\<close>

definition execute_rebalance ::
  "(principal \<Rightarrow> nat \<Rightarrow> 'x \<Rightarrow> 'x option) \<Rightarrow> principal \<Rightarrow> nat \<Rightarrow> nat \<Rightarrow> string \<Rightarrow> nat \<Rightarrow> principal
     \<Rightarrow> ('x, bool, 'b) vault_call" where
  "execute_rebalance strategy_deposit caller vid sid asset amount strategy s =
     (let idle = get_idle_balance vid asset s in
      if caller \<noteq> engine_contract s then Err 107
      else if \<not> is_strategy_execution_enabled s then Err 124
      else if \<not> is_valid_asset asset then Err 110
      else if vaults s vid = None then Err 101
      else if is_vault_paused vid s then Err 112
      else if \<not> amount \<le> idle then Err 105
      else if Some strategy \<noteq> get_strategy_contract sid s then Err 108
      else rbind (usub idle amount) (\<lambda>idle'.
           case strategy_deposit strategy amount (world s) of None \<Rightarrow> Err 106
           | Some w \<Rightarrow>
               rbind (uadd (get_strategy_allocation vid sid asset s) amount) (\<lambda>alloc'.
               Ok (True, emit [(''event'', CText ''rebalance-executed''), (''vault-id'', CUint vid),
                               (''dest-strategy-id'', CUint sid), (''asset'', CText asset), (''amount'', CUint amount)]
                      (s\<lparr>idle_balances := (idle_balances s)((vid, asset) \<mapsto> idle'), world := w,
                         strategy_allocations := (strategy_allocations s)((vid, sid, asset) \<mapsto> alloc')\<rparr>)))))"

end
