(* ===== verification/Execution_Engine.thy ===== *)
theory Execution_Engine
  imports Sovereignty_Vault
begin

text \<open>
  \<^verbatim>\<open>contracts/execution-engine-v7.clar\<close>: the single entry point of an execution intent. The
  read-only evaluation and the submission share one pipeline; the submission then passes the
  execution gate, the recording in the risk guard and the vault's rebalance.
\<close>

definition evaluate ::
  "principal \<Rightarrow> nat \<Rightarrow> nat \<Rightarrow> string \<Rightarrow> nat \<Rightarrow> nat \<Rightarrow> nat \<Rightarrow> nat
     \<Rightarrow> ('x, 'b) sovereignty_vault_scheme \<Rightarrow> bool resp" where
  "evaluate sender vid sid asset amount slippage nonce deadline s =
     (case vaults s vid of None \<Rightarrow> Err 200
      | Some v \<Rightarrow>
          let owner = (sender = v_owner v) in
          if \<not> 0 < sid then Err 203
          else if \<not> (asset = ASSET_STX \<or> asset = ASSET_SBTC) then Err 204
          else if \<not> supports_asset vid asset s then Err 207
          else if v_paused v then Err 206
          else if \<not> (owner \<or> is_authorized_executor sender s) then Err 201
          else if \<not> is_strategy_active sid s then Err 202
          else if Some asset \<noteq> get_strategy_asset sid s then Err 205
          else rbind (check_intent vid asset amount slippage nonce deadline owner
                        (get_idle_balance vid asset s) (get_total_balance vid asset s)
                        (get_strategy_allocation vid sid asset s) (get_max_allocation_bps sid s) s) (\<lambda>_.
               Ok owner))"

record evaluation =
  risk_validation_passed :: bool
  caller_is_owner :: bool
  strategy_execution_enabled :: bool

definition evaluate_rebalance_intent ::
  "principal \<Rightarrow> nat \<Rightarrow> nat \<Rightarrow> string \<Rightarrow> nat \<Rightarrow> nat \<Rightarrow> nat \<Rightarrow> nat
     \<Rightarrow> ('x, 'b) sovereignty_vault_scheme \<Rightarrow> evaluation resp" where
  "evaluate_rebalance_intent sender vid sid asset amount slippage nonce deadline s =
     rbind (evaluate sender vid sid asset amount slippage nonce deadline s) (\<lambda>owner.
     Ok \<lparr>risk_validation_passed = True, caller_is_owner = owner,
         strategy_execution_enabled = is_strategy_execution_enabled s\<rparr>)"

definition submit_rebalance_intent ::
  "(principal \<Rightarrow> nat \<Rightarrow> 'x \<Rightarrow> 'x option) \<Rightarrow> principal \<Rightarrow> nat \<Rightarrow> nat \<Rightarrow> string \<Rightarrow> nat \<Rightarrow> nat \<Rightarrow> nat \<Rightarrow> nat
     \<Rightarrow> principal \<Rightarrow> ('x, bool, 'b) vault_call" where
  "submit_rebalance_intent strategy_deposit sender vid sid asset amount slippage nonce deadline strategy s =
     rbind (evaluate sender vid sid asset amount slippage nonce deadline s) (\<lambda>owner.
     if \<not> is_strategy_execution_enabled s then Err 208
     else rbind (validate_and_record_intent (engine_contract s) vid asset amount slippage nonce deadline owner
                   (get_idle_balance vid asset s) (get_total_balance vid asset s)
                   (get_strategy_allocation vid sid asset s) (get_max_allocation_bps sid s) s) (\<lambda>(_, s1).
          rbind (execute_rebalance strategy_deposit (engine_contract s1) vid sid asset amount strategy s1) (\<lambda>(_, s2).
          Ok (True, emit [(''event'', CText ''intent-executed''), (''vault-id'', CUint vid), (''action'', CText ''REBALANCE''),
                          (''dest-strategy-id'', CUint sid), (''asset'', CText asset), (''amount'', CUint amount),
                          (''max-slippage-bps'', CUint slippage), (''nonce'', CUint nonce), (''deadline'', CUint deadline),
                          (''executor'', CPrincipal sender), (''executed-by-owner'', CBool owner)] s2))))"

section \<open>The verdict\<close>

text \<open>Everything an accepted intent satisfies, over the state it was evaluated in.\<close>

lemma evaluate_Ok:
  "evaluate sender vid sid asset amount slippage nonce deadline s = Ok ow \<longleftrightarrow>
     (\<exists>v cfg. vaults s vid = Some v \<and> ow = (sender = v_owner v) \<and> 0 < sid \<and> is_valid_asset asset \<and>
        asset_in_mode (v_assets v) asset \<and> \<not> v_paused v \<and> (ow \<or> is_authorized_executor sender s) \<and>
        is_strategy_active sid s \<and> get_strategy_asset sid s = Some asset \<and>
        vault_configs s vid = Some cfg \<and>
        intent_fits cfg amount (get_idle_balance vid asset s) (get_strategy_allocation vid sid asset s) \<and>
        intent_admissible cfg (protocol_paused s) (block_height s) asset amount slippage nonce deadline ow
          (get_idle_balance vid asset s) (get_total_balance vid asset s)
          (get_strategy_allocation vid sid asset s) (get_max_allocation_bps sid s))"
  by (auto simp: evaluate_def Let_def rbind_Ok_iff check_intent_Ok supports_asset_def is_valid_asset_def
      split: option.splits if_splits)

lemma evaluate_rebalance_intent_Ok:
  "evaluate_rebalance_intent sender vid sid asset amount slippage nonce deadline s = Ok ev \<longleftrightarrow>
     (\<exists>ow. evaluate sender vid sid asset amount slippage nonce deadline s = Ok ow \<and>
        ev = \<lparr>risk_validation_passed = True, caller_is_owner = ow,
              strategy_execution_enabled = is_strategy_execution_enabled s\<rparr>)"
  by (auto simp: evaluate_rebalance_intent_def rbind_Ok_iff)

lemma execute_rebalance_effect:
  assumes "execute_rebalance sd c vid sid asset amount strategy s = Ok (b, s')"
  obtains w where
    "s' = emit [(''event'', CText ''rebalance-executed''), (''vault-id'', CUint vid),
                (''dest-strategy-id'', CUint sid), (''asset'', CText asset), (''amount'', CUint amount)]
           (s\<lparr>idle_balances := (idle_balances s)((vid, asset) \<mapsto> get_idle_balance vid asset s - amount), world := w,
              strategy_allocations := (strategy_allocations s)((vid, sid, asset) \<mapsto>
                get_strategy_allocation vid sid asset s + amount)\<rparr>)"
    and "sd strategy amount (world s) = Some w" and "c = engine_contract s"
    and "is_strategy_execution_enabled s" and "amount \<le> get_idle_balance vid asset s"
    and "get_strategy_contract sid s = Some strategy"
    and "\<not> is_vault_paused vid s" and "vaults s vid \<noteq> None" and "is_valid_asset asset"
  using assms
  by (auto simp: execute_rebalance_def Let_def rbind_Ok_iff split: if_splits option.splits)

lemma submit_effect:
  assumes "submit_rebalance_intent sd sender vid sid asset amount slippage nonce deadline strategy s = Ok (b, s')"
  obtains ow cfg b2 s2 where
    "evaluate sender vid sid asset amount slippage nonce deadline s = Ok ow"
    and "is_strategy_execution_enabled s" and "vault_configs s vid = Some cfg"
    and "execute_rebalance sd (engine_contract s) vid sid asset amount strategy
           (s\<lparr>vault_configs := (vault_configs s)(vid \<mapsto>
                cfg\<lparr>last_used_nonce := nonce, last_execution_height := block_height s\<rparr>)\<rparr>) = Ok (b2, s2)"
    and "s' = emit [(''event'', CText ''intent-executed''), (''vault-id'', CUint vid), (''action'', CText ''REBALANCE''),
                          (''dest-strategy-id'', CUint sid), (''asset'', CText asset), (''amount'', CUint amount),
                          (''max-slippage-bps'', CUint slippage), (''nonce'', CUint nonce), (''deadline'', CUint deadline),
                          (''executor'', CPrincipal sender), (''executed-by-owner'', CBool ow)] s2"
  using assms
  by (auto simp: submit_rebalance_intent_def rbind_Ok_iff validate_and_record_intent_def engine_contract_def
      contract_of_def split: if_splits option.splits intro: that)

end
