(* ===== verification/Pool_Accounting.thy ===== *)
theory Pool_Accounting
  imports Execution_Engine
begin

text \<open>
  The accounting of the pools, apart from who may call what: the laws a fungible ledger
  obeys and the native STX ledger as an instance, the share price arithmetic, and the
  invariant of a pool together with the two effects, a deposit and a redemption, that move
  capital across its boundary.
\<close>

section \<open>Fungible ledgers\<close>

text \<open>
  What the vault relies on when it moves an asset: a transfer that succeeds moves exactly the
  amount between two different holders and touches nobody else.
\<close>

locale fungible_ledger =
  fixes transfer :: "nat \<Rightarrow> principal \<Rightarrow> principal \<Rightarrow> 'l \<Rightarrow> 'l option"
    and holding :: "'l \<Rightarrow> principal \<Rightarrow> nat"
  assumes transfer_debit: "transfer n p q l = Some l' \<Longrightarrow> holding l' p + n = holding l p"
    and transfer_credit: "transfer n p q l = Some l' \<Longrightarrow> holding l' q = holding l q + n"
    and transfer_frame: "transfer n p q l = Some l' \<Longrightarrow> r \<noteq> p \<Longrightarrow> r \<noteq> q \<Longrightarrow> holding l' r = holding l r"
    and transfer_succeeds: "0 < n \<Longrightarrow> p \<noteq> q \<Longrightarrow> n \<le> holding l p \<Longrightarrow> transfer n p q l \<noteq> None"
begin

lemma transfer_conserves:
  assumes "transfer n p q l = Some l'" and "p \<noteq> q"
  shows "holding l' p + holding l' q = holding l p + holding l q"
  using transfer_debit [OF assms(1)] transfer_credit [OF assms(1)] by simp

lemma transfer_covered: "transfer n p q l = Some l' \<Longrightarrow> n \<le> holding l p"
  by (drule transfer_debit) simp

lemma transfer_returns:
  assumes "transfer n p q l = Some l'" and "0 < n" and "p \<noteq> q"
  shows "transfer n q p l' \<noteq> None"
  by (rule transfer_succeeds) (use assms transfer_credit [OF assms(1)] in auto)

end

interpretation stx: fungible_ledger stx_transfer "\<lambda>l. l"
  by unfold_locales (auto simp: stx_transfer_def split: if_splits)

section \<open>Share price arithmetic\<close>

lemma compute_deposit_shares_Ok:
  "compute_deposit_shares supply tot amount m = Ok shares \<longleftrightarrow> 0 < amount \<and>
     (if supply = 0 then tot = 0 \<and> m \<le> amount \<and> shares = amount
      else 0 < tot \<and> amount * supply < u128 \<and> shares = amount * supply div tot \<and> 0 < shares)"
  by (auto simp: compute_deposit_shares_def rbind_Ok_iff)

lemma compute_redeem_assets_Ok:
  "compute_redeem_assets shares supply tot = Ok payout \<longleftrightarrow>
     0 < shares \<and> shares \<le> supply \<and> shares * tot < u128 \<and> payout = shares * tot div supply \<and> 0 < payout"
  by (auto simp: compute_redeem_assets_def rbind_Ok_iff)

lemma deposit_shares_pos: "compute_deposit_shares supply tot amount m = Ok shares \<Longrightarrow> 0 < shares"
  by (auto simp: compute_deposit_shares_Ok split: if_splits)

lemma redeem_payout_le: "compute_redeem_assets shares supply tot = Ok payout \<Longrightarrow> payout \<le> tot"
proof -
  assume "compute_redeem_assets shares supply tot = Ok payout"
  then have "shares * tot \<le> supply * tot" and p: "payout = shares * tot div supply" and "0 < supply"
    by (auto simp: compute_redeem_assets_Ok)
  then have "shares * tot div supply \<le> supply * tot div supply" by (intro div_le_mono)
  with p \<open>0 < supply\<close> show ?thesis by simp
qed

text \<open>The price \<open>total / supply\<close> never falls, neither by minting nor by paying out.\<close>

lemma deposit_price_up:
  assumes "compute_deposit_shares supply tot amount m = Ok shares" and "0 < supply"
  shows "tot * (supply + shares) \<le> (tot + amount) * supply"
proof -
  from assms have "shares * tot \<le> amount * supply"
    by (auto simp: compute_deposit_shares_Ok)
  then show ?thesis by (simp add: algebra_simps)
qed

lemma redeem_price_up:
  assumes "compute_redeem_assets shares supply tot = Ok payout"
  shows "tot * (supply - shares) \<le> (tot - payout) * supply"
proof -
  from assms have sh: "shares \<le> supply" and pay: "payout * supply \<le> shares * tot"
    by (auto simp: compute_redeem_assets_Ok)
  have "tot * (supply - shares) = tot * supply - shares * tot" by (simp add: diff_mult_distrib2 mult.commute)
  also have "\<dots> \<le> tot * supply - payout * supply" using pay by (rule diff_le_mono2)
  also have "\<dots> = (tot - payout) * supply" by (simp add: diff_mult_distrib)
  finally show ?thesis .
qed

text \<open>Depositing and redeeming the minted shares at once never pays out more than was put in.\<close>

lemma deposit_redeem_no_gain:
  assumes d: "compute_deposit_shares supply tot amount m = Ok shares"
    and r: "compute_redeem_assets shares (supply + shares) (tot + amount) = Ok payout"
  shows "payout \<le> amount"
proof (cases "supply = 0")
  case True
  with d r show ?thesis by (auto simp: compute_deposit_shares_Ok compute_redeem_assets_Ok)
next
  case False
  with d have "shares * tot \<le> amount * supply" by (auto simp: compute_deposit_shares_Ok)
  then have "shares * (tot + amount) \<le> amount * (supply + shares)" by (simp add: algebra_simps)
  then have "shares * (tot + amount) div (supply + shares) \<le> amount * (supply + shares) div (supply + shares)"
    by (rule div_le_mono)
  with r False show ?thesis by (auto simp: compute_redeem_assets_Ok)
qed

section \<open>The invariant of the pools\<close>

definition in_pool :: "nat \<Rightarrow> string \<Rightarrow> nat \<times> nat \<times> string \<Rightarrow> bool" where
  "in_pool vid asset k \<longleftrightarrow> fst k = vid \<and> snd (snd k) = asset"

definition stx_pool :: "nat \<times> string \<Rightarrow> bool" where
  "stx_pool k \<longleftrightarrow> snd k = ASSET_STX"

definition deployed :: "nat \<Rightarrow> string \<Rightarrow> ('x, 'b) sovereignty_vault_scheme \<Rightarrow> nat" where
  "deployed vid asset s = sum_over (strategy_allocations s) (in_pool vid asset)"

definition pools_ok :: "('x, 'b) sovereignty_vault_scheme \<Rightarrow> bool" where
  "pools_ok s \<longleftrightarrow> receipts_ok s \<and> finite (dom (idle_balances s)) \<and> finite (dom (strategy_allocations s)) \<and>
     (\<forall>vid asset. get_total_balance vid asset s = get_idle_balance vid asset s + deployed vid asset s) \<and>
     (\<forall>vid asset. get_total_supply vid asset s = 0 \<longleftrightarrow> get_total_balance vid asset s = 0) \<and>
     sum_over (idle_balances s) stx_pool \<le> stx_ledger s (vault_contract s)"

definition pool_view where
  "pool_view s = (balances s, supplies s, idle_balances s, total_balances s, strategy_allocations s,
     stx_ledger s, deployer s)"

lemma pools_ok_cong: "pool_view t = pool_view s \<Longrightarrow> pools_ok t \<longleftrightarrow> pools_ok s"
  by (simp add: pool_view_def pools_ok_def receipts_ok_def get_total_supply_def get_total_balance_def
      get_idle_balance_def deployed_def vault_contract_def contract_of_def)

lemma pools_okI:
  assumes "receipts_ok s" and "finite (dom (idle_balances s))" and "finite (dom (strategy_allocations s))"
    and "\<And>vid asset. get_total_balance vid asset s = get_idle_balance vid asset s + deployed vid asset s"
    and "\<And>vid asset. get_total_supply vid asset s = 0 \<longleftrightarrow> get_total_balance vid asset s = 0"
    and "sum_over (idle_balances s) stx_pool \<le> stx_ledger s (vault_contract s)"
  shows "pools_ok s"
  using assms by (simp add: pools_ok_def)

lemma pools_okD:
  assumes "pools_ok s"
  shows "receipts_ok s" "finite (dom (idle_balances s))" "finite (dom (strategy_allocations s))"
    "get_total_balance vid asset s = get_idle_balance vid asset s + deployed vid asset s"
    "get_total_supply vid asset s = 0 \<longleftrightarrow> get_total_balance vid asset s = 0"
    "sum_over (idle_balances s) stx_pool \<le> stx_ledger s (vault_contract s)"
  using assms by (simp_all add: pools_ok_def)

lemma idle_le_total: "pools_ok s \<Longrightarrow> get_idle_balance vid asset s \<le> get_total_balance vid asset s"
  by (simp add: pools_ok_def)

section \<open>The effect of a deposit\<close>

text \<open>What the registry and the risk guard hold besides the vault configurations.\<close>

definition policy_view where
  "policy_view s = (strategies s, next_strategy_id s, protocol_max_slippage_bps s, protocol_max_exposure_bps s,
     protocol_min_cooldown_blocks s, protocol_min_liquidity_bps s)"

definition deposited where
  "deposited vid asset amount shares h s s' \<longleftrightarrow>
     balances s' = (balances s)((vid, asset, h) \<mapsto> get_balance vid asset h s + shares) \<and>
     supplies s' = (supplies s)((vid, asset) \<mapsto> get_total_supply vid asset s + shares) \<and>
     idle_balances s' = (idle_balances s)((vid, asset) \<mapsto> get_idle_balance vid asset s + amount) \<and>
     total_balances s' = (total_balances s)((vid, asset) \<mapsto> get_total_balance vid asset s + amount) \<and>
     strategy_allocations s' = strategy_allocations s \<and> deployer s' = deployer s \<and>
     chain_id s' = chain_id s \<and> mainnet_execution_armed s' = mainnet_execution_armed s \<and>
     vaults s' = vaults s \<and> next_vault_id s' = next_vault_id s \<and> vault_configs s' = vault_configs s \<and>
     policy_view s' = policy_view s \<and>
     stx_ledger s' (vault_contract s) =
       stx_ledger s (vault_contract s) + (if asset = ASSET_STX then amount else 0)"

definition redeemed where
  "redeemed vid asset payout shares h s s' \<longleftrightarrow>
     balances s' = (balances s)((vid, asset, h) \<mapsto> get_balance vid asset h s - shares) \<and>
     supplies s' = (supplies s)((vid, asset) \<mapsto> get_total_supply vid asset s - shares) \<and>
     idle_balances s' = (idle_balances s)((vid, asset) \<mapsto> get_idle_balance vid asset s - payout) \<and>
     total_balances s' = (total_balances s)((vid, asset) \<mapsto> get_total_balance vid asset s - payout) \<and>
     strategy_allocations s' = strategy_allocations s \<and> deployer s' = deployer s \<and>
     chain_id s' = chain_id s \<and> mainnet_execution_armed s' = mainnet_execution_armed s \<and>
     vaults s' = vaults s \<and> next_vault_id s' = next_vault_id s \<and> vault_configs s' = vault_configs s \<and>
     policy_view s' = policy_view s \<and>
     stx_ledger s (vault_contract s) =
       stx_ledger s' (vault_contract s) + (if asset = ASSET_STX then payout else 0)"

lemma register_holder_frame:
  assumes "register_holder h vid s = Ok (b, s')"
  shows "balances s' = balances s" "supplies s' = supplies s" "idle_balances s' = idle_balances s"
    "total_balances s' = total_balances s" "strategy_allocations s' = strategy_allocations s"
    "stx_ledger s' = stx_ledger s" "deployer s' = deployer s" "chain_id s' = chain_id s"
    "mainnet_execution_armed s' = mainnet_execution_armed s" "vaults s' = vaults s"
    "next_vault_id s' = next_vault_id s" "vault_configs s' = vault_configs s" "policy_view s' = policy_view s"
  using assms by (auto simp: register_holder_def policy_view_def Let_def rbind_Ok_iff split: if_splits)

lemma credit_pool_effect:
  "credit_pool vid asset amount s = Ok (b, s') \<Longrightarrow>
     s' = s\<lparr>idle_balances := (idle_balances s)((vid, asset) \<mapsto> get_idle_balance vid asset s + amount),
            total_balances := (total_balances s)((vid, asset) \<mapsto> get_total_balance vid asset s + amount)\<rparr>"
  by (auto simp: credit_pool_def rbind_Ok_iff)

lemma debit_pool_effect:
  "debit_pool vid asset payout s = Ok (b, s') \<Longrightarrow>
     s' = s\<lparr>idle_balances := (idle_balances s)((vid, asset) \<mapsto> get_idle_balance vid asset s - payout),
            total_balances := (total_balances s)((vid, asset) \<mapsto> get_total_balance vid asset s - payout)\<rparr> \<and>
     payout \<le> get_idle_balance vid asset s"
  by (auto simp: debit_pool_def rbind_Ok_iff)

lemma deposit_stx_effect:
  assumes "deposit_stx h vid amount s = Ok (shares, s')"
  shows "preview_deposit vid ASSET_STX amount s = Ok shares" and "deposited vid ASSET_STX amount shares h s s'"
proof -
  from assms obtain v ledger s1 s2 s3 b1 b2 b3 e where
    v: "vaults s vid = Some v" and p: "preview_deposit vid ASSET_STX amount s = Ok shares"
    and l: "stx_transfer amount h (vault_contract s) (stx_ledger s) = Some ledger"
    and s1: "credit_pool vid ASSET_STX amount (s\<lparr>stx_ledger := ledger\<rparr>) = Ok (b1, s1)"
    and s2: "mint (vault_contract s) vid ASSET_STX shares h s1 = Ok (b2, s2)"
    and s3: "register_holder h vid s2 = Ok (b3, s3)"
    and s': "s' = emit e s3"
    by (auto simp: deposit_stx_def rbind_Ok_iff split: option.splits if_splits; blast)
  show "preview_deposit vid ASSET_STX amount s = Ok shares" by (rule p)
  show "deposited vid ASSET_STX amount shares h s s'"
    using s' register_holder_frame [OF s3] mint_effect(1) [OF s2] credit_pool_effect [OF s1]
      stx.transfer_credit [OF l]
    by (auto simp: deposited_def policy_view_def emit_def get_balance_def get_total_supply_def get_idle_balance_def
        get_total_balance_def)
qed

lemma deposit_sbtc_effect:
  assumes "deposit_sbtc td h vid amount asset s = Ok (shares, s')"
  shows "preview_deposit vid ASSET_SBTC amount s = Ok shares" and "deposited vid ASSET_SBTC amount shares h s s'"
proof -
  from assms obtain v w s1 s2 s3 b1 b2 b3 e where
    v: "vaults s vid = Some v" and p: "preview_deposit vid ASSET_SBTC amount s = Ok shares"
    and s1: "credit_pool vid ASSET_SBTC amount (s\<lparr>world := w\<rparr>) = Ok (b1, s1)"
    and s2: "mint (vault_contract s) vid ASSET_SBTC shares h s1 = Ok (b2, s2)"
    and s3: "register_holder h vid s2 = Ok (b3, s3)"
    and s': "s' = emit e s3"
    by (auto simp: deposit_sbtc_def rbind_Ok_iff split: option.splits if_splits; blast)
  show "preview_deposit vid ASSET_SBTC amount s = Ok shares" by (rule p)
  show "deposited vid ASSET_SBTC amount shares h s s'"
    using s' register_holder_frame [OF s3] mint_effect(1) [OF s2] credit_pool_effect [OF s1]
    by (auto simp: deposited_def policy_view_def emit_def get_balance_def get_total_supply_def get_idle_balance_def
        get_total_balance_def)
qed

lemma redeem_stx_effect:
  assumes "redeem_stx h vid shares s = Ok (payout, s')"
  shows "preview_redeem vid ASSET_STX shares s = Ok payout" and "redeemed vid ASSET_STX payout shares h s s'"
    and "shares \<le> get_balance vid ASSET_STX h s" and "payout \<le> get_idle_balance vid ASSET_STX s"
proof -
  from assms obtain s1 s2 ledger b1 b2 e where
    p: "compute_redeem_assets shares (get_total_supply vid ASSET_STX s) (get_total_balance vid ASSET_STX s) = Ok payout"
    and h: "shares \<le> get_balance vid ASSET_STX h s" and i: "payout \<le> get_idle_balance vid ASSET_STX s"
    and s1: "burn (vault_contract s) vid ASSET_STX shares h s = Ok (b1, s1)"
    and s2: "debit_pool vid ASSET_STX payout s1 = Ok (b2, s2)"
    and l: "stx_transfer payout (vault_contract s) h (stx_ledger s2) = Some ledger"
    and s': "s' = emit e (s2\<lparr>stx_ledger := ledger\<rparr>)"
    by (auto simp: redeem_stx_def rbind_Ok_iff split: option.splits if_splits; blast)
  show "preview_redeem vid ASSET_STX shares s = Ok payout" using p by (simp add: preview_redeem_def)
  show "shares \<le> get_balance vid ASSET_STX h s" by (rule h)
  show "payout \<le> get_idle_balance vid ASSET_STX s" by (rule i)
  show "redeemed vid ASSET_STX payout shares h s s'"
    using s' burn_effect(1) [OF s1] debit_pool_effect [OF s2] stx.transfer_debit [OF l]
    by (auto simp: redeemed_def policy_view_def emit_def get_balance_def get_total_supply_def get_idle_balance_def
        get_total_balance_def)
qed

lemma redeem_sbtc_effect:
  assumes "redeem_sbtc td h vid shares asset s = Ok (payout, s')"
  shows "preview_redeem vid ASSET_SBTC shares s = Ok payout" and "redeemed vid ASSET_SBTC payout shares h s s'"
    and "shares \<le> get_balance vid ASSET_SBTC h s" and "payout \<le> get_idle_balance vid ASSET_SBTC s"
proof -
  from assms obtain s1 s2 w b1 b2 e where
    p: "compute_redeem_assets shares (get_total_supply vid ASSET_SBTC s) (get_total_balance vid ASSET_SBTC s) = Ok payout"
    and h: "shares \<le> get_balance vid ASSET_SBTC h s" and i: "payout \<le> get_idle_balance vid ASSET_SBTC s"
    and s1: "burn (vault_contract s) vid ASSET_SBTC shares h s = Ok (b1, s1)"
    and s2: "debit_pool vid ASSET_SBTC payout s1 = Ok (b2, s2)"
    and s': "s' = emit e (s2\<lparr>world := w\<rparr>)"
    by (auto simp: redeem_sbtc_def rbind_Ok_iff split: option.splits if_splits; blast)
  show "preview_redeem vid ASSET_SBTC shares s = Ok payout" using p by (simp add: preview_redeem_def)
  show "shares \<le> get_balance vid ASSET_SBTC h s" by (rule h)
  show "payout \<le> get_idle_balance vid ASSET_SBTC s" by (rule i)
  show "redeemed vid ASSET_SBTC payout shares h s s'"
    using s' burn_effect(1) [OF s1] debit_pool_effect [OF s2]
    by (auto simp: redeemed_def policy_view_def emit_def get_balance_def get_total_supply_def get_idle_balance_def
        get_total_balance_def)
qed

section \<open>The effects preserve the invariant\<close>

lemma vault_contract_cong: "deployer t = deployer s \<Longrightarrow> vault_contract t = vault_contract s"
  by (simp add: vault_contract_def contract_of_def)

lemma receipts_ok_add:
  assumes ok: "receipts_ok s"
    and b: "balances s' = (balances s)((vid, asset, h) \<mapsto> get_balance vid asset h s + n)"
    and u: "supplies s' = (supplies s)((vid, asset) \<mapsto> get_total_supply vid asset s + n)"
  shows "receipts_ok s'"
proof -
  from ok have fin: "finite (dom (balances s))" by (simp add: receipts_ok_def)
  have "sum_over (balances s') (in_class v a) =
      sum_over (balances s) (in_class v a) + (if v = vid \<and> a = asset then n else 0)" for v a
    unfolding b get_balance_def
    by (cases "v = vid \<and> a = asset") (auto simp: in_class_def fin intro!: sum_over_upd_add sum_over_upd_other)
  moreover have "get_total_supply v a s' = get_total_supply v a s + (if v = vid \<and> a = asset then n else 0)" for v a
    by (auto simp: get_total_supply_def u get_or_upd)
  ultimately show ?thesis using ok fin by (simp add: receipts_ok_def b)
qed

lemma receipts_ok_sub:
  assumes ok: "receipts_ok s" and le: "n \<le> get_balance vid asset h s"
    and b: "balances s' = (balances s)((vid, asset, h) \<mapsto> get_balance vid asset h s - n)"
    and u: "supplies s' = (supplies s)((vid, asset) \<mapsto> get_total_supply vid asset s - n)"
  shows "receipts_ok s'"
proof -
  from ok have fin: "finite (dom (balances s))" by (simp add: receipts_ok_def)
  have "sum_over (balances s') (in_class v a) =
      sum_over (balances s) (in_class v a) - (if v = vid \<and> a = asset then n else 0)" for v a
    using le unfolding b get_balance_def
    by (cases "v = vid \<and> a = asset") (auto simp: in_class_def fin intro!: sum_over_upd_sub sum_over_upd_other)
  moreover have "get_total_supply v a s' = get_total_supply v a s - (if v = vid \<and> a = asset then n else 0)" for v a
    by (auto simp: get_total_supply_def u get_or_upd)
  ultimately show ?thesis using ok fin by (simp add: receipts_ok_def b)
qed

lemma deposited_pools_ok [inv_intros]:
  assumes ok: "pools_ok s" and d: "deposited vid asset amount shares h s s'"
    and pos: "0 < amount" "0 < shares"
  shows "pools_ok s'"
proof (rule pools_okI)
  have b: "balances s' = (balances s)((vid, asset, h) \<mapsto> get_balance vid asset h s + shares)"
    and u: "supplies s' = (supplies s)((vid, asset) \<mapsto> get_total_supply vid asset s + shares)"
    and i: "idle_balances s' = (idle_balances s)((vid, asset) \<mapsto> get_idle_balance vid asset s + amount)"
    and t: "total_balances s' = (total_balances s)((vid, asset) \<mapsto> get_total_balance vid asset s + amount)"
    and a: "strategy_allocations s' = strategy_allocations s"
    and l: "stx_ledger s' (vault_contract s) = stx_ledger s (vault_contract s) + (if asset = ASSET_STX then amount else 0)"
    and v: "vault_contract s' = vault_contract s"
    using d by (simp_all add: deposited_def vault_contract_def contract_of_def)
  have tot: "get_total_balance w z s' = get_total_balance w z s + (if w = vid \<and> z = asset then amount else 0)"
    and idl: "get_idle_balance w z s' = get_idle_balance w z s + (if w = vid \<and> z = asset then amount else 0)"
    and sup: "get_total_supply w z s' = get_total_supply w z s + (if w = vid \<and> z = asset then shares else 0)"
    and dep: "deployed w z s' = deployed w z s" for w z
    by (auto simp: t i u a get_total_balance_def get_idle_balance_def get_total_supply_def deployed_def get_or_upd)
  show "receipts_ok s'" by (rule receipts_ok_add [OF pools_okD(1) [OF ok] b u])
  show "finite (dom (idle_balances s'))" using pools_okD(2) [OF ok] by (simp add: i)
  show "finite (dom (strategy_allocations s'))" using pools_okD(3) [OF ok] by (simp add: a)
  show "get_total_balance w z s' = get_idle_balance w z s' + deployed w z s'" for w z
    using pools_okD(4) [OF ok, of w z] by (simp add: tot idl dep)
  show "get_total_supply w z s' = 0 \<longleftrightarrow> get_total_balance w z s' = 0" for w z
    using pools_okD(5) [OF ok, of w z] pos by (simp add: tot sup)
  have "sum_over (idle_balances s') stx_pool =
      sum_over (idle_balances s) stx_pool + (if asset = ASSET_STX then amount else 0)"
    using pools_okD(2) [OF ok] unfolding i get_idle_balance_def
    by (cases "asset = ASSET_STX") (simp_all add: stx_pool_def sum_over_upd_add sum_over_upd_other)
  with pools_okD(6) [OF ok] l v show "sum_over (idle_balances s') stx_pool \<le> stx_ledger s' (vault_contract s')"
    by simp
qed

lemma redeem_empties_together:
  assumes "pools_ok s" and "compute_redeem_assets shares (get_total_supply vid asset s) (get_total_balance vid asset s) = Ok payout"
  shows "get_total_supply vid asset s - shares = 0 \<longleftrightarrow> get_total_balance vid asset s - payout = 0"
proof (cases "shares = get_total_supply vid asset s")
  case True
  with assms(2) show ?thesis by (auto simp: compute_redeem_assets_Ok)
next
  case False
  let ?sup = "get_total_supply vid asset s" and ?tot = "get_total_balance vid asset s"
  from False assms(2) have lt: "shares < ?sup" by (auto simp: compute_redeem_assets_Ok)
  with pools_okD(5) [OF assms(1), of vid asset] have "0 < ?tot" by simp
  with lt have "0 < ?tot * (?sup - shares)" by simp
  with redeem_price_up [OF assms(2)] have "0 < (?tot - payout) * ?sup" by linarith
  with lt show ?thesis by simp
qed

lemma redeemed_pools_ok [inv_intros]:
  assumes ok: "pools_ok s" and d: "redeemed vid asset payout shares h s s'"
    and p: "preview_redeem vid asset shares s = Ok payout"
    and h: "shares \<le> get_balance vid asset h s" and le: "payout \<le> get_idle_balance vid asset s"
  shows "pools_ok s'"
proof (rule pools_okI)
  have b: "balances s' = (balances s)((vid, asset, h) \<mapsto> get_balance vid asset h s - shares)"
    and u: "supplies s' = (supplies s)((vid, asset) \<mapsto> get_total_supply vid asset s - shares)"
    and i: "idle_balances s' = (idle_balances s)((vid, asset) \<mapsto> get_idle_balance vid asset s - payout)"
    and t: "total_balances s' = (total_balances s)((vid, asset) \<mapsto> get_total_balance vid asset s - payout)"
    and a: "strategy_allocations s' = strategy_allocations s"
    and l: "stx_ledger s (vault_contract s) = stx_ledger s' (vault_contract s) + (if asset = ASSET_STX then payout else 0)"
    and v: "vault_contract s' = vault_contract s"
    using d by (simp_all add: redeemed_def vault_contract_def contract_of_def)
  have tot: "get_total_balance w z s' = get_total_balance w z s - (if w = vid \<and> z = asset then payout else 0)"
    and idl: "get_idle_balance w z s' = get_idle_balance w z s - (if w = vid \<and> z = asset then payout else 0)"
    and sup: "get_total_supply w z s' = get_total_supply w z s - (if w = vid \<and> z = asset then shares else 0)"
    and dep: "deployed w z s' = deployed w z s" for w z
    by (auto simp: t i u a get_total_balance_def get_idle_balance_def get_total_supply_def deployed_def get_or_upd)
  from p have c: "compute_redeem_assets shares (get_total_supply vid asset s) (get_total_balance vid asset s) = Ok payout"
    by (simp add: preview_redeem_def)
  show "receipts_ok s'" by (rule receipts_ok_sub [OF pools_okD(1) [OF ok] h b u])
  show "finite (dom (idle_balances s'))" using pools_okD(2) [OF ok] by (simp add: i)
  show "finite (dom (strategy_allocations s'))" using pools_okD(3) [OF ok] by (simp add: a)
  show "get_total_balance w z s' = get_idle_balance w z s' + deployed w z s'" for w z
    using pools_okD(4) [OF ok, of w z] le by (simp add: tot idl dep)
  show "get_total_supply w z s' = 0 \<longleftrightarrow> get_total_balance w z s' = 0" for w z
    using pools_okD(5) [OF ok, of w z] redeem_empties_together [OF ok c] by (simp add: tot sup)
  have "sum_over (idle_balances s') stx_pool =
      sum_over (idle_balances s) stx_pool - (if asset = ASSET_STX then payout else 0)"
    using pools_okD(2) [OF ok] le unfolding i get_idle_balance_def
    by (cases "asset = ASSET_STX") (simp_all add: stx_pool_def sum_over_upd_sub sum_over_upd_other)
  with pools_okD(6) [OF ok] l v show "sum_over (idle_balances s') stx_pool \<le> stx_ledger s' (vault_contract s')"
    by (simp split: if_splits)
qed

lemma rebalanced_pools_ok [inv_intros]:
  assumes ok: "pools_ok s"
    and i: "idle_balances s' = (idle_balances s)((vid, asset) \<mapsto> get_idle_balance vid asset s - amount)"
    and a: "strategy_allocations s' = (strategy_allocations s)((vid, sid, asset) \<mapsto>
         get_strategy_allocation vid sid asset s + amount)"
    and same: "total_balances s' = total_balances s" "balances s' = balances s" "supplies s' = supplies s"
      "stx_ledger s' = stx_ledger s" "deployer s' = deployer s"
    and le: "amount \<le> get_idle_balance vid asset s"
  shows "pools_ok s'"
proof (rule pools_okI)
  have idl: "get_idle_balance w z s' = get_idle_balance w z s - (if w = vid \<and> z = asset then amount else 0)"
    and tot: "get_total_balance w z s' = get_total_balance w z s"
    and sup: "get_total_supply w z s' = get_total_supply w z s" for w z
    by (auto simp: i same get_total_balance_def get_idle_balance_def get_total_supply_def get_or_upd)
  have dep: "deployed w z s' = deployed w z s + (if w = vid \<and> z = asset then amount else 0)" for w z
    using pools_okD(3) [OF ok] unfolding deployed_def a get_strategy_allocation_def
    by (cases "w = vid \<and> z = asset")
      (auto simp: in_pool_def intro!: sum_over_upd_add sum_over_upd_other)
  show "receipts_ok s'" using pools_okD(1) [OF ok] receipts_ok_cong [of s' s] by (simp add: same)
  show "finite (dom (idle_balances s'))" using pools_okD(2) [OF ok] by (simp add: i)
  show "finite (dom (strategy_allocations s'))" using pools_okD(3) [OF ok] by (simp add: a)
  show "get_total_balance w z s' = get_idle_balance w z s' + deployed w z s'" for w z
    using pools_okD(4) [OF ok, of w z] le by (simp add: tot idl dep)
  show "get_total_supply w z s' = 0 \<longleftrightarrow> get_total_balance w z s' = 0" for w z
    using pools_okD(5) [OF ok, of w z] by (simp add: tot sup)
  have "sum_over (idle_balances s') stx_pool \<le> sum_over (idle_balances s) stx_pool"
    using pools_okD(2) [OF ok] le unfolding i get_idle_balance_def
    by (cases "asset = ASSET_STX") (simp_all add: stx_pool_def sum_over_upd_sub sum_over_upd_other)
  with pools_okD(6) [OF ok] show "sum_over (idle_balances s') stx_pool \<le> stx_ledger s' (vault_contract s')"
    by (simp add: same vault_contract_def contract_of_def)
qed

end
