(* ===== verification/Chain_Safety.thy ===== *)
theory Chain_Safety
  imports Pool_Accounting
begin

text \<open>
  The deployed protocol as a state machine: a step is a transaction that calls any public
  function of any of the contracts (with the arguments of the caller's choice and the caller
  itself as \<open>contract-caller\<close>), a new block, or anything that happens outside the protocol
  and does not spend the vault contract's own STX. Reachable states satisfy the invariant of
  the pools, the well-formedness of registry and risk configurations, and the testnet gate.
\<close>

section \<open>Transactions\<close>

datatype call =
    ProposeAdmin principal | AcceptAdmin | PauseProtocol | UnpauseProtocol
  | RegisterExecutor principal string | RevokeExecutor principal | ReactivateExecutor principal
  | RegisterStrategy string principal string nat | ActivateStrategy nat | DeactivateStrategy nat
  | SetApprovedSbtc principal | SetProtocolLimits nat nat nat nat | SetArmed bool
  | InitConfig nat nat nat nat nat nat bool nat | SetGuardConfig nat nat nat nat nat nat bool nat
  | SetGuardAutonomous nat bool
  | RecordIntent nat string nat nat nat nat bool nat nat nat nat
  | Mint nat string nat principal | Burn nat string nat principal
  | TransferShares nat string nat principal principal
  | CreateVault string nat nat bool nat nat nat nat nat bool nat
  | SetVaultConfig nat string bool | SetRiskConfig nat nat nat nat nat nat bool nat
  | SetAutonomous nat bool | PauseVault nat | UnpauseVault nat
  | DepositStx nat nat | DepositSbtc nat nat principal
  | RedeemStx nat nat | RedeemSbtc nat nat principal
  | ExecuteRebalance nat nat string nat principal
  | SubmitIntent nat nat string nat nat nat nat principal

definition new_state :: "('a \<times> 's) resp \<Rightarrow> 's resp" where
  "new_state r = rbind r (\<lambda>(_, s'). Ok s')"

fun exec ::
  "(principal \<Rightarrow> nat \<Rightarrow> principal \<Rightarrow> principal \<Rightarrow> 'x \<Rightarrow> 'x option) \<Rightarrow> (principal \<Rightarrow> nat \<Rightarrow> 'x \<Rightarrow> 'x option)
     \<Rightarrow> principal \<Rightarrow> call \<Rightarrow> 'x sovereignty_vault \<Rightarrow> 'x sovereignty_vault resp" where
  "exec tt sd c (ProposeAdmin p) s = new_state (propose_admin c p s)"
| "exec tt sd c AcceptAdmin s = new_state (accept_admin c s)"
| "exec tt sd c PauseProtocol s = new_state (pause_protocol c s)"
| "exec tt sd c UnpauseProtocol s = new_state (unpause_protocol c s)"
| "exec tt sd c (RegisterExecutor e l) s = new_state (register_executor c e l s)"
| "exec tt sd c (RevokeExecutor e) s = new_state (revoke_executor c e s)"
| "exec tt sd c (ReactivateExecutor e) s = new_state (reactivate_executor c e s)"
| "exec tt sd c (RegisterStrategy n p a m) s = new_state (register_strategy c n p a m s)"
| "exec tt sd c (ActivateStrategy i) s = new_state (activate_strategy c i s)"
| "exec tt sd c (DeactivateStrategy i) s = new_state (deactivate_strategy c i s)"
| "exec tt sd c (SetApprovedSbtc p) s = new_state (set_approved_sbtc_asset c p s)"
| "exec tt sd c (SetProtocolLimits a b d e) s = new_state (set_protocol_limits c a b d e s)"
| "exec tt sd c (SetArmed b) s = new_state (set_mainnet_execution_armed c b s)"
| "exec tt sd c (InitConfig v me ms mb sl mi au cd) s = new_state (init_vault_config c v me ms mb sl mi au cd s)"
| "exec tt sd c (SetGuardConfig v me ms mb sl mi au cd) s =
     new_state (set_vault_risk_config c v me ms mb sl mi au cd s)"
| "exec tt sd c (SetGuardAutonomous v b) s = new_state (set_autonomous_enabled c v b s)"
| "exec tt sd c (RecordIntent v a am sl n d ow i t al cp) s =
     new_state (validate_and_record_intent c v a am sl n d ow i t al cp s)"
| "exec tt sd c (Mint v a n h) s = new_state (mint c v a n h s)"
| "exec tt sd c (Burn v a n h) s = new_state (burn c v a n h s)"
| "exec tt sd c (TransferShares v a n h k) s = new_state (transfer_shares v a n h k s)"
| "exec tt sd c (CreateVault n p a od me ms mb sl mi au cd) s =
     new_state (create_vault c n p a od me ms mb sl mi au cd s)"
| "exec tt sd c (SetVaultConfig v n od) s = new_state (set_vault_config c v n od s)"
| "exec tt sd c (SetRiskConfig v me ms mb sl mi au cd) s =
     new_state (set_risk_config c v me ms mb sl mi au cd s)"
| "exec tt sd c (SetAutonomous v b) s = new_state (set_autonomous_mode c v b s)"
| "exec tt sd c (PauseVault v) s = new_state (pause_vault c v s)"
| "exec tt sd c (UnpauseVault v) s = new_state (unpause_vault c v s)"
| "exec tt sd c (DepositStx v n) s = new_state (deposit_stx c v n s)"
| "exec tt sd c (DepositSbtc v n p) s = new_state (deposit_sbtc tt c v n p s)"
| "exec tt sd c (RedeemStx v n) s = new_state (redeem_stx c v n s)"
| "exec tt sd c (RedeemSbtc v n p) s = new_state (redeem_sbtc tt c v n p s)"
| "exec tt sd c (ExecuteRebalance v i a n p) s = new_state (execute_rebalance sd c v i a n p s)"
| "exec tt sd c (SubmitIntent v i a n sl no d p) s = new_state (submit_rebalance_intent sd c v i a n sl no d p s)"

lemma new_state_Ok [simp]: "new_state r = Ok s' \<longleftrightarrow> (\<exists>x. r = Ok (x, s'))"
  by (auto simp: new_state_def rbind_Ok_iff)

definition is_protocol_contract :: "'a block_env_scheme \<Rightarrow> principal \<Rightarrow> bool" where
  "is_protocol_contract s p \<longleftrightarrow> p = vault_contract s \<or> p = engine_contract s"

inductive chain_step ::
  "(principal \<Rightarrow> nat \<Rightarrow> principal \<Rightarrow> principal \<Rightarrow> 'x \<Rightarrow> 'x option) \<Rightarrow> (principal \<Rightarrow> nat \<Rightarrow> 'x \<Rightarrow> 'x option)
     \<Rightarrow> 'x sovereignty_vault \<Rightarrow> 'x sovereignty_vault \<Rightarrow> bool" for tt sd where
  transaction: "\<not> is_protocol_contract s c \<Longrightarrow> exec tt sd c k s = Ok s' \<Longrightarrow> chain_step tt sd s s'"
| new_block: "block_height s \<le> h \<Longrightarrow> chain_step tt sd s (s\<lparr>block_height := h\<rparr>)"
| outside: "stx_ledger s (vault_contract s) \<le> l (vault_contract s) \<Longrightarrow>
     chain_step tt sd s (s\<lparr>stx_ledger := l, world := w\<rparr>)"

inductive_cases chain_stepE: "chain_step tt sd s s'"

definition deployed_state :: "string \<Rightarrow> nat \<Rightarrow> nat \<Rightarrow> principal \<Rightarrow> (principal \<Rightarrow> nat) \<Rightarrow> 'x \<Rightarrow> 'x sovereignty_vault" where
  "deployed_state dep cid h adm ledger w =
     \<lparr>deployer = dep, chain_id = cid, block_height = h, printed = [],
      admin = adm, pending_admin = None, protocol_paused = False,
      executors = Map.empty, next_strategy_id = 1, strategies = Map.empty,
      protocol_max_slippage_bps = 1000, protocol_max_exposure_bps = 5000, protocol_min_cooldown_blocks = 1,
      protocol_min_liquidity_bps = 500, approved_sbtc_asset = None, mainnet_execution_armed = False,
      vault_configs = Map.empty, balances = Map.empty, supplies = Map.empty,
      next_vault_id = 1, vaults = Map.empty, owner_vault_count = Map.empty, owner_vaults = Map.empty,
      holder_vault_count = Map.empty, holder_vaults = Map.empty, holder_registered = Map.empty,
      idle_balances = Map.empty, total_balances = Map.empty, strategy_allocations = Map.empty,
      stx_ledger = ledger, world = w\<rparr>"

inductive reachable ::
  "(principal \<Rightarrow> nat \<Rightarrow> principal \<Rightarrow> principal \<Rightarrow> 'x \<Rightarrow> 'x option) \<Rightarrow> (principal \<Rightarrow> nat \<Rightarrow> 'x \<Rightarrow> 'x option)
     \<Rightarrow> 'x sovereignty_vault \<Rightarrow> bool" for tt sd where
  deploy: "reachable tt sd (deployed_state dep cid h adm ledger w)"
| step: "reachable tt sd s \<Longrightarrow> chain_step tt sd s s' \<Longrightarrow> reachable tt sd s'"

section \<open>Which call moves what\<close>

fun moves_funds :: "call \<Rightarrow> bool" where
  "moves_funds (DepositStx _ _) = True"
| "moves_funds (DepositSbtc _ _ _) = True"
| "moves_funds (RedeemStx _ _) = True"
| "moves_funds (RedeemSbtc _ _ _) = True"
| "moves_funds (SubmitIntent _ _ _ _ _ _ _ _) = True"
| "moves_funds _ = False"

text \<open>The calls reserved to the vault and the engine contract fail for everybody else.\<close>

fun reserved :: "call \<Rightarrow> bool" where
  "reserved (InitConfig _ _ _ _ _ _ _ _) = True"
| "reserved (SetGuardConfig _ _ _ _ _ _ _ _) = True"
| "reserved (SetGuardAutonomous _ _) = True"
| "reserved (RecordIntent _ _ _ _ _ _ _ _ _ _ _) = True"
| "reserved (Mint _ _ _ _) = True"
| "reserved (Burn _ _ _ _) = True"
| "reserved (TransferShares _ _ _ _ _) = True"
| "reserved (ExecuteRebalance _ _ _ _ _) = True"
| "reserved _ = False"

lemma reserved_fails: "reserved k \<Longrightarrow> \<not> is_protocol_contract s c \<Longrightarrow> exec tt sd c k s \<noteq> Ok s'"
  by (cases k) (auto simp: is_protocol_contract_def init_vault_config_def set_vault_risk_config_def
      set_autonomous_enabled_def validate_and_record_intent_def mint_def burn_def transfer_shares_def
      execute_rebalance_def Let_def split: if_splits option.splits)

text \<open>What all other calls leave alone: balances, pools, ledger, and on testnet the gate.\<close>

definition untouched :: "'x sovereignty_vault \<Rightarrow> 'x sovereignty_vault \<Rightarrow> bool" where
  "untouched s t \<longleftrightarrow> pool_view t = pool_view s \<and> chain_id t = chain_id s \<and>
     (is_mainnet_chain s \<or> mainnet_execution_armed t = mainnet_execution_armed s)"

lemma untouched_refl [simp]: "untouched s s"
  by (simp add: untouched_def)

lemma pool_view_emit [simp]: "pool_view (emit e s) = pool_view s"
  by (simp add: pool_view_def emit_def)

lemma untouched_emit [simp]: "untouched s (emit e t) = untouched s t"
  by (simp add: untouched_def emit_def pool_view_def)

lemma untouched_upd [simp]:
  "untouched s (t\<lparr>admin := x0\<rparr>) = untouched s t"
  "untouched s (t\<lparr>pending_admin := x1\<rparr>) = untouched s t"
  "untouched s (t\<lparr>protocol_paused := x2\<rparr>) = untouched s t"
  "untouched s (t\<lparr>executors := x3\<rparr>) = untouched s t"
  "untouched s (t\<lparr>next_strategy_id := x4\<rparr>) = untouched s t"
  "untouched s (t\<lparr>strategies := x5\<rparr>) = untouched s t"
  "untouched s (t\<lparr>protocol_max_slippage_bps := x6\<rparr>) = untouched s t"
  "untouched s (t\<lparr>protocol_max_exposure_bps := x7\<rparr>) = untouched s t"
  "untouched s (t\<lparr>protocol_min_cooldown_blocks := x8\<rparr>) = untouched s t"
  "untouched s (t\<lparr>protocol_min_liquidity_bps := x9\<rparr>) = untouched s t"
  "untouched s (t\<lparr>approved_sbtc_asset := x10\<rparr>) = untouched s t"
  "untouched s (t\<lparr>vault_configs := x11\<rparr>) = untouched s t"
  "untouched s (t\<lparr>next_vault_id := x12\<rparr>) = untouched s t"
  "untouched s (t\<lparr>vaults := x13\<rparr>) = untouched s t"
  "untouched s (t\<lparr>owner_vault_count := x14\<rparr>) = untouched s t"
  "untouched s (t\<lparr>owner_vaults := x15\<rparr>) = untouched s t"
  by (simp_all add: untouched_def pool_view_def)

lemma untouched_armed: "is_mainnet_chain s \<Longrightarrow> untouched s (t\<lparr>mainnet_execution_armed := b\<rparr>) = untouched s t"
  by (simp add: untouched_def pool_view_def)

lemma untouched_trans: "untouched s t \<Longrightarrow> untouched t u \<Longrightarrow> untouched s u"
  by (auto simp: untouched_def is_mainnet_chain_def)

lemma admin_untouched:
  "propose_admin c p s = Ok (b, s') \<Longrightarrow> untouched s s'"
  "accept_admin c s = Ok (b, s') \<Longrightarrow> untouched s s'"
  "pause_protocol c s = Ok (b, s') \<Longrightarrow> untouched s s'"
  "unpause_protocol c s = Ok (b, s') \<Longrightarrow> untouched s s'"
  by (auto simp: protocol_admin_ops split: if_splits)

lemma registries_untouched:
  "register_executor c e l s = Ok (b, s') \<Longrightarrow> untouched s s'"
  "revoke_executor c e s = Ok (b, s') \<Longrightarrow> untouched s s'"
  "reactivate_executor c e s = Ok (b, s') \<Longrightarrow> untouched s s'"
  "register_strategy c n p a m s = Ok (i, s') \<Longrightarrow> untouched s s'"
  "activate_strategy c j s = Ok (b, s') \<Longrightarrow> untouched s s'"
  "deactivate_strategy c j s = Ok (b, s') \<Longrightarrow> untouched s s'"
  by (auto simp: agent_registry_ops strategy_registry_ops Let_def rbind_Ok_iff split: if_splits option.splits)

lemma guard_untouched:
  "set_approved_sbtc_asset c p s = Ok (b, s') \<Longrightarrow> untouched s s'"
  "set_protocol_limits c w x y z s = Ok (b, s') \<Longrightarrow> untouched s s'"
  "set_mainnet_execution_armed c arm s = Ok (b, s') \<Longrightarrow> untouched s s'"
  "init_vault_config g v me ms mb sl mi au cd s = Ok (b, s') \<Longrightarrow> untouched s s'"
  "set_vault_risk_config g v me ms mb sl mi au cd s = Ok (b, s') \<Longrightarrow> untouched s s'"
  "set_autonomous_enabled g v en s = Ok (b, s') \<Longrightarrow> untouched s s'"
  by (auto simp: risk_guard_ops untouched_armed split: if_splits option.splits)

lemma lifecycle_untouched:
  "set_vault_config c v n od s = Ok (b, s') \<Longrightarrow> untouched s s'"
  "set_risk_config c v me ms mb sl mi au cd s = Ok (b, s') \<Longrightarrow> untouched s s'"
  "set_autonomous_mode c v en s = Ok (b, s') \<Longrightarrow> untouched s s'"
  "pause_vault c v s = Ok (b, s') \<Longrightarrow> untouched s s'"
  "unpause_vault c v s = Ok (b, s') \<Longrightarrow> untouched s s'"
  by (auto simp: set_vault_config_def set_risk_config_def set_autonomous_mode_def pause_vault_def
      unpause_vault_def rbind_Ok_iff dest: guard_untouched split: if_splits option.splits)

lemma create_vault_untouched:
  assumes "create_vault c n p a od me ms mb sl mi au cd s = Ok (i, s')"
  shows "untouched s s'"
proof -
  from assms obtain t b u e where g: "init_vault_config (vault_contract s) (next_vault_id s) me ms mb sl mi au cd t = Ok (b, u)"
    and t: "untouched s t" and s': "s' = emit e u"
    by (auto simp: create_vault_def Let_def rbind_Ok_iff split: if_splits; fastforce)
  from untouched_trans [OF t guard_untouched(4) [OF g]] show ?thesis by (simp add: s')
qed

lemma exec_untouched:
  assumes "exec tt sd c k s = Ok s'" and "\<not> moves_funds k" and "\<not> reserved k"
  shows "untouched s s'"
  using assms
  by (cases k) (auto dest: admin_untouched registries_untouched guard_untouched lifecycle_untouched
      create_vault_untouched)

section \<open>The pools of every reachable state\<close>

lemma deposit_amount_pos: "preview_deposit vid a n s = Ok sh \<Longrightarrow> 0 < n \<and> 0 < sh"
  by (auto simp: preview_deposit_def compute_deposit_shares_Ok split: if_splits)

lemma submit_pools_ok [inv_intros]:
  assumes "pools_ok s" and "submit_rebalance_intent sd c vid sid asset amount sl n d p s = Ok (b, s')"
  shows "pools_ok s'"
proof -
  from assms(2) obtain ow cfg b2 s2 ev where
    e: "execute_rebalance sd (engine_contract s) vid sid asset amount p
           (s\<lparr>vault_configs := (vault_configs s)(vid \<mapsto>
                cfg\<lparr>last_used_nonce := n, last_execution_height := block_height s\<rparr>)\<rparr>) = Ok (b2, s2)"
    and s': "s' = emit ev s2"
    by (rule submit_effect)
  from e obtain w ev2 where s2: "s2 = emit ev2
           (s\<lparr>vault_configs := (vault_configs s)(vid \<mapsto>
                cfg\<lparr>last_used_nonce := n, last_execution_height := block_height s\<rparr>),
              idle_balances := (idle_balances s)((vid, asset) \<mapsto> get_idle_balance vid asset s - amount), world := w,
              strategy_allocations := (strategy_allocations s)((vid, sid, asset) \<mapsto>
                get_strategy_allocation vid sid asset s + amount)\<rparr>)"
    and le: "amount \<le> get_idle_balance vid asset s"
    by (rule execute_rebalance_effect) (simp add: get_idle_balance_def get_strategy_allocation_def)
  have "pools_ok s2"
    by (rule rebalanced_pools_ok [OF assms(1) _ _ _ _ _ _ _ le, where sid = sid]) (simp_all add: s2 emit_def)
  then show ?thesis by (simp add: s' pools_ok_cong [OF pool_view_emit])
qed

lemma exec_pools_ok:
  assumes ok: "pools_ok s" and c: "\<not> is_protocol_contract s c" and e: "exec tt sd c k s = Ok s'"
  shows "pools_ok s'"
proof (cases "moves_funds k")
  case True
  then show ?thesis
  proof (cases k rule: moves_funds.cases)
    case (1 v n)
    with e obtain x where x: "deposit_stx c v n s = Ok (x, s')" by auto
    from deposited_pools_ok [OF ok deposit_stx_effect(2) [OF x]] deposit_amount_pos [OF deposit_stx_effect(1) [OF x]]
    show ?thesis by blast
  next
    case (2 v n p)
    with e obtain x where x: "deposit_sbtc tt c v n p s = Ok (x, s')" by auto
    from deposited_pools_ok [OF ok deposit_sbtc_effect(2) [OF x]] deposit_amount_pos [OF deposit_sbtc_effect(1) [OF x]]
    show ?thesis by blast
  next
    case (3 v n)
    with e obtain x where x: "redeem_stx c v n s = Ok (x, s')" by auto
    show ?thesis by (rule redeemed_pools_ok [OF ok]) (rule redeem_stx_effect [OF x])+
  next
    case (4 v n p)
    with e obtain x where x: "redeem_sbtc tt c v n p s = Ok (x, s')" by auto
    show ?thesis by (rule redeemed_pools_ok [OF ok]) (rule redeem_sbtc_effect [OF x])+
  next
    case (5 v i a n sl no d p)
    with e obtain x where x: "submit_rebalance_intent sd c v i a n sl no d p s = Ok (x, s')" by auto
    show ?thesis by (rule submit_pools_ok [OF ok x])
  qed (use True in auto)
next
  case False
  have "\<not> reserved k" using reserved_fails [OF _ c] e by blast
  from exec_untouched [OF e False this] have "pool_view s' = pool_view s" by (simp add: untouched_def)
  with ok show ?thesis by (simp only: pools_ok_cong [of s' s])
qed

lemma step_pools_ok: "chain_step tt sd s s' \<Longrightarrow> pools_ok s \<Longrightarrow> pools_ok s'"
proof (induction rule: chain_step.induct)
  case (transaction s c k s')
  then show ?case by (blast intro: exec_pools_ok)
next
  case (new_block s h)
  have "pool_view (s\<lparr>block_height := h\<rparr>) = pool_view s" by (simp add: pool_view_def)
  with new_block show ?case by (simp only: pools_ok_cong [of "s\<lparr>block_height := h\<rparr>" s])
next
  case (outside s l w)
  then show ?case
    by (auto simp: pools_ok_def receipts_ok_def get_total_supply_def get_total_balance_def get_idle_balance_def
        deployed_def vault_contract_def contract_of_def)
qed

lemma deployed_pools_ok: "pools_ok (deployed_state dep cid h adm ledger w)"
  by (simp add: pools_ok_def receipts_ok_def deployed_state_def get_total_supply_def get_total_balance_def
      get_idle_balance_def deployed_def)

lemma reachable_pools_ok: "reachable tt sd s \<Longrightarrow> pools_ok s"
  by (induction rule: reachable.induct) (auto intro: deployed_pools_ok step_pools_ok)

section \<open>The testnet gate of every reachable state\<close>

definition gate_closed :: "('x, 'b) sovereignty_vault_scheme \<Rightarrow> bool" where
  "gate_closed s \<longleftrightarrow> (\<not> is_mainnet_chain s \<longrightarrow> \<not> mainnet_execution_armed s \<and> strategy_allocations s = Map.empty)"

lemma disabled_on_testnet: "\<not> is_mainnet_chain s \<Longrightarrow> \<not> is_strategy_execution_enabled s"
  by (simp add: is_strategy_execution_enabled_def)

lemma submit_needs_enabled:
  "\<not> is_strategy_execution_enabled s \<Longrightarrow> submit_rebalance_intent sd c v i a n sl no d p s \<noteq> Ok r"
  by (auto simp: submit_rebalance_intent_def rbind_Ok_iff)

lemma chain_id_frame:
  assumes "exec tt sd c k s = Ok s'" and "\<not> is_protocol_contract s c"
  shows "chain_id s' = chain_id s"
proof (cases "moves_funds k")
  case True
  then show ?thesis
  proof (cases k rule: moves_funds.cases)
    case (5 v i a n sl no d p)
    with assms(1) obtain x where x: "submit_rebalance_intent sd c v i a n sl no d p s = Ok (x, s')" by auto
    then obtain cfg b2 s2 where e: "execute_rebalance sd (engine_contract s) v i a n p
           (s\<lparr>vault_configs := (vault_configs s)(v \<mapsto>
                cfg\<lparr>last_used_nonce := no, last_execution_height := block_height s\<rparr>)\<rparr>) = Ok (b2, s2)"
      and s': "chain_id s' = chain_id s2" by (rule submit_effect) simp
    have "chain_id s2 = chain_id s" by (rule execute_rebalance_effect [OF e]) simp
    with s' show ?thesis by simp
  qed (use assms(1) True in \<open>auto dest!: deposit_stx_effect(2) deposit_sbtc_effect(2) redeem_stx_effect(2)
       redeem_sbtc_effect(2) simp: deposited_def redeemed_def\<close>)
next
  case False
  have "\<not> reserved k" using reserved_fails [OF _ assms(2)] assms(1) by blast
  from exec_untouched [OF assms(1) False this] show ?thesis by (simp add: untouched_def)
qed

lemma exec_gate_closed:
  assumes ok: "gate_closed s" and c: "\<not> is_protocol_contract s c" and e: "exec tt sd c k s = Ok s'"
  shows "gate_closed s'"
  unfolding gate_closed_def
proof
  assume "\<not> is_mainnet_chain s'"
  then have t: "\<not> is_mainnet_chain s" by (simp add: is_mainnet_chain_def chain_id_frame [OF e c])
  with ok have arm: "\<not> mainnet_execution_armed s" and al: "strategy_allocations s = Map.empty"
    by (auto simp: gate_closed_def)
  show "\<not> mainnet_execution_armed s' \<and> strategy_allocations s' = Map.empty"
  proof (cases "moves_funds k")
    case True
    then show ?thesis
    proof (cases k rule: moves_funds.cases)
      case (5 v i a n sl no d p)
      with e submit_needs_enabled [OF disabled_on_testnet [OF t]] show ?thesis by auto
    qed (use e True arm al in \<open>auto dest!: deposit_stx_effect(2) deposit_sbtc_effect(2) redeem_stx_effect(2)
         redeem_sbtc_effect(2) simp: deposited_def redeemed_def\<close>)
  next
    case False
    have nr: "\<not> reserved k" using reserved_fails [OF _ c] e by blast
    from exec_untouched [OF e False nr] t arm al show ?thesis
      by (simp add: pool_view_def untouched_def)
  qed
qed

lemma step_gate_closed: "chain_step tt sd s s' \<Longrightarrow> gate_closed s \<Longrightarrow> gate_closed s'"
proof (induction rule: chain_step.induct)
  case (transaction s c k s')
  then show ?case by (blast intro: exec_gate_closed)
qed (simp_all add: gate_closed_def is_mainnet_chain_def)

lemma reachable_gate_closed: "reachable tt sd s \<Longrightarrow> gate_closed s"
proof (induction rule: reachable.induct)
  case deploy
  show ?case by (simp add: gate_closed_def deployed_state_def)
qed (blast intro: step_gate_closed)

end
