(* ===== verification/Js_Runtime.thy ===== *)
theory Js_Runtime
  imports Prelude
begin

text \<open>
  The part of JavaScript the agent and the web library use: thrown errors as values,
  \<open>Number\<close> as the rounding of an integer to a double, string operations and the text of
  numbers. Strings are lists of characters, one per UTF-16 code unit; the only literal beyond
  8 bits in the modelled sources, the em dash, is written with the single code 151.

  A \<open>bigint\<close> is an \<open>int\<close>. A \<open>number\<close> that the code only ever gives integer values is an
  \<open>int\<close> too, and wherever it is produced by \<open>Number(..)\<close> or by an addition it goes through
  \<open>js_Number\<close>, which is the identity up to 2^53 and rounds to 53 significant bits above.
\<close>

section \<open>Errors\<close>

datatype js_error =
    JsError string
  | TypeError string
  | InsufficientDataError string
  | ExecutionBlockedError string
| SyntaxError string
| RangeError string
| OutOfModel string

text \<open>
  \<open>OutOfModel\<close> is no error of the program: it marks the inputs on which a definition stops
  because the code would go on with a value the model does not have (\<open>NaN\<close>, a fraction, an
  unchecked cast of a value of another type). A claim that an operation returns shows that
  this branch is not taken either.
\<close>

fun out_of_model :: "js_error \<Rightarrow> bool" where
  "out_of_model (OutOfModel m) = True"
| "out_of_model _ = False"

type_synonym 'a result = "js_error + 'a"

fun err_message :: "js_error \<Rightarrow> string" where
  "err_message (JsError m) = m"
| "err_message (TypeError m) = m"
| "err_message (InsufficientDataError m) = m"
| "err_message (ExecutionBlockedError m) = m"
| "err_message (SyntaxError m) = m"
| "err_message (RangeError m) = m"
| "err_message (OutOfModel m) = m"

text \<open>
  \<open>String(err)\<close>: the name and the message. \<open>InsufficientDataError\<close> extends \<open>Error\<close> without
  setting a name, so it prints as \<open>Error\<close>; \<open>ExecutionBlockedError\<close> sets its own.
\<close>

fun err_text :: "js_error \<Rightarrow> string" where
  "err_text (JsError m) = ''Error: '' @ m"
| "err_text (TypeError m) = ''TypeError: '' @ m"
| "err_text (InsufficientDataError m) = ''Error: '' @ m"
| "err_text (ExecutionBlockedError m) = ''ExecutionBlockedError: '' @ m"
| "err_text (SyntaxError m) = ''SyntaxError: '' @ m"
| "err_text (RangeError m) = ''RangeError: '' @ m"
| "err_text (OutOfModel m) = m"

fun js_try :: "'a result \<Rightarrow> ('a \<Rightarrow> 'b result) \<Rightarrow> 'b result" where
  "js_try (Inl e) f = Inl e"
| "js_try (Inr x) f = f x"

lemma js_try_Inr_iff: "js_try m f = Inr y \<longleftrightarrow> (\<exists>x. m = Inr x \<and> f x = Inr y)"
  by (cases m) auto

lemma js_try_Inl_iff: "js_try m f = Inl e \<longleftrightarrow> m = Inl e \<or> (\<exists>x. m = Inr x \<and> f x = Inl e)"
  by (cases m) auto

fun map_result :: "('a \<Rightarrow> 'b result) \<Rightarrow> 'a list \<Rightarrow> 'b list result" where
  "map_result f [] = Inr []"
| "map_result f (x # xs) = js_try (f x) (\<lambda>y. js_try (map_result f xs) (\<lambda>ys. Inr (y # ys)))"

lemma map_result_Inr: "(\<And>x. x \<in> set xs \<Longrightarrow> f x = Inr (g x)) \<Longrightarrow> map_result f xs = Inr (map g xs)"
  by (induction xs) auto

section \<open>Number\<close>

text \<open>The number of bits of a non-negative integer beyond the 53 a double holds.\<close>

function excess_bits :: "int \<Rightarrow> nat" where
  "excess_bits n = (if n < 2 ^ 53 then 0 else Suc (excess_bits (n div 2)))"
  by pat_completeness auto

termination by (relation "measure nat") auto

declare excess_bits.simps [simp del]

text \<open>Round to 53 significant bits, ties to even.\<close>

definition round53 :: "int \<Rightarrow> int" where
  "round53 n =
     (let k = excess_bits n; q = n div 2 ^ k; r = n mod 2 ^ k in
      if 2 * r < 2 ^ k \<or> (2 * r = 2 ^ k \<and> even q) then q * 2 ^ k else (q + 1) * 2 ^ k)"

definition js_Number :: "int \<Rightarrow> int" where
  "js_Number i = (if 0 \<le> i then round53 i else - round53 (- i))"

definition safe_int :: "int \<Rightarrow> bool" where
  "safe_int i \<longleftrightarrow> - (2 ^ 53) \<le> i \<and> i \<le> 2 ^ 53"

lemma round53_small: "n \<le> 2 ^ 53 \<Longrightarrow> round53 n = n"
proof -
  assume "n \<le> 2 ^ 53"
  then consider "n < 2 ^ 53" | "n = 2 ^ 53" by linarith
  then show ?thesis
  proof cases
    case 1
    then have "excess_bits n = 0" by (simp add: excess_bits.simps)
    then show ?thesis by (simp add: round53_def)
  next
    case 2
    then have "excess_bits n = 1" by (simp add: excess_bits.simps)
    with 2 show ?thesis by (simp add: round53_def)
  qed
qed

lemma js_Number_safe [simp]: "safe_int i \<Longrightarrow> js_Number i = i"
  by (simp add: safe_int_def js_Number_def round53_small)

lemma js_Number_0 [simp]: "js_Number 0 = 0"
  by (simp add: safe_int_def)

definition js_add :: "int \<Rightarrow> int \<Rightarrow> int" where
  "js_add a b = js_Number (a + b)"

lemma js_add_safe [simp]: "safe_int (a + b) \<Longrightarrow> js_add a b = a + b"
  by (simp add: js_add_def)

text \<open>The first integer that is lost: 2^53 + 1 rounds back to 2^53.\<close>

lemma round53_first_loss: "round53 (2 ^ 53 + 1) = 2 ^ 53"
proof -
  have "excess_bits (2 ^ 53 + 1) = 1" by (simp add: excess_bits.simps)
  then show ?thesis by (simp add: round53_def)
qed

section \<open>Strings\<close>

definition emdash :: string where
  "emdash = [CHR 0x97]"

definition newline :: string where
  "newline = [CHR 0x0A]"

definition quote :: string where
  "quote = [CHR 0x22]"

text \<open>\<open>s.split(c)\<close> for a one-character separator.\<close>

fun split_on :: "char \<Rightarrow> string \<Rightarrow> string list" where
  "split_on c [] = [[]]"
| "split_on c (x # xs) =
     (if x = c then [] # split_on c xs
      else (case split_on c xs of [] \<Rightarrow> [[x]] | y # ys \<Rightarrow> (x # y) # ys))"

lemma split_on_ne [simp]: "split_on c s \<noteq> []"
  by (induction s) (auto split: list.splits)

lemma split_on_none: "c \<notin> set s \<Longrightarrow> split_on c s = [s]"
  by (induction s) auto

lemma split_on_first: "c \<notin> set s \<Longrightarrow> split_on c (s @ c # t) = s # split_on c t"
  by (induction s) auto

lemma split_on_pieces: "p \<in> set (split_on c s) \<Longrightarrow> c \<notin> set p"
  by (induction s arbitrary: p) (auto split: list.splits if_splits)

text \<open>\<open>s.startsWith(p)\<close>, \<open>s.str_includes(p)\<close>.\<close>

fun starts_with :: "string \<Rightarrow> string \<Rightarrow> bool" where
  "starts_with s [] = True"
| "starts_with [] (p # ps) = False"
| "starts_with (x # xs) (p # ps) = (x = p \<and> starts_with xs ps)"

fun str_includes :: "string \<Rightarrow> string \<Rightarrow> bool" where
  "str_includes [] p = (p = [])"
| "str_includes (x # xs) p = (starts_with (x # xs) p \<or> str_includes xs p)"

lemma starts_with_iff: "starts_with s p \<longleftrightarrow> (\<exists>t. s = p @ t)"
  by (induction s p rule: starts_with.induct) auto

lemma str_includes_iff: "str_includes s p \<longleftrightarrow> (\<exists>a b. s = a @ p @ b)"
proof (induction s)
  case Nil
  then show ?case by simp
next
  case (Cons x s)
  have "(\<exists>a b. x # s = a @ p @ b) \<longleftrightarrow> (\<exists>b. x # s = p @ b) \<or> (\<exists>a b. s = a @ p @ b)"
    by (metis append_Cons append_Nil list.inject neq_Nil_conv)
  with Cons show ?case by (auto simp: starts_with_iff)
qed

text \<open>White space as \<open>trim\<close> and \<open>\s\<close> see it, below 256.\<close>

definition is_space :: "char \<Rightarrow> bool" where
  "is_space c \<longleftrightarrow> (let n = of_char c :: nat in 9 \<le> n \<and> n \<le> 13 \<or> n = 32 \<or> n = 160)"

definition trim :: "string \<Rightarrow> string" where
  "trim s = rev (dropWhile is_space (rev (dropWhile is_space s)))"

lemma dropWhile_idle: "list_all (\<lambda>c. \<not> P c) s \<Longrightarrow> dropWhile P s = s"
  by (cases s) auto

lemma trim_idle: "list_all (\<lambda>c. \<not> is_space c) s \<Longrightarrow> trim s = s"
proof -
  assume "list_all (\<lambda>c. \<not> is_space c) s"
  then have "dropWhile is_space s = s" and "dropWhile is_space (rev s) = rev s"
    by (simp_all add: dropWhile_idle list_all_iff)
  then show ?thesis by (simp add: trim_def)
qed

definition pad_start :: "nat \<Rightarrow> char \<Rightarrow> string \<Rightarrow> string" where
  "pad_start n c s = replicate (n - length s) c @ s"

definition pad_end :: "nat \<Rightarrow> char \<Rightarrow> string \<Rightarrow> string" where
  "pad_end n c s = s @ replicate (n - length s) c"

text \<open>\<open>s.replace(/0+$/, "")\<close>.\<close>

definition strip_zeros :: "string \<Rightarrow> string" where
  "strip_zeros s = rev (dropWhile (\<lambda>c. c = CHR ''0'') (rev s))"

text \<open>\<open>xs.join(sep)\<close>.\<close>

fun join :: "string \<Rightarrow> string list \<Rightarrow> string" where
  "join sep [] = []"
| "join sep [x] = x"
| "join sep (x # y # zs) = x @ sep @ join sep (y # zs)"

text \<open>
  The text of the number \<open>bps / 100\<close> for a non-negative integer \<open>bps\<close>: the decimal quotient
  without trailing zeros. (A double prints its shortest decimal, which is the exact quotient
  for every \<open>bps\<close> below 10^15; the contracts bound basis points by 10000.)
\<close>

definition percent_text :: "int \<Rightarrow> string" where
  "percent_text bps =
     (let w = bps div 100; f = strip_zeros (pad_start 2 (CHR ''0'') (nat_text (nat (bps mod 100))))
      in int_text w @ (if f = [] then [] else ''.'' @ f))"

end
