(* ===== verification/Js_Number.thy ===== *)
theory Js_Number
  imports Complex_Main Js_Runtime
begin

text \<open>
  JavaScript numbers that are not known to be integers: the prices, percentages and amounts of
  dollars the market code handles. A finite number is the rational it stands for, and every
  operation rounds its exact result to the nearest double (53 significant bits, ties to even,
  gradual underflow, overflow to infinity), as IEEE 754 and ECMAScript prescribe. The two zeros
  are one value; no modelled code can tell them apart.
\<close>

datatype js_num = NaN | Inf bool | Fin rat

text \<open>\<open>Inf True\<close> is \<open>-Infinity\<close>.\<close>

section \<open>Rounding to a double\<close>

function bit_length :: "int \<Rightarrow> nat" where
  "bit_length n = (if n \<le> 0 then 0 else Suc (bit_length (n div 2)))"
  by pat_completeness auto

termination by (relation "measure nat") auto

declare bit_length.simps [simp del]

definition round_half_even :: "rat \<Rightarrow> int" where
  "round_half_even x =
     (let f = \<lfloor>x\<rfloor>; d = x - of_int f in
      if d < 1 / 2 then f else if 1 / 2 < d then f + 1 else if even f then f else f + 1)"

text \<open>The exponent of the last bit of the double next to a positive rational.\<close>

definition ulp_exponent :: "rat \<Rightarrow> int" where
  "ulp_exponent a =
     (let (n, d) = quotient_of a; k = int (bit_length n) - int (bit_length d);
          e = (if a < 2 powi k then k - 1 else k) in max (e - 52) (- 1074))"

definition max_double :: rat where
  "max_double = (2 ^ 53 - 1) * 2 ^ 971"

definition round_double :: "rat \<Rightarrow> js_num" where
  "round_double q =
     (if q = 0 then Fin 0
      else (let a = \<bar>q\<bar>; e = ulp_exponent a; r = of_int (round_half_even (a / 2 powi e)) * 2 powi e in
        if max_double < r then Inf (q < 0) else Fin (if q < 0 then - r else r)))"

section \<open>Arithmetic and comparison\<close>

fun num_neg :: "js_num \<Rightarrow> js_num" where
  "num_neg NaN = NaN"
| "num_neg (Inf b) = Inf (\<not> b)"
| "num_neg (Fin q) = Fin (- q)"

fun num_add :: "js_num \<Rightarrow> js_num \<Rightarrow> js_num" where
  "num_add (Fin a) (Fin b) = round_double (a + b)"
| "num_add (Inf x) (Inf y) = (if x = y then Inf x else NaN)"
| "num_add (Inf x) (Fin b) = Inf x"
| "num_add (Fin a) (Inf y) = Inf y"
| "num_add NaN _ = NaN"
| "num_add _ NaN = NaN"

definition num_sub :: "js_num \<Rightarrow> js_num \<Rightarrow> js_num" where
  "num_sub x y = num_add x (num_neg y)"

fun num_mul :: "js_num \<Rightarrow> js_num \<Rightarrow> js_num" where
  "num_mul (Fin a) (Fin b) = round_double (a * b)"
| "num_mul (Inf x) (Inf y) = Inf (x \<noteq> y)"
| "num_mul (Inf x) (Fin b) = (if b = 0 then NaN else Inf (x \<noteq> (b < 0)))"
| "num_mul (Fin a) (Inf y) = (if a = 0 then NaN else Inf ((a < 0) \<noteq> y))"
| "num_mul NaN _ = NaN"
| "num_mul _ NaN = NaN"

fun num_div :: "js_num \<Rightarrow> js_num \<Rightarrow> js_num" where
  "num_div (Fin a) (Fin b) = (if b = 0 then (if a = 0 then NaN else Inf (a < 0)) else round_double (a / b))"
| "num_div (Inf x) (Inf y) = NaN"
| "num_div (Inf x) (Fin b) = Inf (x \<noteq> (b < 0))"
| "num_div (Fin a) (Inf y) = Fin 0"
| "num_div NaN _ = NaN"
| "num_div _ NaN = NaN"

fun num_less :: "js_num \<Rightarrow> js_num \<Rightarrow> bool" where
  "num_less (Fin a) (Fin b) = (a < b)"
| "num_less (Inf x) (Inf y) = (x \<and> \<not> y)"
| "num_less (Inf x) (Fin b) = x"
| "num_less (Fin a) (Inf y) = (\<not> y)"
| "num_less NaN _ = False"
| "num_less _ NaN = False"

definition num_le :: "js_num \<Rightarrow> js_num \<Rightarrow> bool" where
  "num_le x y \<longleftrightarrow> x \<noteq> NaN \<and> y \<noteq> NaN \<and> \<not> num_less y x"

fun is_finite_num :: "js_num \<Rightarrow> bool" where
  "is_finite_num (Fin q) = True"
| "is_finite_num _ = False"

fun num_abs :: "js_num \<Rightarrow> js_num" where
  "num_abs NaN = NaN"
| "num_abs (Inf b) = Inf False"
| "num_abs (Fin q) = Fin \<bar>q\<bar>"

text \<open>\<open>Math.round(x)\<close>: the nearest integer, a half goes up.\<close>

fun math_round :: "js_num \<Rightarrow> js_num" where
  "math_round NaN = NaN"
| "math_round (Inf b) = Inf b"
| "math_round (Fin q) = Fin (of_int \<lfloor>q + 1 / 2\<rfloor>)"

section \<open>Text of a number\<close>

text \<open>\<open>Number(..)\<close> on a decimal literal; the rational it denotes and the rest of the text.\<close>

definition scan_unsigned :: "string \<Rightarrow> (rat \<times> string) option" where
  "scan_unsigned s =
     (let w = takeWhile is_digit s; r = dropWhile is_digit s;
          (f, r') = (case r of CHR ''.'' # t \<Rightarrow> (takeWhile is_digit t, dropWhile is_digit t) | _ \<Rightarrow> ([], r)) in
      if w = [] \<and> f = [] then None
      else
        (let m = of_nat (digits_val (w @ f)) / 10 ^ length f in
         (case r' of
            e # t \<Rightarrow>
              (if e = CHR ''e'' \<or> e = CHR ''E'' then
                 (let neg = (t \<noteq> [] \<and> hd t = CHR ''-''); u = (if t \<noteq> [] \<and> hd t \<in> {CHR ''-'', CHR ''+''} then tl t else t);
                      ds = takeWhile is_digit u in
                  if ds = [] then Some (m, r')
                  else Some (if neg then m / 10 ^ digits_val ds else m * 10 ^ digits_val ds, dropWhile is_digit u))
               else Some (m, r'))
          | [] \<Rightarrow> Some (m, r'))))"

definition radix_literal :: "string \<Rightarrow> bool" where
  "radix_literal s \<longleftrightarrow> (case s of CHR ''0'' # c # _ \<Rightarrow> c \<in> set ''xXoObB'' | _ \<Rightarrow> False)"

definition num_of_text :: "string \<Rightarrow> js_num result" where
  "num_of_text s =
     (let t = trim s; neg = (t \<noteq> [] \<and> hd t = CHR ''-'');
          u = (if t \<noteq> [] \<and> hd t \<in> {CHR ''-'', CHR ''+''} then tl t else t) in
      if t = [] then Inr (Fin 0)
      else if u = ''Infinity'' then Inr (Inf neg)
      else if radix_literal t then Inl (OutOfModel ''radix literal'')
      else (case scan_unsigned u of
              Some (q, []) \<Rightarrow> Inr (round_double (if neg then - q else q))
            | _ \<Rightarrow> Inr NaN))"

text \<open>
  \<open>String(x)\<close>: the fewest decimal digits \<open>s\<close> with an exponent \<open>n\<close> such that \<open>s * 10^(n - k)\<close> rounds
  to the number, seventeen digits are always enough.
\<close>

fun shortest_digits :: "nat \<Rightarrow> nat \<Rightarrow> int \<Rightarrow> rat \<Rightarrow> int \<times> nat" where
  "shortest_digits 0 k n a = (round_half_even (a / 10 powi (n - int k)), k)"
| "shortest_digits (Suc f) k n a =
     (let s = round_half_even (a / 10 powi (n - int k)) in
      if round_double (of_int s * 10 powi (n - int k)) = Fin a \<and> s < 10 ^ k then (s, k)
      else shortest_digits f (Suc k) n a)"

function decimal_exponent_up :: "nat \<Rightarrow> rat \<Rightarrow> int \<Rightarrow> int" where
  "decimal_exponent_up f a n = (if f = 0 \<or> a < 10 powi n then n else decimal_exponent_up (f - 1) a (n + 1))"
  by pat_completeness auto

termination by (relation "measure (\<lambda>(f, a, n). f)") auto

declare decimal_exponent_up.simps [simp del]

text \<open>The least \<open>n\<close> with \<open>a < 10^n\<close>; every double lies between 10^-324 and 10^309.\<close>

definition decimal_exponent :: "rat \<Rightarrow> int" where
  "decimal_exponent a = decimal_exponent_up 640 a (- 324)"

definition positive_text :: "rat \<Rightarrow> string" where
  "positive_text a =
     (let n = decimal_exponent a; (s, k) = shortest_digits 16 1 n a; ds = int_text s in
      if int k \<le> n \<and> n \<le> 21 then ds @ replicate (nat (n - int k)) (CHR ''0'')
      else if 0 < n \<and> n \<le> 21 then take (nat n) ds @ ''.'' @ drop (nat n) ds
      else if - 6 < n \<and> n \<le> 0 then ''0.'' @ replicate (nat (- n)) (CHR ''0'') @ ds
      else take 1 ds @ (if k = 1 then [] else ''.'' @ drop 1 ds) @ ''e'' @ (if 0 < n - 1 then ''+'' else ''-'')
           @ int_text \<bar>n - 1\<bar>)"

definition rat_text :: "rat \<Rightarrow> string" where
  "rat_text q = (if q = 0 then ''0'' else if q < 0 then ''-'' @ positive_text (- q) else positive_text q)"

fun num_text :: "js_num \<Rightarrow> string" where
  "num_text NaN = ''NaN''"
| "num_text (Inf b) = (if b then ''-Infinity'' else ''Infinity'')"
| "num_text (Fin q) = rat_text q"

text \<open>\<open>x.toFixed(d)\<close>: the exact value to \<open>d\<close> decimals, a tie goes to the larger.\<close>

definition fixed_text :: "nat \<Rightarrow> rat \<Rightarrow> string" where
  "fixed_text d a =
     (let n = nat \<lfloor>a * 10 ^ d + 1 / 2\<rfloor>; ds = pad_start (Suc d) (CHR ''0'') (nat_text n); w = length ds - d in
      if d = 0 then ds else take w ds @ ''.'' @ drop w ds)"

fun to_fixed :: "js_num \<Rightarrow> nat \<Rightarrow> string" where
  "to_fixed (Fin q) d =
     (if 10 ^ 21 \<le> \<bar>q\<bar> then rat_text q else if q < 0 then ''-'' @ fixed_text d (- q) else fixed_text d q)"
| "to_fixed x d = num_text x"

text \<open>\<open>n.toLocaleString("en-US")\<close> for integers: groups of three digits.\<close>

fun group_three :: "string \<Rightarrow> string" where
  "group_three (a # b # c # d # s) = a # b # c # CHR '','' # group_three (d # s)"
| "group_three s = s"

definition locale_nat :: "nat \<Rightarrow> string" where
  "locale_nat n = rev (group_three (rev (nat_text n)))"

definition locale_int :: "int \<Rightarrow> string" where
  "locale_int i = (if i < 0 then ''-'' @ locale_nat (nat (- i)) else locale_nat (nat i))"

section \<open>Facts\<close>

lemma num_less_irrefl [simp]: "\<not> num_less x x"
  by (cases x) auto

lemma num_less_trans: "num_less x y \<Longrightarrow> num_less y z \<Longrightarrow> num_less x z"
  by (cases x; cases y; cases z) auto

lemma num_less_asym: "num_less x y \<Longrightarrow> \<not> num_less y x"
  using num_less_trans [of x y x] by auto

lemma num_less_Fin: "num_less (Fin a) y \<longleftrightarrow> y = Inf False \<or> (\<exists>b. y = Fin b \<and> a < b)"
  by (cases y) auto

text \<open>Removing the separators of a grouped number gives its digits back.\<close>

lemma group_three_digits: "list_all is_digit s \<Longrightarrow> filter is_digit (group_three s) = s"
proof (induction s rule: group_three.induct)
  case (1 a b c d s)
  moreover have "\<not> is_digit (CHR '','')" by code_simp
  ultimately show ?case by simp
qed auto

lemma locale_nat_digits: "filter is_digit (locale_nat n) = nat_text n"
proof -
  have "filter is_digit (group_three (rev (nat_text n))) = rev (nat_text n)"
    by (rule group_three_digits) (simp add: nat_text_digits)
  then show ?thesis by (simp add: locale_nat_def rev_filter [symmetric])
qed

lemma locale_nat_inj [simp]: "locale_nat m = locale_nat n \<longleftrightarrow> m = n"
  by (metis locale_nat_digits nat_text_inj)

lemma group_three_chars: "c \<in> set (group_three s) \<Longrightarrow> c \<in> set s \<or> c = CHR '',''"
  by (induction s rule: group_three.induct) auto

lemma locale_nat_chars: "c \<in> set (locale_nat n) \<Longrightarrow> is_digit c \<or> c = CHR '',''"
  using group_three_chars [of c "rev (nat_text n)"] nat_text_digits [of n]
  by (auto simp: locale_nat_def list_all_iff)

lemma locale_nat_ne [simp]: "locale_nat n \<noteq> []"
  using locale_nat_digits [of n] nat_text_ne [of n] by (metis filter.simps(1))

end
