(* ===== verification/Js_Values.thy ===== *)
theory Js_Values
  imports Js_Number
begin

text \<open>
  Dynamic JavaScript values as the code meets them in decoded JSON, with property access that
  throws on \<open>null\<close> and \<open>undefined\<close>, the conversions \<open>BigInt(..)\<close> and \<open>Number(..)\<close>, the text of a
  JSON string, and computations that read and change the outside world and may throw.
\<close>

section \<open>Values\<close>

text \<open>\<open>JNum\<close> is a number with an integer value, \<open>JFrac\<close> any other finite number.\<close>

datatype js =
    JUndef
  | JNull
  | JBool bool
  | JNum int
  | JFrac rat
  | JStr string
  | JArr "js list"
  | JObj "(string \<times> js) list"

fun js_get :: "js \<Rightarrow> string \<Rightarrow> js result" where
  "js_get JUndef k =
     Inl (TypeError (''Cannot read properties of undefined (reading '' @ [CHR 0x27] @ k @ [CHR 0x27] @ '')''))"
| "js_get JNull k =
     Inl (TypeError (''Cannot read properties of null (reading '' @ [CHR 0x27] @ k @ [CHR 0x27] @ '')''))"
| "js_get (JObj fs) k = Inr (case map_of fs k of Some v \<Rightarrow> v | None \<Rightarrow> JUndef)"
| "js_get _ k = Inr JUndef"

fun js_path :: "js \<Rightarrow> string list \<Rightarrow> js result" where
  "js_path v [] = Inr v"
| "js_path v (k # ks) = js_try (js_get v k) (\<lambda>w. js_path w ks)"

fun truthy :: "js \<Rightarrow> bool" where
  "truthy JUndef = False"
| "truthy JNull = False"
| "truthy (JBool b) = b"
| "truthy (JNum n) = (n \<noteq> 0)"
| "truthy (JFrac q) = True"
| "truthy (JStr s) = (s \<noteq> [])"
| "truthy (JArr xs) = True"
| "truthy (JObj fs) = True"

text \<open>An unchecked cast \<open>x as string\<close>, \<open>x as number\<close>.\<close>

fun as_string :: "js \<Rightarrow> string result" where
  "as_string (JStr s) = Inr s"
| "as_string _ = Inl (OutOfModel ''not a string'')"

fun as_number :: "js \<Rightarrow> int result" where
  "as_number (JNum n) = Inr n"
| "as_number _ = Inl (OutOfModel ''not a number'')"

section \<open>Conversions\<close>

definition decimal :: "string \<Rightarrow> int option" where
  "decimal s =
     (case s of
        [] \<Rightarrow> None
      | c # ds \<Rightarrow>
          (if c = CHR ''-'' then (if ds \<noteq> [] \<and> list_all is_digit ds then Some (- int (digits_val ds)) else None)
           else if c = CHR ''+'' then (if ds \<noteq> [] \<and> list_all is_digit ds then Some (int (digits_val ds)) else None)
           else if list_all is_digit s then Some (int (digits_val s)) else None))"

definition radix_prefixed :: "string \<Rightarrow> bool" where
  "radix_prefixed s \<longleftrightarrow> (case s of CHR ''0'' # c # _ \<Rightarrow> c \<in> set ''xXoObB'' | _ \<Rightarrow> False)"

text \<open>\<open>BigInt(s)\<close>; literals with a radix prefix are not needed and left out of the model.\<close>

definition bigint_of_string :: "string \<Rightarrow> int result" where
  "bigint_of_string s =
     (let t = trim s in
      if t = [] then Inr 0
      else (case decimal t of
              Some i \<Rightarrow> Inr i
            | None \<Rightarrow> if radix_prefixed t then Inl (OutOfModel ''radix literal'')
                      else Inl (SyntaxError (''Cannot convert '' @ s @ '' to a BigInt''))))"

fun to_bigint :: "js \<Rightarrow> int result" where
  "to_bigint (JStr s) = bigint_of_string s"
| "to_bigint (JNum n) = Inr n"
| "to_bigint (JFrac q) =
     Inl (RangeError (''The number '' @ rat_text q @ '' cannot be converted to a BigInt because it is not an integer''))"
| "to_bigint (JBool b) = Inr (if b then 1 else 0)"
| "to_bigint JUndef = Inl (TypeError ''Cannot convert undefined to a BigInt'')"
| "to_bigint JNull = Inl (TypeError ''Cannot convert null to a BigInt'')"
| "to_bigint (JArr xs) = Inl (OutOfModel ''array to BigInt'')"
| "to_bigint (JObj fs) = Inl (SyntaxError ''Cannot convert [object Object] to a BigInt'')"

definition number_of_string :: "string \<Rightarrow> int result" where
  "number_of_string s =
     (let t = trim s in
      if t = [] then Inr 0
      else (case decimal t of Some i \<Rightarrow> Inr (js_Number i) | None \<Rightarrow> Inl (OutOfModel ''not an integer'')))"

fun to_number :: "js \<Rightarrow> int result" where
  "to_number (JStr s) = number_of_string s"
| "to_number (JNum n) = Inr n"
| "to_number (JBool b) = Inr (if b then 1 else 0)"
| "to_number JNull = Inr 0"
| "to_number _ = Inl (OutOfModel ''NaN'')"

text \<open>\<open>Number(v)\<close> as a double, and a double as a value.\<close>

fun number_value :: "js \<Rightarrow> js_num result" where
  "number_value (JStr s) = num_of_text s"
| "number_value (JNum n) = Inr (Fin (of_int n))"
| "number_value (JFrac q) = Inr (Fin q)"
| "number_value (JBool b) = Inr (Fin (if b then 1 else 0))"
| "number_value JNull = Inr (Fin 0)"
| "number_value JUndef = Inr NaN"
| "number_value (JObj fs) = Inr NaN"
| "number_value (JArr xs) = Inl (OutOfModel ''array to number'')"

fun js_of_num :: "js_num \<Rightarrow> js result" where
  "js_of_num (Fin q) = Inr (if of_int \<lfloor>q\<rfloor> = q then JNum \<lfloor>q\<rfloor> else JFrac q)"
| "js_of_num _ = Inl (OutOfModel ''no finite number'')"

text \<open>\<open>JSON.stringify\<close> writes a number that is not finite as \<open>null\<close>.\<close>

definition js_or_null :: "js_num \<Rightarrow> js" where
  "js_or_null x = (case js_of_num x of Inr v \<Rightarrow> v | Inl _ \<Rightarrow> JNull)"

lemma is_digit_not_space: "is_digit c \<Longrightarrow> \<not> is_space c"
  by (auto simp: is_digit_def is_space_def Let_def)

lemma int_text_no_space: "list_all (\<lambda>c. \<not> is_space c) (int_text i)"
proof -
  have "\<not> is_space (CHR ''-'')" by code_simp
  moreover have "list_all (\<lambda>c. \<not> is_space c) (nat_text n)" for n
    using nat_text_digits [of n] is_digit_not_space by (auto simp: list_all_iff)
  ultimately show ?thesis by (simp add: int_text_def)
qed

lemma is_digit_not_sign: "is_digit c \<Longrightarrow> c \<noteq> CHR ''-'' \<and> c \<noteq> CHR ''+''"
proof -
  have "\<not> is_digit (CHR ''-'')" and "\<not> is_digit (CHR ''+'')" by code_simp+
  then show "is_digit c \<Longrightarrow> c \<noteq> CHR ''-'' \<and> c \<noteq> CHR ''+''" by blast
qed

lemma decimal_nat_text: "decimal (nat_text n) = Some (int n)"
proof (cases "nat_text n")
  case Nil
  then show ?thesis by simp
next
  case (Cons c ds)
  then have "is_digit c" using nat_text_digits [of n] by simp
  then have "c \<noteq> CHR ''-''" "c \<noteq> CHR ''+''" using is_digit_not_sign by blast+
  moreover have "list_all is_digit (c # ds)" using nat_text_digits [of n] Cons by simp
  moreover have "digits_val (c # ds) = n" using digits_val_nat_text [of n] Cons by simp
  ultimately show ?thesis using Cons by (simp add: decimal_def)
qed

lemma decimal_int_text [simp]: "decimal (int_text i) = Some i"
proof (cases "i < 0")
  case True
  then show ?thesis by (simp add: int_text_def decimal_def nat_text_digits)
next
  case False
  then show ?thesis by (simp add: int_text_def decimal_nat_text)
qed

lemma trim_int_text [simp]: "trim (int_text i) = int_text i"
  by (rule trim_idle) (rule int_text_no_space)

lemma bigint_of_int_text [simp]: "bigint_of_string (int_text i) = Inr i"
  by (simp add: bigint_of_string_def)

lemma number_of_int_text [simp]: "number_of_string (int_text i) = Inr (js_Number i)"
  by (simp add: number_of_string_def)

section \<open>Computations over the outside world\<close>

text \<open>
  An asynchronous function: it runs on the state of the outside world, which every external
  call may change, and returns or throws.
\<close>

type_synonym ('w, 'a) io = "'w \<Rightarrow> 'a result \<times> 'w"

definition io_return :: "'a \<Rightarrow> ('w, 'a) io" where
  "io_return x = (\<lambda>w. (Inr x, w))"

definition io_lift :: "'a result \<Rightarrow> ('w, 'a) io" where
  "io_lift r = (\<lambda>w. (r, w))"

definition io_throw :: "js_error \<Rightarrow> ('w, 'a) io" where
  "io_throw e = (\<lambda>w. (Inl e, w))"

definition io_bind :: "('w, 'a) io \<Rightarrow> ('a \<Rightarrow> ('w, 'b) io) \<Rightarrow> ('w, 'b) io" where
  "io_bind m f = (\<lambda>w. case m w of (Inl e, w') \<Rightarrow> (Inl e, w') | (Inr x, w') \<Rightarrow> f x w')"

text \<open>\<open>try .. catch (e) ..\<close>. Inputs outside the model are not errors of the program and pass.\<close>

definition io_catch :: "('w, 'a) io \<Rightarrow> (js_error \<Rightarrow> ('w, 'a) io) \<Rightarrow> ('w, 'a) io" where
  "io_catch m h =
     (\<lambda>w. case m w of
            (Inl e, w') \<Rightarrow> if out_of_model e then (Inl e, w') else h e w'
          | (Inr x, w') \<Rightarrow> (Inr x, w'))"

fun io_map :: "('a \<Rightarrow> ('w, 'b) io) \<Rightarrow> 'a list \<Rightarrow> ('w, 'b list) io" where
  "io_map f [] = io_return []"
| "io_map f (x # xs) = io_bind (f x) (\<lambda>y. io_bind (io_map f xs) (\<lambda>ys. io_return (y # ys)))"

named_theorems io_defs \<open>the combinators of computations, for symbolic execution\<close>

lemmas io_combinators [io_defs] = io_return_def io_lift_def io_throw_def io_bind_def io_catch_def

lemma io_bind_Inr: "m w = (Inr x, w') \<Longrightarrow> io_bind m f w = f x w'"
  by (simp add: io_bind_def)

lemma io_bind_Inl: "m w = (Inl e, w') \<Longrightarrow> io_bind m f w = (Inl e, w')"
  by (simp add: io_bind_def)

lemma io_lift_bind [simp]: "io_bind (io_lift r) f w = (case r of Inl e \<Rightarrow> (Inl e, w) | Inr x \<Rightarrow> f x w)"
  by (simp add: io_bind_def io_lift_def split: sum.splits)

lemma io_return_bind [simp]: "io_bind (io_return x) f = f x"
  by (simp add: io_bind_def io_return_def)

lemma io_throw_bind [simp]: "io_bind (io_throw e) f = io_throw e"
  by (simp add: io_bind_def io_throw_def)

lemma io_bind_Inr_iff:
  "io_bind m f w = (Inr y, w'') \<longleftrightarrow> (\<exists>x w'. m w = (Inr x, w') \<and> f x w' = (Inr y, w''))"
  by (auto simp: io_bind_def split: prod.splits sum.splits)

lemma io_lift_bind_Inr_iff:
  "io_bind (io_lift r) f w = (Inr y, w') \<longleftrightarrow> (\<exists>x. r = Inr x \<and> f x w = (Inr y, w'))"
  by (cases r) auto

section \<open>What a computation leaves alone\<close>

definition io_keeps :: "('w \<Rightarrow> 'b) \<Rightarrow> ('w, 'a) io \<Rightarrow> bool" where
  "io_keeps f m \<longleftrightarrow> (\<forall>w. f (snd (m w)) = f w)"

named_theorems io_frame \<open>rules for what a computation leaves alone\<close>

lemma io_keepsD: "io_keeps f m \<Longrightarrow> m w = (r, w') \<Longrightarrow> f w' = f w"
  by (metis io_keeps_def snd_conv)

lemma io_keeps_return [io_frame]: "io_keeps f (io_return x)"
  by (simp add: io_keeps_def io_return_def)

lemma io_keeps_lift [io_frame]: "io_keeps f (io_lift r)"
  by (simp add: io_keeps_def io_lift_def)

lemma io_keeps_throw [io_frame]: "io_keeps f (io_throw e)"
  by (simp add: io_keeps_def io_throw_def)

lemma io_keeps_bind [io_frame]:
  assumes "io_keeps f m" "\<And>x. io_keeps f (g x)"
  shows "io_keeps f (io_bind m g)"
  unfolding io_keeps_def
proof
  fix w
  obtain r w' where m: "m w = (r, w')" by (cases "m w")
  then have "f w' = f w" using assms(1) io_keepsD by metis
  moreover have "f (snd (g x w')) = f w'" for x using assms(2) by (simp add: io_keeps_def)
  ultimately show "f (snd (io_bind m g w)) = f w" using m by (simp add: io_bind_def split: sum.split)
qed

lemma io_keeps_catch [io_frame]:
  assumes "io_keeps f m" "\<And>e. io_keeps f (g e)"
  shows "io_keeps f (io_catch m g)"
  unfolding io_keeps_def
proof
  fix w
  obtain r w' where m: "m w = (r, w')" by (cases "m w")
  then have "f w' = f w" using assms(1) io_keepsD by metis
  moreover have "f (snd (g x w')) = f w'" for x using assms(2) by (simp add: io_keeps_def)
  ultimately show "f (snd (io_catch m g w)) = f w" using m by (simp add: io_catch_def split: sum.split)
qed

end
