(* ===== verification/Js_Json.thy ===== *)
theory Js_Json
  imports Js_Values
begin

text \<open>
  \<open>JSON.stringify\<close> and \<open>JSON.parse\<close> on the values of the model, and the round trips the agent
  relies on: escaped strings and decimal integers can be split off the front of a text.
\<close>

section \<open>JSON text\<close>

definition hex_digit :: "nat \<Rightarrow> char" where
  "hex_digit d = (if d < 10 then char_of (48 + d) else char_of (87 + d))"

definition json_char :: "char \<Rightarrow> string" where
  "json_char c =
     (let n = of_char c :: nat; bs = CHR 0x5C in
      if c = CHR 0x22 then [bs, c]
      else if c = bs then [bs, bs]
      else if n = 8 then [bs, CHR ''b'']
      else if n = 9 then [bs, CHR ''t'']
      else if n = 10 then [bs, CHR ''n'']
      else if n = 12 then [bs, CHR ''f'']
      else if n = 13 then [bs, CHR ''r'']
      else if n < 32 then [bs, CHR ''u'', CHR ''0'', CHR ''0'', hex_digit (n div 16), hex_digit (n mod 16)]
      else [c])"

definition json_string :: "string \<Rightarrow> string" where
  "json_string s = quote @ concat (map json_char s) @ quote"

text \<open>\<open>JSON.stringify(v)\<close>: fields that are \<open>undefined\<close> are left out of objects.\<close>

fun json_text :: "js \<Rightarrow> string" where
  "json_text JUndef = ''null''"
| "json_text JNull = ''null''"
| "json_text (JBool b) = (if b then ''true'' else ''false'')"
| "json_text (JNum n) = int_text n"
| "json_text (JFrac q) = rat_text q"
| "json_text (JStr s) = json_string s"
| "json_text (JArr xs) = ''['' @ join '','' (map json_text xs) @ '']''"
| "json_text (JObj fs) =
     ''{'' @ join '','' (map (\<lambda>(k, v). json_string k @ '':'' @ json_text v)
                       (filter (\<lambda>(k, v). v \<noteq> JUndef) fs)) @ ''}''"

section \<open>Splitting a text\<close>

text \<open>
  The text of a number ends at the first character that is no digit and no sign, so it can be
  split off the front of a text.
\<close>

lemma int_text_chars: "c \<in> set (int_text i) \<Longrightarrow> is_digit c \<or> c = CHR ''-''"
  using nat_text_digits by (auto simp: int_text_def list_all_iff split: if_splits)

lemma stop_split:
  "c \<notin> set a \<Longrightarrow> c \<notin> set b \<Longrightarrow> a @ c # x = b @ c # y \<longleftrightarrow> a = b \<and> x = y"
  by (induction a arbitrary: b) (case_tac b; auto)+

lemma int_text_stop:
  assumes "\<not> is_digit c" "c \<noteq> CHR ''-''"
  shows "int_text i @ c # x = int_text j @ c # y \<longleftrightarrow> i = j \<and> x = y"
proof -
  have "c \<notin> set (int_text i)" "c \<notin> set (int_text j)"
    using assms int_text_chars by blast+
  then show ?thesis by (simp add: stop_split)
qed

lemma comma_stop: "\<not> is_digit (CHR '','')" "\<not> is_digit (CHR ''}'')" "\<not> is_digit (CHR 0x22)"
  by code_simp+

lemma json_digit: "is_digit c \<Longrightarrow> json_char c = [c]"
  by (auto simp: json_char_def is_digit_def Let_def)

lemma json_int_text: "json_string (int_text i) = quote @ int_text i @ quote"
proof -
  have m: "json_char (CHR ''-'') = ''-''" by code_simp
  have "concat (map json_char s) = s" if "\<forall>c\<in>set s. is_digit c \<or> c = CHR ''-''" for s
    using that by (induction s) (auto simp: json_digit m)
  then show ?thesis using int_text_chars by (simp add: json_string_def)
qed

text \<open>A reader of one escaped character, which undoes \<open>json_char\<close>.\<close>

definition hex_val :: "char \<Rightarrow> nat" where
  "hex_val c = (let n = of_char c in if n < 58 then n - 48 else n - 87)"

definition unescape :: "string \<Rightarrow> char \<times> string" where
  "unescape s =
     (if hd s \<noteq> CHR 0x5C then (hd s, tl s)
      else (let e = hd (tl s); r = tl (tl s) in
        if e = CHR ''b'' then (CHR 0x08, r)
        else if e = CHR ''t'' then (CHR 0x09, r)
        else if e = CHR ''n'' then (CHR 0x0A, r)
        else if e = CHR ''f'' then (CHR 0x0C, r)
        else if e = CHR ''r'' then (CHR 0x0D, r)
        else if e = CHR ''u'' then (char_of (16 * hex_val (r ! 2) + hex_val (r ! 3)), drop 4 r)
        else (e, r)))"

lemma hex_val_digit: "d < 16 \<Longrightarrow> hex_val (hex_digit d) = d"
  by (simp add: hex_val_def hex_digit_def Let_def)

lemma char_of_code: "(of_char c :: nat) = n \<Longrightarrow> c = char_of n"
  by auto

lemma control_chars:
  "char_of (8 :: nat) = CHR 0x08" "char_of (9 :: nat) = CHR 0x09" "char_of (10 :: nat) = CHR 0x0A"
  "char_of (12 :: nat) = CHR 0x0C" "char_of (13 :: nat) = CHR 0x0D"
  by (simp_all add: char_of_def bit_0)

lemma unescape_json_char: "unescape (json_char c @ x) = (c, x)"
proof -
  have hex: "hex_val (hex_digit (of_char c div 16)) = of_char c div 16"
    "hex_val (hex_digit (of_char c mod 16)) = of_char c mod 16"
    by (simp_all add: hex_val_digit less_mult_imp_div_less)
  have whole: "char_of (16 * (of_char c div 16 :: nat) + of_char c mod 16) = c"
    by (simp only: mult_div_mod_eq char_of_char)
  show ?thesis
    by (auto simp: json_char_def unescape_def Let_def hex whole control_chars dest!: char_of_code)
qed

lemma json_char_cancel: "json_char c @ x = json_char d @ y \<longleftrightarrow> c = d \<and> x = y"
  by (metis unescape_json_char prod.inject)

lemma json_char_not_quote: "json_char c @ x \<noteq> CHR 0x22 # y"
  by (auto simp: json_char_def Let_def)

lemma escaped_stop:
  "concat (map json_char a) @ CHR 0x22 # x = concat (map json_char b) @ CHR 0x22 # y \<longleftrightarrow> a = b \<and> x = y"
proof (induction a arbitrary: b)
  case Nil
  then show ?case using json_char_not_quote by (cases b) (auto, metis)
next
  case (Cons c a)
  then show ?case
    by (cases b) (auto simp: json_char_cancel json_char_not_quote [symmetric] json_char_not_quote)
qed

lemma json_string_stop: "json_string a @ x = json_string b @ y \<longleftrightarrow> a = b \<and> x = y"
  by (simp add: json_string_def quote_def escaped_stop)

section \<open>JSON.parse\<close>

definition json_space :: "char \<Rightarrow> bool" where
  "json_space c \<longleftrightarrow> c \<in> {CHR '' '', CHR 0x09, CHR 0x0A, CHR 0x0D}"

definition skip_ws :: "string \<Rightarrow> string" where
  "skip_ws s = dropWhile json_space s"

definition is_hex :: "char \<Rightarrow> bool" where
  "is_hex c \<longleftrightarrow> (let n = of_char c :: nat in 48 \<le> n \<and> n \<le> 57 \<or> 97 \<le> n \<and> n \<le> 102 \<or> 65 \<le> n \<and> n \<le> 70)"

definition hex_of :: "char \<Rightarrow> nat" where
  "hex_of c = (let n = of_char c in if n \<le> 57 then n - 48 else if n \<le> 70 then n - 55 else n - 87)"

definition json_bad :: "'a result" where
  "json_bad = Inl (SyntaxError ''Unexpected token in JSON'')"

text \<open>The characters of a string up to its closing quote.\<close>

fun parse_chars :: "string \<Rightarrow> (string \<times> string) result" where
  "parse_chars [] = json_bad"
| "parse_chars (c # s) =
     (if c = CHR 0x22 then Inr ([], s)
      else if (of_char c :: nat) < 32 then json_bad
      else if c \<noteq> CHR 0x5C then js_try (parse_chars s) (\<lambda>(t, r). Inr (c # t, r))
      else (case s of
              [] \<Rightarrow> json_bad
            | e # r \<Rightarrow>
                (if e = CHR ''u'' then
                   (if length r < 4 \<or> \<not> list_all is_hex (take 4 r) then json_bad
                    else let n = 4096 * hex_of (r ! 0) + 256 * hex_of (r ! 1) + 16 * hex_of (r ! 2) + hex_of (r ! 3) in
                      if 255 < n then Inl (OutOfModel ''character beyond 8 bits'')
                      else js_try (parse_chars (drop 4 r)) (\<lambda>(t, r'). Inr (char_of n # t, r')))
                 else (case map_of [(CHR 0x22, CHR 0x22), (CHR 0x5C, CHR 0x5C), (CHR ''/'', CHR ''/''),
                                    (CHR ''b'', CHR 0x08), (CHR ''f'', CHR 0x0C), (CHR ''n'', CHR 0x0A),
                                    (CHR ''r'', CHR 0x0D), (CHR ''t'', CHR 0x09)] e of
                         None \<Rightarrow> json_bad
                       | Some d \<Rightarrow> js_try (parse_chars r) (\<lambda>(t, r'). Inr (d # t, r'))))))"

text \<open>
  A fraction or an exponent; at least one digit must follow the point and the exponent sign.
\<close>

definition parse_fraction :: "bool \<Rightarrow> string \<Rightarrow> string \<Rightarrow> (js \<times> string) result" where
  "parse_fraction neg t r =
     (if hd r = CHR ''.'' \<and> (tl r = [] \<or> \<not> is_digit (hd (tl r))) then json_bad
      else (case scan_unsigned t of
              None \<Rightarrow> json_bad
            | Some (q, r') \<Rightarrow>
                if r' \<noteq> [] \<and> hd r' \<in> {CHR ''.'', CHR ''e'', CHR ''E''} then json_bad
                else js_try (js_of_num (round_double (if neg then - q else q))) (\<lambda>v. Inr (v, r'))))"

definition parse_int :: "string \<Rightarrow> (js \<times> string) result" where
  "parse_int s =
     (let neg = (s \<noteq> [] \<and> hd s = CHR ''-''); t = (if neg then tl s else s);
          ds = takeWhile is_digit t; r = dropWhile is_digit t in
      if ds = [] \<or> (hd ds = CHR ''0'' \<and> 1 < length ds) then json_bad
      else if r \<noteq> [] \<and> hd r \<in> {CHR ''.'', CHR ''e'', CHR ''E''} then parse_fraction neg t r
      else Inr (JNum (js_Number (if neg then - int (digits_val ds) else int (digits_val ds))), r))"

text \<open>
  Values, array elements and object members; \<open>n\<close> bounds the nesting and the number of elements,
  so the length of the text is always enough. A repeated key keeps its last value.
\<close>

fun parse_value :: "nat \<Rightarrow> string \<Rightarrow> (js \<times> string) result"
and parse_elems :: "nat \<Rightarrow> string \<Rightarrow> (js list \<times> string) result"
and parse_members :: "nat \<Rightarrow> string \<Rightarrow> ((string \<times> js) list \<times> string) result" where
  "parse_value 0 s = json_bad"
| "parse_value (Suc n) s =
     (case skip_ws s of
        [] \<Rightarrow> json_bad
      | c # r \<Rightarrow>
          (if c = CHR 0x22 then js_try (parse_chars r) (\<lambda>(t, r'). Inr (JStr t, r'))
           else if c = CHR ''{'' then
             (case skip_ws r of
                [] \<Rightarrow> json_bad
              | d # r' \<Rightarrow> if d = CHR ''}'' then Inr (JObj [], r')
                         else js_try (parse_members n r) (\<lambda>(ms, r''). Inr (JObj (rev ms), r'')))
           else if c = CHR ''['' then
             (case skip_ws r of
                [] \<Rightarrow> json_bad
              | d # r' \<Rightarrow> if d = CHR '']'' then Inr (JArr [], r')
                         else js_try (parse_elems n r) (\<lambda>(xs, r''). Inr (JArr xs, r'')))
           else if starts_with (c # r) ''true'' then Inr (JBool True, drop 3 r)
           else if starts_with (c # r) ''false'' then Inr (JBool False, drop 4 r)
           else if starts_with (c # r) ''null'' then Inr (JNull, drop 3 r)
           else parse_int (c # r)))"
| "parse_elems 0 s = json_bad"
| "parse_elems (Suc n) s =
     js_try (parse_value n s) (\<lambda>(x, r).
       (case skip_ws r of
          [] \<Rightarrow> json_bad
        | c # r' \<Rightarrow> if c = CHR '','' then js_try (parse_elems n r') (\<lambda>(xs, r''). Inr (x # xs, r''))
                   else if c = CHR '']'' then Inr ([x], r') else json_bad))"
| "parse_members 0 s = json_bad"
| "parse_members (Suc n) s =
     (case skip_ws s of
        [] \<Rightarrow> json_bad
      | c # r \<Rightarrow>
          if c \<noteq> CHR 0x22 then json_bad
          else js_try (parse_chars r) (\<lambda>(k, r1).
            (case skip_ws r1 of
               [] \<Rightarrow> json_bad
             | d # r2 \<Rightarrow>
                 if d \<noteq> CHR '':'' then json_bad
                 else js_try (parse_value n r2) (\<lambda>(v, r3).
                   (case skip_ws r3 of
                      [] \<Rightarrow> json_bad
                    | e # r4 \<Rightarrow>
                        if e = CHR '','' then js_try (parse_members n r4) (\<lambda>(ms, r5). Inr ((k, v) # ms, r5))
                        else if e = CHR ''}'' then Inr ([(k, v)], r4) else json_bad)))))"

definition json_parse :: "string \<Rightarrow> js result" where
  "json_parse s =
     js_try (parse_value (2 * length s + 2) s) (\<lambda>(v, r). if skip_ws r = [] then Inr v else json_bad)"

lemma hex_of_digit: "d < 16 \<Longrightarrow> hex_of (hex_digit d) = d"
  by (simp add: hex_of_def hex_digit_def Let_def)

lemma is_hex_digit: "d < 16 \<Longrightarrow> is_hex (hex_digit d)"
  by (simp add: is_hex_def hex_digit_def Let_def)

lemma json_char_cases:
  "(c = CHR 0x22 \<or> c = CHR 0x5C \<or> c \<in> {CHR 0x08, CHR 0x09, CHR 0x0A, CHR 0x0C, CHR 0x0D})
   \<or> ((of_char c :: nat) < 32 \<and> json_char c = [CHR 0x5C, CHR ''u'', CHR ''0'', CHR ''0'',
         hex_digit (of_char c div 16), hex_digit (of_char c mod 16)])
   \<or> (32 \<le> (of_char c :: nat) \<and> c \<noteq> CHR 0x22 \<and> c \<noteq> CHR 0x5C \<and> json_char c = [c])"
  by (auto simp: json_char_def Let_def control_chars not_less dest!: char_of_code)

lemma parse_chars_json_char:
  "parse_chars (json_char c @ s) = js_try (parse_chars s) (\<lambda>(t, r). Inr (c # t, r))"
proof -
  have hex: "hex_of (hex_digit (of_char c div 16)) = of_char c div 16"
    "hex_of (hex_digit (of_char c mod 16)) = of_char c mod 16"
    "is_hex (hex_digit (of_char c div 16))" "is_hex (hex_digit (of_char c mod 16))"
    by (simp_all add: hex_of_digit is_hex_digit less_mult_imp_div_less)
  have zero: "hex_of (CHR ''0'') = 0" "is_hex (CHR ''0'')" by code_simp+
  have whole: "16 * (of_char c div 16 :: nat) + of_char c mod 16 = of_char c"
    by (rule mult_div_mod_eq)
  consider "c = CHR 0x22 \<or> c = CHR 0x5C \<or> c \<in> {CHR 0x08, CHR 0x09, CHR 0x0A, CHR 0x0C, CHR 0x0D}"
    | "(of_char c :: nat) < 32" "json_char c = [CHR 0x5C, CHR ''u'', CHR ''0'', CHR ''0'',
         hex_digit (of_char c div 16), hex_digit (of_char c mod 16)]"
    | "32 \<le> (of_char c :: nat)" "c \<noteq> CHR 0x22" "c \<noteq> CHR 0x5C" "json_char c = [c]"
    using json_char_cases by blast
  then show ?thesis
  proof cases
    case 1
    have "json_char (CHR 0x22) = [CHR 0x5C, CHR 0x22]" "json_char (CHR 0x5C) = [CHR 0x5C, CHR 0x5C]"
      "json_char (CHR 0x08) = [CHR 0x5C, CHR ''b'']" "json_char (CHR 0x09) = [CHR 0x5C, CHR ''t'']"
      "json_char (CHR 0x0A) = [CHR 0x5C, CHR ''n'']" "json_char (CHR 0x0C) = [CHR 0x5C, CHR ''f'']"
      "json_char (CHR 0x0D) = [CHR 0x5C, CHR ''r'']" by code_simp+
    with 1 show ?thesis by auto
  next
    case 2
    then show ?thesis by (simp add: hex zero whole Let_def)
  next
    case 3
    then show ?thesis by simp
  qed
qed

lemma parse_chars_escaped: "parse_chars (concat (map json_char s) @ CHR 0x22 # r) = Inr (s, r)"
  by (induction s) (simp_all add: parse_chars_json_char)

text \<open>\<open>JSON.parse(JSON.stringify(s)) === s\<close>.\<close>

lemma json_parse_string: "json_parse (json_string s) = Inr (JStr s)"
proof -
  have "\<not> json_space (CHR 0x22)" by code_simp
  then show ?thesis
    by (simp add: json_parse_def json_string_def quote_def skip_ws_def parse_chars_escaped)
qed

end
