(* ===== verification/Agent_Types.thy ===== *)
theory Agent_Types
  imports Complex_Main Js_Json
begin

text \<open>
  The structured types of the agent (agent/src/types.ts) and the interface of the services
  outside the repository that it calls.

  Conventions: an interface is a record, a union of string literals a datatype, an optional
  field or a field \<open>T | null\<close> an option, a \<open>number\<close> holding integers an \<open>int\<close>, a \<open>bigint\<close> an \<open>int\<close>,
  a \<open>Record<StrategyId, bigint>\<close> a finite map. Values the code casts without a check
  (\<open>as Asset\<close>, \<open>as NetworkName\<close>) keep the type they have at run time: strings.
\<close>

type_synonym strategy_id = int
type_synonym asset = string

definition ASSETS :: "asset list" where
  "ASSETS = [''STX'', ''SBTC'']"

type_synonym network_name = string

record strategy_snapshot =
  ss_strategyId :: strategy_id
  ss_name :: string
  ss_contract :: string
  ss_asset :: asset
  ss_active :: bool
  ss_maxAllocationBps :: int

record asset_risk_config =
  rc_maxExposureBps :: int
  rc_maxTxAmount :: int
  rc_maxSlippageBps :: int
  rc_minIdleBps :: int
  rc_autonomousEnabled :: bool
  rc_cooldownBlocks :: int
  rc_lastUsedNonce :: int
  rc_lastExecutionHeight :: int

record vault_snapshot =
  vs_vaultId :: int
  vs_owner :: string
  vs_name :: string
  vs_purpose :: int
  vs_supportsAsset :: bool
  vs_paused :: bool
  vs_asset :: asset
  vs_idleBalance :: int
  vs_totalBalance :: int
  vs_shareSupply :: int
  vs_allocations :: "strategy_id \<rightharpoonup> int"
  vs_riskConfig :: asset_risk_config

datatype chain_network = TESTNET | MAINNET

record execution_environment =
  ee_network :: chain_network
  ee_strategyExecutionEnabled :: bool

record protocol_context =
  pc_blockHeight :: int
  pc_protocolPaused :: bool
  pc_approvedSbtcAsset :: "string option"
  pc_activeStrategies :: "strategy_snapshot list"
  pc_environment :: execution_environment

datatype recommendation_decision = REBALANCE | REDUCE_EXPOSURE | HOLD | INSUFFICIENT_DATA

fun decision_text :: "recommendation_decision \<Rightarrow> string" where
  "decision_text REBALANCE = ''REBALANCE''"
| "decision_text REDUCE_EXPOSURE = ''REDUCE_EXPOSURE''"
| "decision_text HOLD = ''HOLD''"
| "decision_text INSUFFICIENT_DATA = ''INSUFFICIENT_DATA''"

record allocation_entry =
  ae_strategyId :: strategy_id
  ae_name :: string
  ae_bps :: int
  ae_amount :: string

record allocation_view =
  av_idleBps :: int
  av_strategies :: "allocation_entry list"

record recommendation =
  rec_decision :: recommendation_decision
  rec_vaultId :: int
  rec_asset :: asset
  rec_destStrategyId :: "strategy_id option"
  rec_amount :: "string option"
  rec_reason :: string
  rec_expectedBenefit :: string
  rec_riskAssessment :: string
  rec_confidence :: rat
  rec_maxSlippageBps :: "int option"
  rec_deadline :: "int option"
  rec_generatedAt :: string

record execution_intent =
  ei_vaultId :: int
  ei_action :: string
  ei_asset :: asset
  ei_sourceStrategy :: string
  ei_destStrategyId :: strategy_id
  ei_amount :: int
  ei_maxSlippageBps :: int
  ei_maxExposureBps :: int
  ei_nonce :: int
  ei_deadline :: int

datatype intent_status =
    RECOMMENDED
  | VALIDATING
  | VALIDATED
  | TESTNET_BLOCKED
  | EXECUTED
  | FAILED
  | EXPIRED
  | REJECTED

datatype validation_status = PASSED | NOT_PASSED | UNAVAILABLE

text \<open>\<open>NOT_PASSED\<close> is the literal \<open>"FAILED"\<close> of \<open>OnChainValidation.status\<close>.\<close>

datatype sender_role = Owner | Executor

record on_chain_validation =
  ov_source :: string
  ov_status :: validation_status
  ov_errorCode :: "int option"
  ov_detail :: string
  ov_evaluatedAs :: sender_role
  ov_evaluatedAtBlock :: int
  ov_strategyExecutionEnabled :: "bool option"

datatype execution_state =
    NOT_APPLICABLE
  | NOT_EXECUTED_TESTNET
  | NOT_SUBMITTED
  | SUBMITTED
  | CONFIRMED
  | SUBMIT_FAILED

text \<open>\<open>SUBMIT_FAILED\<close> is the literal \<open>"FAILED"\<close> of \<open>ExecutionState\<close>.\<close>

record decision_record =
  dr_id :: string
  dr_timestamp :: string
  dr_vaultId :: int
  dr_vaultContract :: string
  dr_network :: network_name
  dr_asset :: asset
  dr_recommendation :: recommendation
  dr_currentAllocation :: "allocation_view option"
  dr_proposedAllocation :: "allocation_view option"
  dr_intent :: "execution_intent option"
  dr_intentHash :: "string option"
  dr_validation :: "on_chain_validation option"
  dr_status :: intent_status
  dr_executionState :: execution_state
  dr_txId :: "string option"
  dr_rejectionReason :: "string option"

section \<open>Services outside the repository\<close>

text \<open>
  Arguments of a contract call, as the code builds them with \<open>Cl.uint(..)\<close>, \<open>Cl.stringAscii(..)\<close>,
  \<open>Cl.principal(..)\<close> and \<open>Cl.contractPrincipal(..)\<close> of \<open>@stacks/transactions\<close>.
\<close>

datatype cl_arg =
    ClUint int
  | ClStringAscii string
  | ClPrincipal string
  | ClContractPrincipal string string

record contract_call =
  cc_contractAddress :: string
  cc_contractName :: string
  cc_functionName :: string
  cc_functionArgs :: "cl_arg list"
  cc_senderKey :: string
  cc_network :: network_name

text \<open>
  What the agent calls and this repository does not contain: the reader of contracts
  (\<open>cvToJSON(fetchCallReadOnlyFunction(..))\<close>: network, address, name, function, arguments, sender), \<open>fetch\<close>
  (URL to \<open>res.ok\<close>, \<open>res.status\<close> and the decoded body), the clock in milliseconds and as an ISO
  text, random identifiers, SHA-256 in hex, the address of a private key, the language model
  (key, system prompt, message to the first text block), signing, broadcasting and timers.

  Of the later fields, \<open>sv_fetchText\<close> is \<open>fetch\<close> with the body as text, \<open>sv_settled\<close> the order in which
  promises that run at the same time settle, \<open>sv_timedOut\<close> whether a timer fires before the promise
  it races with, and \<open>sv_stream\<close> the streamed answer of the model (key, system prompt, messages): the
  pieces of text it emits and the error it ends with, if any.

  \<open>sv_bigintToJSON\<close> tells whether some package the process loads has defined
  \<open>BigInt.prototype.toJSON\<close>. ECMAScript does not, and no file under src/ does; without it
  \<open>JSON.stringify\<close> throws a \<open>TypeError\<close> on every value that holds a \<open>bigint\<close>.
\<close>

record 'w services =
  sv_readOnly :: "network_name \<Rightarrow> string \<Rightarrow> string \<Rightarrow> string \<Rightarrow> cl_arg list \<Rightarrow> string \<Rightarrow> ('w, js) io"
  sv_fetch :: "string \<Rightarrow> ('w, bool \<times> int \<times> js) io"
  sv_now :: "'w \<Rightarrow> int \<times> 'w"
  sv_isoNow :: "'w \<Rightarrow> string \<times> 'w"
  sv_uuid :: "'w \<Rightarrow> string \<times> 'w"
  sv_sha256 :: "string \<Rightarrow> string"
  sv_addressOfKey :: "string \<Rightarrow> network_name \<Rightarrow> string result"
  sv_complete :: "string \<Rightarrow> string \<Rightarrow> string \<Rightarrow> ('w, string option) io"
  sv_makeCall :: "contract_call \<Rightarrow> ('w, string) io"
  sv_broadcast :: "string \<Rightarrow> ('w, (string + string)) io"
  sv_sleep :: "int \<Rightarrow> 'w \<Rightarrow> 'w"
  sv_fetchText :: "string \<Rightarrow> ('w, bool \<times> int \<times> string) io"
  sv_settled :: "'w \<Rightarrow> nat list \<times> 'w"
  sv_timedOut :: "'w \<Rightarrow> bool \<times> 'w"
  sv_stream :: "string \<Rightarrow> string \<Rightarrow> (string \<times> string) list \<Rightarrow> 'w \<Rightarrow> (string list \<times> js_error option) \<times> 'w"
  sv_bigintToJSON :: bool

definition io_of :: "('w \<Rightarrow> 'a \<times> 'w) \<Rightarrow> ('w, 'a) io" where
  "io_of f = (\<lambda>w. case f w of (x, w') \<Rightarrow> (Inr x, w'))"

section \<open>The state of the agent process\<close>

text \<open>
  The decision file (absent or not parseable is \<open>None\<close>), the error writing to the disk raises, if
  any, the trace of what the process did with the executor's key, and the outside world.
\<close>

datatype 'c effect =
    KeyRead
  | Signed 'c
  | Broadcast string

record 'w host =
  hs_file :: "decision_record list option"
  hs_diskError :: "string option"
  hs_effects :: "contract_call effect list"
  hs_ext :: 'w

text \<open>A computation of the outside world, run by the process.\<close>

definition outside :: "('w, 'a) io \<Rightarrow> ('w host, 'a) io" where
  "outside m = (\<lambda>h. case m (hs_ext h) of (r, w) \<Rightarrow> (r, h\<lparr>hs_ext := w\<rparr>))"

definition emit_effect :: "contract_call effect \<Rightarrow> ('w host, unit) io" where
  "emit_effect e = (\<lambda>h. (Inr (), h\<lparr>hs_effects := hs_effects h @ [e]\<rparr>))"

lemma outside_frame:
  "outside m h = (r, h') \<Longrightarrow>
   hs_file h' = hs_file h \<and> hs_diskError h' = hs_diskError h \<and> hs_effects h' = hs_effects h"
  by (auto simp: outside_def split: prod.splits)

lemma outside_keeps [io_frame]:
  "io_keeps hs_file (outside m)" "io_keeps hs_diskError (outside m)" "io_keeps hs_effects (outside m)"
  by (simp_all add: io_keeps_def outside_def split: prod.split)

lemma emit_effect_keeps [io_frame]:
  "io_keeps hs_file (emit_effect e)" "io_keeps hs_diskError (emit_effect e)" "io_keeps hs_ext (emit_effect e)"
  by (simp_all add: io_keeps_def emit_effect_def)

end
