(* ===== verification/Agent_Config.thy ===== *)
theory Agent_Config
  imports Agent_Types
begin

text \<open>
  Configuration of the agent (agent/src/config.ts) from the environment of the process, and
  the sanitising of untrusted text (agent/src/safety/untrustedData.ts).
\<close>

type_synonym process_env = "string \<rightharpoonup> string"

text \<open>\<open>process.env.X || d\<close>: the default also replaces an empty value.\<close>

definition env_or :: "process_env \<Rightarrow> string \<Rightarrow> string \<Rightarrow> string" where
  "env_or env k d = (case env k of Some v \<Rightarrow> if v = [] then d else v | None \<Rightarrow> d)"

definition requireEnv :: "process_env \<Rightarrow> string \<Rightarrow> string result" where
  "requireEnv env k =
     (case env k of
        Some v \<Rightarrow> if v = [] then Inl (JsError (''Missing required env var '' @ k @ ''. See agent/.env.example.''))
                  else Inr v
      | None \<Rightarrow> Inl (JsError (''Missing required env var '' @ k @ ''. See agent/.env.example.'')))"

record agent_config =
  cf_env :: process_env
  cf_network :: network_name
  cf_stacksApiUrl :: string
  cf_port :: int
  cf_deployerAddress :: string
  cf_sbtcContract :: string
  cf_sbtcContractName :: string
  cf_executorPrivateKey :: "string option"
  cf_executorAddressOverride :: "string option"
  cf_intentDeadlineWindowBlocks :: int
  cf_anthropicApiKey :: "string option"

text \<open>
  The module's \<open>config\<close> object. \<open>cf_env\<close> keeps the environment it was read from, which
  \<open>requireEnv\<close> consults again at call time.
\<close>

definition load_config :: "process_env \<Rightarrow> agent_config result" where
  "load_config env =
     js_try (number_of_string (env_or env ''PORT'' ''4021'')) (\<lambda>port.
     js_try (number_of_string (env_or env ''INTENT_DEADLINE_WINDOW_BLOCKS'' ''20'')) (\<lambda>window.
     Inr \<lparr> cf_env = env,
           cf_network = env_or env ''NETWORK'' ''testnet'',
           cf_stacksApiUrl = env_or env ''STACKS_API_URL'' ''https://api.testnet.hiro.so'',
           cf_port = port,
           cf_deployerAddress = env_or env ''DEPLOYER_ADDRESS'' [],
           cf_sbtcContract =
             env_or env ''SBTC_CONTRACT_ADDRESS'' ''SN3VMHXEN64ZZF71JQ5VESXDWTR301XTTXGF4J8F1'',
           cf_sbtcContractName = env_or env ''SBTC_CONTRACT_NAME'' ''sbtc-token'',
           cf_executorPrivateKey = env ''EXECUTOR_PRIVATE_KEY'',
           cf_executorAddressOverride = env ''EXECUTOR_ADDRESS'',
           cf_intentDeadlineWindowBlocks = window,
           cf_anthropicApiKey = env ''ANTHROPIC_API_KEY'' \<rparr>))"

definition DEPLOYED_CONTRACT_NAMES :: "(string \<times> string) list" where
  "DEPLOYED_CONTRACT_NAMES =
     [(''protocol-admin'', ''sovereignty-protocol-admin-v4''),
      (''agent-registry'', ''agent-registry-v4''),
      (''strategy-registry'', ''strategy-registry-v6''),
      (''risk-guard'', ''risk-guard-v7''),
      (''sovereignty-vault'', ''sovereignty-vault-v7''),
      (''receipt-token'', ''receipt-token-v7''),
      (''execution-engine'', ''execution-engine-v7''),
      (''sip-010-trait'', ''sip-010-trait-v4''),
      (''strategy-trait'', ''strategy-trait-v4'')]"

definition contractId :: "agent_config \<Rightarrow> string \<Rightarrow> string result" where
  "contractId cfg logicalName =
     (if cf_deployerAddress cfg = [] then
        Inl (JsError (''DEPLOYER_ADDRESS is not set. The protocol has not been deployed to this network yet, ''
          @ ''or the agent has not been configured with its address. Refusing to proceed with a guess.''))
      else
        Inr (cf_deployerAddress cfg @ ''.'' @
             (case map_of DEPLOYED_CONTRACT_NAMES logicalName of Some n \<Rightarrow> n | None \<Rightarrow> logicalName)))"

definition truthy_text :: "string option \<Rightarrow> bool" where
  "truthy_text v \<longleftrightarrow> (case v of Some s \<Rightarrow> s \<noteq> [] | None \<Rightarrow> False)"

lemma truthy_text_simps [simp]: "\<not> truthy_text None" "truthy_text (Some t) \<longleftrightarrow> t \<noteq> []"
  by (simp_all add: truthy_text_def)

definition executorAddress :: "'w services \<Rightarrow> agent_config \<Rightarrow> string option result" where
  "executorAddress sv cfg =
     (if truthy_text (cf_executorAddressOverride cfg) then Inr (cf_executorAddressOverride cfg)
      else if truthy_text (cf_executorPrivateKey cfg)
      then js_try (sv_addressOfKey sv (the (cf_executorPrivateKey cfg)) (cf_network cfg)) (\<lambda>a. Inr (Some a))
      else Inr None)"

definition requireExecutorKey :: "agent_config \<Rightarrow> string result" where
  "requireExecutorKey cfg = requireEnv (cf_env cfg) ''EXECUTOR_PRIVATE_KEY''"

lemma contractId_Inr:
  "contractId cfg n = Inr c \<longleftrightarrow>
     cf_deployerAddress cfg \<noteq> [] \<and>
     c = cf_deployerAddress cfg @ ''.'' @ (case map_of DEPLOYED_CONTRACT_NAMES n of Some m \<Rightarrow> m | None \<Rightarrow> n)"
  by (auto simp: contractId_def)

lemma contractId_unset: "cf_deployerAddress cfg = [] \<Longrightarrow> \<exists>m. contractId cfg n = Inl (JsError m)"
  by (simp add: contractId_def)

section \<open>Untrusted data\<close>

definition MAX_DISPLAY_LENGTH :: nat where
  "MAX_DISPLAY_LENGTH = 128"

definition is_control :: "char \<Rightarrow> bool" where
  "is_control c \<longleftrightarrow> (of_char c :: nat) \<le> 31 \<or> (of_char c :: nat) = 127"

definition sanitizeForDisplay :: "string \<Rightarrow> string" where
  "sanitizeForDisplay input = take MAX_DISPLAY_LENGTH (filter (\<lambda>c. \<not> is_control c) input)"

lemma sanitize_length: "length (sanitizeForDisplay s) \<le> 128"
  by (simp add: sanitizeForDisplay_def MAX_DISPLAY_LENGTH_def)

lemma sanitize_printable: "c \<in> set (sanitizeForDisplay s) \<Longrightarrow> \<not> is_control c"
  by (auto simp: sanitizeForDisplay_def dest: in_set_takeD)

lemma sanitize_clean: "list_all (\<lambda>c. \<not> is_control c) s \<Longrightarrow> sanitizeForDisplay s = take 128 s"
  by (simp add: sanitizeForDisplay_def MAX_DISPLAY_LENGTH_def filter_id_conv list_all_iff)

end
