(* ===== verification/Decision_Engine.thy ===== *)
theory Decision_Engine
  imports Agent_Config
begin

text \<open>
  The deterministic analysis of one asset pool (agent/src/analysis/decisionEngine.ts): the
  recommendation, its sizing, and the views of the current and the proposed allocation.
\<close>

definition ASSET_LABEL :: "asset \<Rightarrow> string" where
  "ASSET_LABEL a = (if a = ''STX'' then ''STX'' else if a = ''SBTC'' then ''sBTC'' else ''undefined'')"

definition ASSET_UNIT :: "asset \<Rightarrow> string" where
  "ASSET_UNIT a = (if a = ''STX'' then ''microSTX'' else if a = ''SBTC'' then ''sats'' else ''undefined'')"

definition BPS :: int where
  "BPS = 10000"

text \<open>\<open>a / b\<close> on \<open>bigint\<close>s with a non-zero divisor truncates towards zero.\<close>

definition big_div :: "int \<Rightarrow> int \<Rightarrow> int" where
  "big_div a b = sgn a * sgn b * (\<bar>a\<bar> div \<bar>b\<bar>)"

lemma big_div_nonneg: "0 \<le> a \<Longrightarrow> 0 < b \<Longrightarrow> big_div a b = a div b"
  by (cases "a = 0") (simp_all add: big_div_def)

definition alloc_of :: "vault_snapshot \<Rightarrow> strategy_id \<Rightarrow> int" where
  "alloc_of vault sid = get_or 0 (vs_allocations vault) sid"

definition assetStrategies :: "vault_snapshot \<Rightarrow> protocol_context \<Rightarrow> strategy_snapshot list" where
  "assetStrategies vault ctx = filter (\<lambda>s. ss_asset s = vs_asset vault) (pc_activeStrategies ctx)"

section \<open>The sizing of an allocation\<close>

definition maxExposureAmount :: "vault_snapshot \<Rightarrow> int" where
  "maxExposureAmount vault =
     big_div (vs_totalBalance vault * rc_maxExposureBps (vs_riskConfig vault)) BPS"

definition maxProtocolAmount :: "vault_snapshot \<Rightarrow> strategy_snapshot \<Rightarrow> int" where
  "maxProtocolAmount vault s = big_div (vs_totalBalance vault * ss_maxAllocationBps s) BPS"

definition minLiquidityReserve :: "vault_snapshot \<Rightarrow> int" where
  "minLiquidityReserve vault =
     big_div (vs_totalBalance vault * rc_minIdleBps (vs_riskConfig vault) + BPS - 1) BPS"

definition sized_amount :: "vault_snapshot \<Rightarrow> strategy_snapshot \<Rightarrow> int" where
  "sized_amount vault s =
     (let cur = alloc_of vault (ss_strategyId s);
          roomUnderExposureCap = maxExposureAmount vault - cur;
          maxProtocol = maxProtocolAmount vault s;
          roomUnderProtocolCap = (if maxProtocol > cur then maxProtocol - cur else 0);
          reserve = minLiquidityReserve vault;
          idleAfterReserve = (if vs_idleBalance vault > reserve then vs_idleBalance vault - reserve else 0);
          a0 = idleAfterReserve;
          a1 = (if a0 > roomUnderExposureCap then roomUnderExposureCap else a0);
          a2 = (if a1 > roomUnderProtocolCap then roomUnderProtocolCap else a1)
      in if a2 > rc_maxTxAmount (vs_riskConfig vault) then rc_maxTxAmount (vs_riskConfig vault) else a2)"

section \<open>The recommendation\<close>

definition hold :: "vault_snapshot \<Rightarrow> string \<Rightarrow> string \<Rightarrow> rat \<Rightarrow> string \<Rightarrow> recommendation" where
  "hold vault now reason confidence riskAssessment =
     \<lparr> rec_decision = HOLD, rec_vaultId = vs_vaultId vault, rec_asset = vs_asset vault,
       rec_destStrategyId = None, rec_amount = None, rec_reason = reason,
       rec_expectedBenefit = ''n/a'', rec_riskAssessment = riskAssessment,
       rec_confidence = confidence, rec_maxSlippageBps = None, rec_deadline = None,
       rec_generatedAt = now \<rparr>"

definition reduce_exposure ::
    "vault_snapshot \<Rightarrow> string \<Rightarrow> strategy_snapshot \<Rightarrow> string \<Rightarrow> int \<Rightarrow> recommendation" where
  "reduce_exposure vault now s sname excess =
     \<lparr> rec_decision = REDUCE_EXPOSURE, rec_vaultId = vs_vaultId vault, rec_asset = vs_asset vault,
       rec_destStrategyId = Some (ss_strategyId s), rec_amount = Some (int_text excess),
       rec_reason = sname @ '' currently holds more '' @ ASSET_LABEL (vs_asset vault)
         @ '' than your configured '' @ percent_text (rc_maxExposureBps (vs_riskConfig vault))
         @ ''% per-strategy cap allows; '' @ int_text excess @ '' '' @ ASSET_UNIT (vs_asset vault)
         @ '' exceeds it.'',
       rec_expectedBenefit = ''Brings the vault back inside the limits its owner configured.'',
       rec_riskAssessment = ''Advisory only: unwinding a strategy position requires an owner-signed action ''
         @ ''that the protocol does not yet automate.'',
       rec_confidence = 1, rec_maxSlippageBps = None, rec_deadline = None, rec_generatedAt = now \<rparr>"

definition rebalance ::
    "agent_config \<Rightarrow> vault_snapshot \<Rightarrow> protocol_context \<Rightarrow> string \<Rightarrow> strategy_snapshot \<Rightarrow> string \<Rightarrow> int \<Rightarrow> recommendation" where
  "rebalance cfg vault ctx now s sname amount =
     (let label = ASSET_LABEL (vs_asset vault); unit = ASSET_UNIT (vs_asset vault);
          cap = percent_text (rc_maxExposureBps (vs_riskConfig vault));
          idle = percent_text (rc_minIdleBps (vs_riskConfig vault)) in
     \<lparr> rec_decision = REBALANCE, rec_vaultId = vs_vaultId vault, rec_asset = vs_asset vault,
       rec_destStrategyId = Some (ss_strategyId s), rec_amount = Some (int_text amount),
       rec_reason = ''Idle '' @ label @ '' detected ('' @ int_text (vs_idleBalance vault) @ '' '' @ unit
         @ '') with an active, protocol-approved strategy ('' @ quote @ sname @ quote
         @ ''). Proposing an allocation within your configured per-strategy cap ('' @ cap
         @ ''%), minimum idle liquidity ('' @ idle @ ''%) and transaction-size limits.'',
       rec_expectedBenefit = ''No verified real-time yield signal is available for this strategy on this ''
         @ ''network (see docs/strategies.md) - this recommendation reflects capital deployment within ''
         @ ''configured bounds, not a yield forecast.'',
       rec_riskAssessment = ''Resulting allocation stays within your '' @ cap
         @ ''% per-strategy cap, keeps at least '' @ idle @ ''% idle, and stays within the protocol''
         @ [CHR 0x27] @ ''s '' @ percent_text (ss_maxAllocationBps s)
         @ ''% cap for this strategy; Clarity will independently re-verify every one of these numbers on-chain.'',
       rec_confidence = 3 / 5,
       rec_maxSlippageBps = Some (rc_maxSlippageBps (vs_riskConfig vault)),
       rec_deadline = Some (js_add (pc_blockHeight ctx) (cf_intentDeadlineWindowBlocks cfg)),
       rec_generatedAt = now \<rparr>)"

definition analyze ::
    "agent_config \<Rightarrow> string \<Rightarrow> vault_snapshot \<Rightarrow> protocol_context \<Rightarrow> recommendation" where
  "analyze cfg now vault ctx =
     (let label = ASSET_LABEL (vs_asset vault) in
      if pc_protocolPaused ctx then
        hold vault now ''Protocol is currently paused by governance. No new allocation is possible.'' 0
          (''n/a - new allocations are blocked at the protocol level regardless of any recommendation.'')
      else if \<not> vs_supportsAsset vault then
        hold vault now (''This vault was not created to hold '' @ label
          @ '', so there is nothing to analyse for it.'') 1 ''n/a''
      else if vs_paused vault then
        hold vault now (''This vault is paused by its owner. No new allocation is possible until it is unpaused.'') 1 ''n/a''
      else if vs_totalBalance vault \<le> 0 then
        hold vault now (''This vault holds no '' @ label @ '' yet, so there is no capital to allocate.'') 1 ''n/a''
      else (case assetStrategies vault ctx of
        [] \<Rightarrow>
          hold vault now (''No '' @ label @ '' strategy is currently registered and active in strategy-registry on ''
            @ ''this network. There is nowhere approved to allocate idle '' @ label
            @ '', so all funds correctly remain idle.'') 1 ''n/a''
      | s # _ \<Rightarrow>
          (let sname = sanitizeForDisplay (ss_name s);
               cur = alloc_of vault (ss_strategyId s);
               maxExposure = maxExposureAmount vault in
           if cur > maxExposure then reduce_exposure vault now s sname (cur - maxExposure)
           else if vs_idleBalance vault \<le> 0 then
             hold vault now (''Vault has no idle '' @ label @ '' available to allocate.'') 1 ''n/a''
           else
             (let amount = sized_amount vault s in
              if amount \<le> 0 then
                hold vault now (''Vault is already at or near its configured limits for '' @ sname @ '' (''
                  @ percent_text (rc_maxExposureBps (vs_riskConfig vault)) @ ''% per-strategy cap, ''
                  @ percent_text (rc_minIdleBps (vs_riskConfig vault)) @ ''% minimum idle liquidity); no further ''
                  @ label @ '' allocation fits.'') 1
                  ''Existing allocation already respects configured limits; no action needed.''
              else rebalance cfg vault ctx now s sname amount))))"

section \<open>Allocation views\<close>

definition bpsOf :: "int \<Rightarrow> int \<Rightarrow> int" where
  "bpsOf part whole = (if whole \<le> 0 then 0 else js_Number (big_div (part * BPS) whole))"

definition allocation_entry_of :: "vault_snapshot \<Rightarrow> strategy_snapshot \<Rightarrow> int \<Rightarrow> allocation_entry" where
  "allocation_entry_of vault s amount =
     \<lparr> ae_strategyId = ss_strategyId s, ae_name = sanitizeForDisplay (ss_name s),
       ae_bps = bpsOf amount (vs_totalBalance vault), ae_amount = int_text amount \<rparr>"

definition currentAllocation :: "vault_snapshot \<Rightarrow> protocol_context \<Rightarrow> allocation_view option" where
  "currentAllocation vault ctx =
     (if vs_totalBalance vault \<le> 0 then None
      else Some \<lparr> av_idleBps = bpsOf (vs_idleBalance vault) (vs_totalBalance vault),
                  av_strategies = map (\<lambda>s. allocation_entry_of vault s (alloc_of vault (ss_strategyId s)))
                                      (assetStrategies vault ctx) \<rparr>)"

text \<open>\<open>BigInt(rec.amount)\<close> throws when the amount is no integer.\<close>

definition proposedAllocation ::
    "vault_snapshot \<Rightarrow> protocol_context \<Rightarrow> recommendation \<Rightarrow> allocation_view option result" where
  "proposedAllocation vault ctx r =
     (if rec_decision r \<noteq> REBALANCE \<or> \<not> truthy_text (rec_amount r) \<or> rec_destStrategyId r = None then Inr None
      else js_try (bigint_of_string (the (rec_amount r))) (\<lambda>amount.
        Inr (Some \<lparr> av_idleBps = bpsOf (vs_idleBalance vault - amount) (vs_totalBalance vault),
                    av_strategies = map (\<lambda>s. allocation_entry_of vault s
                        (alloc_of vault (ss_strategyId s)
                         + (if Some (ss_strategyId s) = rec_destStrategyId r then amount else 0)))
                      (assetStrategies vault ctx) \<rparr>)))"

section \<open>What the engine decides\<close>

text \<open>The first active strategy of the pool's asset, the only one the engine considers.\<close>

definition candidate :: "vault_snapshot \<Rightarrow> protocol_context \<Rightarrow> strategy_snapshot option" where
  "candidate vault ctx = List.find (\<lambda>s. ss_asset s = vs_asset vault) (pc_activeStrategies ctx)"

lemma assetStrategies_Cons: "assetStrategies vault ctx = s # ss \<Longrightarrow> candidate vault ctx = Some s"
  by (simp add: candidate_def assetStrategies_def find_filter_hd)

lemma assetStrategies_Nil: "assetStrategies vault ctx = [] \<Longrightarrow> candidate vault ctx = None"
  by (simp add: candidate_def assetStrategies_def find_None_iff filter_empty_conv)

lemma hold_fields [simp]:
  "rec_decision (hold v n r c k) = HOLD" "rec_amount (hold v n r c k) = None"
  "rec_vaultId (hold v n r c k) = vs_vaultId v" "rec_asset (hold v n r c k) = vs_asset v"
  by (simp_all add: hold_def)

lemma reduce_fields [simp]:
  "rec_decision (reduce_exposure v n s m e) = REDUCE_EXPOSURE"
  "rec_destStrategyId (reduce_exposure v n s m e) = Some (ss_strategyId s)"
  "rec_amount (reduce_exposure v n s m e) = Some (int_text e)"
  "rec_vaultId (reduce_exposure v n s m e) = vs_vaultId v" "rec_asset (reduce_exposure v n s m e) = vs_asset v"
  by (simp_all add: reduce_exposure_def)

lemma rebalance_fields [simp]:
  "rec_decision (rebalance f v c n s m a) = REBALANCE"
  "rec_destStrategyId (rebalance f v c n s m a) = Some (ss_strategyId s)"
  "rec_amount (rebalance f v c n s m a) = Some (int_text a)"
  "rec_vaultId (rebalance f v c n s m a) = vs_vaultId v" "rec_asset (rebalance f v c n s m a) = vs_asset v"
  "rec_maxSlippageBps (rebalance f v c n s m a) = Some (rc_maxSlippageBps (vs_riskConfig v))"
  "rec_deadline (rebalance f v c n s m a) = Some (js_add (pc_blockHeight c) (cf_intentDeadlineWindowBlocks f))"
  by (simp_all add: rebalance_def Let_def)

lemma analyze_same_pool:
  "rec_vaultId (analyze cfg now vault ctx) = vs_vaultId vault"
  "rec_asset (analyze cfg now vault ctx) = vs_asset vault"
  by (simp_all add: analyze_def Let_def split: list.splits)

text \<open>The engine recommends an allocation exactly when every condition for one holds.\<close>

definition ready_to_allocate :: "vault_snapshot \<Rightarrow> protocol_context \<Rightarrow> strategy_snapshot \<Rightarrow> bool" where
  "ready_to_allocate vault ctx s \<longleftrightarrow>
     \<not> pc_protocolPaused ctx \<and> vs_supportsAsset vault \<and> \<not> vs_paused vault \<and> 0 < vs_totalBalance vault \<and>
     candidate vault ctx = Some s \<and> alloc_of vault (ss_strategyId s) \<le> maxExposureAmount vault \<and>
     0 < vs_idleBalance vault \<and> 0 < sized_amount vault s"

lemma analyze_ready:
  "ready_to_allocate vault ctx s \<Longrightarrow>
   analyze cfg now vault ctx = rebalance cfg vault ctx now s (sanitizeForDisplay (ss_name s)) (sized_amount vault s)"
  by (cases "assetStrategies vault ctx")
     (auto simp: ready_to_allocate_def analyze_def Let_def dest: assetStrategies_Cons assetStrategies_Nil)

lemma analyze_REBALANCE_ready:
  assumes "rec_decision (analyze cfg now vault ctx) = REBALANCE"
  shows "\<exists>s. ready_to_allocate vault ctx s"
proof (cases "assetStrategies vault ctx")
  case Nil
  with assms show ?thesis by (simp add: analyze_def Let_def split: if_splits)
next
  case (Cons s ss)
  with assms have "ready_to_allocate vault ctx s"
    by (simp add: analyze_def Let_def ready_to_allocate_def assetStrategies_Cons split: if_splits)
  then show ?thesis ..
qed

lemma sized_amount_bounds:
  assumes "0 < sized_amount vault s"
  shows "alloc_of vault (ss_strategyId s) + sized_amount vault s \<le> maxExposureAmount vault"
    "alloc_of vault (ss_strategyId s) + sized_amount vault s \<le> maxProtocolAmount vault s"
    "minLiquidityReserve vault \<le> vs_idleBalance vault - sized_amount vault s"
    "sized_amount vault s \<le> rc_maxTxAmount (vs_riskConfig vault)"
  using assms by (auto simp: sized_amount_def Let_def split: if_splits)

end
