(* ===== verification/Build_Intent.thy ===== *)
theory Build_Intent
  imports Decision_Engine
begin

text \<open>
  From a recommendation to a structured intent and its hash (agent/src/intents/buildIntent.ts),
  and the service layer of the execution gate (agent/src/execution/gate.ts).
\<close>

section \<open>Building an intent\<close>

definition buildIntent :: "recommendation \<Rightarrow> vault_snapshot \<Rightarrow> execution_intent result" where
  "buildIntent r vault =
     (if rec_decision r \<noteq> REBALANCE then
        Inl (InsufficientDataError (''Cannot build an intent from a '' @ decision_text (rec_decision r)
          @ '' recommendation.''))
      else if rec_destStrategyId r = None \<or> \<not> truthy_text (rec_amount r) \<or> rec_maxSlippageBps r = None
              \<or> rec_deadline r = None then
        Inl (InsufficientDataError ''Recommendation is missing required fields for a REBALANCE intent.'')
      else js_try (bigint_of_string (the (rec_amount r))) (\<lambda>amount.
        if amount \<le> 0 then Inl (InsufficientDataError ''Recommended amount must be positive.'')
        else Inr \<lparr> ei_vaultId = vs_vaultId vault, ei_action = ''REBALANCE'', ei_asset = rec_asset r,
                   ei_sourceStrategy = ''idle'', ei_destStrategyId = the (rec_destStrategyId r),
                   ei_amount = amount, ei_maxSlippageBps = the (rec_maxSlippageBps r),
                   ei_maxExposureBps = rc_maxExposureBps (vs_riskConfig vault),
                   ei_nonce = js_add (rc_lastUsedNonce (vs_riskConfig vault)) 1,
                   ei_deadline = the (rec_deadline r) \<rparr>))"

lemma buildIntent_Inr:
  "buildIntent r vault = Inr i \<longleftrightarrow>
     (\<exists>d t a m l. rec_decision r = REBALANCE \<and> rec_destStrategyId r = Some d \<and> rec_amount r = Some t \<and>
        t \<noteq> [] \<and> rec_maxSlippageBps r = Some m \<and> rec_deadline r = Some l \<and>
        bigint_of_string t = Inr a \<and> 0 < a \<and>
        i = \<lparr> ei_vaultId = vs_vaultId vault, ei_action = ''REBALANCE'', ei_asset = rec_asset r,
              ei_sourceStrategy = ''idle'', ei_destStrategyId = d, ei_amount = a, ei_maxSlippageBps = m,
              ei_maxExposureBps = rc_maxExposureBps (vs_riskConfig vault),
              ei_nonce = js_add (rc_lastUsedNonce (vs_riskConfig vault)) 1, ei_deadline = l \<rparr>)"
  by (auto simp: buildIntent_def js_try_Inr_iff truthy_text_def split: option.splits if_splits)
     (metis not_le)

section \<open>The hash of an intent\<close>

text \<open>The canonical text: \<open>JSON.stringify\<close> of the fields in the order of the source.\<close>

definition json_key :: "string \<Rightarrow> string" where
  "json_key k = quote @ k @ quote @ '':''"

definition canonical_intent :: "execution_intent \<Rightarrow> string" where
  "canonical_intent i =
     ''{'' @ json_key ''vaultId'' @ int_text (ei_vaultId i) @ '',''
     @ json_key ''action'' @ json_string (ei_action i) @ '',''
     @ json_key ''asset'' @ json_string (ei_asset i) @ '',''
     @ json_key ''sourceStrategy'' @ json_string (ei_sourceStrategy i) @ '',''
     @ json_key ''destStrategyId'' @ int_text (ei_destStrategyId i) @ '',''
     @ json_key ''amount'' @ json_string (int_text (ei_amount i)) @ '',''
     @ json_key ''maxSlippageBps'' @ int_text (ei_maxSlippageBps i) @ '',''
     @ json_key ''maxExposureBps'' @ int_text (ei_maxExposureBps i) @ '',''
     @ json_key ''nonce'' @ int_text (ei_nonce i) @ '',''
     @ json_key ''deadline'' @ int_text (ei_deadline i) @ ''}''"

definition hashIntent :: "'w services \<Rightarrow> execution_intent \<Rightarrow> string" where
  "hashIntent sv i = sv_sha256 sv (canonical_intent i)"

section \<open>The execution gate of the service\<close>

definition TESTNET_BLOCK_REASON :: string where
  "TESTNET_BLOCK_REASON =
     ''SovereigntyAI is currently operating on Stacks Testnet using testnet assets. ''
     @ ''Autonomous strategy execution is disabled for the current testnet environment.''"

definition executionBlockedReason :: "agent_config \<Rightarrow> execution_environment \<Rightarrow> string option" where
  "executionBlockedReason cfg env =
     (if cf_network cfg \<noteq> ''mainnet'' then Some TESTNET_BLOCK_REASON
      else if ee_network env \<noteq> MAINNET then Some TESTNET_BLOCK_REASON
      else if \<not> ee_strategyExecutionEnabled env
      then Some ''Strategy execution has not been armed by protocol governance on this network.''
      else None)"

definition assertExecutionAllowed :: "agent_config \<Rightarrow> execution_environment \<Rightarrow> unit result" where
  "assertExecutionAllowed cfg env =
     (case executionBlockedReason cfg env of
        Some reason \<Rightarrow> Inl (ExecutionBlockedError reason)
      | None \<Rightarrow> Inr ())"

lemma executionBlockedReason_None:
  "executionBlockedReason cfg env = None \<longleftrightarrow>
     cf_network cfg = ''mainnet'' \<and> ee_network env = MAINNET \<and> ee_strategyExecutionEnabled env"
  by (simp add: executionBlockedReason_def)

lemma assertExecutionAllowed_Inr:
  "assertExecutionAllowed cfg env = Inr () \<longleftrightarrow>
     cf_network cfg = ''mainnet'' \<and> ee_network env = MAINNET \<and> ee_strategyExecutionEnabled env"
  by (simp add: assertExecutionAllowed_def executionBlockedReason_None split: option.splits)
     (metis executionBlockedReason_None not_None_eq)

lemma testnet_blocked: "cf_network cfg \<noteq> ''mainnet'' \<Longrightarrow>
   assertExecutionAllowed cfg env = Inl (ExecutionBlockedError TESTNET_BLOCK_REASON)"
  by (simp add: assertExecutionAllowed_def executionBlockedReason_def)

section \<open>The canonical text determines the intent\<close>

lemma canonical_intent_inject:
  assumes "canonical_intent i = canonical_intent j"
  shows "i = j"
proof -
  have tail: "int_text a @ ''}'' = int_text b @ ''}'' \<longleftrightarrow> a = b" for a b
    by simp
  show ?thesis
    using assms unfolding canonical_intent_def
    by (intro execution_intent.equality)
       (simp_all add: int_text_stop json_string_stop comma_stop tail)
qed

end
