(* ===== verification/Decision_Store.thy ===== *)
theory Decision_Store
  imports Build_Intent
begin

text \<open>
  The decision log of the agent (agent/src/store.ts): a JSON file of the 500 latest records,
  newest first. The file is modelled by the list of records \<open>JSON.parse\<close> reads back.
\<close>

definition load :: "'w host \<Rightarrow> decision_record list" where
  "load h = (case hs_file h of Some rs \<Rightarrow> rs | None \<Rightarrow> [])"

text \<open>
  \<open>JSON.stringify(records, null, 2)\<close> has no replacer: the \<open>bigint\<close> amount of an intent makes it
  throw, unless \<open>BigInt.prototype.toJSON\<close> is defined.
\<close>

definition serializable :: "'w services \<Rightarrow> decision_record list \<Rightarrow> bool" where
  "serializable sv rs \<longleftrightarrow> sv_bigintToJSON sv \<or> list_all (\<lambda>r. dr_intent r = None) rs"

definition persist :: "'w services \<Rightarrow> decision_record list \<Rightarrow> ('w host, unit) io" where
  "persist sv rs =
     (\<lambda>h. if \<not> serializable sv rs then (Inl (TypeError ''Do not know how to serialize a BigInt''), h)
          else (case hs_diskError h of
                  Some m \<Rightarrow> (Inl (JsError m), h)
                | None \<Rightarrow> (Inr (), h\<lparr>hs_file := Some rs\<rparr>)))"

definition push_record :: "decision_record \<Rightarrow> decision_record list \<Rightarrow> decision_record list" where
  "push_record r rs = take 500 (r # rs)"

definition recordDecision :: "'w services \<Rightarrow> decision_record \<Rightarrow> ('w host, decision_record) io" where
  "recordDecision sv r =
     io_bind (outside (io_of (sv_uuid sv))) (\<lambda>uuid.
     io_bind (outside (io_of (sv_isoNow sv))) (\<lambda>now. \<lambda>h.
       let full = r\<lparr>dr_id := uuid, dr_timestamp := now\<rparr> in
       io_bind (persist sv (push_record full (load h))) (\<lambda>_. io_return full) h))"

text \<open>A \<open>Partial<DecisionRecord>\<close> is the function that overwrites its fields.\<close>

fun findIndex :: "('a \<Rightarrow> bool) \<Rightarrow> 'a list \<Rightarrow> nat option" where
  "findIndex P [] = None"
| "findIndex P (x # xs) = (if P x then Some 0 else map_option Suc (findIndex P xs))"

definition updateDecision ::
    "'w services \<Rightarrow> string \<Rightarrow> (decision_record \<Rightarrow> decision_record) \<Rightarrow> ('w host, decision_record option) io" where
  "updateDecision sv rid patch =
     (\<lambda>h. let records = load h in
          (case findIndex (\<lambda>r. dr_id r = rid) records of
             None \<Rightarrow> (Inr None, h)
           | Some idx \<Rightarrow>
               let records' = records[idx := patch (records ! idx)] in
               io_bind (persist sv records') (\<lambda>_. io_return (Some (records' ! idx))) h))"

definition listDecisions :: "agent_config \<Rightarrow> int option \<Rightarrow> ('w host, decision_record list) io" where
  "listDecisions cfg vaultId =
     (\<lambda>h. case contractId cfg ''sovereignty-vault'' of
            Inl e \<Rightarrow> (Inl e, h)
          | Inr current \<Rightarrow>
              (let records = filter (\<lambda>r. dr_vaultContract r = current) (load h) in
               (Inr (case vaultId of None \<Rightarrow> records | Some v \<Rightarrow> filter (\<lambda>r. dr_vaultId r = v) records), h)))"

section \<open>A bounded log, newest first\<close>

text \<open>
  What the readers of the log rely on: an entry that is pushed comes first, the others keep
  their order, and never more than the bound are kept.
\<close>

locale bounded_log =
  fixes bound :: nat
    and push :: "'r \<Rightarrow> 'r list \<Rightarrow> 'r list"
  assumes bound_pos: "0 < bound"
    and push_newest: "push r rs = take bound (r # rs)"
begin

lemma push_length: "length (push r rs) \<le> bound"
  by (simp add: push_newest)

lemma push_first: "push r rs ! 0 = r"
  using bound_pos by (simp add: push_newest)

lemma push_all: "fold push rs old = take bound (rev rs @ old)" if "length old \<le> bound"
  using that
proof (induction rs arbitrary: old)
  case Nil
  then show ?case by simp
next
  case (Cons r rs)
  have "fold push (r # rs) old = take bound (rev rs @ push r old)"
    using Cons.IH [of "push r old"] push_length by simp
  also have "\<dots> = take bound (rev (r # rs) @ old)"
    by (simp add: push_newest take_append min_def)
  finally show ?case .
qed

lemma history: "fold push rs [] = take bound (rev rs)"
  using push_all [of "[]" rs] by simp

end

interpretation decisions: bounded_log 500 push_record
  by unfold_locales (simp_all add: push_record_def)

section \<open>Operations on the log\<close>

lemma findIndex_Some:
  "findIndex P xs = Some i \<Longrightarrow> i < length xs \<and> P (xs ! i) \<and> (\<forall>j<i. \<not> P (xs ! j))"
proof (induction xs arbitrary: i)
  case Nil
  then show ?case by simp
next
  case (Cons x xs)
  then show ?case
    by (cases i) (auto simp: less_Suc_eq_0_disj split: if_splits)
qed

lemma findIndex_None: "findIndex P xs = None \<longleftrightarrow> (\<forall>x\<in>set xs. \<not> P x)"
  by (induction xs) auto

lemma findIndex_head: "P x \<Longrightarrow> findIndex P (x # xs) = Some 0"
  by simp

lemma persist_Inr:
  "persist sv rs h = (Inr u, h') \<longleftrightarrow>
     serializable sv rs \<and> hs_diskError h = None \<and> h' = h\<lparr>hs_file := Some rs\<rparr>"
  by (auto simp: persist_def split: option.splits if_splits)

lemma persist_Inl: "persist sv rs h = (Inl e, h') \<Longrightarrow> h' = h"
  by (auto simp: persist_def split: option.splits if_splits)

lemma load_write [simp]: "load (h\<lparr>hs_file := Some rs\<rparr>) = rs"
  by (simp add: load_def)

lemma load_outside: "outside m h = (r, h') \<Longrightarrow> load h' = load h"
  using outside_frame by (fastforce simp: load_def)

lemma load_ext [simp]: "load (h\<lparr>hs_ext := w\<rparr>) = load h"
  by (simp add: load_def)

definition file_bounded :: "'w host \<Rightarrow> bool" where
  "file_bounded h \<longleftrightarrow> length (load h) \<le> 500"

text \<open>The result of recording, as one equation.\<close>

lemma recordDecision_eq:
  "recordDecision sv r h =
     (let (uuid, w1) = sv_uuid sv (hs_ext h); (now, w2) = sv_isoNow sv w1;
          full = r\<lparr>dr_id := uuid, dr_timestamp := now\<rparr>; h2 = h\<lparr>hs_ext := w2\<rparr> in
      if \<not> serializable sv (push_record full (load h))
      then (Inl (TypeError ''Do not know how to serialize a BigInt''), h2)
      else (case hs_diskError h of
              Some m \<Rightarrow> (Inl (JsError m), h2)
            | None \<Rightarrow> (Inr full, h2\<lparr>hs_file := Some (push_record full (load h))\<rparr>)))"
  by (auto simp: recordDecision_def io_bind_def io_of_def outside_def io_return_def persist_def Let_def
      split: prod.splits sum.splits option.splits)

lemma recordDecision_effects:
  "recordDecision sv r h = (x, h') \<Longrightarrow> hs_effects h' = hs_effects h"
  by (auto simp: recordDecision_eq Let_def split: prod.splits if_splits option.splits)

lemma updateDecision_effects:
  "updateDecision sv rid p h = (x, h') \<Longrightarrow> hs_effects h' = hs_effects h \<and> hs_ext h' = hs_ext h"
  by (auto simp: updateDecision_def io_bind_def io_return_def persist_def Let_def
      split: prod.splits sum.splits option.splits if_splits)

lemma recordDecision_bigint:
  "\<not> sv_bigintToJSON sv \<Longrightarrow> dr_intent r = Some i \<Longrightarrow>
   fst (recordDecision sv r h) = Inl (TypeError ''Do not know how to serialize a BigInt'')
   \<and> hs_file (snd (recordDecision sv r h)) = hs_file h"
  by (simp add: recordDecision_eq serializable_def push_record_def Let_def split: prod.splits)

lemma recordDecision_bounded:
  "file_bounded h \<Longrightarrow> file_bounded (snd (recordDecision sv r h))"
  by (auto simp: recordDecision_eq file_bounded_def Let_def decisions.push_length
      split: prod.splits option.splits)

lemma updateDecision_bounded:
  "file_bounded h \<Longrightarrow> file_bounded (snd (updateDecision sv rid p h))"
  by (auto simp: updateDecision_def file_bounded_def io_bind_def io_return_def persist_def Let_def
      split: option.splits)

end
