(* ===== verification/Protocol_State.thy ===== *)
theory Protocol_State
  imports Decision_Store
begin

text \<open>
  What the agent reads from the chain: agent/src/data/stacksClient.ts and
  agent/src/data/protocolState.ts. The reader of contracts and \<open>fetch\<close> are services; every
  function here decodes the JSON form of a Clarity value and throws where the code does.
\<close>

section \<open>The API client\<close>

definition apiGet :: "'w services \<Rightarrow> agent_config \<Rightarrow> string \<Rightarrow> ('w, js) io" where
  "apiGet sv cfg path =
     io_bind (sv_fetch sv (cf_stacksApiUrl cfg @ path)) (\<lambda>(ok, status, body).
       if \<not> ok then io_throw (JsError (''Stacks API '' @ path @ '' returned HTTP '' @ int_text status))
       else io_return body)"

definition getChainInfo :: "'w services \<Rightarrow> agent_config \<Rightarrow> ('w, int \<times> int) io" where
  "getChainInfo sv cfg =
     io_bind (apiGet sv cfg ''/extended/v1/status'') (\<lambda>info.
     io_bind (io_lift (js_try (js_get info ''stacks_tip_height'') as_number)) (\<lambda>tip.
     io_bind (io_lift (js_try (js_get info ''burn_block_height'') as_number)) (\<lambda>burn.
     io_return (tip, burn))))"

definition getBlockHeight :: "'w services \<Rightarrow> agent_config \<Rightarrow> ('w, int) io" where
  "getBlockHeight sv cfg = io_bind (getChainInfo sv cfg) (\<lambda>(tip, _). io_return tip)"

definition getStxBalance :: "'w services \<Rightarrow> agent_config \<Rightarrow> string \<Rightarrow> ('w, int) io" where
  "getStxBalance sv cfg address =
     io_bind (apiGet sv cfg (''/extended/v1/address/'' @ address @ ''/stx'')) (\<lambda>d.
     io_lift (js_try (js_get d ''balance'') to_bigint))"

definition callReadOnly ::
    "'w services \<Rightarrow> agent_config \<Rightarrow> string \<Rightarrow> string \<Rightarrow> string \<Rightarrow> cl_arg list \<Rightarrow> string \<Rightarrow> ('w, js) io" where
  "callReadOnly sv cfg addr cname fname args sender =
     sv_readOnly sv (cf_network cfg) addr cname fname args sender"

definition getTxStatus :: "'w services \<Rightarrow> agent_config \<Rightarrow> string \<Rightarrow> ('w, string \<times> js) io" where
  "getTxStatus sv cfg txId =
     io_bind (apiGet sv cfg (''/extended/v1/tx/'' @ txId)) (\<lambda>d.
     io_bind (io_lift (js_try (js_get d ''tx_status'') as_string)) (\<lambda>status.
     io_bind (io_lift (js_get d ''block_height'')) (\<lambda>bh. io_return (status, bh))))"

section \<open>Reading contracts\<close>

definition splitContract :: "string \<Rightarrow> (string \<times> string) result" where
  "splitContract cid =
     (case split_on (CHR ''.'') cid of
        addr # cname # _ \<Rightarrow> Inr (addr, cname)
      | _ \<Rightarrow> Inl (OutOfModel ''contract id without a name''))"

definition readOnly ::
    "'w services \<Rightarrow> agent_config \<Rightarrow> string \<Rightarrow> string \<Rightarrow> cl_arg list \<Rightarrow> string option \<Rightarrow> ('w, js) io" where
  "readOnly sv cfg contract fname args sender =
     io_bind (io_lift (splitContract contract)) (\<lambda>(addr, cname).
       callReadOnly sv cfg addr cname fname args (case sender of Some s \<Rightarrow> s | None \<Rightarrow> addr))"

text \<open>A read of one of the protocol's contracts by its logical name.\<close>

definition read_protocol ::
    "'w services \<Rightarrow> agent_config \<Rightarrow> string \<Rightarrow> string \<Rightarrow> cl_arg list \<Rightarrow> string option \<Rightarrow> ('w, js) io" where
  "read_protocol sv cfg logical fname args sender =
     io_bind (io_lift (contractId cfg logical)) (\<lambda>c. readOnly sv cfg c fname args sender)"

definition is_true :: "js \<Rightarrow> bool" where
  "is_true v \<longleftrightarrow> v = JBool True"

definition decode_environment :: "js \<Rightarrow> execution_environment result" where
  "decode_environment env =
     js_try (js_path env [''network'', ''value'']) (\<lambda>n.
     js_try (js_path env [''strategy-execution-enabled'', ''value'']) (\<lambda>e.
     Inr \<lparr> ee_network = (if n = JStr ''MAINNET'' then MAINNET else TESTNET),
           ee_strategyExecutionEnabled = is_true e \<rparr>))"

definition getExecutionEnvironment :: "'w services \<Rightarrow> agent_config \<Rightarrow> ('w, execution_environment) io" where
  "getExecutionEnvironment sv cfg =
     io_bind (read_protocol sv cfg ''risk-guard'' ''get-execution-environment'' [] None) (\<lambda>envJson.
     io_lift (js_try (js_get envJson ''value'') decode_environment))"

section \<open>The protocol context\<close>

definition decode_strategy :: "int \<Rightarrow> js \<Rightarrow> strategy_snapshot list result" where
  "decode_strategy sid entry =
     js_try (js_path entry [''active'', ''value'']) (\<lambda>act.
       if \<not> is_true act then Inr []
       else
         js_try (js_try (js_path entry [''name'', ''value'']) as_string) (\<lambda>nm.
         js_try (js_try (js_path entry [''strategy-contract'', ''value'']) as_string) (\<lambda>ct.
         js_try (js_try (js_path entry [''asset'', ''value'']) as_string) (\<lambda>ast.
         js_try (js_try (js_path entry [''max-allocation-bps'', ''value'']) to_number) (\<lambda>mx.
         Inr [\<lparr> ss_strategyId = sid, ss_name = nm, ss_contract = ct, ss_asset = ast, ss_active = True,
                ss_maxAllocationBps = mx \<rparr>])))))"

text \<open>The discovery loop: \<open>n\<close> probes from \<open>sid\<close> on, up to the first id that is not registered.\<close>

fun probe_strategies :: "'w services \<Rightarrow> agent_config \<Rightarrow> nat \<Rightarrow> int \<Rightarrow> ('w, strategy_snapshot list) io" where
  "probe_strategies sv cfg 0 sid = io_return []"
| "probe_strategies sv cfg (Suc n) sid =
     io_bind (read_protocol sv cfg ''strategy-registry'' ''get-strategy'' [ClUint sid] None) (\<lambda>entryJson.
     io_bind (io_lift (js_get entryJson ''value'')) (\<lambda>v.
       if v = JNull then io_return []
       else
         io_bind (io_lift (js_try (js_get v ''value'') (decode_strategy sid))) (\<lambda>here.
         io_bind (probe_strategies sv cfg n (sid + 1)) (\<lambda>rest. io_return (here @ rest)))))"

definition MAX_STRATEGY_PROBE :: nat where
  "MAX_STRATEGY_PROBE = 25"

definition decode_approved_asset :: "js \<Rightarrow> string option result" where
  "decode_approved_asset assetJson =
     js_try (js_get assetJson ''value'') (\<lambda>v.
       if truthy v then js_try (js_try (js_get v ''value'') as_string) (\<lambda>a. Inr (Some a)) else Inr None)"

definition getProtocolContext :: "'w services \<Rightarrow> agent_config \<Rightarrow> ('w, protocol_context) io" where
  "getProtocolContext sv cfg =
     io_bind (getChainInfo sv cfg) (\<lambda>(tip, _).
     io_bind (read_protocol sv cfg ''protocol-admin'' ''is-paused'' [] None) (\<lambda>pausedJson.
     io_bind (read_protocol sv cfg ''risk-guard'' ''get-approved-sbtc-asset'' [] None) (\<lambda>assetJson.
     io_bind (read_protocol sv cfg ''risk-guard'' ''get-execution-environment'' [] None) (\<lambda>envJson.
     io_bind (io_lift (js_get envJson ''value'')) (\<lambda>env.
     io_bind (probe_strategies sv cfg MAX_STRATEGY_PROBE 1) (\<lambda>active.
     io_bind (io_lift (js_get pausedJson ''value'')) (\<lambda>paused.
     io_bind (io_lift (decode_approved_asset assetJson)) (\<lambda>approved.
     io_bind (io_lift (decode_environment env)) (\<lambda>environment.
     io_return \<lparr> pc_blockHeight = tip, pc_protocolPaused = is_true paused, pc_approvedSbtcAsset = approved,
                 pc_activeStrategies = active, pc_environment = environment \<rparr>)))))))))"

section \<open>The snapshot of a vault\<close>

fun read_allocations ::
    "'w services \<Rightarrow> agent_config \<Rightarrow> int \<Rightarrow> asset \<Rightarrow> strategy_snapshot list \<Rightarrow> (strategy_id \<rightharpoonup> int)
     \<Rightarrow> ('w, strategy_id \<rightharpoonup> int) io" where
  "read_allocations sv cfg vaultId asset [] acc = io_return acc"
| "read_allocations sv cfg vaultId asset (s # ss) acc =
     io_bind (read_protocol sv cfg ''sovereignty-vault'' ''get-strategy-allocation''
               [ClUint vaultId, ClUint (ss_strategyId s), ClStringAscii asset] None) (\<lambda>allocJson.
     io_bind (io_lift (js_try (js_get allocJson ''value'') to_bigint)) (\<lambda>a.
     read_allocations sv cfg vaultId asset ss (acc(ss_strategyId s \<mapsto> a))))"

definition number_field :: "js \<Rightarrow> string \<Rightarrow> int result" where
  "number_field obj k = js_try (js_path obj [k, ''value'']) to_number"

definition bigint_field :: "js \<Rightarrow> string \<Rightarrow> int result" where
  "bigint_field obj k = js_try (js_path obj [k, ''value'']) to_bigint"

definition decode_risk_config :: "asset \<Rightarrow> js \<Rightarrow> asset_risk_config result" where
  "decode_risk_config asset cfg =
     js_try (number_field cfg ''max-exposure-bps'') (\<lambda>mexp.
     js_try (bigint_field cfg (if asset = ''STX'' then ''max-stx-tx-amount'' else ''max-sbtc-tx-amount'')) (\<lambda>mtx.
     js_try (number_field cfg ''max-slippage-bps'') (\<lambda>msl.
     js_try (number_field cfg ''min-idle-bps'') (\<lambda>midle.
     js_try (js_path cfg [''autonomous-enabled'', ''value'']) (\<lambda>auton.
     js_try (number_field cfg ''cooldown-blocks'') (\<lambda>cool.
     js_try (number_field cfg ''last-used-nonce'') (\<lambda>nonce.
     js_try (number_field cfg ''last-execution-height'') (\<lambda>leh.
     Inr \<lparr> rc_maxExposureBps = mexp, rc_maxTxAmount = mtx, rc_maxSlippageBps = msl, rc_minIdleBps = midle,
           rc_autonomousEnabled = is_true auton, rc_cooldownBlocks = cool, rc_lastUsedNonce = nonce,
           rc_lastExecutionHeight = leh \<rparr>))))))))"

definition decode_vault ::
    "int \<Rightarrow> asset \<Rightarrow> string \<Rightarrow> js \<Rightarrow> js \<Rightarrow> js \<Rightarrow> js \<Rightarrow> (strategy_id \<rightharpoonup> int) \<Rightarrow> vault_snapshot result" where
  "decode_vault vaultId asset owner v supportsJson pool cfg allocations =
     js_try (js_try (js_path v [''name'', ''value'']) as_string) (\<lambda>nm.
     js_try (number_field v ''purpose'') (\<lambda>purpose.
     js_try (js_get supportsJson ''value'') (\<lambda>supports.
     js_try (js_path v [''paused'', ''value'']) (\<lambda>paused.
     js_try (bigint_field pool ''idle'') (\<lambda>idle.
     js_try (bigint_field pool ''total'') (\<lambda>whole.
     js_try (bigint_field pool ''supply'') (\<lambda>supply.
     js_try (decode_risk_config asset cfg) (\<lambda>rc.
     Inr \<lparr> vs_vaultId = vaultId, vs_owner = owner, vs_name = nm, vs_purpose = purpose,
           vs_supportsAsset = is_true supports, vs_paused = is_true paused, vs_asset = asset,
           vs_idleBalance = idle, vs_totalBalance = whole, vs_shareSupply = supply,
           vs_allocations = allocations, vs_riskConfig = rc \<rparr>))))))))"

definition getVaultSnapshot ::
    "'w services \<Rightarrow> agent_config \<Rightarrow> int \<Rightarrow> asset \<Rightarrow> protocol_context option \<Rightarrow> ('w, vault_snapshot option) io" where
  "getVaultSnapshot sv cfg vaultId asset ctx =
     io_bind (read_protocol sv cfg ''sovereignty-vault'' ''get-vault'' [ClUint vaultId] None) (\<lambda>vaultJson.
     io_bind (io_lift (js_get vaultJson ''value'')) (\<lambda>vv.
       if vv = JNull then io_return None
       else
         io_bind (io_lift (js_get vv ''value'')) (\<lambda>v.
         io_bind (io_lift (js_try (js_path v [''owner'', ''value'']) as_string)) (\<lambda>owner.
         io_bind (read_protocol sv cfg ''sovereignty-vault'' ''get-pool'' [ClUint vaultId, ClStringAscii asset] None)
           (\<lambda>poolJson.
         io_bind (read_protocol sv cfg ''sovereignty-vault'' ''supports-asset''
                   [ClUint vaultId, ClStringAscii asset] None) (\<lambda>supportsJson.
         io_bind (read_protocol sv cfg ''risk-guard'' ''get-vault-config'' [ClUint vaultId] None) (\<lambda>cfgJson.
         io_bind (io_lift (js_get cfgJson ''value'')) (\<lambda>cv.
           if cv = JNull then
             io_throw (JsError (''Vault '' @ int_text vaultId
               @ '' has no risk-guard config - inconsistent protocol state.''))
           else
             io_bind (io_lift (js_get cv ''value'')) (\<lambda>rcfg.
             io_bind (io_lift (js_get poolJson ''value'')) (\<lambda>pool.
             io_bind (case ctx of Some c \<Rightarrow> io_return c | None \<Rightarrow> getProtocolContext sv cfg) (\<lambda>context.
             io_bind (read_allocations sv cfg vaultId asset
                       (filter (\<lambda>s. ss_asset s = asset) (pc_activeStrategies context)) Map.empty) (\<lambda>allocations.
             io_bind (io_lift (decode_vault vaultId asset owner v supportsJson pool rcfg allocations)) (\<lambda>snap.
             io_return (Some snap))))))))))))))"

definition isAuthorizedExecutor :: "'w services \<Rightarrow> agent_config \<Rightarrow> string \<Rightarrow> ('w, bool) io" where
  "isAuthorizedExecutor sv cfg address =
     io_bind (read_protocol sv cfg ''agent-registry'' ''is-authorized-executor'' [ClPrincipal address] None) (\<lambda>json.
     io_lift (js_try (js_get json ''value'') (\<lambda>v. Inr (is_true v))))"

section \<open>The verdict of the chain\<close>

definition evaluation_source :: string where
  "evaluation_source = ''execution-engine.evaluate-rebalance-intent''"

definition decode_verdict :: "js \<Rightarrow> sender_role \<Rightarrow> int \<Rightarrow> on_chain_validation result" where
  "decode_verdict json role blockHeight =
     js_try (js_get json ''success'') (\<lambda>success.
       if is_true success then
         js_try (js_path json [''value'', ''value'', ''strategy-execution-enabled'', ''value'']) (\<lambda>e.
         Inr \<lparr> ov_source = evaluation_source, ov_status = PASSED, ov_errorCode = None,
               ov_detail = ''Every on-chain rule accepted this intent.'', ov_evaluatedAs = role,
               ov_evaluatedAtBlock = blockHeight, ov_strategyExecutionEnabled = Some (is_true e) \<rparr>)
       else
         js_try (js_try (js_path json [''value'', ''value'']) to_number) (\<lambda>code.
         Inr \<lparr> ov_source = evaluation_source, ov_status = NOT_PASSED, ov_errorCode = Some code,
               ov_detail = ''Rejected by on-chain rule (error u'' @ int_text code @ '').'', ov_evaluatedAs = role,
               ov_evaluatedAtBlock = blockHeight, ov_strategyExecutionEnabled = None \<rparr>))"

definition evaluateIntentOnChain ::
    "'w services \<Rightarrow> agent_config \<Rightarrow> execution_intent \<Rightarrow> string \<Rightarrow> sender_role \<Rightarrow> int \<Rightarrow> ('w, on_chain_validation) io" where
  "evaluateIntentOnChain sv cfg intent sender role blockHeight =
     io_catch
       (io_bind (read_protocol sv cfg ''execution-engine'' ''evaluate-rebalance-intent''
           [ClUint (ei_vaultId intent), ClUint (ei_destStrategyId intent), ClStringAscii (ei_asset intent),
            ClUint (ei_amount intent), ClUint (ei_maxSlippageBps intent), ClUint (ei_nonce intent),
            ClUint (ei_deadline intent)] (Some sender)) (\<lambda>json.
        io_lift (decode_verdict json role blockHeight)))
       (\<lambda>err. io_return
          \<lparr> ov_source = evaluation_source, ov_status = UNAVAILABLE, ov_errorCode = None,
            ov_detail = ''On-chain evaluation could not be performed: '' @ err_message err,
            ov_evaluatedAs = role, ov_evaluatedAtBlock = blockHeight, ov_strategyExecutionEnabled = None \<rparr>)"

section \<open>Facts about the readers\<close>

text \<open>The verdict is never thrown: an evaluation that fails is reported as such.\<close>

lemma evaluateIntentOnChain_total:
  "(\<exists>v. fst (evaluateIntentOnChain sv cfg i s r b w) = Inr v)
   \<or> (\<exists>m. fst (evaluateIntentOnChain sv cfg i s r b w) = Inl (OutOfModel m))"
proof -
  have "\<exists>m. e = OutOfModel m" if "out_of_model e" for e
    using that by (cases e) auto
  then show ?thesis
    by (auto simp: evaluateIntentOnChain_def io_catch_def io_return_def split: prod.splits sum.splits if_splits)
qed

lemma decode_verdict_PASSED:
  "decode_verdict json role b = Inr v \<Longrightarrow> ov_status v = PASSED \<longleftrightarrow> (js_get json ''success'' = Inr (JBool True))"
  by (auto simp: decode_verdict_def js_try_Inr_iff is_true_def split: if_splits)

lemma probe_length:
  "probe_strategies sv cfg n sid w = (Inr ss, w') \<Longrightarrow> length ss \<le> n"
proof (induction n arbitrary: sid w ss)
  case 0
  then show ?case by (simp add: io_return_def)
next
  case (Suc n)
  have "length here \<le> 1" if "decode_strategy i v = Inr here" for i v here
    using that by (auto simp: decode_strategy_def js_try_Inr_iff split: if_splits)
  with Suc show ?case
    by (fastforce simp: io_bind_Inr_iff io_lift_def io_return_def js_try_Inr_iff split: if_splits)
qed

lemma probe_active:
  "probe_strategies sv cfg n sid w = (Inr ss, w') \<Longrightarrow>
   \<forall>s\<in>set ss. ss_active s \<and> sid \<le> ss_strategyId s \<and> ss_strategyId s < sid + int n"
proof (induction n arbitrary: sid w ss)
  case 0
  then show ?case by (simp add: io_return_def)
next
  case (Suc n)
  have here: "\<forall>s\<in>set l. ss_active s \<and> ss_strategyId s = i" if "decode_strategy i v = Inr l" for i v l
    using that by (auto simp: decode_strategy_def js_try_Inr_iff split: if_splits)
  from Suc.prems consider "ss = []" | v l rest w1 where "decode_strategy sid v = Inr l"
      "probe_strategies sv cfg n (sid + 1) w1 = (Inr rest, w')" "ss = l @ rest"
    by (auto simp: io_bind_Inr_iff io_lift_def io_return_def js_try_Inr_iff split: if_splits)
  then show ?case
  proof cases
    case 1
    then show ?thesis by simp
  next
    case 2
    then show ?thesis using here [OF 2(1)] Suc.IH [OF 2(2)] by fastforce
  qed
qed

end
