(* ===== verification/Execution_Service.thy ===== *)
theory Execution_Service
  imports Llm_Narrator
begin

text \<open>
  Signing and watching transactions: agent/src/execution/submitIntent.ts and
  agent/src/monitoring/txMonitor.ts.
\<close>

section \<open>Submitting\<close>

text \<open>
  Every use of the executor's key leaves an entry in the trace of the process: reading it, signing
  with it, and broadcasting what was signed. A refused broadcast is the left value with the text of
  the error and its reason.
\<close>

definition rebalance_call ::
    "agent_config \<Rightarrow> execution_intent \<Rightarrow> string \<Rightarrow> string \<times> string \<Rightarrow> string \<times> string \<Rightarrow> contract_call" where
  "rebalance_call cfg intent senderKey strategy engine =
     \<lparr> cc_contractAddress = fst engine, cc_contractName = snd engine,
       cc_functionName = ''submit-rebalance-intent'',
       cc_functionArgs =
         [ClUint (ei_vaultId intent), ClUint (ei_destStrategyId intent), ClStringAscii (ei_asset intent),
          ClUint (ei_amount intent), ClUint (ei_maxSlippageBps intent), ClUint (ei_nonce intent),
          ClUint (ei_deadline intent), ClContractPrincipal (fst strategy) (snd strategy)],
       cc_senderKey = senderKey, cc_network = cf_network cfg \<rparr>"

definition sign_and_broadcast ::
    "'w services \<Rightarrow> agent_config \<Rightarrow> execution_intent \<Rightarrow> string \<Rightarrow> ('w host, string \<times> string) io" where
  "sign_and_broadcast sv cfg intent strategyContract =
     io_bind (emit_effect KeyRead) (\<lambda>_.
     io_bind (io_lift (requireExecutorKey cfg)) (\<lambda>senderKey.
     io_bind (io_lift (sv_addressOfKey sv senderKey (cf_network cfg))) (\<lambda>executorAddr.
     io_bind (io_lift (splitContract strategyContract)) (\<lambda>strategy.
     io_bind (io_lift (js_try (contractId cfg ''execution-engine'') splitContract)) (\<lambda>engine.
     io_bind (outside (sv_makeCall sv (rebalance_call cfg intent senderKey strategy engine))) (\<lambda>transaction.
     io_bind (emit_effect (Signed (rebalance_call cfg intent senderKey strategy engine))) (\<lambda>_.
     io_bind (outside (sv_broadcast sv transaction)) (\<lambda>reply.
     io_bind (emit_effect (Broadcast transaction)) (\<lambda>_.
     case reply of
       Inl err \<Rightarrow> io_throw (JsError (''Broadcast rejected: '' @ err))
     | Inr txid \<Rightarrow> io_return (txid, executorAddr))))))))))"

definition submitRebalanceIntent ::
    "'w services \<Rightarrow> agent_config \<Rightarrow> execution_intent \<Rightarrow> string \<Rightarrow> ('w host, string \<times> string) io" where
  "submitRebalanceIntent sv cfg intent strategyContract =
     io_bind (outside (getExecutionEnvironment sv cfg)) (\<lambda>env.
     io_bind (io_lift (assertExecutionAllowed cfg env)) (\<lambda>_.
     sign_and_broadcast sv cfg intent strategyContract))"

text \<open>
  The gate comes first: when it does not open, nothing is read from the environment or signed, and
  the trace of the process is unchanged.
\<close>

lemma submit_off_mainnet:
  assumes "cf_network cfg \<noteq> ''mainnet''"
  shows "\<exists>e h'. submitRebalanceIntent sv cfg i c h = (Inl e, h') \<and> hs_effects h' = hs_effects h"
  using outside_frame [of "getExecutionEnvironment sv cfg" h] assms
  by (cases "outside (getExecutionEnvironment sv cfg) h")
     (auto simp: submitRebalanceIntent_def io_bind_def [of "outside _"] testnet_blocked split: sum.splits)

lemma submit_blocked_environment:
  assumes "outside (getExecutionEnvironment sv cfg) h = (Inr env, h1)"
    "executionBlockedReason cfg env = Some reason"
  shows "submitRebalanceIntent sv cfg i c h = (Inl (ExecutionBlockedError reason), h1)"
  using assms
  by (simp add: submitRebalanceIntent_def io_bind_def [of "outside _"] assertExecutionAllowed_def)

text \<open>Conversely, a submission that returns has passed the gate of the service.\<close>

lemma submit_Inr_gate:
  assumes "submitRebalanceIntent sv cfg i c h = (Inr x, h')"
  shows "\<exists>env h1. outside (getExecutionEnvironment sv cfg) h = (Inr env, h1) \<and>
           executionBlockedReason cfg env = None"
  using assms
  by (auto simp: submitRebalanceIntent_def io_bind_Inr_iff io_lift_def assertExecutionAllowed_def
      split: option.splits)

lemma submit_keeps_file [io_frame]: "io_keeps hs_file (submitRebalanceIntent sv cfg i c)"
  unfolding submitRebalanceIntent_def sign_and_broadcast_def
  by (intro io_frame) (auto intro!: io_frame split: sum.splits)

section \<open>Waiting for a confirmation\<close>

datatype monitor_status = Confirmed | Failed | Timeout

type_synonym monitor_result = "monitor_status \<times> js"

text \<open>
  The polling loop. It ends when the clock passes the deadline, which nothing guarantees, so it
  runs on fuel: \<open>None\<close> says that the fuel is used up.
\<close>

fun poll :: "'w services \<Rightarrow> agent_config \<Rightarrow> nat \<Rightarrow> string \<Rightarrow> int \<Rightarrow> int \<Rightarrow> ('w, monitor_result option) io" where
  "poll sv cfg 0 txId deadline interval = io_return None"
| "poll sv cfg (Suc n) txId deadline interval =
     io_bind (io_of (sv_now sv)) (\<lambda>now.
       if \<not> now < deadline then io_return (Some (Timeout, JUndef))
       else
         io_bind (getTxStatus sv cfg txId) (\<lambda>(status, blockHeight).
           if status = ''success'' then io_return (Some (Confirmed, blockHeight))
           else if status = ''abort_by_response'' \<or> status = ''abort_by_post_condition''
           then io_return (Some (Failed, blockHeight))
           else
             io_bind (\<lambda>w. (Inr (), sv_sleep sv interval w)) (\<lambda>_. poll sv cfg n txId deadline interval)))"

definition DEFAULT_TIMEOUT_MS :: int where
  "DEFAULT_TIMEOUT_MS = 5 * 60000"

definition DEFAULT_POLL_INTERVAL_MS :: int where
  "DEFAULT_POLL_INTERVAL_MS = 15000"

definition waitForConfirmation ::
    "'w services \<Rightarrow> agent_config \<Rightarrow> nat \<Rightarrow> string \<Rightarrow> int \<Rightarrow> int \<Rightarrow> ('w, monitor_result option) io" where
  "waitForConfirmation sv cfg fuel txId timeoutMs interval =
     io_bind (io_of (sv_now sv)) (\<lambda>now. poll sv cfg fuel txId (now + timeoutMs) interval)"

text \<open>
  A result is never guessed: a confirmation is reported only when some read of the transaction
  returned \<open>success\<close>, a failure only when one returned an abort.
\<close>

lemma poll_verdict:
  "poll sv cfg n txId d k w = (Inr (Some (st, bh)), w') \<Longrightarrow>
   (st = Confirmed \<longrightarrow> (\<exists>u u'. getTxStatus sv cfg txId u = (Inr (''success'', bh), u'))) \<and>
   (st = Failed \<longrightarrow> (\<exists>u u' s. getTxStatus sv cfg txId u = (Inr (s, bh), u') \<and>
        s \<in> {''abort_by_response'', ''abort_by_post_condition''}))"
proof (induction n arbitrary: w)
  case 0
  then show ?case by (simp add: io_return_def)
next
  case (Suc n)
  from Suc.prems obtain now w1 where now: "sv_now sv w = (now, w1)"
    by (cases "sv_now sv w") auto
  show ?case
  proof (cases "now < d")
    case False
    with Suc.prems now show ?thesis by (simp add: io_bind_def io_of_def io_return_def)
  next
    case True
    with Suc.prems now obtain s b w2 where s: "getTxStatus sv cfg txId w1 = (Inr (s, b), w2)"
      and rest: "(if s = ''success'' then io_return (Some (Confirmed, b))
           else if s = ''abort_by_response'' \<or> s = ''abort_by_post_condition''
           then io_return (Some (Failed, b))
           else io_bind (\<lambda>w. (Inr (), sv_sleep sv k w)) (\<lambda>_. poll sv cfg n txId d k)) w2
         = (Inr (Some (st, bh)), w')"
      by (auto simp: io_bind_def io_of_def split: prod.splits sum.splits)
    consider "s = ''success''" | "s = ''abort_by_response'' \<or> s = ''abort_by_post_condition''"
      | "s \<noteq> ''success''" "s \<noteq> ''abort_by_response''" "s \<noteq> ''abort_by_post_condition''" by blast
    then show ?thesis
    proof cases
      case 1
      with s rest show ?thesis by (auto simp: io_return_def)
    next
      case 2
      with rest have "st = Failed" "b = bh" by (auto simp: io_return_def)
      with s 2 show ?thesis by blast
    next
      case 3
      with rest have "poll sv cfg n txId d k (sv_sleep sv k w2) = (Inr (Some (st, bh)), w')"
        by (simp add: io_bind_def)
      then show ?thesis by (rule Suc.IH)
    qed
  qed
qed

text \<open>
  Termination: when reading the status does not turn the clock back and every sleep advances it by
  the interval, the loop ends within one poll per interval of the remaining time.
\<close>

lemma poll_terminates:
  assumes clock: "\<And>w. fst (sv_now sv w) = clk w" "\<And>w. clk (snd (sv_now sv w)) = clk w"
    and read: "\<And>w. clk w \<le> clk (snd (getTxStatus sv cfg txId w))"
    and sleep: "\<And>w. clk w + k \<le> clk (sv_sleep sv k w)" and pos: "0 < k"
  shows "d \<le> clk w + int n * k \<Longrightarrow> fst (poll sv cfg (Suc n) txId d k w) \<noteq> Inr None"
proof (induction n arbitrary: w)
  case 0
  obtain now w1 where n: "sv_now sv w = (now, w1)" by (cases "sv_now sv w") auto
  then have "now = clk w" using clock(1) [of w] by simp
  with 0 n show ?case by (simp add: io_bind_def io_of_def io_return_def)
next
  case (Suc n)
  obtain now w1 where n: "sv_now sv w = (now, w1)" by (cases "sv_now sv w") auto
  obtain r w2 where r: "getTxStatus sv cfg txId w1 = (r, w2)" by (cases "getTxStatus sv cfg txId w1") auto
  have "clk w1 = clk w" using clock(2) [of w] n by simp
  then have "clk w \<le> clk w2" using read [of w1] r by simp
  then have "clk w + k \<le> clk (sv_sleep sv k w2)" using sleep [of w2] by linarith
  then have "d \<le> clk (sv_sleep sv k w2) + int n * k" using Suc.prems by (simp add: algebra_simps)
  then have "fst (poll sv cfg (Suc n) txId d k (sv_sleep sv k w2)) \<noteq> Inr None" by (rule Suc.IH)
  then show ?case
    using n r by (simp add: io_bind_def io_of_def io_return_def split: sum.split prod.split)
qed

end
