(* ===== verification/Pipeline.thy ===== *)
theory Pipeline
  imports Execution_Service
begin

text \<open>
  The recommendation pipeline and the attempt to execute (agent/src/pipeline.ts): analysis,
  narration, intent, the verdict of the chain, the environment gate, and the record of each step
  in the decision log.
\<close>

section \<open>Records\<close>

text \<open>The fields every record of a run starts from; the identifier and the time are set on recording.\<close>

definition base_record ::
    "agent_config \<Rightarrow> int \<Rightarrow> string \<Rightarrow> asset \<Rightarrow> recommendation \<Rightarrow> allocation_view option \<Rightarrow> allocation_view option
     \<Rightarrow> decision_record" where
  "base_record cfg vaultId vaultContract asset r cur prop =
     \<lparr> dr_id = [], dr_timestamp = [], dr_vaultId = vaultId, dr_vaultContract = vaultContract,
       dr_network = cf_network cfg, dr_asset = asset, dr_recommendation = r,
       dr_currentAllocation = cur, dr_proposedAllocation = prop, dr_intent = None, dr_intentHash = None,
       dr_validation = None, dr_status = RECOMMENDED, dr_executionState = NOT_APPLICABLE, dr_txId = None,
       dr_rejectionReason = None \<rparr>"

definition rejected_record :: "decision_record \<Rightarrow> string \<Rightarrow> decision_record" where
  "rejected_record b reason =
     b\<lparr>dr_status := REJECTED, dr_executionState := NOT_SUBMITTED, dr_rejectionReason := Some reason\<rparr>"

definition validating_record :: "decision_record \<Rightarrow> execution_intent \<Rightarrow> string \<Rightarrow> decision_record" where
  "validating_record b intent hash =
     b\<lparr>dr_intent := Some intent, dr_intentHash := Some hash, dr_status := VALIDATING,
       dr_executionState := NOT_SUBMITTED\<rparr>"

text \<open>\<open>updateDecision(..) ?? record\<close>.\<close>

definition update_or ::
    "'w services \<Rightarrow> decision_record \<Rightarrow> (decision_record \<Rightarrow> decision_record) \<Rightarrow> ('w host, decision_record) io" where
  "update_or sv record patch =
     io_bind (updateDecision sv (dr_id record) patch) (\<lambda>u.
     io_return (case u of Some r \<Rightarrow> r | None \<Rightarrow> record))"

section \<open>Recommending\<close>

text \<open>The identity that would submit: the executor of an autonomous vault when registered, else the owner.\<close>

definition choose_sender ::
    "'w services \<Rightarrow> agent_config \<Rightarrow> vault_snapshot \<Rightarrow> ('w, string \<times> sender_role) io" where
  "choose_sender sv cfg vault =
     io_bind (io_lift (if rc_autonomousEnabled (vs_riskConfig vault) then executorAddress sv cfg else Inr None)) (\<lambda>ex.
       if truthy_text ex then
         io_bind (isAuthorizedExecutor sv cfg (the ex)) (\<lambda>ok.
           io_return (if ok then (the ex, Executor) else (vs_owner vault, Owner)))
       else io_return (vs_owner vault, Owner))"

definition verdict_patch ::
    "agent_config \<Rightarrow> protocol_context \<Rightarrow> on_chain_validation \<Rightarrow> decision_record \<Rightarrow> decision_record" where
  "verdict_patch cfg ctx v r =
     (case ov_status v of
        NOT_PASSED \<Rightarrow>
          r\<lparr>dr_validation := Some v, dr_status := REJECTED, dr_rejectionReason := Some (ov_detail v)\<rparr>
      | UNAVAILABLE \<Rightarrow>
          r\<lparr>dr_validation := Some v, dr_status := RECOMMENDED, dr_rejectionReason := Some (ov_detail v)\<rparr>
      | PASSED \<Rightarrow>
          (let blocked = executionBlockedReason cfg (pc_environment ctx) \<noteq> None in
           r\<lparr>dr_validation := Some v, dr_status := (if blocked then TESTNET_BLOCKED else VALIDATED),
             dr_executionState := (if blocked then NOT_EXECUTED_TESTNET else NOT_SUBMITTED), dr_txId := None,
             dr_rejectionReason := None\<rparr>))"

text \<open>Validation of a built intent: record it, ask the chain, and store the verdict.\<close>

definition validate_intent ::
    "'w services \<Rightarrow> agent_config \<Rightarrow> protocol_context \<Rightarrow> vault_snapshot \<Rightarrow> decision_record \<Rightarrow> execution_intent
     \<Rightarrow> ('w host, decision_record) io" where
  "validate_intent sv cfg ctx vault b intent =
     io_bind (recordDecision sv (validating_record b intent (hashIntent sv intent))) (\<lambda>record.
     io_bind (outside (choose_sender sv cfg vault)) (\<lambda>(sender, role).
     io_bind (outside (evaluateIntentOnChain sv cfg intent sender role (pc_blockHeight ctx))) (\<lambda>v.
     update_or sv record (verdict_patch cfg ctx v))))"

definition process_recommendation ::
    "'w services \<Rightarrow> agent_config \<Rightarrow> protocol_context \<Rightarrow> vault_snapshot \<Rightarrow> decision_record \<Rightarrow> recommendation
     \<Rightarrow> ('w host, decision_record) io" where
  "process_recommendation sv cfg ctx vault b r =
     (if rec_decision r \<noteq> REBALANCE then recordDecision sv b
      else (case buildIntent r vault of
              Inl (InsufficientDataError m) \<Rightarrow> recordDecision sv (rejected_record b m)
            | Inl e \<Rightarrow> if out_of_model e then io_throw e else recordDecision sv (rejected_record b (err_text e))
            | Inr intent \<Rightarrow> validate_intent sv cfg ctx vault b intent))"

definition recommend_vault ::
    "'w services \<Rightarrow> agent_config \<Rightarrow> int \<Rightarrow> asset \<Rightarrow> protocol_context \<Rightarrow> vault_snapshot
     \<Rightarrow> ('w host, recommendation \<times> decision_record) io" where
  "recommend_vault sv cfg vaultId asset ctx vault =
     io_bind (outside (io_of (sv_isoNow sv))) (\<lambda>now.
     io_bind (outside (narrateWithLLM sv cfg (analyze cfg now vault ctx) vault ctx)) (\<lambda>r.
     io_bind (io_lift (contractId cfg ''sovereignty-vault'')) (\<lambda>vaultContract.
     io_bind (io_lift (proposedAllocation vault ctx r)) (\<lambda>prop.
     io_bind (process_recommendation sv cfg ctx vault
         (base_record cfg vaultId vaultContract asset r (currentAllocation vault ctx) prop) r) (\<lambda>record.
     io_return (r, record))))))"

definition runRecommendation ::
    "'w services \<Rightarrow> agent_config \<Rightarrow> int \<Rightarrow> asset \<Rightarrow> ('w host, recommendation \<times> decision_record) io" where
  "runRecommendation sv cfg vaultId asset =
     io_bind (outside (getProtocolContext sv cfg)) (\<lambda>ctx.
     io_bind (outside (getVaultSnapshot sv cfg vaultId asset (Some ctx))) (\<lambda>vault.
     case vault of
       None \<Rightarrow> io_throw (JsError (''Vault '' @ int_text vaultId @ '' not found on-chain.''))
     | Some vault \<Rightarrow> recommend_vault sv cfg vaultId asset ctx vault))"

section \<open>Executing\<close>

definition submit_record ::
    "'w services \<Rightarrow> agent_config \<Rightarrow> decision_record \<Rightarrow> execution_intent \<Rightarrow> strategy_snapshot
     \<Rightarrow> ('w host, decision_record) io" where
  "submit_record sv cfg record intent strategy =
     io_catch
       (io_bind (submitRebalanceIntent sv cfg intent (ss_contract strategy)) (\<lambda>(txId, _).
        update_or sv record (\<lambda>r. r\<lparr>dr_executionState := SUBMITTED, dr_txId := Some txId\<rparr>)))
       (\<lambda>err. case err of
          ExecutionBlockedError m \<Rightarrow>
            update_or sv record (\<lambda>r. r\<lparr>dr_status := TESTNET_BLOCKED, dr_executionState := NOT_EXECUTED_TESTNET,
              dr_txId := None, dr_rejectionReason := Some m\<rparr>)
        | _ \<Rightarrow>
            io_bind (updateDecision sv (dr_id record)
                (\<lambda>r. r\<lparr>dr_status := FAILED, dr_rejectionReason := Some (err_text err)\<rparr>)) (\<lambda>_.
            io_throw err))"

definition reject_with :: "'w services \<Rightarrow> decision_record \<Rightarrow> string \<Rightarrow> ('w host, decision_record) io" where
  "reject_with sv record reason =
     update_or sv record (\<lambda>r. r\<lparr>dr_status := REJECTED, dr_rejectionReason := Some reason\<rparr>)"

definition executeValidatedIntent ::
    "'w services \<Rightarrow> agent_config \<Rightarrow> int \<Rightarrow> asset \<Rightarrow> ('w host, decision_record) io" where
  "executeValidatedIntent sv cfg vaultId asset =
     io_bind (runRecommendation sv cfg vaultId asset) (\<lambda>(_, record).
     if dr_status record \<noteq> VALIDATED \<or> dr_intent record = None then io_return record
     else
       io_bind (outside (getProtocolContext sv cfg)) (\<lambda>ctx.
       io_bind (outside (getVaultSnapshot sv cfg vaultId asset (Some ctx))) (\<lambda>vault.
         if (case vault of None \<Rightarrow> True | Some v \<Rightarrow> \<not> rc_autonomousEnabled (vs_riskConfig v)) then
           reject_with sv record (''Autonomous mode is not enabled for this vault; the owner must submit this ''
             @ ''intent themselves.'')
         else if \<not> truthy_text (cf_executorPrivateKey cfg) then
           reject_with sv record ''EXECUTOR_PRIVATE_KEY is not configured on this agent instance.''
         else
           (case List.find (\<lambda>s. ss_strategyId s = ei_destStrategyId (the (dr_intent record)) \<and> ss_asset s = asset)
                           (pc_activeStrategies ctx) of
              None \<Rightarrow> reject_with sv record ''Destination strategy is no longer active.''
            | Some strategy \<Rightarrow> submit_record sv cfg record (the (dr_intent record)) strategy))))"

text \<open>
  What the promise of \<open>waitForConfirmation\<close> does when it settles, after the response was sent. A
  timeout leaves the record submitted.
\<close>

definition confirmation_patch :: "string \<Rightarrow> monitor_status \<Rightarrow> decision_record \<Rightarrow> decision_record" where
  "confirmation_patch txId st r =
     r\<lparr>dr_status := (if st = Confirmed then EXECUTED else if st = Failed then FAILED else VALIDATED),
       dr_executionState :=
         (if st = Confirmed then CONFIRMED else if st = Failed then SUBMIT_FAILED else SUBMITTED),
       dr_txId := Some txId\<rparr>"

definition on_confirmation ::
    "'w services \<Rightarrow> agent_config \<Rightarrow> nat \<Rightarrow> string \<Rightarrow> string \<Rightarrow> ('w host, decision_record option) io" where
  "on_confirmation sv cfg fuel rid txId =
     io_bind (outside (waitForConfirmation sv cfg fuel txId DEFAULT_TIMEOUT_MS DEFAULT_POLL_INTERVAL_MS)) (\<lambda>res.
       case res of
         None \<Rightarrow> io_return None
       | Some (st, _) \<Rightarrow> updateDecision sv rid (confirmation_patch txId st))"

section \<open>What a run leaves alone\<close>

lemma recordDecision_keeps_effects [io_frame]: "io_keeps hs_effects (recordDecision sv r)"
  by (simp add: io_keeps_def) (metis prod.collapse recordDecision_effects)

lemma updateDecision_keeps_effects [io_frame]: "io_keeps hs_effects (updateDecision sv i p)"
  by (simp add: io_keeps_def) (metis prod.collapse updateDecision_effects)

lemma update_or_keeps_effects [io_frame]: "io_keeps hs_effects (update_or sv r p)"
  unfolding update_or_def by (intro io_frame)

lemma validate_intent_keeps_effects [io_frame]: "io_keeps hs_effects (validate_intent sv cfg ctx v b i)"
  unfolding validate_intent_def by (auto intro!: io_frame split: prod.split)

lemma process_keeps_effects [io_frame]: "io_keeps hs_effects (process_recommendation sv cfg ctx v b r)"
  unfolding process_recommendation_def by (auto intro!: io_frame split: sum.split js_error.split)

lemma runRecommendation_keeps_effects [io_frame]: "io_keeps hs_effects (runRecommendation sv cfg i a)"
  unfolding runRecommendation_def recommend_vault_def by (auto intro!: io_frame split: option.split)

section \<open>The status of a verdict\<close>

lemma verdict_patch_status:
  "dr_status (verdict_patch cfg ctx v r) =
     (case ov_status v of NOT_PASSED \<Rightarrow> REJECTED | UNAVAILABLE \<Rightarrow> RECOMMENDED
      | PASSED \<Rightarrow> if executionBlockedReason cfg (pc_environment ctx) = None then VALIDATED else TESTNET_BLOCKED)"
  by (simp add: verdict_patch_def Let_def split: validation_status.split)

lemma verdict_patch_id [simp]: "dr_id (verdict_patch cfg ctx v r) = dr_id r"
  by (simp add: verdict_patch_def Let_def split: validation_status.split)

lemma verdict_patch_validation [simp]: "dr_validation (verdict_patch cfg ctx v r) = Some v"
  by (simp add: verdict_patch_def Let_def split: validation_status.split)

lemma verdict_patch_keeps [simp]:
  "dr_intent (verdict_patch cfg ctx v r) = dr_intent r" "dr_vaultId (verdict_patch cfg ctx v r) = dr_vaultId r"
  "dr_recommendation (verdict_patch cfg ctx v r) = dr_recommendation r"
  by (simp_all add: verdict_patch_def Let_def split: validation_status.split)

section \<open>The latest record\<close>

text \<open>The record just written is the first of the log, so an update by its identifier reaches it.\<close>

lemma push_head: "push_record r rs = r # take 499 rs"
  by (simp add: push_record_def)

lemma recordDecision_Inr:
  assumes "recordDecision sv r h = (Inr full, h')"
  shows "load h' = full # take 499 (load h)" "hs_diskError h' = None" "hs_diskError h = None"
    "full = r\<lparr>dr_id := dr_id full, dr_timestamp := dr_timestamp full\<rparr>"
    "serializable sv (full # take 499 (load h))"
  using assms
  by (auto simp: recordDecision_eq Let_def push_head load_def split: prod.splits if_splits option.splits)

lemma updateDecision_head:
  assumes "load h = r # rs" "dr_id r = rid"
  shows "updateDecision sv rid p h =
     (if \<not> serializable sv (p r # rs) then (Inl (TypeError ''Do not know how to serialize a BigInt''), h)
      else (case hs_diskError h of
              Some m \<Rightarrow> (Inl (JsError m), h)
            | None \<Rightarrow> (Inr (Some (p r)), h\<lparr>hs_file := Some (p r # rs)\<rparr>)))"
  using assms by (simp add: updateDecision_def persist_def io_bind_def io_return_def split: option.split)

lemma serializable_patch: "serializable sv (r # rs) \<Longrightarrow> dr_intent r' = dr_intent r \<Longrightarrow> serializable sv (r' # rs)"
  by (simp add: serializable_def)

lemma update_or_head:
  assumes "load h = record # rs" "hs_diskError h = None" "serializable sv (record # rs)"
    "dr_intent (p record) = dr_intent record"
  shows "update_or sv record p h = (Inr (p record), h\<lparr>hs_file := Some (p record # rs)\<rparr>)"
  using assms serializable_patch [OF assms(3,4)]
  by (simp add: update_or_def io_bind_def updateDecision_head io_return_def)

text \<open>
  A validated intent ends with the verdict of the chain: the record returned is the one that was
  written, patched by the verdict of the evaluation, and it is the first of the log.
\<close>

lemma validate_intent_result:
  assumes "validate_intent sv cfg ctx vault b intent h = (Inr r, h')"
  shows "\<exists>v record sender role w w'.
     evaluateIntentOnChain sv cfg intent sender role (pc_blockHeight ctx) w = (Inr v, w') \<and>
     r = verdict_patch cfg ctx v record \<and> dr_intent record = Some intent \<and>
     dr_vaultId record = dr_vaultId b \<and> dr_recommendation record = dr_recommendation b \<and>
     load h' = r # take 499 (load h)"
proof -
  let ?b = "validating_record b intent (hashIntent sv intent)"
  from assms obtain "record" h1 where rd: "recordDecision sv ?b h = (Inr record, h1)"
    and k1: "io_bind (outside (choose_sender sv cfg vault)) (\<lambda>(sender, role).
       io_bind (outside (evaluateIntentOnChain sv cfg intent sender role (pc_blockHeight ctx))) (\<lambda>v.
       update_or sv record (verdict_patch cfg ctx v))) h1 = (Inr r, h')"
    by (auto simp: validate_intent_def io_bind_Inr_iff)
  from k1 obtain sender role h2 where cs: "outside (choose_sender sv cfg vault) h1 = (Inr (sender, role), h2)"
    and k2: "io_bind (outside (evaluateIntentOnChain sv cfg intent sender role (pc_blockHeight ctx))) (\<lambda>v.
       update_or sv record (verdict_patch cfg ctx v)) h2 = (Inr r, h')"
    by (auto simp: io_bind_Inr_iff)
  from k2 obtain v h3 where ev: "outside (evaluateIntentOnChain sv cfg intent sender role (pc_blockHeight ctx)) h2 = (Inr v, h3)"
    and k3: "update_or sv record (verdict_patch cfg ctx v) h3 = (Inr r, h')"
    by (auto simp: io_bind_Inr_iff)
  note rec = recordDecision_Inr [OF rd]
  have l3: "load h3 = record # take 499 (load h)" "hs_diskError h3 = None"
    using rec(1,2) load_outside [OF cs] load_outside [OF ev] outside_frame [OF cs] outside_frame [OF ev] by auto
  have "update_or sv record (verdict_patch cfg ctx v) h3 =
      (Inr (verdict_patch cfg ctx v record), h3\<lparr>hs_file := Some (verdict_patch cfg ctx v record # take 499 (load h))\<rparr>)"
    by (rule update_or_head [OF l3 rec(5)]) simp
  with k3 have r: "r = verdict_patch cfg ctx v record" "load h' = r # take 499 (load h)" by auto
  obtain w' where e: "evaluateIntentOnChain sv cfg intent sender role (pc_blockHeight ctx) (hs_ext h2) = (Inr v, w')"
    using ev by (auto simp: outside_def split: prod.splits)
  have "dr_intent record = Some intent \<and> dr_vaultId record = dr_vaultId b \<and> dr_recommendation record = dr_recommendation b"
    by (subst (1 2 3) rec(4)) (simp add: validating_record_def)
  then show ?thesis using e r by blast
qed

text \<open>Without \<open>BigInt.prototype.toJSON\<close> no intent can be recorded: the validation throws.\<close>

lemma validate_intent_bigint:
  assumes "\<not> sv_bigintToJSON sv"
  shows "\<exists>h'. validate_intent sv cfg ctx vault b intent h =
      (Inl (TypeError ''Do not know how to serialize a BigInt''), h') \<and> hs_file h' = hs_file h"
proof -
  let ?b = "validating_record b intent (hashIntent sv intent)"
  have "dr_intent ?b = Some intent" by (simp add: validating_record_def)
  from recordDecision_bigint [OF assms this, of h]
  show ?thesis
    by (cases "recordDecision sv ?b h") (simp add: validate_intent_def io_bind_def)
qed

section \<open>Executing off mainnet\<close>

lemma submit_record_off_mainnet:
  assumes "cf_network cfg \<noteq> ''mainnet''"
  shows "hs_effects (snd (submit_record sv cfg r i x h)) = hs_effects h"
proof -
  obtain e h1 where s: "submitRebalanceIntent sv cfg i (ss_contract x) h = (Inl e, h1)" "hs_effects h1 = hs_effects h"
    using submit_off_mainnet [OF assms] by blast
  have k: "io_keeps hs_effects (case e of
      ExecutionBlockedError m \<Rightarrow> update_or sv r (\<lambda>r. r\<lparr>dr_status := TESTNET_BLOCKED,
        dr_executionState := NOT_EXECUTED_TESTNET, dr_txId := None, dr_rejectionReason := Some m\<rparr>)
    | _ \<Rightarrow> io_bind (updateDecision sv (dr_id r) (\<lambda>r. r\<lparr>dr_status := FAILED, dr_rejectionReason := Some (err_text e)\<rparr>))
             (\<lambda>_. io_throw e))"
    by (auto intro!: io_frame split: js_error.split)
  show ?thesis
    using s k [unfolded io_keeps_def]
    by (auto simp: submit_record_def io_catch_def io_bind_def [of "submitRebalanceIntent _ _ _ _"])
qed

lemma reject_with_keeps_effects [io_frame]: "io_keeps hs_effects (reject_with sv r m)"
  unfolding reject_with_def by (intro io_frame)

lemma execute_off_mainnet:
  assumes "cf_network cfg \<noteq> ''mainnet''"
  shows "io_keeps hs_effects (executeValidatedIntent sv cfg i a)"
proof -
  have "io_keeps hs_effects (submit_record sv cfg r j x)" for r j x
    unfolding io_keeps_def by (intro allI submit_record_off_mainnet [OF assms])
  then show ?thesis
    unfolding executeValidatedIntent_def
    by (auto intro!: io_frame split: prod.split option.split)
qed

section \<open>Which runs end validated\<close>

lemma recordDecision_status: "recordDecision sv b h = (Inr r, h') \<Longrightarrow> dr_status r = dr_status b"
  by (auto simp: recordDecision_eq Let_def split: prod.splits if_splits option.splits)

lemma process_validated:
  assumes "process_recommendation sv cfg ctx vault b r h = (Inr record, h')" "dr_status record = VALIDATED"
    "dr_status b = RECOMMENDED"
  shows "\<exists>intent v sender role w w'. buildIntent r vault = Inr intent \<and> dr_intent record = Some intent \<and>
     evaluateIntentOnChain sv cfg intent sender role (pc_blockHeight ctx) w = (Inr v, w') \<and> ov_status v = PASSED \<and>
     dr_validation record = Some v \<and> executionBlockedReason cfg (pc_environment ctx) = None \<and>
     load h' = record # take 499 (load h)"
proof -
  have no: False if "recordDecision sv b' h = (Inr record, h')" "dr_status b' \<noteq> VALIDATED" for b'
    using recordDecision_status [OF that(1)] that(2) assms(2) by simp
  have rej: "dr_status (rejected_record b m) \<noteq> VALIDATED" for m by (simp add: rejected_record_def)
  obtain intent where i: "buildIntent r vault = Inr intent"
    and va: "validate_intent sv cfg ctx vault b intent h = (Inr record, h')"
    using assms(1) no [of b] no [OF _ rej] assms(3)
    by (auto simp: process_recommendation_def io_throw_def split: if_splits sum.splits js_error.splits)
  from validate_intent_result [OF va] obtain v rc sender role w w' where
    ev: "evaluateIntentOnChain sv cfg intent sender role (pc_blockHeight ctx) w = (Inr v, w')"
    and rc: "record = verdict_patch cfg ctx v rc" "dr_intent rc = Some intent" "load h' = record # take 499 (load h)"
    by blast
  have "ov_status v = PASSED \<and> executionBlockedReason cfg (pc_environment ctx) = None"
    using assms(2) rc(1) by (auto simp: verdict_patch_status split: validation_status.splits if_splits)
  with ev i rc show ?thesis by auto
qed

lemma run_validated_only:
  assumes "runRecommendation sv cfg vid a h = (Inr (r, record), h')" "dr_status record = VALIDATED"
  shows "\<exists>ctx vault intent v sender role w w' w0 w1. getProtocolContext sv cfg w0 = (Inr ctx, w1) \<and>
     buildIntent r vault = Inr intent \<and> dr_intent record = Some intent \<and>
     evaluateIntentOnChain sv cfg intent sender role (pc_blockHeight ctx) w = (Inr v, w') \<and> ov_status v = PASSED \<and>
     dr_validation record = Some v \<and> executionBlockedReason cfg (pc_environment ctx) = None \<and> load h' ! 0 = record"
proof -
  from assms(1) obtain ctx vault h1 h2 where c: "outside (getProtocolContext sv cfg) h = (Inr ctx, h1)"
    and rest: "recommend_vault sv cfg vid a ctx vault h2 = (Inr (r, record), h')"
    by (auto simp: runRecommendation_def io_bind_Inr_iff io_throw_def split: option.splits)
  from rest obtain vc "prop" h3 where
    p: "process_recommendation sv cfg ctx vault (base_record cfg vid vc a r (currentAllocation vault ctx) prop) r h3
      = (Inr record, h')"
    by (auto simp: recommend_vault_def io_bind_Inr_iff [of "outside _"] io_lift_bind_Inr_iff
        io_bind_Inr_iff [of "process_recommendation _ _ _ _ _ _"] io_return_def simp del: io_lift_bind)
  obtain w1 where "getProtocolContext sv cfg (hs_ext h) = (Inr ctx, w1)"
    using c by (auto simp: outside_def split: prod.splits)
  moreover have "dr_status (base_record cfg vid vc a r (currentAllocation vault ctx) prop) = RECOMMENDED"
    by (simp add: base_record_def)
  ultimately show ?thesis using process_validated [OF p assms(2)] by fastforce
qed

end
