(* ===== verification/Chain_Reader.thy ===== *)
theory Chain_Reader
  imports Execution_Engine Pipeline
begin

text \<open>
  The agent on top of the contracts. \<open>answer\<close> is the JSON form of what each read-only function
  the agent calls returns in a state of the contract model, in the shape \<open>cvToJSON\<close> documents; the
  hypothesis \<open>chain_answers\<close> says that the reader and the API answer accordingly. Under it the
  context, the snapshot and the verdict the agent computes are functions of the contract state.
\<close>

section \<open>JSON of Clarity values\<close>

definition typed :: "string \<Rightarrow> js \<Rightarrow> js" where
  "typed t v = JObj [(''type'', JStr t), (''value'', v)]"

definition uint_json :: "nat \<Rightarrow> js" where
  "uint_json n = typed ''uint'' (JStr (int_text (int n)))"

definition bool_json :: "bool \<Rightarrow> js" where
  "bool_json b = typed ''bool'' (JBool b)"

definition text_json :: "string \<Rightarrow> js" where
  "text_json s = typed ''(string-ascii)'' (JStr s)"

definition principal_json :: "principal \<Rightarrow> js" where
  "principal_json p = typed ''principal'' (JStr p)"

definition tuple_json :: "(string \<times> js) list \<Rightarrow> js" where
  "tuple_json fs = typed ''(tuple)'' (JObj fs)"

definition option_json :: "js option \<Rightarrow> js" where
  "option_json o' = (case o' of None \<Rightarrow> typed ''(optional none)'' JNull | Some v \<Rightarrow> typed ''(optional)'' v)"

definition response_json :: "bool \<Rightarrow> js \<Rightarrow> js" where
  "response_json ok v = JObj [(''type'', JStr ''(response)''), (''value'', v), (''success'', JBool ok)]"

definition strategy_json :: "strategy_entry \<Rightarrow> js" where
  "strategy_json e = tuple_json
     [(''name'', text_json (strat_name e)), (''strategy-contract'', principal_json (strategy_contract e)),
      (''asset'', text_json (strat_asset e)), (''active'', bool_json (strat_active e)),
      (''max-allocation-bps'', uint_json (strat_max_allocation_bps e)),
      (''registered-at'', uint_json (strat_registered_at e))]"

definition vault_json :: "vault_entry \<Rightarrow> js" where
  "vault_json v = tuple_json
     [(''owner'', principal_json (v_owner v)), (''name'', text_json (v_name v)),
      (''purpose'', uint_json (v_purpose v)), (''assets'', uint_json (v_assets v)),
      (''open-deposits'', bool_json (v_open_deposits v)), (''paused'', bool_json (v_paused v)),
      (''created-at'', uint_json (v_created_at v))]"

definition config_json :: "vault_config \<Rightarrow> js" where
  "config_json c = tuple_json
     [(''max-exposure-bps'', uint_json (max_exposure_bps c)), (''max-stx-tx-amount'', uint_json (max_stx_tx_amount c)),
      (''max-sbtc-tx-amount'', uint_json (max_sbtc_tx_amount c)), (''max-slippage-bps'', uint_json (max_slippage_bps c)),
      (''min-idle-bps'', uint_json (min_idle_bps c)), (''autonomous-enabled'', bool_json (autonomous_enabled c)),
      (''cooldown-blocks'', uint_json (cooldown_blocks c)), (''last-used-nonce'', uint_json (last_used_nonce c)),
      (''last-execution-height'', uint_json (last_execution_height c))]"

definition environment_json :: "environment_tuple \<Rightarrow> js" where
  "environment_json e = tuple_json
     [(''network'', text_json (env_network e)), (''chain-id'', uint_json (env_chain_id e)),
      (''mainnet-execution-armed'', bool_json (env_mainnet_execution_armed e)),
      (''strategy-execution-enabled'', bool_json (env_strategy_execution_enabled e))]"

definition pool_json :: "nat \<Rightarrow> string \<Rightarrow> ('x, 'b) sovereignty_vault_scheme \<Rightarrow> js" where
  "pool_json vid asset s = tuple_json
     [(''idle'', uint_json (get_idle_balance vid asset s)), (''total'', uint_json (get_total_balance vid asset s)),
      (''supply'', uint_json (get_total_supply vid asset s))]"

text \<open>A response of the engine; a runtime error of the virtual machine is no value.\<close>

definition evaluation_json :: "evaluation resp \<Rightarrow> js result" where
  "evaluation_json r =
     (case r of
        Ok ev \<Rightarrow> Inr (response_json True (tuple_json
          [(''risk-validation-passed'', bool_json (risk_validation_passed ev)),
           (''caller-is-owner'', bool_json (caller_is_owner ev)),
           (''strategy-execution-enabled'', bool_json (strategy_execution_enabled ev))]))
      | Err e \<Rightarrow> Inr (response_json False (uint_json e))
      | Abort \<Rightarrow> Inl (JsError ''Runtime error''))"

section \<open>The answers of the contracts\<close>

definition answer ::
    "('x, 'b) sovereignty_vault_scheme \<Rightarrow> string \<Rightarrow> string \<Rightarrow> cl_arg list \<Rightarrow> string \<Rightarrow> js result" where
  "answer s cname fname args sender =
     (if cname = ''sovereignty-protocol-admin-v4'' \<and> fname = ''is-paused'' then Inr (bool_json (protocol_paused s))
      else if cname = ''risk-guard-v7'' then
        (if fname = ''get-approved-sbtc-asset'' then Inr (option_json (map_option principal_json (approved_sbtc_asset s)))
         else if fname = ''get-execution-environment'' then Inr (environment_json (get_execution_environment s))
         else if fname = ''get-vault-config'' then
           (case args of [ClUint v] \<Rightarrow> Inr (option_json (map_option config_json (vault_configs s (nat v))))
            | _ \<Rightarrow> Inl (JsError ''bad arguments''))
         else Inl (JsError ''no such function''))
      else if cname = ''strategy-registry-v6'' \<and> fname = ''get-strategy'' then
        (case args of [ClUint i] \<Rightarrow> Inr (option_json (map_option strategy_json (strategies s (nat i))))
         | _ \<Rightarrow> Inl (JsError ''bad arguments''))
      else if cname = ''agent-registry-v4'' \<and> fname = ''is-authorized-executor'' then
        (case args of [ClPrincipal p] \<Rightarrow> Inr (bool_json (is_authorized_executor p s))
         | _ \<Rightarrow> Inl (JsError ''bad arguments''))
      else if cname = ''sovereignty-vault-v7'' then
        (if fname = ''get-vault'' then
           (case args of [ClUint v] \<Rightarrow> Inr (option_json (map_option vault_json (vaults s (nat v))))
            | _ \<Rightarrow> Inl (JsError ''bad arguments''))
         else if fname = ''get-pool'' then
           (case args of [ClUint v, ClStringAscii a] \<Rightarrow> Inr (pool_json (nat v) a s)
            | _ \<Rightarrow> Inl (JsError ''bad arguments''))
         else if fname = ''supports-asset'' then
           (case args of [ClUint v, ClStringAscii a] \<Rightarrow> Inr (bool_json (supports_asset (nat v) a s))
            | _ \<Rightarrow> Inl (JsError ''bad arguments''))
         else if fname = ''get-strategy-allocation'' then
           (case args of [ClUint v, ClUint i, ClStringAscii a] \<Rightarrow>
              Inr (uint_json (get_strategy_allocation (nat v) (nat i) a s))
            | _ \<Rightarrow> Inl (JsError ''bad arguments''))
         else Inl (JsError ''no such function''))
      else if cname = ''execution-engine-v7'' \<and> fname = ''evaluate-rebalance-intent'' then
        (case args of
           [ClUint v, ClUint i, ClStringAscii a, ClUint am, ClUint sl, ClUint n, ClUint d] \<Rightarrow>
             evaluation_json (evaluate_rebalance_intent sender (nat v) (nat i) a (nat am) (nat sl) (nat n) (nat d) s)
         | _ \<Rightarrow> Inl (JsError ''bad arguments''))
      else Inl (JsError ''no such contract''))"

text \<open>
  The reader and the API serve the state \<open>s\<close> of the contracts of \<open>cf_deployerAddress\<close> without
  changing the world; arguments are in the range of a \<open>uint\<close>.
\<close>

definition arg_ok :: "cl_arg \<Rightarrow> bool" where
  "arg_ok a = (case a of ClUint i \<Rightarrow> 0 \<le> i \<and> i < 2 ^ 128 | _ \<Rightarrow> True)"

definition chain_answers ::
    "'w services \<Rightarrow> agent_config \<Rightarrow> ('x, 'b) sovereignty_vault_scheme \<Rightarrow> 'w \<Rightarrow> bool" where
  "chain_answers sv cfg s w \<longleftrightarrow>
     cf_deployerAddress cfg = deployer s \<and> deployer s \<noteq> [] \<and> CHR ''.'' \<notin> set (deployer s) \<and>
     (\<forall>net cname fname args sender. list_all arg_ok args \<longrightarrow>
        sv_readOnly sv net (deployer s) cname fname args sender w = (answer s cname fname args sender, w)) \<and>
     sv_fetch sv (cf_stacksApiUrl cfg @ ''/extended/v1/status'') w =
       (Inr (True, 200, JObj [(''stacks_tip_height'', JNum (int (block_height s))), (''burn_block_height'', JNum 0)]), w)"

lemma read_answer:
  assumes "chain_answers sv cfg s w" "map_of DEPLOYED_CONTRACT_NAMES logical = Some cname"
    "CHR ''.'' \<notin> set cname" "list_all arg_ok args"
  shows "read_protocol sv cfg logical fname args sender w =
     (answer s cname fname args (case sender of Some x \<Rightarrow> x | None \<Rightarrow> deployer s), w)"
proof -
  have "splitContract (deployer s @ ''.'' @ cname) = Inr (deployer s, cname)"
    using assms by (simp add: chain_answers_def splitContract_def split_on_first split_on_none)
  moreover have "contractId cfg logical = Inr (deployer s @ ''.'' @ cname)"
    using assms by (simp add: chain_answers_def contractId_def)
  ultimately show ?thesis
    using assms by (simp add: read_protocol_def readOnly_def callReadOnly_def chain_answers_def split: option.splits)
qed

lemmas read_protocol_answers =
  read_answer [where logical = "''protocol-admin''" and cname = "''sovereignty-protocol-admin-v4''"]
  read_answer [where logical = "''risk-guard''" and cname = "''risk-guard-v7''"]
  read_answer [where logical = "''strategy-registry''" and cname = "''strategy-registry-v6''"]
  read_answer [where logical = "''agent-registry''" and cname = "''agent-registry-v4''"]
  read_answer [where logical = "''sovereignty-vault''" and cname = "''sovereignty-vault-v7''"]
  read_answer [where logical = "''execution-engine''" and cname = "''execution-engine-v7''"]

lemma deployed_names:
  "map_of DEPLOYED_CONTRACT_NAMES ''protocol-admin'' = Some ''sovereignty-protocol-admin-v4''"
  "map_of DEPLOYED_CONTRACT_NAMES ''risk-guard'' = Some ''risk-guard-v7''"
  "map_of DEPLOYED_CONTRACT_NAMES ''strategy-registry'' = Some ''strategy-registry-v6''"
  "map_of DEPLOYED_CONTRACT_NAMES ''agent-registry'' = Some ''agent-registry-v4''"
  "map_of DEPLOYED_CONTRACT_NAMES ''sovereignty-vault'' = Some ''sovereignty-vault-v7''"
  "map_of DEPLOYED_CONTRACT_NAMES ''execution-engine'' = Some ''execution-engine-v7''"
  by (simp_all add: DEPLOYED_CONTRACT_NAMES_def)

end
