(* ===== verification/Agent_On_Chain.thy ===== *)
theory Agent_On_Chain
  imports Chain_Reader
begin

text \<open>
  What the agent reads from a state of the contracts, in closed form, and the agreement of its
  sizing with the on-chain rules: an allocation the analysis recommends is accepted by
  \<open>evaluate-rebalance-intent\<close>.
\<close>

section \<open>The context and the snapshot of a state\<close>

definition snapshot_strategy :: "nat \<Rightarrow> strategy_entry \<Rightarrow> strategy_snapshot" where
  "snapshot_strategy i e =
     \<lparr> ss_strategyId = int i, ss_name = strat_name e, ss_contract = strategy_contract e,
       ss_asset = strat_asset e, ss_active = True,
       ss_maxAllocationBps = js_Number (int (strat_max_allocation_bps e)) \<rparr>"

fun active_from :: "('x, 'b) sovereignty_vault_scheme \<Rightarrow> nat \<Rightarrow> nat \<Rightarrow> strategy_snapshot list" where
  "active_from s 0 i = []"
| "active_from s (Suc n) i =
     (case strategies s i of
        None \<Rightarrow> []
      | Some e \<Rightarrow> (if strat_active e then [snapshot_strategy i e] else []) @ active_from s n (Suc i))"

definition environment_of :: "('x, 'b) sovereignty_vault_scheme \<Rightarrow> Agent_Types.execution_environment" where
  "environment_of s =
     \<lparr> ee_network = (if is_mainnet_chain s then MAINNET else TESTNET),
       ee_strategyExecutionEnabled = is_strategy_execution_enabled s \<rparr>"

definition context_of :: "('x, 'b) sovereignty_vault_scheme \<Rightarrow> protocol_context" where
  "context_of s =
     \<lparr> pc_blockHeight = int (block_height s), pc_protocolPaused = protocol_paused s,
       pc_approvedSbtcAsset = approved_sbtc_asset s, pc_activeStrategies = active_from s 25 1,
       pc_environment = environment_of s \<rparr>"

definition risk_config_of :: "vault_config \<Rightarrow> string \<Rightarrow> asset_risk_config" where
  "risk_config_of c asset =
     \<lparr> rc_maxExposureBps = js_Number (int (max_exposure_bps c)),
       rc_maxTxAmount = int (if asset = ''STX'' then max_stx_tx_amount c else max_sbtc_tx_amount c),
       rc_maxSlippageBps = js_Number (int (max_slippage_bps c)), rc_minIdleBps = js_Number (int (min_idle_bps c)),
       rc_autonomousEnabled = autonomous_enabled c, rc_cooldownBlocks = js_Number (int (cooldown_blocks c)),
       rc_lastUsedNonce = js_Number (int (last_used_nonce c)),
       rc_lastExecutionHeight = js_Number (int (last_execution_height c)) \<rparr>"

definition add_allocation ::
    "('x, 'b) sovereignty_vault_scheme \<Rightarrow> nat \<Rightarrow> string \<Rightarrow> strategy_snapshot \<Rightarrow> (strategy_id \<rightharpoonup> int)
     \<Rightarrow> (strategy_id \<rightharpoonup> int)" where
  "add_allocation s vid asset x m =
     m(ss_strategyId x \<mapsto> int (get_strategy_allocation vid (nat (ss_strategyId x)) asset s))"

definition allocations_of ::
    "('x, 'b) sovereignty_vault_scheme \<Rightarrow> nat \<Rightarrow> string \<Rightarrow> strategy_snapshot list \<Rightarrow> (strategy_id \<rightharpoonup> int)" where
  "allocations_of s vid asset ss =
     fold (add_allocation s vid asset) ss Map.empty"

definition snapshot_of ::
    "('x, 'b) sovereignty_vault_scheme \<Rightarrow> nat \<Rightarrow> string \<Rightarrow> vault_entry \<Rightarrow> vault_config \<Rightarrow> vault_snapshot" where
  "snapshot_of s vid asset v c =
     \<lparr> vs_vaultId = int vid, vs_owner = v_owner v, vs_name = v_name v, vs_purpose = js_Number (int (v_purpose v)),
       vs_supportsAsset = supports_asset vid asset s, vs_paused = v_paused v, vs_asset = asset,
       vs_idleBalance = int (get_idle_balance vid asset s), vs_totalBalance = int (get_total_balance vid asset s),
       vs_shareSupply = int (get_total_supply vid asset s),
       vs_allocations = allocations_of s vid asset (filter (\<lambda>x. ss_asset x = asset) (active_from s 25 1)),
       vs_riskConfig = risk_config_of c asset \<rparr>"

section \<open>Reading them\<close>

lemmas json_defs = typed_def uint_json_def bool_json_def text_json_def principal_json_def tuple_json_def
  option_json_def response_json_def

lemma answer_simps:
  "answer s ''sovereignty-protocol-admin-v4'' ''is-paused'' as x = Inr (bool_json (protocol_paused s))"
  "answer s ''risk-guard-v7'' ''get-approved-sbtc-asset'' as x =
     Inr (option_json (map_option principal_json (approved_sbtc_asset s)))"
  "answer s ''risk-guard-v7'' ''get-execution-environment'' as x = Inr (environment_json (get_execution_environment s))"
  "answer s ''risk-guard-v7'' ''get-vault-config'' [ClUint v] x =
     Inr (option_json (map_option config_json (vault_configs s (nat v))))"
  "answer s ''strategy-registry-v6'' ''get-strategy'' [ClUint v] x =
     Inr (option_json (map_option strategy_json (strategies s (nat v))))"
  "answer s ''agent-registry-v4'' ''is-authorized-executor'' [ClPrincipal p] x =
     Inr (bool_json (is_authorized_executor p s))"
  "answer s ''sovereignty-vault-v7'' ''get-vault'' [ClUint v] x =
     Inr (option_json (map_option vault_json (vaults s (nat v))))"
  "answer s ''sovereignty-vault-v7'' ''get-pool'' [ClUint v, ClStringAscii a] x = Inr (pool_json (nat v) a s)"
  "answer s ''sovereignty-vault-v7'' ''supports-asset'' [ClUint v, ClStringAscii a] x =
     Inr (bool_json (supports_asset (nat v) a s))"
  "answer s ''sovereignty-vault-v7'' ''get-strategy-allocation'' [ClUint v, ClUint i, ClStringAscii a] x =
     Inr (uint_json (get_strategy_allocation (nat v) (nat i) a s))"
  "answer s ''execution-engine-v7'' ''evaluate-rebalance-intent''
     [ClUint v, ClUint i, ClStringAscii a, ClUint am, ClUint sl, ClUint n, ClUint d] x =
     evaluation_json (evaluate_rebalance_intent x (nat v) (nat i) a (nat am) (nat sl) (nat n) (nat d) s)"
  by (simp_all add: answer_def)

lemma decode_strategy_json:
  "decode_strategy (int i) (JObj
     [(''name'', text_json (strat_name e)), (''strategy-contract'', principal_json (strategy_contract e)),
      (''asset'', text_json (strat_asset e)), (''active'', bool_json (strat_active e)),
      (''max-allocation-bps'', uint_json (strat_max_allocation_bps e)),
      (''registered-at'', uint_json (strat_registered_at e))])
   = Inr (if strat_active e then [snapshot_strategy i e] else [])"
  by (simp add: decode_strategy_def json_defs is_true_def snapshot_strategy_def)

lemma int_range: "i < 2 ^ k \<Longrightarrow> int i < 2 ^ k"
  by (metis of_nat_less_iff of_nat_numeral of_nat_power)

lemma read_strategy:
  assumes "chain_answers sv cfg s w" "i < 2 ^ 128"
  shows "read_protocol sv cfg ''strategy-registry'' ''get-strategy'' [ClUint (int i)] None w =
     (Inr (option_json (map_option strategy_json (strategies s i))), w)"
proof -
  have "int i < 2 ^ 128" using assms(2) by (rule int_range)
  then show ?thesis
    by (simp add: read_answer [OF assms(1) deployed_names(3)] arg_ok_def answer_simps)
qed

lemma probe_answers:
  assumes "chain_answers sv cfg s w"
  shows "i + n < 2 ^ 128 \<Longrightarrow> probe_strategies sv cfg n (int i) w = (Inr (active_from s n i), w)"
proof (induction n arbitrary: i)
  case 0
  then show ?case by (simp add: io_return_def)
next
  case (Suc n)
  have r: "read_protocol sv cfg ''strategy-registry'' ''get-strategy'' [ClUint (int i)] None w =
     (Inr (option_json (map_option strategy_json (strategies s i))), w)"
    using Suc.prems by (intro read_strategy [OF assms]) simp
  have ih: "probe_strategies sv cfg n (1 + int i) w = (Inr (active_from s n (Suc i)), w)"
    using Suc.IH [of "Suc i"] Suc.prems by simp
  show ?case
  proof (cases "strategies s i")
    case None
    with r show ?thesis by (simp add: io_bind_def io_lift_def io_return_def json_defs)
  next
    case (Some e)
    have "js_try (js_get (typed ''(optional)'' (strategy_json e)) ''value'')
        (\<lambda>v. js_try (js_get v ''value'') (decode_strategy (int i)))
      = Inr (if strat_active e then [snapshot_strategy i e] else [])"
      by (simp add: strategy_json_def tuple_json_def typed_def decode_strategy_json)
    moreover have "strategy_json e \<noteq> JNull" by (simp add: strategy_json_def json_defs)
    ultimately show ?thesis using r ih Some
      by (simp add: io_bind_def io_lift_def io_return_def option_json_def typed_def add.commute)
  qed
qed

lemma decode_environment_json:
  "js_try (js_get (environment_json (get_execution_environment s)) ''value'') decode_environment
   = Inr (environment_of s)"
  by (simp add: environment_json_def get_execution_environment_def json_defs decode_environment_def is_true_def
      environment_of_def)

lemma decode_approved_json:
  "decode_approved_asset (option_json (map_option principal_json a)) = Inr a"
  by (cases a) (simp_all add: decode_approved_asset_def json_defs)

lemma chain_info_answers:
  "chain_answers sv cfg s w \<Longrightarrow> getChainInfo sv cfg w = (Inr (int (block_height s), 0), w)"
  by (simp add: chain_answers_def getChainInfo_def apiGet_def io_bind_def io_lift_def io_return_def)

theorem context_answers:
  assumes "chain_answers sv cfg s w"
  shows "getProtocolContext sv cfg w = (Inr (context_of s), w)"
proof -
  note read = read_answer [OF assms]
  have env: "decode_environment (case environment_json (get_execution_environment s) of JObj fs \<Rightarrow> the (map_of fs ''value''))
      = Inr (environment_of s)"
    using decode_environment_json [of s] by (simp add: environment_json_def json_defs)
  show ?thesis
    using env probe_answers [OF assms, of 1 25]
    by (simp add: getProtocolContext_def io_bind_def io_lift_def io_return_def chain_info_answers [OF assms]
        read [OF deployed_names(1)] read [OF deployed_names(2)] arg_ok_def answer_simps MAX_STRATEGY_PROBE_def
        decode_approved_json context_of_def environment_json_def bool_json_def tuple_json_def typed_def is_true_def)
qed

section \<open>The snapshot\<close>

lemma active_from_ids: "x \<in> set (active_from s n i) \<Longrightarrow>
   \<exists>j e. i \<le> j \<and> j < i + n \<and> strategies s j = Some e \<and> strat_active e \<and> x = snapshot_strategy j e"
proof (induction n arbitrary: i)
  case 0
  then show ?case by simp
next
  case (Suc n)
  then obtain e where e: "strategies s i = Some e" by (cases "strategies s i") auto
  with Suc.prems consider "strat_active e" "x = snapshot_strategy i e" | "x \<in> set (active_from s n (Suc i))"
    by (auto split: if_splits)
  then show ?case
  proof cases
    case 1
    with e show ?thesis by auto
  next
    case 2
    from Suc.IH [OF this] show ?thesis by (metis Suc_leD add_Suc_shift)
  qed
qed

lemma allocations_answers:
  assumes "chain_answers sv cfg s w" "vid < 2 ^ 128"
    and "\<forall>x\<in>set ss. 0 \<le> ss_strategyId x \<and> ss_strategyId x < 2 ^ 128"
  shows "read_allocations sv cfg (int vid) asset ss m w =
     (Inr (fold (add_allocation s vid asset) ss m), w)"
  using assms(3)
proof (induction ss arbitrary: m)
  case Nil
  then show ?case by (simp add: io_return_def)
next
  case (Cons x ss)
  have "read_protocol sv cfg ''sovereignty-vault'' ''get-strategy-allocation''
      [ClUint (int vid), ClUint (ss_strategyId x), ClStringAscii asset] None w =
    (Inr (uint_json (get_strategy_allocation vid (nat (ss_strategyId x)) asset s)), w)"
    using Cons.prems int_range [OF assms(2)]
    by (simp add: read_answer [OF assms(1) deployed_names(5)] arg_ok_def answer_simps)
  moreover have "js_try (js_get (uint_json n) ''value'') to_bigint = Inr (int n)" for n
    by (simp add: uint_json_def typed_def)
  ultimately show ?case using Cons by (simp add: io_bind_def io_lift_def add_allocation_def del: fun_upd_apply)
qed

lemma decode_risk_config_json:
  "decode_risk_config asset (JObj
     [(''max-exposure-bps'', uint_json (max_exposure_bps c)), (''max-stx-tx-amount'', uint_json (max_stx_tx_amount c)),
      (''max-sbtc-tx-amount'', uint_json (max_sbtc_tx_amount c)), (''max-slippage-bps'', uint_json (max_slippage_bps c)),
      (''min-idle-bps'', uint_json (min_idle_bps c)), (''autonomous-enabled'', bool_json (autonomous_enabled c)),
      (''cooldown-blocks'', uint_json (cooldown_blocks c)), (''last-used-nonce'', uint_json (last_used_nonce c)),
      (''last-execution-height'', uint_json (last_execution_height c))])
   = Inr (risk_config_of c asset)"
  by (simp add: decode_risk_config_def number_field_def bigint_field_def uint_json_def bool_json_def typed_def
      is_true_def risk_config_of_def)

lemma decode_vault_json:
  "decode_vault (int vid) asset (v_owner v)
     (JObj [(''owner'', principal_json (v_owner v)), (''name'', text_json (v_name v)),
      (''purpose'', uint_json (v_purpose v)), (''assets'', uint_json (v_assets v)),
      (''open-deposits'', bool_json (v_open_deposits v)), (''paused'', bool_json (v_paused v)),
      (''created-at'', uint_json (v_created_at v))])
     (bool_json (supports_asset vid asset s))
     (JObj [(''idle'', uint_json (get_idle_balance vid asset s)), (''total'', uint_json (get_total_balance vid asset s)),
      (''supply'', uint_json (get_total_supply vid asset s))])
     (JObj [(''max-exposure-bps'', uint_json (max_exposure_bps c)), (''max-stx-tx-amount'', uint_json (max_stx_tx_amount c)),
      (''max-sbtc-tx-amount'', uint_json (max_sbtc_tx_amount c)), (''max-slippage-bps'', uint_json (max_slippage_bps c)),
      (''min-idle-bps'', uint_json (min_idle_bps c)), (''autonomous-enabled'', bool_json (autonomous_enabled c)),
      (''cooldown-blocks'', uint_json (cooldown_blocks c)), (''last-used-nonce'', uint_json (last_used_nonce c)),
      (''last-execution-height'', uint_json (last_execution_height c))])
     (allocations_of s vid asset (filter (\<lambda>x. ss_asset x = asset) (active_from s 25 1)))
   = Inr (snapshot_of s vid asset v c)"
  by (simp add: decode_vault_def decode_risk_config_json) (simp add: number_field_def bigint_field_def
      uint_json_def bool_json_def text_json_def typed_def is_true_def snapshot_of_def)

theorem snapshot_answers:
  assumes ch: "chain_answers sv cfg s w" and vid: "vid < 2 ^ 128"
    and v: "vaults s vid = Some v" and c: "vault_configs s vid = Some c"
  shows "getVaultSnapshot sv cfg (int vid) asset (Some (context_of s)) w = (Inr (Some (snapshot_of s vid asset v c)), w)"
proof -
  note read = read_answer [OF ch]
  have rng: "int vid < 2 ^ 128" using vid by (rule int_range)
  have ids: "\<forall>x\<in>set (filter (\<lambda>x. ss_asset x = asset) (active_from s 25 1)).
      0 \<le> ss_strategyId x \<and> ss_strategyId x < 2 ^ 128"
    by (auto simp: snapshot_strategy_def dest!: active_from_ids)
  have al: "read_allocations sv cfg (int vid) asset
        (filter (\<lambda>x. ss_asset x = asset) (active_from s 25 1)) Map.empty w
      = (Inr (allocations_of s vid asset (filter (\<lambda>x. ss_asset x = asset) (active_from s 25 1))), w)"
    using allocations_answers [OF ch vid ids] by (simp add: allocations_of_def)
  have ctx: "pc_activeStrategies (context_of s) = active_from s 25 1"
    by (simp add: context_of_def)
  have owner: "js_try (js_path (JObj (map_prod id id (''owner'', principal_json (v_owner v)) # fs)) [''owner'', ''value'']) as_string
      = Inr (v_owner v)" for fs
    by (simp add: principal_json_def typed_def)
  show ?thesis
    using rng owner
    by (simp add: getVaultSnapshot_def io_bind_def io_lift_def io_return_def read [OF deployed_names(5)]
        read [OF deployed_names(2)] arg_ok_def answer_simps v c option_json_def vault_json_def config_json_def
        pool_json_def tuple_json_def ctx al decode_vault_json
        typed_def [of "''(optional)''"] typed_def [of "''(tuple)''"] del: One_nat_def)
qed

section \<open>A recommended allocation is admissible\<close>

lemma fold_add_allocation:
  "fold (add_allocation s vid asset) ss m k =
     (if k \<in> ss_strategyId ` set ss then Some (int (get_strategy_allocation vid (nat k) asset s)) else m k)"
  by (induction ss arbitrary: m) (auto simp: add_allocation_def)

lemma alloc_of_snapshot:
  assumes "x \<in> set (active_from s 25 1)" "ss_asset x = asset"
  shows "alloc_of (snapshot_of s vid asset v c) (ss_strategyId x) =
     int (get_strategy_allocation vid (nat (ss_strategyId x)) asset s)"
  using assms by (auto simp: alloc_of_def snapshot_of_def allocations_of_def get_or_def fold_add_allocation)

lemma js_Number_bps [simp]: "n \<le> 10000 \<Longrightarrow> js_Number (int n) = int n"
  by (simp add: safe_int_def)

lemma big_div_bps: "big_div (int t * int c) BPS = int (t * c div 10000)"
  by (simp add: big_div_nonneg BPS_def zdiv_int)

lemma big_div_bps_up: "big_div (int t * int c + BPS - 1) BPS = int ((t * c + 9999) div 10000)"
proof -
  have "int t * int c + BPS - 1 = int (t * c + 9999)" by (simp add: BPS_def)
  then show ?thesis by (simp only:) (simp add: big_div_nonneg BPS_def zdiv_int)
qed

lemma candidate_snapshot:
  assumes "candidate (snapshot_of s vid asset v c) (context_of s) = Some x"
  obtains i e where "0 < i" "i < 26" "strategies s i = Some e" "strat_active e" "strat_asset e = asset"
    "x = snapshot_strategy i e" "x \<in> set (active_from s 25 1)"
proof -
  have "x \<in> set (active_from s 25 1)" "ss_asset x = asset"
    using find_Some_mem [OF assms [unfolded candidate_def]] by (simp_all add: context_of_def snapshot_of_def)
  with active_from_ids [OF this(1)] that show thesis
    by (auto simp: snapshot_strategy_def)
qed

lemma recommended_allocation_admissible:
  assumes ready: "ready_to_allocate (snapshot_of s vid asset v c) (context_of s) x"
    and reg: "registry_ok s" and cfg: "config_ok c"
  obtains i e a where "0 < i" "strategies s i = Some e" "strat_active e" "strat_asset e = asset"
    "x = snapshot_strategy i e" "int a = sized_amount (snapshot_of s vid asset v c) x"
    "0 < a" "a \<le> get_idle_balance vid asset s" "0 < get_total_balance vid asset s"
    "a \<le> max_tx_amount_for c asset"
    "get_strategy_allocation vid i asset s + a \<le> get_total_balance vid asset s"
    "(get_strategy_allocation vid i asset s + a) * 10000 div get_total_balance vid asset s \<le> max_exposure_bps c"
    "(get_strategy_allocation vid i asset s + a) * 10000 div get_total_balance vid asset s \<le> strat_max_allocation_bps e"
    "min_idle_bps c \<le> (get_idle_balance vid asset s - a) * 10000 div get_total_balance vid asset s"
proof -
  let ?vs = "snapshot_of s vid asset v c"
  let ?cur = "get_strategy_allocation vid" and ?tot = "get_total_balance vid asset s"
    and ?idle = "get_idle_balance vid asset s"
  from ready have cand: "candidate ?vs (context_of s) = Some x" and pos: "0 < sized_amount ?vs x"
    and tot: "0 < ?tot" by (auto simp: ready_to_allocate_def snapshot_of_def)
  from cand obtain i e where i: "0 < i" "strategies s i = Some e" "strat_active e" "strat_asset e = asset"
      and x: "x = snapshot_strategy i e" and mem: "x \<in> set (active_from s 25 1)"
    by (rule candidate_snapshot)
  have asset: "ss_asset x = asset" "ss_strategyId x = int i" using i x by (simp_all add: snapshot_strategy_def)
  have cap: "strat_max_allocation_bps e \<le> 10000" using reg i by (auto simp: registry_ok_def)
  have cur: "alloc_of ?vs (ss_strategyId x) = int (?cur i asset s)"
    using alloc_of_snapshot [OF mem asset(1)] asset by simp
  have exposure: "maxExposureAmount ?vs = int (?tot * max_exposure_bps c div 10000)"
    using cfg by (simp add: maxExposureAmount_def snapshot_of_def risk_config_of_def config_ok_def big_div_bps)
  have protocol: "maxProtocolAmount ?vs x = int (?tot * strat_max_allocation_bps e div 10000)"
    using cap x by (simp add: maxProtocolAmount_def snapshot_of_def snapshot_strategy_def big_div_bps)
  have reserve: "minLiquidityReserve ?vs = int ((?tot * min_idle_bps c + 9999) div 10000)"
    using cfg by (simp add: minLiquidityReserve_def snapshot_of_def risk_config_of_def config_ok_def big_div_bps_up)
  define a where "a = nat (sized_amount ?vs x)"
  have a: "int a = sized_amount ?vs x" "0 < a" using pos by (simp_all add: a_def)
  note b = sized_amount_bounds [OF pos, folded a(1)]
  have 1: "?cur i asset s + a \<le> ?tot * max_exposure_bps c div 10000"
    using b(1) unfolding cur exposure by linarith
  have 2: "?cur i asset s + a \<le> ?tot * strat_max_allocation_bps e div 10000"
    using b(2) unfolding cur protocol by linarith
  have idle: "vs_idleBalance ?vs = int ?idle" by (simp add: snapshot_of_def)
  have 3: "a + (?tot * min_idle_bps c + 9999) div 10000 \<le> ?idle"
    using b(3) unfolding reserve idle by linarith
  have 4: "a \<le> max_tx_amount_for c asset"
    using b(4) by (auto simp: snapshot_of_def risk_config_of_def max_tx_amount_for_def ASSET_STX_def split: if_splits)
  show thesis
  proof (rule that [OF i x a(1) a(2) _ tot 4])
    have "max_exposure_bps c \<le> 10000" using cfg by (simp add: config_ok_def)
    then have "?tot * max_exposure_bps c div 10000 \<le> ?tot * 10000 div 10000"
      by (intro div_le_mono mult_le_mono2)
    then show "?cur i asset s + a \<le> ?tot" using 1 by simp
    show "a \<le> ?idle" using 3 by linarith
    show "(?cur i asset s + a) * 10000 div ?tot \<le> max_exposure_bps c" by (rule bps_floor_cap [OF tot 1])
    show "(?cur i asset s + a) * 10000 div ?tot \<le> strat_max_allocation_bps e" by (rule bps_floor_cap [OF tot 2])
    show "min_idle_bps c \<le> (?idle - a) * 10000 div ?tot"
      using 3 by (intro bps_ceiling_floor [OF tot]) linarith
  qed
qed

section \<open>A recommended intent is accepted\<close>

definition intent_for ::
    "agent_config \<Rightarrow> vault_snapshot \<Rightarrow> protocol_context \<Rightarrow> strategy_snapshot \<Rightarrow> execution_intent" where
  "intent_for cfg vault ctx x =
     \<lparr> ei_vaultId = vs_vaultId vault, ei_action = ''REBALANCE'', ei_asset = vs_asset vault,
       ei_sourceStrategy = ''idle'', ei_destStrategyId = ss_strategyId x, ei_amount = sized_amount vault x,
       ei_maxSlippageBps = rc_maxSlippageBps (vs_riskConfig vault),
       ei_maxExposureBps = rc_maxExposureBps (vs_riskConfig vault),
       ei_nonce = js_add (rc_lastUsedNonce (vs_riskConfig vault)) 1,
       ei_deadline = js_add (pc_blockHeight ctx) (cf_intentDeadlineWindowBlocks cfg) \<rparr>"

lemma buildIntent_analyze:
  "ready_to_allocate vault ctx x \<Longrightarrow>
   buildIntent (analyze cfg now vault ctx) vault = Inr (intent_for cfg vault ctx x)"
  by (auto simp: analyze_ready buildIntent_Inr intent_for_def ready_to_allocate_def)

text \<open>
  What the recommendation takes for granted beyond the snapshot: a nonce a double can count on
  from, a deadline window that is not negative, an elapsed cooldown, an authorised sender, and
  balances whose basis points fit 128 bits.
\<close>

definition submittable ::
    "agent_config \<Rightarrow> ('x, 'b) sovereignty_vault_scheme \<Rightarrow> nat \<Rightarrow> string \<Rightarrow> vault_entry \<Rightarrow> vault_config \<Rightarrow> string \<Rightarrow> bool" where
  "submittable cfg s vid asset v c sender \<longleftrightarrow>
     last_used_nonce c < 2 ^ 53 \<and> 0 \<le> cf_intentDeadlineWindowBlocks cfg \<and>
     int (block_height s) + cf_intentDeadlineWindowBlocks cfg \<le> 2 ^ 53 \<and>
     (last_execution_height c = 0 \<or> last_execution_height c + cooldown_blocks c \<le> block_height s) \<and>
     (sender = v_owner v \<or> is_authorized_executor sender s \<and> autonomous_enabled c) \<and>
     get_total_balance vid asset s * 10000 < u128"

lemma u128_value: "u128 = 340282366920938463463374607431768211456"
  by (simp add: u128_def)

lemma recommended_accepted:
  assumes ready: "ready_to_allocate (snapshot_of s vid asset v c) (context_of s) x"
    and reg: "registry_ok s" and cfg: "config_ok c"
    and v: "vaults s vid = Some v" and c: "vault_configs s vid = Some c"
    and sub: "submittable cfg s vid asset v c sender"
    and covered: "get_idle_balance vid asset s \<le> get_total_balance vid asset s"
    and i: "i = intent_for cfg (snapshot_of s vid asset v c) (context_of s) x"
  shows "evaluate_rebalance_intent sender vid (nat (ei_destStrategyId i)) asset (nat (ei_amount i))
      (nat (ei_maxSlippageBps i)) (nat (ei_nonce i)) (nat (ei_deadline i)) s =
    Ok \<lparr>risk_validation_passed = True, caller_is_owner = (sender = v_owner v),
        strategy_execution_enabled = is_strategy_execution_enabled s\<rparr>"
    and "0 \<le> ei_destStrategyId i \<and> ei_destStrategyId i < 2 ^ 128"
    and "0 \<le> ei_amount i \<and> ei_amount i < 2 ^ 128"
    and "0 \<le> ei_maxSlippageBps i \<and> ei_maxSlippageBps i \<le> 10000"
    and "0 \<le> ei_nonce i \<and> ei_nonce i \<le> 2 ^ 53" and "0 \<le> ei_deadline i \<and> ei_deadline i \<le> 2 ^ 53"
proof -
  let ?tot = "get_total_balance vid asset s" and ?idle = "get_idle_balance vid asset s"
  obtain j e a where j: "0 < j" "strategies s j = Some e" "strat_active e" "strat_asset e = asset"
      and x: "x = snapshot_strategy j e" and a: "int a = sized_amount (snapshot_of s vid asset v c) x"
      and pos: "0 < a" and le: "a \<le> ?idle" and tot: "0 < ?tot" and tx: "a \<le> max_tx_amount_for c asset"
      and whole: "get_strategy_allocation vid j asset s + a \<le> ?tot"
      and ex: "(get_strategy_allocation vid j asset s + a) * 10000 div ?tot \<le> max_exposure_bps c"
      and cap: "(get_strategy_allocation vid j asset s + a) * 10000 div ?tot \<le> strat_max_allocation_bps e"
      and fl: "min_idle_bps c \<le> (?idle - a) * 10000 div ?tot"
    by (rule recommended_allocation_admissible [OF ready reg cfg])
  from ready have live: "\<not> protocol_paused s" "supports_asset vid asset s" "\<not> v_paused v"
    by (simp_all add: ready_to_allocate_def context_of_def snapshot_of_def)
  have valid: "is_valid_asset asset" using reg j by (auto simp: registry_ok_def)
  have slip: "max_slippage_bps c \<le> 10000" "max_exposure_bps c \<le> 10000" using cfg by (auto simp: config_ok_def)
  have nonce: "ei_nonce i = int (last_used_nonce c) + 1"
    using sub i by (simp add: intent_for_def snapshot_of_def risk_config_of_def submittable_def safe_int_def)
  have dl: "ei_deadline i = int (block_height s) + cf_intentDeadlineWindowBlocks cfg"
    using sub i by (simp add: intent_for_def context_of_def submittable_def safe_int_def)
  have fields: "ei_destStrategyId i = int j" "ei_amount i = int a" "ei_maxSlippageBps i = int (max_slippage_bps c)"
    using i x a slip by (simp_all add: intent_for_def snapshot_strategy_def snapshot_of_def risk_config_of_def)
  have total: "?tot * 10000 < u128" "?idle \<le> ?tot" using sub covered by (auto simp: submittable_def)
  have cand: "candidate (snapshot_of s vid asset v c) (context_of s) = Some x"
    using ready by (simp add: ready_to_allocate_def)
  obtain k e' where "k < 26" "x = snapshot_strategy k e'" by (rule candidate_snapshot [OF cand])
  then have jr: "int j < 2 ^ 128" using x by (simp add: snapshot_strategy_def)
  have below: "y * 10000 < u128" if "y \<le> ?tot" for y
    using mult_le_mono1 [OF that, of 10000] total(1) by (rule le_less_trans)
  have "(get_strategy_allocation vid j asset s + a) * 10000 < u128" using whole by (rule below)
  moreover have "?idle - a \<le> ?tot" using total(2) by simp
  then have "(?idle - a) * 10000 < u128" by (rule below)
  ultimately have fits: "(get_strategy_allocation vid j asset s + a) * 10000 < u128" "(?idle - a) * 10000 < u128"
    by simp_all
  have height: "block_height s \<le> 2 ^ 53" using sub by (auto simp: submittable_def)
  have n: "nat (ei_nonce i) = Suc (last_used_nonce c)" using nonce by simp
  have d: "block_height s \<le> nat (ei_deadline i)" using dl sub by (auto simp: submittable_def le_nat_iff)
  have cool: "last_execution_height c = 0 \<or> last_execution_height c + cooldown_blocks c \<le> block_height s"
    using sub by (simp add: submittable_def)
  then have cool': "last_execution_height c = 0 \<or> last_execution_height c + cooldown_blocks c < u128"
    using height by (auto simp: u128_value)
  have auth: "sender = v_owner v \<or> is_authorized_executor sender s \<and> autonomous_enabled c"
    using sub by (simp add: submittable_def)
  have active: "is_strategy_active j s" "get_strategy_asset j s = Some asset"
      "get_max_allocation_bps j s = strat_max_allocation_bps e"
    using j by (simp_all add: is_strategy_active_def is_idle_def get_strategy_asset_def get_max_allocation_bps_def)
  have f: "intent_fits c a ?idle (get_strategy_allocation vid j asset s)"
    unfolding intent_fits_def using cool' fits by blast
  have adm: "intent_admissible c (protocol_paused s) (block_height s) asset a (max_slippage_bps c)
      (nat (ei_nonce i)) (nat (ei_deadline i)) (sender = v_owner v) ?idle ?tot
      (get_strategy_allocation vid j asset s) (get_max_allocation_bps j s)"
    unfolding intent_admissible_def n active(3)
    using valid live(1) auth d cool pos tx le tot ex cap fl by blast+
  have mode: "asset_in_mode (v_assets v) asset" using live(2) v by (simp add: supports_asset_def)
  have "evaluate sender vid j asset a (max_slippage_bps c) (nat (ei_nonce i)) (nat (ei_deadline i)) s
      = Ok (sender = v_owner v)"
    unfolding evaluate_Ok
    using v c j(1) live(3) valid active(1,2) f adm mode auth by blast
  then show "evaluate_rebalance_intent sender vid (nat (ei_destStrategyId i)) asset (nat (ei_amount i))
      (nat (ei_maxSlippageBps i)) (nat (ei_nonce i)) (nat (ei_deadline i)) s =
    Ok \<lparr>risk_validation_passed = True, caller_is_owner = (sender = v_owner v),
        strategy_execution_enabled = is_strategy_execution_enabled s\<rparr>"
    using fields by (simp add: evaluate_rebalance_intent_Ok)
  show "0 \<le> ei_destStrategyId i \<and> ei_destStrategyId i < 2 ^ 128" using fields jr by simp
  show "0 \<le> ei_amount i \<and> ei_amount i < 2 ^ 128" using fields le total by (auto simp: u128_value)
  show "0 \<le> ei_maxSlippageBps i \<and> ei_maxSlippageBps i \<le> 10000" using fields slip by simp
  show "0 \<le> ei_nonce i \<and> ei_nonce i \<le> 2 ^ 53" using nonce sub by (simp add: submittable_def)
  show "0 \<le> ei_deadline i \<and> ei_deadline i \<le> 2 ^ 53" using dl sub by (simp add: submittable_def)
qed

section \<open>A whole run against the contracts\<close>

lemma verdict_answers:
  assumes ch: "chain_answers sv cfg s w" and args: "list_all arg_ok
      [ClUint (ei_vaultId i), ClUint (ei_destStrategyId i), ClStringAscii (ei_asset i), ClUint (ei_amount i),
       ClUint (ei_maxSlippageBps i), ClUint (ei_nonce i), ClUint (ei_deadline i)]"
    and ev: "evaluate_rebalance_intent sender (nat (ei_vaultId i)) (nat (ei_destStrategyId i)) (ei_asset i)
      (nat (ei_amount i)) (nat (ei_maxSlippageBps i)) (nat (ei_nonce i)) (nat (ei_deadline i)) s = Ok ev"
  shows "evaluateIntentOnChain sv cfg i sender role b w =
    (Inr \<lparr> ov_source = evaluation_source, ov_status = PASSED, ov_errorCode = None,
           ov_detail = ''Every on-chain rule accepted this intent.'', ov_evaluatedAs = role,
           ov_evaluatedAtBlock = b, ov_strategyExecutionEnabled = Some (strategy_execution_enabled ev) \<rparr>, w)"
  using args
  by (simp add: evaluateIntentOnChain_def read_answer [OF ch deployed_names(6)] answer_simps ev evaluation_json_def
      io_bind_def io_catch_def io_lift_def decode_verdict_def json_defs is_true_def)

lemma refusal_answers:
  assumes ch: "chain_answers sv cfg s w" and args: "list_all arg_ok
      [ClUint (ei_vaultId i), ClUint (ei_destStrategyId i), ClStringAscii (ei_asset i), ClUint (ei_amount i),
       ClUint (ei_maxSlippageBps i), ClUint (ei_nonce i), ClUint (ei_deadline i)]"
    and ev: "evaluate_rebalance_intent sender (nat (ei_vaultId i)) (nat (ei_destStrategyId i)) (ei_asset i)
      (nat (ei_amount i)) (nat (ei_maxSlippageBps i)) (nat (ei_nonce i)) (nat (ei_deadline i)) s = Err e"
  shows "evaluateIntentOnChain sv cfg i sender role b w =
    (Inr \<lparr> ov_source = evaluation_source, ov_status = NOT_PASSED, ov_errorCode = Some (js_Number (int e)),
           ov_detail = ''Rejected by on-chain rule (error u'' @ int_text (js_Number (int e)) @ '').'',
           ov_evaluatedAs = role, ov_evaluatedAtBlock = b, ov_strategyExecutionEnabled = None \<rparr>, w)"
  using args
  by (simp add: evaluateIntentOnChain_def read_answer [OF ch deployed_names(6)] answer_simps ev evaluation_json_def
      io_bind_def io_catch_def io_lift_def decode_verdict_def json_defs is_true_def)

lemma sender_answers:
  assumes ch: "chain_answers sv cfg s w" and ex: "executorAddress sv cfg = Inr ex"
  shows "\<exists>sender role. choose_sender sv cfg (snapshot_of s vid asset v c) w = (Inr (sender, role), w) \<and>
     (sender = v_owner v \<or> is_authorized_executor sender s \<and> autonomous_enabled c)"
proof -
  have "isAuthorizedExecutor sv cfg a w = (Inr (is_authorized_executor a s), w)" for a
    by (simp add: isAuthorizedExecutor_def read_answer [OF ch deployed_names(4)] arg_ok_def answer_simps
        io_bind_def io_lift_def bool_json_def typed_def is_true_def)
  then show ?thesis
    using ex truthy_text_simps by (auto simp: choose_sender_def io_bind_def io_lift_def io_return_def snapshot_of_def risk_config_of_def)
qed

lemma outside_still: "m (hs_ext h) = (r, hs_ext h) \<Longrightarrow> outside m h = (r, h)"
  by (simp add: outside_def)

text \<open>The chain stands still during the run; the clock and the identifiers may move on.\<close>

lemma validated_against_chain:
  assumes still: "\<And>w. chain_answers sv cfg s w"
    and ready: "ready_to_allocate (snapshot_of s vid asset v c) (context_of s) x"
    and reg: "registry_ok s" and cfg: "config_ok c"
    and v: "vaults s vid = Some v" and c: "vault_configs s vid = Some c" and vid: "vid < 2 ^ 128"
    and sub: "submittable cfg s vid asset v c (v_owner v)"
    and covered: "get_idle_balance vid asset s \<le> get_total_balance vid asset s"
    and ex: "executorAddress sv cfg = Inr ex" and json: "sv_bigintToJSON sv" and disk: "hs_diskError h = None"
  shows "\<exists>r h'. validate_intent sv cfg (context_of s) (snapshot_of s vid asset v c) b
      (intent_for cfg (snapshot_of s vid asset v c) (context_of s) x) h = (Inr r, h') \<and>
    dr_status r = (if executionBlockedReason cfg (environment_of s) = None then VALIDATED else TESTNET_BLOCKED) \<and>
    (\<exists>val. dr_validation r = Some val \<and> ov_status val = PASSED)"
proof -
  let ?vs = "snapshot_of s vid asset v c" and ?ctx = "context_of s"
  let ?i = "intent_for cfg ?vs ?ctx x"
  let ?b = "validating_record b ?i (hashIntent sv ?i)"
  have ser: "serializable sv rs" for rs using json by (simp add: serializable_def)
  obtain full h1 where rd: "recordDecision sv ?b h = (Inr full, h1)"
    using disk by (cases "recordDecision sv ?b h") (auto simp: recordDecision_eq ser Let_def split: prod.splits)
  note rec = recordDecision_Inr [OF rd]
  obtain sender role where cs: "choose_sender sv cfg ?vs (hs_ext h1) = (Inr (sender, role), hs_ext h1)"
      and auth: "sender = v_owner v \<or> is_authorized_executor sender s \<and> autonomous_enabled c"
    using sender_answers [OF still ex] by blast
  have sub': "submittable cfg s vid asset v c sender" using sub auth by (simp add: submittable_def)
  note acc = recommended_accepted [OF ready reg cfg v c sub' covered refl]
  have id: "ei_vaultId ?i = int vid" "ei_asset ?i = asset" by (simp_all add: intent_for_def snapshot_of_def)
  have args: "list_all arg_ok [ClUint (ei_vaultId ?i), ClUint (ei_destStrategyId ?i), ClStringAscii (ei_asset ?i),
      ClUint (ei_amount ?i), ClUint (ei_maxSlippageBps ?i), ClUint (ei_nonce ?i), ClUint (ei_deadline ?i)]"
    using acc(2-) int_range [OF vid] by (simp add: arg_ok_def id)
  let ?val = "\<lparr> ov_source = evaluation_source, ov_status = PASSED, ov_errorCode = None,
         ov_detail = ''Every on-chain rule accepted this intent.'', ov_evaluatedAs = role,
         ov_evaluatedAtBlock = pc_blockHeight ?ctx,
         ov_strategyExecutionEnabled = Some (is_strategy_execution_enabled s) \<rparr>"
  have ev: "evaluateIntentOnChain sv cfg ?i sender role (pc_blockHeight ?ctx) (hs_ext h1) = (Inr ?val, hs_ext h1)"
    using verdict_answers [OF still args, of sender] acc(1) by (simp add: id)
  have up: "update_or sv full (verdict_patch cfg ?ctx ?val) h1 =
      (Inr (verdict_patch cfg ?ctx ?val full),
       h1\<lparr>hs_file := Some (verdict_patch cfg ?ctx ?val full # take 499 (load h))\<rparr>)"
    by (rule update_or_head [OF rec(1,2,5)]) simp
  have "validate_intent sv cfg ?ctx ?vs b ?i h = (Inr (verdict_patch cfg ?ctx ?val full),
       h1\<lparr>hs_file := Some (verdict_patch cfg ?ctx ?val full # take 499 (load h))\<rparr>)"
    by (simp add: validate_intent_def io_bind_def rd up outside_still [of "choose_sender sv cfg ?vs" h1, OF cs]
        outside_still [of "evaluateIntentOnChain sv cfg ?i sender role (pc_blockHeight ?ctx)" h1, OF ev])
  then show ?thesis by (auto simp: verdict_patch_status context_of_def)
qed

lemma run_start:
  assumes still: "\<And>w. chain_answers sv cfg s w" and vid: "vid < 2 ^ 128"
    and v: "vaults s vid = Some v" and c: "vault_configs s vid = Some c"
    and key: "\<not> truthy_text (cf_anthropicApiKey cfg)"
    and ready: "ready_to_allocate (snapshot_of s vid asset v c) (context_of s) x"
  shows "\<exists>now b h1. hs_file h1 = hs_file h \<and> hs_diskError h1 = hs_diskError h \<and>
    runRecommendation sv cfg (int vid) asset h =
      io_bind (validate_intent sv cfg (context_of s) (snapshot_of s vid asset v c) b
          (intent_for cfg (snapshot_of s vid asset v c) (context_of s) x))
        (\<lambda>record. io_return (analyze cfg now (snapshot_of s vid asset v c) (context_of s), record)) h1"
proof -
  let ?vs = "snapshot_of s vid asset v c" and ?ctx = "context_of s"
  obtain now w1 where now: "sv_isoNow sv (hs_ext h) = (now, w1)" by (cases "sv_isoNow sv (hs_ext h)")
  let ?r = "analyze cfg now ?vs ?ctx"
  let ?h1 = "h\<lparr>hs_ext := w1\<rparr>"
  have ctx: "outside (getProtocolContext sv cfg) h = (Inr ?ctx, h)"
    by (rule outside_still) (rule context_answers [OF still])
  have snap: "outside (getVaultSnapshot sv cfg (int vid) asset (Some ?ctx)) h = (Inr (Some ?vs), h)"
    by (rule outside_still) (rule snapshot_answers [OF still vid v c])
  have iso: "outside (io_of (sv_isoNow sv)) h = (Inr now, ?h1)"
    using now by (simp add: outside_def io_of_def)
  have nar: "outside (narrateWithLLM sv cfg ?r ?vs ?ctx) ?h1 = (Inr ?r, ?h1)"
    by (rule outside_still) (simp add: narrate_without_key [OF key])
  have cid: "contractId cfg ''sovereignty-vault'' = Inr (deployer s @ ''.sovereignty-vault-v7'')"
    using still by (simp add: contractId_Inr chain_answers_def deployed_names)
  have dec: "rec_decision ?r = REBALANCE" using analyze_ready [OF ready] by simp
  obtain "prop" where "prop":  "proposedAllocation ?vs ?ctx ?r = Inr prop"
    using analyze_ready [OF ready] by (auto simp: proposedAllocation_def)
  have "process_recommendation sv cfg ?ctx ?vs b ?r = validate_intent sv cfg ?ctx ?vs b (intent_for cfg ?vs ?ctx x)" for b
    using dec by (simp add: process_recommendation_def buildIntent_analyze [OF ready])
  then have "runRecommendation sv cfg (int vid) asset h =
      io_bind (validate_intent sv cfg ?ctx ?vs
          (base_record cfg (int vid) (deployer s @ ''.sovereignty-vault-v7'') asset ?r (currentAllocation ?vs ?ctx) prop)
          (intent_for cfg ?vs ?ctx x)) (\<lambda>record. io_return (?r, record)) ?h1"
    by (simp add: runRecommendation_def recommend_vault_def io_bind_def ctx snap iso nar cid "prop" io_lift_def)
  moreover have "hs_file ?h1 = hs_file h" "hs_diskError ?h1 = hs_diskError h" by simp_all
  ultimately show ?thesis by blast
qed

lemma run_validated:
  assumes still: "\<And>w. chain_answers sv cfg s w"
    and ready: "ready_to_allocate (snapshot_of s vid asset v c) (context_of s) x"
    and reg: "registry_ok s" and cfg: "config_ok c"
    and v: "vaults s vid = Some v" and c: "vault_configs s vid = Some c" and vid: "vid < 2 ^ 128"
    and sub: "submittable cfg s vid asset v c (v_owner v)"
    and covered: "get_idle_balance vid asset s \<le> get_total_balance vid asset s"
    and key: "\<not> truthy_text (cf_anthropicApiKey cfg)"
    and ex: "executorAddress sv cfg = Inr ex" and json: "sv_bigintToJSON sv" and disk: "hs_diskError h = None"
  shows "\<exists>r record h'. runRecommendation sv cfg (int vid) asset h = (Inr (r, record), h') \<and>
    rec_decision r = REBALANCE \<and>
    dr_status record = (if executionBlockedReason cfg (environment_of s) = None then VALIDATED else TESTNET_BLOCKED) \<and>
    (\<exists>val. dr_validation record = Some val \<and> ov_status val = PASSED)"
proof -
  let ?val = "validate_intent sv cfg (context_of s) (snapshot_of s vid asset v c)"
  let ?i = "intent_for cfg (snapshot_of s vid asset v c) (context_of s) x"
  obtain now b h1 where h1: "hs_diskError h1 = hs_diskError h"
    and run: "runRecommendation sv cfg (int vid) asset h = io_bind (?val b ?i)
        (\<lambda>record. io_return (analyze cfg now (snapshot_of s vid asset v c) (context_of s), record)) h1"
    using run_start [OF still vid v c key ready, of h] by blast
  have "hs_diskError h1 = None" using h1 disk by simp
  from validated_against_chain [OF still ready reg cfg v c vid sub covered ex json this, of b]
  obtain "record" h' where va: "?val b ?i h1 = (Inr record, h')"
    and st: "dr_status record = (if executionBlockedReason cfg (environment_of s) = None then VALIDATED else TESTNET_BLOCKED)"
      "\<exists>val. dr_validation record = Some val \<and> ov_status val = PASSED"
    by blast
  have "runRecommendation sv cfg (int vid) asset h =
      (Inr (analyze cfg now (snapshot_of s vid asset v c) (context_of s), record), h')"
    unfolding run by (simp add: io_bind_def va io_return_def)
  moreover have "rec_decision (analyze cfg now (snapshot_of s vid asset v c) (context_of s)) = REBALANCE"
    using analyze_ready [OF ready] by simp
  ultimately show ?thesis using st by blast
qed

lemma run_bigint:
  assumes still: "\<And>w. chain_answers sv cfg s w" and vid: "vid < 2 ^ 128"
    and v: "vaults s vid = Some v" and c: "vault_configs s vid = Some c"
    and key: "\<not> truthy_text (cf_anthropicApiKey cfg)"
    and ready: "ready_to_allocate (snapshot_of s vid asset v c) (context_of s) x"
    and json: "\<not> sv_bigintToJSON sv"
  shows "\<exists>h'. runRecommendation sv cfg (int vid) asset h =
      (Inl (TypeError ''Do not know how to serialize a BigInt''), h') \<and> hs_file h' = hs_file h"
proof -
  let ?val = "validate_intent sv cfg (context_of s) (snapshot_of s vid asset v c)"
  let ?i = "intent_for cfg (snapshot_of s vid asset v c) (context_of s) x"
  obtain now b h1 where h1: "hs_file h1 = hs_file h"
    and run: "runRecommendation sv cfg (int vid) asset h = io_bind (?val b ?i)
        (\<lambda>record. io_return (analyze cfg now (snapshot_of s vid asset v c) (context_of s), record)) h1"
    using run_start [OF still vid v c key ready, of h] by blast
  obtain h' where "?val b ?i h1 = (Inl (TypeError ''Do not know how to serialize a BigInt''), h')" "hs_file h' = hs_file h1"
    using validate_intent_bigint [OF json] by blast
  then show ?thesis unfolding run using h1 by (simp add: io_bind_def)
qed

section \<open>Discovery\<close>

lemma active_from_complete:
  assumes prefix: "\<And>k. 0 < k \<Longrightarrow> k < j \<Longrightarrow> strategies s k \<noteq> None" and "0 < i"
  shows "i \<le> j \<Longrightarrow> j < i + n \<Longrightarrow> strategies s j = Some e \<Longrightarrow> strat_active e \<Longrightarrow>
    snapshot_strategy j e \<in> set (active_from s n i)"
  using assms(2)
proof (induction n arbitrary: i)
  case 0
  then show ?case by simp
next
  case (Suc n)
  show ?case
  proof (cases "i = j")
    case True
    with Suc.prems show ?thesis by simp
  next
    case False
    with Suc.prems(1) have lt: "i < j" by simp
    with prefix [of i] Suc.prems obtain e' where "strategies s i = Some e'" by auto
    moreover have "snapshot_strategy j e \<in> set (active_from s n (Suc i))"
      using Suc.prems lt by (intro Suc.IH) auto
    ultimately show ?thesis by simp
  qed
qed

end
