(* ===== verification/Scenario.thy ===== *)
theory Scenario
  imports Chain_Safety Agent_On_Chain
begin

text \<open>
  A concrete run of the protocol, used to show that the hypotheses of the properties can hold: the
  admin registers and activates an STX strategy, two users create and fund a vault, and a set of
  services reads the resulting state.
\<close>

section \<open>Scripts of transactions\<close>

fun run_script ::
    "(principal \<Rightarrow> nat \<Rightarrow> principal \<Rightarrow> principal \<Rightarrow> 'x \<Rightarrow> 'x option) \<Rightarrow> (principal \<Rightarrow> nat \<Rightarrow> 'x \<Rightarrow> 'x option)
     \<Rightarrow> (principal \<times> call) list \<Rightarrow> 'x sovereignty_vault \<Rightarrow> 'x sovereignty_vault resp" where
  "run_script tt sd [] s = Ok s"
| "run_script tt sd ((c, k) # cs) s = rbind (exec tt sd c k s) (run_script tt sd cs)"

lemma user_not_contract: "CHR ''.'' \<notin> set c \<Longrightarrow> \<not> is_protocol_contract s c"
  by (auto simp: is_protocol_contract_def vault_contract_def engine_contract_def contract_of_def)

lemma run_script_reachable:
  "run_script tt sd cs s = Ok s' \<Longrightarrow> list_all (\<lambda>(c, k). CHR ''.'' \<notin> set c) cs \<Longrightarrow> reachable tt sd s \<Longrightarrow>
   reachable tt sd s'"
proof (induction tt sd cs s rule: run_script.induct)
  case (1 tt sd s)
  then show ?case by simp
next
  case (2 tt sd c k cs s)
  from "2.prems"(1) obtain t where t: "exec tt sd c k s = Ok t" "run_script tt sd cs t = Ok s'"
    by (auto simp: rbind_Ok_iff)
  have "\<not> is_protocol_contract s c" using "2.prems"(2) by (intro user_not_contract) simp
  then have "chain_step tt sd s t" using t(1) by (rule chain_step.transaction)
  with "2.prems"(3) have "reachable tt sd t" by (rule reachable.step)
  moreover have "list_all (\<lambda>(c, k). CHR ''.'' \<notin> set c) cs" using "2.prems"(2) by simp
  ultimately show ?case using "2.IH" [OF t(2)] by blast
qed

fun ok_value :: "'a \<Rightarrow> 'a resp \<Rightarrow> 'a" where
  "ok_value d (Ok x) = x"
| "ok_value d _ = d"

fun is_ok :: "'a resp \<Rightarrow> bool" where
  "is_ok (Ok x) = True"
| "is_ok _ = False"

lemma is_ok_value: "is_ok r \<Longrightarrow> r = Ok (ok_value d r)"
  by (cases r) auto

section \<open>The scenario\<close>

text \<open>Tokens and strategies that accept every call and keep no state.\<close>

definition any_token :: "principal \<Rightarrow> nat \<Rightarrow> principal \<Rightarrow> principal \<Rightarrow> unit \<Rightarrow> unit option" where
  "any_token t n p q w = Some w"

definition any_strategy :: "principal \<Rightarrow> nat \<Rightarrow> unit \<Rightarrow> unit option" where
  "any_strategy t n w = Some w"

definition genesis :: "nat \<Rightarrow> unit sovereignty_vault" where
  "genesis cid = deployed_state ''SP1'' cid 100 ''SP1'' (\<lambda>p. if p = ''ST1ALICE'' \<or> p = ''ST2BOB'' then 50000000 else 0) ()"

definition setup_script :: "(principal \<times> call) list" where
  "setup_script =
     [(''SP1'', RegisterStrategy ''Pool'' ''SP9.pool'' ''STX'' 4000),
      (''SP1'', ActivateStrategy 1),
      (''ST1ALICE'', CreateVault ''Treasury'' 0 3 True 3000 2000000 10000 100 2000 False 10),
      (''ST1ALICE'', DepositStx 1 10000000),
      (''ST2BOB'', DepositStx 1 3000001)]"

definition scenario_result :: "nat \<Rightarrow> unit sovereignty_vault resp" where
  "scenario_result cid = run_script any_token any_strategy setup_script (genesis cid)"

definition scenario :: "nat \<Rightarrow> unit sovereignty_vault" where
  "scenario cid = ok_value (genesis cid) (scenario_result cid)"

definition TESTNET_ID :: nat where
  "TESTNET_ID = 2147483648"

definition the_vault :: vault_entry where
  "the_vault = \<lparr>v_owner = ''ST1ALICE'', v_name = ''Treasury'', v_purpose = 0, v_assets = 3, v_open_deposits = True,
                v_paused = False, v_created_at = 100\<rparr>"

definition the_config :: vault_config where
  "the_config = \<lparr>max_exposure_bps = 3000, max_stx_tx_amount = 2000000, max_sbtc_tx_amount = 10000,
     max_slippage_bps = 100, min_idle_bps = 2000, autonomous_enabled = False, cooldown_blocks = 10,
     last_used_nonce = 0, last_execution_height = 0\<rparr>"

lemmas vm_defs = ops_defs new_state_def uadd_def usub_def umul_def udiv_def u128_def Let_def emit_def
  is_admin_def is_valid_asset_def ASSET_STX_def ASSET_SBTC_def is_idle_def asset_in_mode_def
  vault_contract_def engine_contract_def contract_of_def params_valid_def is_mainnet_chain_def
  MAINNET_CHAIN_ID_def get_or_def create_vault_def deposit_stx_def stx_transfer_def credit_pool_def
  register_holder_def mint_def preview_deposit_def compute_deposit_shares_def min_initial_deposit_for_def
  get_total_supply_def get_total_balance_def get_idle_balance_def get_balance_def any_token_def any_strategy_def

text \<open>The script is run by rewriting, one transaction after the other.\<close>

lemmas scenario_run = scenario_result_def [of "2147483648",
  simplified genesis_def setup_script_def deployed_state_def run_script.simps exec.simps vm_defs, simplified,
  simplified run_script.simps exec.simps vm_defs, simplified,
  simplified run_script.simps exec.simps vm_defs, simplified,
  simplified run_script.simps exec.simps vm_defs, simplified,
  simplified run_script.simps exec.simps vm_defs, simplified]

lemma scenario_value: "scenario_result TESTNET_ID = Ok (scenario TESTNET_ID)"
  unfolding scenario_def TESTNET_ID_def by (simp add: scenario_run)

lemma scenario_reachable: "reachable any_token any_strategy (scenario TESTNET_ID)"
proof -
  have "list_all (\<lambda>(c, k). CHR ''.'' \<notin> set c) setup_script" by (simp add: setup_script_def)
  moreover have "reachable any_token any_strategy (genesis TESTNET_ID)"
    unfolding genesis_def by (rule reachable.deploy)
  ultimately show ?thesis
    using run_script_reachable [OF scenario_value [unfolded scenario_result_def]] by blast
qed

lemmas scenario_eq = scenario_def [of "2147483648", unfolded scenario_run ok_value.simps]

lemma scenario_facts [simp]:
  "deployer (scenario TESTNET_ID) = ''SP1''" "chain_id (scenario TESTNET_ID) = TESTNET_ID"
  "block_height (scenario TESTNET_ID) = 100" "vaults (scenario TESTNET_ID) = [1 \<mapsto> the_vault]"
  "vault_configs (scenario TESTNET_ID) = [1 \<mapsto> the_config]" "protocol_paused (scenario TESTNET_ID) = False"
  "strategies (scenario TESTNET_ID) = [1 \<mapsto> \<lparr>strat_name = ''Pool'', strategy_contract = ''SP9.pool'',
     strat_asset = ''STX'', strat_active = True, strat_max_allocation_bps = 4000, strat_registered_at = 100\<rparr>]"
  "strategy_allocations (scenario TESTNET_ID) = Map.empty"
  "approved_sbtc_asset (scenario TESTNET_ID) = None" "executors (scenario TESTNET_ID) = Map.empty"
  "idle_balances (scenario TESTNET_ID) = [(1, ''STX'') \<mapsto> 13000001]"
  "total_balances (scenario TESTNET_ID) = [(1, ''STX'') \<mapsto> 13000001]"
  "supplies (scenario TESTNET_ID) = [(1, ''STX'') \<mapsto> 13000001]"
  "balances (scenario TESTNET_ID) = [(1, ''STX'', ''ST1ALICE'') \<mapsto> 10000000, (1, ''STX'', ''ST2BOB'') \<mapsto> 3000001]"
  "stx_ledger (scenario TESTNET_ID) ''SP1.sovereignty-vault-v7'' = 13000001"
  "mainnet_execution_armed (scenario TESTNET_ID) = False"
  by (simp_all add: scenario_eq TESTNET_ID_def the_vault_def the_config_def fun_upd_twist)

section \<open>Services over the scenario\<close>

definition scenario_services :: "bool \<Rightarrow> unit sovereignty_vault \<Rightarrow> unit services" where
  "scenario_services toJSON s =
     \<lparr> sv_readOnly = (\<lambda>net addr cname fname args sender w.
          (if addr = deployer s then answer s cname fname args sender else Inl (JsError ''unknown contract''), w)),
       sv_fetch = (\<lambda>url w. (Inr (True, 200, JObj [(''stacks_tip_height'', JNum (int (block_height s))),
                                                   (''burn_block_height'', JNum 0)]), w)),
       sv_now = (\<lambda>w. (0, w)), sv_isoNow = (\<lambda>w. (''2026-01-01T00:00:00.000Z'', w)), sv_uuid = (\<lambda>w. (''id-1'', w)),
       sv_sha256 = (\<lambda>t. t), sv_addressOfKey = (\<lambda>k net. Inr ''SPEXEC''),
       sv_complete = (\<lambda>k sys msg w. (Inr None, w)), sv_makeCall = (\<lambda>c w. (Inr ''tx'', w)),
       sv_broadcast = (\<lambda>t w. (Inr (Inr ''0xabc''), w)), sv_sleep = (\<lambda>ms w. w),
       sv_fetchText = (\<lambda>url w. (Inr (True, 200, ''1000000''), w)), sv_settled = (\<lambda>w. ([], w)),
       sv_timedOut = (\<lambda>w. (False, w)), sv_stream = (\<lambda>k sys ms w. (([''Hello'', ''!''], None), w)),
       sv_bigintToJSON = toJSON \<rparr>"

lemma scenario_services_sel [simp]:
  "sv_readOnly (scenario_services b s) net addr cname fname args sender w =
     (if addr = deployer s then answer s cname fname args sender else Inl (JsError ''unknown contract''), w)"
  "sv_isoNow (scenario_services b s) w = (''2026-01-01T00:00:00.000Z'', w)"
  "sv_uuid (scenario_services b s) w = (''id-1'', w)"
  "sv_addressOfKey (scenario_services b s) k net = Inr ''SPEXEC''"
  "sv_makeCall (scenario_services b s) c w = (Inr ''tx'', w)"
  "sv_broadcast (scenario_services b s) t w = (Inr (Inr ''0xabc''), w)"
  "sv_bigintToJSON (scenario_services b s) = b"
  by (simp_all add: scenario_services_def)

definition scenario_config :: "string \<Rightarrow> agent_config" where
  "scenario_config net =
     \<lparr> cf_env = Map.empty, cf_network = net, cf_stacksApiUrl = ''https://api'', cf_port = 4021,
       cf_deployerAddress = ''SP1'', cf_sbtcContract = ''SN3'', cf_sbtcContractName = ''sbtc-token'',
       cf_executorPrivateKey = None, cf_executorAddressOverride = None, cf_intentDeadlineWindowBlocks = 20,
       cf_anthropicApiKey = None \<rparr>"

definition fresh_host :: "unit host" where
  "fresh_host = \<lparr> hs_file = None, hs_diskError = None, hs_effects = [], hs_ext = () \<rparr>"

lemma scenario_answers:
  "deployer s = ''SP1'' \<Longrightarrow> chain_answers (scenario_services b s) (scenario_config net) s w"
  by (simp add: chain_answers_def scenario_services_def scenario_config_def)

definition the_strategy :: strategy_snapshot where
  "the_strategy = \<lparr> ss_strategyId = 1, ss_name = ''Pool'', ss_contract = ''SP9.pool'', ss_asset = ''STX'',
     ss_active = True, ss_maxAllocationBps = 4000 \<rparr>"

lemma scenario_active: "active_from (scenario TESTNET_ID) 25 1 = [the_strategy]"
proof -
  have "active_from (scenario TESTNET_ID) (Suc (Suc n)) 1 = [the_strategy]" for n
    by (simp add: snapshot_strategy_def the_strategy_def safe_int_def)
  from this [of 23] show ?thesis by simp
qed

lemma scenario_ready:
  "ready_to_allocate (snapshot_of (scenario TESTNET_ID) 1 ''STX'' the_vault the_config)
     (context_of (scenario TESTNET_ID)) the_strategy"
  by (simp add: ready_to_allocate_def context_of_def snapshot_of_def scenario_active [simplified] candidate_def
      supports_asset_def asset_in_mode_def ASSET_STX_def get_idle_balance_def get_total_balance_def get_or_def
      alloc_of_def allocations_of_def add_allocation_def get_strategy_allocation_def maxExposureAmount_def
      big_div_def BPS_def risk_config_of_def sized_amount_def maxProtocolAmount_def minLiquidityReserve_def
      the_vault_def the_config_def the_strategy_def safe_int_def Let_def)

lemma scenario_rebalance:
  "rec_decision (analyze cfg now (snapshot_of (scenario TESTNET_ID) 1 ''STX'' the_vault the_config)
     (context_of (scenario TESTNET_ID))) = REBALANCE"
  by (simp only: analyze_ready [OF scenario_ready] rebalance_fields)

lemma scenario_registry: "registry_ok (scenario TESTNET_ID)" "config_ok the_config"
  by (auto simp: registry_ok_def scenario_eq [folded TESTNET_ID_def] is_valid_asset_def ASSET_STX_def config_ok_def the_config_def
      split: if_splits)

lemma scenario_submittable:
  "submittable (scenario_config net) (scenario TESTNET_ID) 1 ''STX'' the_vault the_config ''ST1ALICE''"
  by (simp add: submittable_def scenario_config_def the_vault_def the_config_def get_idle_balance_def
      get_total_balance_def get_or_def u128_def)

section \<open>The same pool on an armed mainnet\<close>

definition armed :: "unit sovereignty_vault" where
  "armed = (scenario TESTNET_ID)\<lparr>chain_id := 1, mainnet_execution_armed := True\<rparr>"

definition armed_config :: agent_config where
  "armed_config = (scenario_config ''mainnet'')\<lparr>cf_env := [''EXECUTOR_PRIVATE_KEY'' \<mapsto> ''k''],
     cf_executorPrivateKey := Some ''k''\<rparr>"

lemma active_from_cong: "strategies t = strategies s \<Longrightarrow> active_from t n i = active_from s n i"
  by (induction n arbitrary: i) (auto split: option.split)

lemma armed_same:
  "active_from armed n i = active_from (scenario TESTNET_ID) n i"
  "supports_asset vid a armed = supports_asset vid a (scenario TESTNET_ID)"
  "get_idle_balance vid a armed = get_idle_balance vid a (scenario TESTNET_ID)"
  "get_total_balance vid a armed = get_total_balance vid a (scenario TESTNET_ID)"
  "get_total_supply vid a armed = get_total_supply vid a (scenario TESTNET_ID)"
  "add_allocation armed vid a = add_allocation (scenario TESTNET_ID) vid a"
  by (rule active_from_cong)
     (simp_all add: armed_def supports_asset_def get_idle_balance_def get_total_balance_def get_total_supply_def
      add_allocation_def [abs_def] get_strategy_allocation_def)

lemma armed_snapshot: "snapshot_of armed vid a v c = snapshot_of (scenario TESTNET_ID) vid a v c"
  by (simp only: snapshot_of_def armed_same allocations_of_def)

lemma armed_ready: "ready_to_allocate (snapshot_of armed 1 ''STX'' the_vault the_config) (context_of armed) the_strategy"
proof -
  have "pc_activeStrategies (context_of armed) = pc_activeStrategies (context_of (scenario TESTNET_ID))"
    "pc_protocolPaused (context_of armed) = pc_protocolPaused (context_of (scenario TESTNET_ID))"
    by (simp_all only: context_of_def armed_same protocol_context.simps) (simp add: armed_def)
  with scenario_ready show ?thesis unfolding ready_to_allocate_def armed_snapshot candidate_def by presburger
qed

lemma armed_open: "executionBlockedReason armed_config (environment_of armed) = None"
  by (simp add: executionBlockedReason_None armed_config_def scenario_config_def environment_of_def armed_def
      is_mainnet_chain_def is_strategy_execution_enabled_def MAINNET_CHAIN_ID_def)

lemma armed_answers: "chain_answers (scenario_services b armed) armed_config armed w"
  by (simp add: chain_answers_def scenario_services_def scenario_config_def armed_config_def armed_def)

lemma armed_run:
  "\<exists>r record h'. runRecommendation (scenario_services True armed) armed_config (int 1) ''STX'' fresh_host
      = (Inr (r, record), h') \<and> dr_status record = VALIDATED"
proof -
  have reg: "registry_ok armed" using scenario_registry(1) by (simp add: armed_def registry_ok_def)
  have sub: "submittable armed_config armed 1 ''STX'' the_vault the_config (v_owner the_vault)"
    using scenario_submittable [of "''mainnet''"]
    by (simp add: submittable_def armed_def armed_config_def scenario_config_def the_vault_def get_total_balance_def)
  have ex: "executorAddress (scenario_services True armed) armed_config = Inr (Some ''SPEXEC'')"
    by (simp add: executorAddress_def armed_config_def scenario_config_def scenario_services_def)
  have le: "get_idle_balance 1 ''STX'' armed \<le> get_total_balance 1 ''STX'' armed"
    by (simp add: armed_def get_idle_balance_def get_total_balance_def)
  have "\<exists>r record h'. runRecommendation (scenario_services True armed) armed_config (int 1) ''STX'' fresh_host
      = (Inr (r, record), h') \<and> rec_decision r = REBALANCE \<and>
     dr_status record = (if executionBlockedReason armed_config (environment_of armed) = None then VALIDATED else TESTNET_BLOCKED) \<and>
     (\<exists>val. dr_validation record = Some val \<and> ov_status val = PASSED)"
  proof (rule run_validated [OF armed_answers armed_ready reg scenario_registry(2) _ _ _ sub le _ ex])
    show "vaults armed 1 = Some the_vault" "vault_configs armed 1 = Some the_config" by (simp_all add: armed_def)
    show "\<not> truthy_text (cf_anthropicApiKey armed_config)" by (simp add: armed_config_def scenario_config_def)
    show "sv_bigintToJSON (scenario_services True armed)" by (simp add: scenario_services_def)
    show "hs_diskError fresh_host = None" by (simp add: fresh_host_def)
  qed simp
  then show ?thesis using armed_open by auto
qed

definition the_intent :: execution_intent where
  "the_intent = intent_for armed_config (snapshot_of armed 1 ''STX'' the_vault the_config) (context_of armed) the_strategy"

lemma armed_submission:
  "\<exists>res h'. submitRebalanceIntent (scenario_services True armed) armed_config the_intent ''SP9.pool'' fresh_host
     = (Inr res, h')"
proof -
  have env: "getExecutionEnvironment (scenario_services True armed) armed_config w = (Inr (environment_of armed), w)" for w
    using decode_environment_json [of armed]
    by (simp add: getExecutionEnvironment_def io_bind_def io_lift_def
        read_answer [OF armed_answers deployed_names(2)] answer_simps)
  have pieces: "splitContract ''SP9.pool'' = Inr (''SP9'', ''pool'')"
    "splitContract ''SP1.execution-engine-v7'' = Inr (''SP1'', ''execution-engine-v7'')"
    by (simp_all add: splitContract_def)
  have cid: "contractId armed_config ''execution-engine'' = Inr ''SP1.execution-engine-v7''"
    by (simp add: contractId_Inr deployed_names armed_config_def scenario_config_def)
  have key: "requireExecutorKey armed_config = Inr ''k''"
    by (simp add: requireExecutorKey_def requireEnv_def armed_config_def)
  show ?thesis
    by (simp add: submitRebalanceIntent_def sign_and_broadcast_def io_bind_def io_lift_def io_return_def outside_def
        env assertExecutionAllowed_def armed_open key pieces cid emit_effect_def)
qed

end
