(* ===== verification/Protocol_Theorems.thy ===== *)
theory Protocol_Theorems
  imports Chain_Safety
begin

text \<open>
  Consequences for the users of the protocol: the price of a share never falls, redemption on
  testnet always succeeds, and registry and configurations stay well-formed in every reachable
  state.
\<close>

section \<open>Registry and configurations\<close>

definition configs_ok :: "('x, 'b) sovereignty_vault_scheme \<Rightarrow> bool" where
  "configs_ok s \<longleftrightarrow> registry_ok s \<and> guard_ok s"

lemma configs_ok_cong:
  "policy_view t = policy_view s \<Longrightarrow> vault_configs t = vault_configs s \<Longrightarrow> configs_ok t \<longleftrightarrow> configs_ok s"
  by (simp add: configs_ok_def policy_view_def registry_ok_def guard_ok_def limits_ok_def)

lemma configs_ok_emit [simp]: "configs_ok (emit e s) \<longleftrightarrow> configs_ok s"
  by (rule configs_ok_cong) (simp_all add: policy_view_def emit_def)

lemma policy_view_emit [simp]: "policy_view (emit e s) = policy_view s"
  by (simp add: policy_view_def emit_def)

lemma vault_configs_emit [simp]: "vault_configs (emit e s) = vault_configs s"
  by (simp add: emit_def)

lemma configs_ok_upd [simp]:
  "configs_ok (s\<lparr>admin := x0\<rparr>) = configs_ok s"
  "configs_ok (s\<lparr>pending_admin := x1\<rparr>) = configs_ok s"
  "configs_ok (s\<lparr>protocol_paused := x2\<rparr>) = configs_ok s"
  "configs_ok (s\<lparr>executors := x3\<rparr>) = configs_ok s"
  "configs_ok (s\<lparr>approved_sbtc_asset := x4\<rparr>) = configs_ok s"
  "configs_ok (s\<lparr>mainnet_execution_armed := x5\<rparr>) = configs_ok s"
  "configs_ok (s\<lparr>vaults := x6\<rparr>) = configs_ok s"
  "configs_ok (s\<lparr>block_height := x7\<rparr>) = configs_ok s"
  "configs_ok (s\<lparr>stx_ledger := x8, world := x9\<rparr>) = configs_ok s"
  by (simp_all add: configs_ok_def registry_ok_def guard_ok_def limits_ok_def)

lemma guard_calls_registry:
  "init_vault_config c v me ms mb sl mi au cd s = Ok (b, s') \<Longrightarrow> registry_ok s' = registry_ok s"
  "set_vault_risk_config c v me ms mb sl mi au cd s = Ok (b, s') \<Longrightarrow> registry_ok s' = registry_ok s"
  "set_autonomous_enabled c v e s = Ok (b, s') \<Longrightarrow> registry_ok s' = registry_ok s"
  "set_protocol_limits c x y z w s = Ok (b, s') \<Longrightarrow> registry_ok s' = registry_ok s"
  by (auto simp: init_vault_config_def set_vault_risk_config_def set_autonomous_enabled_def set_protocol_limits_def
      registry_ok_def emit_def split: if_splits option.splits)

lemma registry_calls_guard:
  "register_strategy c n p a m s = Ok (i, s') \<Longrightarrow> guard_ok s' = guard_ok s"
  "activate_strategy c j s = Ok (b, s') \<Longrightarrow> guard_ok s' = guard_ok s"
  "deactivate_strategy c j s = Ok (b, s') \<Longrightarrow> guard_ok s' = guard_ok s"
  by (auto simp: strategy_registry_ops guard_ok_def limits_ok_def rbind_Ok_iff Let_def emit_def
      split: if_splits option.splits)

lemma policy_kept:
  "propose_admin c p s = Ok (b, s') \<Longrightarrow> configs_ok s' = configs_ok s"
  "accept_admin c s = Ok (b, s') \<Longrightarrow> configs_ok s' = configs_ok s"
  "pause_protocol c s = Ok (b, s') \<Longrightarrow> configs_ok s' = configs_ok s"
  "unpause_protocol c s = Ok (b, s') \<Longrightarrow> configs_ok s' = configs_ok s"
  "register_executor c x l s = Ok (b, s') \<Longrightarrow> configs_ok s' = configs_ok s"
  "revoke_executor c x s = Ok (b, s') \<Longrightarrow> configs_ok s' = configs_ok s"
  "reactivate_executor c x s = Ok (b, s') \<Longrightarrow> configs_ok s' = configs_ok s"
  "set_approved_sbtc_asset c p s = Ok (b, s') \<Longrightarrow> configs_ok s' = configs_ok s"
  "set_mainnet_execution_armed c arm s = Ok (b, s') \<Longrightarrow> configs_ok s' = configs_ok s"
  "set_vault_config c v nm od s = Ok (b, s') \<Longrightarrow> configs_ok s' = configs_ok s"
  "pause_vault c v s = Ok (b, s') \<Longrightarrow> configs_ok s' = configs_ok s"
  "unpause_vault c v s = Ok (b, s') \<Longrightarrow> configs_ok s' = configs_ok s"
  by (auto simp: protocol_admin_ops agent_registry_ops set_approved_sbtc_asset_def set_mainnet_execution_armed_def
      set_vault_config_def pause_vault_def unpause_vault_def split: if_splits option.splits)

lemma guard_wrappers_ok:
  "configs_ok s \<Longrightarrow> set_risk_config c v me ms mb sl mi au cd s = Ok (b, s') \<Longrightarrow> configs_ok s'"
  "configs_ok s \<Longrightarrow> set_autonomous_mode c v en s = Ok (b, s') \<Longrightarrow> configs_ok s'"
  by (auto simp: configs_ok_def set_risk_config_def set_autonomous_mode_def rbind_Ok_iff guard_calls_registry
      intro: inv_intros split: if_splits option.splits)

lemma registry_wrappers_ok:
  "configs_ok s \<Longrightarrow> register_strategy c n p a m s = Ok (i, s') \<Longrightarrow> configs_ok s'"
  "configs_ok s \<Longrightarrow> activate_strategy c j s = Ok (b, s') \<Longrightarrow> configs_ok s'"
  "configs_ok s \<Longrightarrow> deactivate_strategy c j s = Ok (b, s') \<Longrightarrow> configs_ok s'"
  "configs_ok s \<Longrightarrow> set_protocol_limits c x y z w s = Ok (b, s') \<Longrightarrow> configs_ok s'"
  by (auto simp: configs_ok_def guard_calls_registry registry_calls_guard intro: inv_intros)

lemma create_vault_configs_ok:
  assumes "configs_ok s" "create_vault c n p a od me ms mb sl mi au cd s = Ok (i, s')"
  shows "configs_ok s'"
proof -
  from assms(2) obtain t b u e where
    g: "init_vault_config (vault_contract s) (next_vault_id s) me ms mb sl mi au cd t = Ok (b, u)"
    and t: "policy_view t = policy_view s" "vault_configs t = vault_configs s" and s': "s' = emit e u"
    by (auto simp: create_vault_def Let_def rbind_Ok_iff policy_view_def split: if_splits; blast)
  have "configs_ok t" using assms(1) configs_ok_cong [OF t] by simp
  with g have "configs_ok u" by (auto simp: configs_ok_def guard_calls_registry intro: inv_intros)
  with s' show ?thesis by simp
qed

lemma submit_configs_ok:
  assumes ok: "configs_ok s" and e: "submit_rebalance_intent sd c v i a n sl no d p s = Ok (b, s')"
  shows "configs_ok s'"
proof -
  from e obtain cfg b2 s2 ev where cfg: "vault_configs s v = Some cfg"
    and x: "execute_rebalance sd (engine_contract s) v i a n p
           (s\<lparr>vault_configs := (vault_configs s)(v \<mapsto>
                cfg\<lparr>last_used_nonce := no, last_execution_height := block_height s\<rparr>)\<rparr>) = Ok (b2, s2)"
    and s': "s' = emit ev s2"
    by (rule submit_effect) blast
  let ?t = "s\<lparr>vault_configs := (vault_configs s)(v \<mapsto>
                cfg\<lparr>last_used_nonce := no, last_execution_height := block_height s\<rparr>)\<rparr>"
  have "registry_ok ?t = registry_ok s" by (simp add: registry_ok_def)
  moreover have "guard_ok ?t" using ok cfg by (auto simp: configs_ok_def guard_ok_def limits_ok_def config_ok_def)
  ultimately have t: "configs_ok ?t" using ok by (simp add: configs_ok_def)
  have "policy_view s2 = policy_view ?t" "vault_configs s2 = vault_configs ?t"
    by (rule execute_rebalance_effect [OF x], simp add: policy_view_def emit_def)+
  with t have "configs_ok s2" using configs_ok_cong by blast
  with s' show ?thesis by simp
qed

lemma exec_configs_ok:
  assumes ok: "configs_ok s" and c: "\<not> is_protocol_contract s c" and e: "exec tt sd c k s = Ok s'"
  shows "configs_ok s'"
proof (cases "moves_funds k")
  case True
  then show ?thesis
  proof (cases k rule: moves_funds.cases)
    case (5 v i a n sl no d p)
    with e ok show ?thesis by (auto intro: submit_configs_ok)
  qed (use e True ok in \<open>auto dest!: deposit_stx_effect(2) deposit_sbtc_effect(2) redeem_stx_effect(2)
       redeem_sbtc_effect(2) simp: deposited_def redeemed_def configs_ok_cong [of s' s]\<close>)
next
  case False
  have nr: "\<not> reserved k" using reserved_fails [OF _ c] e by blast
  show ?thesis
    by (cases k) (use e False nr ok in \<open>auto simp: policy_kept intro: guard_wrappers_ok registry_wrappers_ok
        create_vault_configs_ok\<close>)
qed

lemma reachable_configs_ok: "reachable tt sd s \<Longrightarrow> configs_ok s"
proof (induction rule: reachable.induct)
  case (deploy dep cid h adm ledger w)
  show ?case by (auto simp: configs_ok_def registry_ok_def guard_ok_def limits_ok_def deployed_state_def)
next
  case (step s s')
  from step(2) show ?case
  proof cases
    case (transaction c k)
    with step(3) show ?thesis by (blast intro: exec_configs_ok)
  next
    case (new_block h)
    with step(3) show ?thesis by simp
  next
    case (outside l w)
    with step(3) show ?thesis by simp
  qed
qed

section \<open>The price of a share\<close>

text \<open>Assets per share do not fall from \<open>s\<close> to \<open>s'\<close>, cross-multiplied.\<close>

definition price_kept :: "nat \<Rightarrow> string \<Rightarrow> ('x, 'b) sovereignty_vault_scheme \<Rightarrow> ('x, 'b) sovereignty_vault_scheme \<Rightarrow> bool" where
  "price_kept vid asset s s' \<longleftrightarrow>
     get_total_balance vid asset s * get_total_supply vid asset s'
       \<le> get_total_balance vid asset s' * get_total_supply vid asset s"

lemma price_same:
  "total_balances s' = total_balances s \<Longrightarrow> supplies s' = supplies s \<Longrightarrow> price_kept vid asset s s'"
  by (simp add: price_kept_def get_total_balance_def get_total_supply_def)

lemma deposited_price:
  assumes "deposited v a n sh h s s'" "preview_deposit v a n s = Ok sh" "pools_ok s"
  shows "price_kept vid asset s s'"
proof (cases "vid = v \<and> asset = a \<and> get_total_supply v a s \<noteq> 0")
  case True
  then have "get_total_balance v a s * (get_total_supply v a s + sh) \<le> (get_total_balance v a s + n) * get_total_supply v a s"
    using assms(2) by (intro deposit_price_up) (auto simp: preview_deposit_def)
  with True assms(1) show ?thesis
    by (simp add: price_kept_def deposited_def get_total_balance_def get_total_supply_def)
next
  case False
  show ?thesis
  proof (cases "vid = v \<and> asset = a")
    case True
    with False have "get_total_supply vid asset s = 0" by simp
    then have "get_total_balance vid asset s = 0" using pools_okD(5) [OF assms(3)] by blast
    then show ?thesis by (simp add: price_kept_def)
  next
    case False
    with assms(1) show ?thesis
      by (auto simp: price_kept_def deposited_def get_total_balance_def get_total_supply_def get_or_upd)
  qed
qed

lemma redeemed_price:
  assumes "redeemed v a n sh h s s'" "preview_redeem v a sh s = Ok n"
  shows "price_kept vid asset s s'"
proof (cases "vid = v \<and> asset = a")
  case True
  have "get_total_balance v a s * (get_total_supply v a s - sh) \<le> (get_total_balance v a s - n) * get_total_supply v a s"
    using assms(2) by (intro redeem_price_up) (simp add: preview_redeem_def)
  with True assms(1) show ?thesis
    by (simp add: price_kept_def redeemed_def get_total_balance_def get_total_supply_def)
next
  case False
  with assms(1) show ?thesis
    by (auto simp: price_kept_def redeemed_def get_total_balance_def get_total_supply_def get_or_upd)
qed

lemma submit_price:
  assumes "submit_rebalance_intent sd c v i a n sl no d p s = Ok (b, s')"
  shows "price_kept vid asset s s'"
proof -
  from assms obtain cfg b2 s2 ev where
    x: "execute_rebalance sd (engine_contract s) v i a n p
           (s\<lparr>vault_configs := (vault_configs s)(v \<mapsto>
                cfg\<lparr>last_used_nonce := no, last_execution_height := block_height s\<rparr>)\<rparr>) = Ok (b2, s2)"
    and s': "s' = emit ev s2"
    by (rule submit_effect) blast
  have "total_balances s2 = total_balances s" "supplies s2 = supplies s"
    by (rule execute_rebalance_effect [OF x], simp add: emit_def)+
  then show ?thesis using s' by (intro price_same) (simp_all add: emit_def)
qed

lemma exec_price:
  assumes ok: "pools_ok s" and c: "\<not> is_protocol_contract s c" and e: "exec tt sd c k s = Ok s'"
  shows "price_kept vid asset s s'"
proof (cases "moves_funds k")
  case True
  then show ?thesis
    by (cases k rule: moves_funds.cases)
      (use e True ok in \<open>auto intro: submit_price deposited_price [OF deposit_stx_effect(2) deposit_stx_effect(1)]
         deposited_price [OF deposit_sbtc_effect(2) deposit_sbtc_effect(1)]
         redeemed_price [OF redeem_stx_effect(2) redeem_stx_effect(1)]
         redeemed_price [OF redeem_sbtc_effect(2) redeem_sbtc_effect(1)]\<close>)
next
  case False
  have "\<not> reserved k" using reserved_fails [OF _ c] e by blast
  from exec_untouched [OF e False this] have "pool_view s' = pool_view s" by (simp add: untouched_def)
  then show ?thesis by (intro price_same) (simp_all add: pool_view_def)
qed

lemma step_price: "chain_step tt sd s s' \<Longrightarrow> pools_ok s \<Longrightarrow> price_kept vid asset s s'"
proof (induction rule: chain_step.induct)
  case (transaction s c k s')
  then show ?case by (blast intro: exec_price)
qed (auto intro!: price_same)

section \<open>Redemption on testnet\<close>

lemma deployed_empty: "strategy_allocations s = Map.empty \<Longrightarrow> deployed vid asset s = 0"
  by (simp add: deployed_def)

lemma stx_covered:
  assumes "pools_ok s"
  shows "get_idle_balance vid ASSET_STX s \<le> stx_ledger s (vault_contract s)"
proof -
  have "get_idle_balance vid ASSET_STX s \<le> sum_over (idle_balances s) stx_pool"
    using pools_okD(2) [OF assms] by (simp add: get_idle_balance_def get_or_le_sum_over stx_pool_def)
  with pools_okD(6) [OF assms] show ?thesis by simp
qed

text \<open>
  With nothing deployed, whoever holds shares gets their floor value, whether the protocol or the
  vault is paused or not.
\<close>

lemma redeem_stx_succeeds:
  assumes ok: "pools_ok s" and none: "strategy_allocations s = Map.empty"
    and v: "vaults s vid = Some v" "asset_in_mode (v_assets v) ASSET_STX"
    and h: "shares \<le> get_balance vid ASSET_STX holder s" "holder \<noteq> vault_contract s"
    and p: "preview_redeem vid ASSET_STX shares s = Ok payout"
  shows "\<exists>s'. redeem_stx holder vid shares s = Ok (payout, s')"
proof -
  have pay: "compute_redeem_assets shares (get_total_supply vid ASSET_STX s) (get_total_balance vid ASSET_STX s) = Ok payout"
    using p by (simp add: preview_redeem_def)
  have idle: "get_idle_balance vid ASSET_STX s = get_total_balance vid ASSET_STX s"
    using pools_okD(4) [OF ok, of vid ASSET_STX] deployed_empty [OF none] by simp
  have le: "payout \<le> get_total_balance vid ASSET_STX s" using pay by (rule redeem_payout_le)
  have pos: "0 < payout" "0 < shares" "shares \<le> get_total_supply vid ASSET_STX s"
    using pay by (auto simp: compute_redeem_assets_Ok)
  have led: "payout \<le> stx_ledger s (vault_contract s)"
    using stx_covered [OF ok, of vid] idle le by simp
  show ?thesis
    using v h pay idle le pos led
    by (simp add: redeem_stx_def burn_def debit_pool_def stx_transfer_def is_valid_asset_def Let_def emit_def get_idle_balance_def
        get_total_balance_def vault_contract_def contract_of_def usub_def)
qed

end
