(* ===== verification/Web_Amounts.thy ===== *)
theory Web_Amounts
  imports Js_Values
begin

text \<open>
  Exact amounts in the web application (apps/web/src/lib/amounts.ts and the older formatters of
  apps/web/src/lib/format.ts): decimal text to integer base units and back, percentages and basis
  points. A \<open>bigint\<close> is an \<open>int\<close>; its division truncates towards zero.
\<close>

definition DECIMALS :: "(string \<times> nat) list" where
  "DECIMALS = [(''STX'', 6), (''SBTC'', 8)]"

definition AMOUNT_LABEL :: "(string \<times> string) list" where
  "AMOUNT_LABEL = [(''STX'', ''STX''), (''SBTC'', ''sBTC'')]"

definition BASE_UNIT_LABEL :: "(string \<times> string) list" where
  "BASE_UNIT_LABEL = [(''STX'', ''microSTX''), (''SBTC'', ''sats'')]"

section \<open>Parsing\<close>

text \<open>The pattern \<^verbatim>\<open>/^\d*\.?\d*$/\<close>.\<close>

definition plain_decimal :: "string \<Rightarrow> bool" where
  "plain_decimal s \<longleftrightarrow> (let r = dropWhile is_digit s in r = [] \<or> (hd r = CHR ''.'' \<and> list_all is_digit (tl r)))"

definition parseUnits :: "string \<Rightarrow> nat \<Rightarrow> int option" where
  "parseUnits input decimals =
     (let s = trim input in
      if \<not> plain_decimal s \<or> s = [] \<or> s = ''.'' then None
      else
        (let parts = split_on (CHR ''.'') s; whole = hd parts; frac = (case tl parts of [] \<Rightarrow> [] | f # _ \<Rightarrow> f) in
         if decimals < length frac then None
         else Some (int (digits_val ((if whole = [] then ''0'' else whole) @ pad_end decimals (CHR ''0'') frac)))))"

section \<open>Formatting\<close>

definition formatUnits :: "int \<Rightarrow> nat \<Rightarrow> nat \<Rightarrow> string" where
  "formatUnits v decimals minFraction =
     (let negative = v < 0; a = nat \<bar>v\<bar>; base = 10 ^ decimals; whole = a div base;
          frac = strip_zeros (pad_start decimals (CHR ''0'') (nat_text (a mod base)));
          frac' = (if length frac < minFraction then pad_end minFraction (CHR ''0'') frac else frac) in
      (if negative then ''-'' else []) @ locale_nat whole @ (if frac' = [] then [] else ''.'' @ frac'))"

definition formatAsset :: "int \<Rightarrow> string \<Rightarrow> string result" where
  "formatAsset v asset =
     (case (map_of DECIMALS asset, map_of AMOUNT_LABEL asset) of
        (Some d, Some l) \<Rightarrow> Inr (formatUnits v d 0 @ '' '' @ l)
      | _ \<Rightarrow> Inl (TypeError ''Cannot convert undefined to a BigInt''))"

definition formatShares :: "int \<Rightarrow> string" where
  "formatShares v = locale_int v"

section \<open>Percentages\<close>

definition quot_int :: "int \<Rightarrow> int \<Rightarrow> int" where
  "quot_int a b = (if (a < 0) = (b < 0) then \<bar>a\<bar> div \<bar>b\<bar> else - (\<bar>a\<bar> div \<bar>b\<bar>))"

definition rem_int :: "int \<Rightarrow> int \<Rightarrow> int" where
  "rem_int a b = a - b * quot_int a b"

definition percentOf :: "int \<Rightarrow> int \<Rightarrow> string" where
  "percentOf v whole =
     (if whole \<le> 0 then ''0.00''
      else (let hundredths = quot_int (v * 10000) whole in
        int_text (quot_int hundredths 100) @ ''.'' @ pad_start 2 (CHR ''0'') (int_text (rem_int hundredths 100))))"

definition bpsToPct :: "int \<Rightarrow> string" where
  "bpsToPct b = int_text (quot_int b 100) @ ''.'' @ pad_start 2 (CHR ''0'') (int_text (rem_int b 100))"

definition pctToBps :: "string \<Rightarrow> int option" where
  "pctToBps pct = map_option js_Number (parseUnits pct 2)"

section \<open>The formatters of format.ts\<close>

definition SATS_PER_SBTC :: int where
  "SATS_PER_SBTC = 100000000"

definition satsToSbtc :: "int \<Rightarrow> string" where
  "satsToSbtc v =
     (let fracStr = strip_zeros (pad_start 8 (CHR ''0'') (int_text (rem_int v SATS_PER_SBTC))) in
      int_text (quot_int v SATS_PER_SBTC) @ ''.'' @ (if fracStr = [] then ''0'' else fracStr))"

definition formatSbtc :: "int \<Rightarrow> string" where
  "formatSbtc v = satsToSbtc v @ '' sBTC''"

definition formatStx :: "int \<Rightarrow> string" where
  "formatStx v =
     (let fracStr = strip_zeros (pad_start 6 (CHR ''0'') (int_text (rem_int v 1000000))) in
      int_text (quot_int v 1000000) @ ''.'' @ (if fracStr = [] then ''0'' else fracStr) @ '' STX'')"

definition bpsToPercent :: "int \<Rightarrow> string" where
  "bpsToPercent bps = to_fixed (num_div (Fin (of_int bps)) (Fin 100)) 2 @ ''%''"

definition shortAddress :: "string \<Rightarrow> nat \<Rightarrow> string" where
  "shortAddress address chars =
     (if length address \<le> chars * 2 + 3 then address
      else take chars address @ ''...'' @ drop (length address - 4) address)"

definition formatUsdCompact :: "js_num \<Rightarrow> string" where
  "formatUsdCompact usd =
     (if num_le (Fin 1000000000) usd then ''$'' @ to_fixed (num_div usd (Fin 1000000000)) 2 @ ''B''
      else if num_le (Fin 1000000) usd then ''$'' @ to_fixed (num_div usd (Fin 1000000)) 1 @ ''M''
      else if num_le (Fin 1000) usd then ''$'' @ to_fixed (num_div usd (Fin 1000)) 0 @ ''K''
      else ''$'' @ (case math_round usd of Fin q \<Rightarrow> locale_int \<lfloor>q\<rfloor> | x \<Rightarrow> num_text x))"

section \<open>Digits\<close>

lemma digits_val_append: "digits_val (a @ b) = digits_val a * 10 ^ length b + digits_val b"
proof (induction b rule: rev_induct)
  case Nil
  then show ?case by (simp add: digits_val_def)
next
  case (snoc c b)
  have "digits_val (a @ b @ [c]) = 10 * digits_val (a @ b) + digit_val c"
    using digits_val_snoc [of "a @ b" c] by simp
  also have "\<dots> = digits_val a * 10 ^ length (b @ [c]) + digits_val (b @ [c])"
    by (simp add: snoc digits_val_snoc algebra_simps)
  finally show ?case .
qed

lemma digit_val_zero [simp]: "digit_val (CHR ''0'') = 0"
  by code_simp

lemma digits_val_zeros [simp]: "digits_val (replicate n (CHR ''0'')) = 0"
proof (induction n)
  case 0
  then show ?case by (simp add: digits_val_def)
next
  case (Suc n)
  have "digits_val (replicate (Suc n) (CHR ''0'')) = digits_val (replicate n (CHR ''0'') @ [CHR ''0''])"
    by (simp add: replicate_append_same)
  also have "\<dots> = 0" using Suc by (simp add: digits_val_snoc)
  finally show ?case .
qed

lemma digits_val_pad_start: "digits_val (pad_start n (CHR ''0'') s) = digits_val s"
  by (simp add: pad_start_def digits_val_append)

lemma strip_zeros_split: "s = strip_zeros s @ replicate (length s - length (strip_zeros s)) (CHR ''0'')"
proof -
  let ?P = "\<lambda>c. c = CHR ''0''"
  have "takeWhile ?P (rev s) = replicate (length (takeWhile ?P (rev s))) (CHR ''0'')"
    by (rule replicate_length_same [symmetric]) (auto dest: set_takeWhileD)
  then have "rev s = replicate (length (takeWhile ?P (rev s))) (CHR ''0'') @ dropWhile ?P (rev s)"
    using takeWhile_dropWhile_id [of ?P "rev s"] by metis
  then have "s = strip_zeros s @ replicate (length (takeWhile ?P (rev s))) (CHR ''0'')"
    by (metis rev_append rev_replicate rev_rev_ident strip_zeros_def)
  then show ?thesis
    by (metis add_diff_cancel_left' length_append length_replicate)
qed

lemma strip_zeros_length: "length (strip_zeros s) \<le> length s"
  using strip_zeros_split [of s] by (metis length_append le_add1)

lemma is_digit_zero [simp]: "is_digit (CHR ''0'')"
  by code_simp

lemma strip_zeros_digits: "list_all is_digit s \<Longrightarrow> list_all is_digit (strip_zeros s)"
  by (metis strip_zeros_split list_all_append)

lemma pad_start_digits: "list_all is_digit s \<Longrightarrow> list_all is_digit (pad_start n (CHR ''0'') s)"
  by (auto simp: pad_start_def list_all_iff)

lemma nat_text_length: "0 < n \<Longrightarrow> m < 10 ^ n \<Longrightarrow> length (nat_text m) \<le> n"
proof (induction n arbitrary: m)
  case 0
  then show ?case by simp
next
  case (Suc n)
  show ?case
  proof (cases "m < 10")
    case True
    then show ?thesis by (simp add: nat_text.simps [of m])
  next
    case False
    have "n \<noteq> 0" using False Suc.prems(2) by (cases n) auto
    then have "0 < n" "m div 10 < 10 ^ n" using Suc.prems by auto
    with Suc.IH [of "m div 10"] False show ?thesis by (simp add: nat_text.simps [of m])
  qed
qed

text \<open>The fraction that is printed, padded again, is the remainder.\<close>

lemma fraction_value:
  assumes "m < 10 ^ d" and "0 < d"
  shows "digits_val (pad_end d (CHR ''0'') (strip_zeros (pad_start d (CHR ''0'') (nat_text m)))) = m"
proof -
  let ?p = "pad_start d (CHR ''0'') (nat_text m)"
  have "length (nat_text m) \<le> d" using nat_text_length assms by blast
  then have "length ?p = d" by (simp add: pad_start_def)
  then have "pad_end d (CHR ''0'') (strip_zeros ?p) = ?p"
    using strip_zeros_split [of ?p] by (simp add: pad_end_def)
  then show ?thesis by (simp add: digits_val_pad_start)
qed

section \<open>Printing and parsing are inverse\<close>

text \<open>The pages strip the thousands separators before they put a formatted amount into a field.\<close>

definition strip_commas :: "string \<Rightarrow> string" where
  "strip_commas s = filter (\<lambda>c. c \<noteq> CHR '','') s"

lemma digit_facts:
  "\<not> is_digit (CHR '','')" "\<not> is_digit (CHR ''.'')" "\<not> is_digit (CHR ''-'')"
  by code_simp+

lemma strip_commas_locale [simp]: "strip_commas (locale_nat n) = nat_text n"
proof -
  have "filter (\<lambda>c. c \<noteq> CHR '','') (locale_nat n) = filter is_digit (locale_nat n)"
    using locale_nat_chars [of _ n] digit_facts by (intro filter_cong) auto
  then show ?thesis by (simp add: strip_commas_def locale_nat_digits)
qed

lemma strip_commas_digits: "list_all is_digit s \<Longrightarrow> strip_commas s = s"
  using digit_facts by (auto simp: strip_commas_def list_all_iff filter_id_conv)

lemma strip_commas_append: "strip_commas (a @ b) = strip_commas a @ strip_commas b"
  by (simp add: strip_commas_def)

lemma formatted_amount:
  assumes "0 \<le> v"
  shows "strip_commas (formatUnits v d 0) =
    nat_text (nat v div 10 ^ d) @
      (let f = strip_zeros (pad_start d (CHR ''0'') (nat_text (nat v mod 10 ^ d))) in if f = [] then [] else ''.'' @ f)"
proof -
  let ?f = "strip_zeros (pad_start d (CHR ''0'') (nat_text (nat v mod 10 ^ d)))"
  have f: "list_all is_digit ?f" by (intro strip_zeros_digits pad_start_digits nat_text_digits)
  have dot: "strip_commas (CHR ''.'' # s) = CHR ''.'' # strip_commas s" for s by (simp add: strip_commas_def)
  have "strip_commas [] = []" by (simp add: strip_commas_def)
  then show ?thesis using assms
    by (simp add: formatUnits_def Let_def strip_commas_append dot strip_commas_digits [OF f])
qed

lemma digits_no_space: "list_all is_digit s \<Longrightarrow> list_all (\<lambda>c. \<not> is_space c) s"
  using is_digit_not_space by (auto simp: list_all_iff)

lemma parse_digits:
  assumes w: "list_all is_digit w" "w \<noteq> []" and f: "list_all is_digit f" "length f \<le> d"
  shows "parseUnits (w @ (if f = [] then [] else ''.'' @ f)) d = Some (int (digits_val (w @ pad_end d (CHR ''0'') f)))"
proof -
  let ?s = "w @ (if f = [] then [] else ''.'' @ f)"
  have dot: "\<not> is_space (CHR ''.'')" by code_simp
  have "list_all (\<lambda>c. \<not> is_space c) ?s" using digits_no_space w(1) f(1) dot by auto
  then have t: "trim ?s = ?s" by (rule trim_idle)
  have ne: "CHR ''.'' \<notin> set w" "CHR ''.'' \<notin> set f" using w f digit_facts(2) by (auto simp: list_all_iff)
  have dw: "dropWhile is_digit (w @ x) = dropWhile is_digit x" for x
    using w(1) by (simp add: dropWhile_append2 list_all_iff)
  have pl: "plain_decimal ?s" using f(1) digit_facts(2) by (simp add: plain_decimal_def dw Let_def)
  have "?s \<noteq> ''.''" using w digit_facts(2) by (cases w) auto
  moreover have "?s \<noteq> []" using w by simp
  moreover have "split_on (CHR ''.'') ?s = w # (if f = [] then [] else [f])"
    using ne by (simp add: split_on_first split_on_none)
  ultimately show ?thesis using t pl w(2) f(2)
    by (simp add: parseUnits_def Let_def pad_end_def)
qed

lemma length_pad_end: "length s \<le> n \<Longrightarrow> length (pad_end n c s) = n"
  by (simp add: pad_end_def)

lemma parse_format:
  assumes "0 \<le> v" and "0 < d"
  shows "parseUnits (strip_commas (formatUnits v d 0)) d = Some v"
proof -
  let ?m = "nat v mod 10 ^ d" and ?q = "nat v div 10 ^ d"
  let ?f = "strip_zeros (pad_start d (CHR ''0'') (nat_text ?m))"
  have f: "list_all is_digit ?f" by (intro strip_zeros_digits pad_start_digits nat_text_digits)
  have m: "?m < 10 ^ d" by simp
  have "length ?f \<le> length (pad_start d (CHR ''0'') (nat_text ?m))" by (rule strip_zeros_length)
  also have "\<dots> = d" using nat_text_length [OF assms(2) m] by (simp add: pad_start_def)
  finally have len: "length ?f \<le> d" .
  have "digits_val (nat_text ?q @ pad_end d (CHR ''0'') ?f) = ?q * 10 ^ d + ?m"
    using len fraction_value [OF m assms(2)] by (simp add: digits_val_append length_pad_end)
  also have "\<dots> = nat v" by (simp add: mult.commute)
  finally have "digits_val (nat_text ?q @ pad_end d (CHR ''0'') ?f) = nat v" .
  then show ?thesis
    using parse_digits [OF nat_text_digits [of ?q] nat_text_ne f len] formatted_amount [OF assms(1), of d] assms(1)
    by (simp add: Let_def)
qed

text \<open>What is accepted is exact: the value times the scale, and nothing with more decimals.\<close>

lemma parse_nonneg: "parseUnits s d = Some v \<Longrightarrow> 0 \<le> v"
  by (auto simp: parseUnits_def Let_def split: if_splits)

lemma pct_bps:
  assumes "0 \<le> b" and "b \<le> 2 ^ 53"
  shows "pctToBps (bpsToPct b) = Some b"
proof -
  have q: "quot_int b 100 = b div 100" and r: "rem_int b 100 = b mod 100"
    using assms by (simp_all add: quot_int_def rem_int_def minus_mult_div_eq_mod)
  let ?f = "pad_start 2 (CHR ''0'') (nat_text (nat (b mod 100)))"
  have m: "nat (b mod 100) < 10 ^ 2" by simp
  have len: "length ?f = 2" using nat_text_length [of 2 "nat (b mod 100)"] m by (simp add: pad_start_def)
  then have fe: "?f \<noteq> []" by auto
  have it: "int_text i = nat_text (nat i)" if "0 \<le> i" for i using that by (simp add: int_text_def)
  have "bpsToPct b = nat_text (nat (b div 100)) @ (if ?f = [] then [] else ''.'' @ ?f)"
    using fe assms by (simp add: bpsToPct_def q r it)
  moreover have "list_all is_digit ?f" by (intro pad_start_digits nat_text_digits)
  ultimately have "parseUnits (bpsToPct b) 2 = Some (int (digits_val (nat_text (nat (b div 100)) @ pad_end 2 (CHR ''0'') ?f)))"
    using parse_digits [OF nat_text_digits [of "nat (b div 100)"] nat_text_ne, of ?f 2] len by simp
  also have "pad_end 2 (CHR ''0'') ?f = ?f" using len by (simp add: pad_end_def)
  also have "int (digits_val (nat_text (nat (b div 100)) @ ?f)) = b"
    using len assms by (simp add: digits_val_append digits_val_pad_start pos_imp_zdiv_nonneg_iff)
  finally show ?thesis using assms by (simp add: pctToBps_def safe_int_def)
qed

end
