(* ===== verification/Web_Presets.thy ===== *)
theory Web_Presets
  imports Web_Amounts
begin

text \<open>
  The vault purposes a treasury can be created for, with their default risk parameters, and the
  asset modes (apps/web/src/lib/presets.ts).
\<close>

record risk_defaults =
  rd_maxExposureBps :: int
  rd_minIdleBps :: int
  rd_maxSlippageBps :: int
  rd_maxStxTx :: int
  rd_maxSbtcTx :: int
  rd_cooldownBlocks :: int
  rd_autonomous :: bool
  rd_openDeposits :: bool

record vault_purpose =
  vp_id :: int
  vp_key :: string
  vp_label :: string
  vp_tagline :: string
  vp_description :: string
  vp_traits :: "string list"
  vp_suggestedName :: string
  vp_defaults :: risk_defaults

definition MICRO_STX :: int where
  "MICRO_STX = 1000000"

definition SATS :: int where
  "SATS = 100000000"

section \<open>Purposes\<close>

definition conservative_purpose :: vault_purpose where
  "conservative_purpose =
     \<lparr> vp_id = 0, vp_key = ''conservative'', vp_label = ''Conservative'', vp_tagline = ''Preserve liquidity first'',
       vp_description = ''A treasury that keeps most capital idle and immediately redeemable, with small, tightly bounded allocations.'',
       vp_traits = [''Lower strategy exposure'', ''Higher idle-liquidity requirement'', ''Lower maximum transaction size'', ''Lower maximum slippage''],
       vp_suggestedName = ''Conservative Treasury'',
       vp_defaults = \<lparr> rd_maxExposureBps = 1500, rd_minIdleBps = 5000, rd_maxSlippageBps = 25,
         rd_maxStxTx = 100 * MICRO_STX, rd_maxSbtcTx = quot_int SATS 100, rd_cooldownBlocks = 720,
         rd_autonomous = False, rd_openDeposits = False \<rparr> \<rparr>"

definition aggressive_purpose :: vault_purpose where
  "aggressive_purpose =
     \<lparr> vp_id = 1, vp_key = ''aggressive'', vp_label = ''Aggressive'', vp_tagline = ''Accept more deployment risk'',
       vp_description = ''A treasury that permits larger allocations and a lower idle floor. More capital can be deployed at once, so more can be affected by a strategy problem.'',
       vp_traits = [''Higher permitted strategy exposure'', ''Lower idle-liquidity floor'', ''Higher transaction limits'', ''Higher risk tolerance''],
       vp_suggestedName = ''Aggressive Treasury'',
       vp_defaults = \<lparr> rd_maxExposureBps = 5000, rd_minIdleBps = 1000, rd_maxSlippageBps = 100,
         rd_maxStxTx = 1000 * MICRO_STX, rd_maxSbtcTx = quot_int SATS 10, rd_cooldownBlocks = 60,
         rd_autonomous = False, rd_openDeposits = False \<rparr> \<rparr>"

definition business_purpose :: vault_purpose where
  "business_purpose =
     \<lparr> vp_id = 2, vp_key = ''business'', vp_label = ''Business'', vp_tagline = ''Balanced, liquidity-aware'',
       vp_description = ''Operating capital with a healthy liquid reserve: moderate strategy exposure, and enough idle balance to keep paying obligations.'',
       vp_traits = [''Balanced liquidity'', ''Moderate strategy exposure'', ''Higher liquidity preservation''],
       vp_suggestedName = ''Business Treasury'',
       vp_defaults = \<lparr> rd_maxExposureBps = 3000, rd_minIdleBps = 3500, rd_maxSlippageBps = 50,
         rd_maxStxTx = 500 * MICRO_STX, rd_maxSbtcTx = quot_int SATS 20, rd_cooldownBlocks = 288,
         rd_autonomous = False, rd_openDeposits = False \<rparr> \<rparr>"

definition dao_purpose :: vault_purpose where
  "dao_purpose =
     \<lparr> vp_id = 3, vp_key = ''dao'', vp_label = ''DAO'', vp_tagline = ''Governance-oriented, transparent'',
       vp_description = ''A community treasury with conservative execution boundaries and long cooldowns, so every change is slow, visible and reviewable.'',
       vp_traits = [''Strong governance-oriented controls'', ''Higher transparency'', ''Conservative execution boundaries''],
       vp_suggestedName = ''DAO Treasury'',
       vp_defaults = \<lparr> rd_maxExposureBps = 2500, rd_minIdleBps = 4000, rd_maxSlippageBps = 30,
         rd_maxStxTx = 250 * MICRO_STX, rd_maxSbtcTx = quot_int SATS 40, rd_cooldownBlocks = 1008,
         rd_autonomous = False, rd_openDeposits = False \<rparr> \<rparr>"

definition institutional_purpose :: vault_purpose where
  "institutional_purpose =
     \<lparr> vp_id = 4, vp_key = ''institutional'', vp_label = ''Institutional'', vp_tagline = ''Strict controls, explicit approval'',
       vp_description = ''The tightest posture: small per-strategy caps, a high idle floor, strict slippage, long cooldowns and owner approval for every intent.'',
       vp_traits = [''Strict risk controls'', ''Strong execution limits'', ''High auditability'', ''Explicit approval required''],
       vp_suggestedName = ''Institutional Treasury'',
       vp_defaults = \<lparr> rd_maxExposureBps = 1000, rd_minIdleBps = 6000, rd_maxSlippageBps = 10,
         rd_maxStxTx = 50 * MICRO_STX, rd_maxSbtcTx = quot_int SATS 200, rd_cooldownBlocks = 1440,
         rd_autonomous = False, rd_openDeposits = False \<rparr> \<rparr>"

definition custom_purpose :: vault_purpose where
  "custom_purpose =
     \<lparr> vp_id = 5, vp_key = ''custom'', vp_label = ''Custom'', vp_tagline = ''Configure everything yourself'',
       vp_description = ''Start from neutral defaults and set every parameter to exactly what you want.'',
       vp_traits = [''Neutral starting values'', ''Every parameter is yours to set''],
       vp_suggestedName = ''My Treasury'',
       vp_defaults = \<lparr> rd_maxExposureBps = 2000, rd_minIdleBps = 3000, rd_maxSlippageBps = 50,
         rd_maxStxTx = 100 * MICRO_STX, rd_maxSbtcTx = quot_int SATS 100, rd_cooldownBlocks = 144,
         rd_autonomous = False, rd_openDeposits = False \<rparr> \<rparr>"

definition PURPOSES :: "vault_purpose list" where
  "PURPOSES =
     [conservative_purpose, aggressive_purpose, business_purpose, dao_purpose, institutional_purpose, custom_purpose]"

definition purposeById :: "int \<Rightarrow> vault_purpose" where
  "purposeById i = (case List.find (\<lambda>p. vp_id p = i) PURPOSES of Some p \<Rightarrow> p | None \<Rightarrow> last PURPOSES)"

section \<open>Asset modes\<close>

record asset_mode =
  am_id :: int
  am_label :: string
  am_detail :: string

definition ASSET_MODES :: "asset_mode list" where
  "ASSET_MODES =
     [\<lparr> am_id = 1, am_label = ''STX'', am_detail = ''One pool: native Testnet STX.'' \<rparr>,
      \<lparr> am_id = 2, am_label = ''sBTC'', am_detail = ''One pool: real Testnet sBTC (SIP-010).'' \<rparr>,
      \<lparr> am_id = 3, am_label = ''STX + sBTC'', am_detail = ''Two SEPARATE pools with separate receipt shares. STX and sBTC are never converted, summed or valued against each other - no verified on-chain price source exists on Testnet.'' \<rparr>]"

definition assetsForMode :: "int \<Rightarrow> string list" where
  "assetsForMode mode = (if mode = 1 then [''STX''] else if mode = 2 then [''SBTC''] else [''STX'', ''SBTC''])"

definition modeLabel :: "int \<Rightarrow> string" where
  "modeLabel mode = (case List.find (\<lambda>m. am_id m = mode) ASSET_MODES of Some m \<Rightarrow> am_label m | None \<Rightarrow> ''Unknown'')"

section \<open>Facts\<close>

lemmas purpose_defs = conservative_purpose_def aggressive_purpose_def business_purpose_def dao_purpose_def
  institutional_purpose_def custom_purpose_def MICRO_STX_def SATS_def quot_int_def

lemma purpose_ids: "map vp_id PURPOSES = [0, 1, 2, 3, 4, 5]"
  by (simp add: PURPOSES_def purpose_defs)

lemma purposeById_mem: "purposeById i \<in> set PURPOSES"
proof (cases "List.find (\<lambda>p. vp_id p = i) PURPOSES")
  case None
  then show ?thesis by (simp add: purposeById_def PURPOSES_def)
next
  case (Some p)
  then show ?thesis using find_Some_mem [OF Some] by (simp add: purposeById_def)
qed

lemma purpose_range: "p \<in> set PURPOSES \<Longrightarrow> 0 \<le> vp_id p \<and> vp_id p \<le> 5"
  by (auto simp: PURPOSES_def purpose_defs)

text \<open>Every preset lies inside the limits the contract is deployed with.\<close>

definition within_deployed_limits :: "risk_defaults \<Rightarrow> bool" where
  "within_deployed_limits d \<longleftrightarrow>
     0 < rd_maxExposureBps d \<and> rd_maxExposureBps d \<le> 5000 \<and> 500 \<le> rd_minIdleBps d \<and> rd_minIdleBps d \<le> 10000 \<and>
     0 < rd_maxSlippageBps d \<and> rd_maxSlippageBps d \<le> 1000 \<and> 0 < rd_maxStxTx d \<and> rd_maxStxTx d < 2 ^ 64 \<and>
     0 < rd_maxSbtcTx d \<and> rd_maxSbtcTx d < 2 ^ 64 \<and> 1 \<le> rd_cooldownBlocks d \<and> rd_cooldownBlocks d < 2 ^ 32 \<and>
     \<not> rd_autonomous d \<and> \<not> rd_openDeposits d"

lemma presets_valid: "p \<in> set PURPOSES \<Longrightarrow> within_deployed_limits (vp_defaults p)"
  by (auto simp: PURPOSES_def purpose_defs within_deployed_limits_def)

end
