(* ===== verification/Web_Config.thy ===== *)
theory Web_Config
  imports Chain_Reader Web_Amounts
begin

text \<open>
  Configuration of the web application (apps/web/src/lib/config.ts) and its calls of the wallet
  (apps/web/src/lib/wallet.ts): contract identifiers, the network of an address, the
  post-conditions of every call that moves assets, and the request that is signed.
\<close>

section \<open>Services of the browser\<close>

text \<open>
  The environment the bundle was built with, the reader of contracts, \<open>fetch\<close>, the clock, timers,
  \<open>cvToJSON(deserializeCV(hex))\<close>, the wallet's answer to \<open>stx_callContract\<close> (its transaction id, if
  it returned one) and to \<open>connect\<close>, the session \<open>isConnected\<close> reports and \<open>getLocalStorage()\<close>.
\<close>

datatype post_condition =
    SendEq string int "(string \<times> string) option"
  | SendLte string int "(string \<times> string) option"

text \<open>The third argument is the token (contract and asset name), \<open>None\<close> for STX in micro-units.\<close>

datatype web_arg =
    CvUint int
  | CvBool bool
  | CvStringUtf8 string
  | CvContractPrincipal string string

record wallet_request =
  wr_contract :: string
  wr_functionName :: string
  wr_functionArgs :: "web_arg list"
  wr_postConditions :: "post_condition list"
  wr_postConditionMode :: string
  wr_network :: string

record 'w web =
  wb_env :: process_env
  wb_readOnly :: "network_name \<Rightarrow> string \<Rightarrow> string \<Rightarrow> string \<Rightarrow> cl_arg list \<Rightarrow> string \<Rightarrow> ('w, js) io"
  wb_fetch :: "string \<Rightarrow> ('w, bool \<times> int \<times> js) io"
  wb_now :: "'w \<Rightarrow> int \<times> 'w"
  wb_sleep :: "int \<Rightarrow> 'w \<Rightarrow> 'w"
  wb_decodeCV :: "string \<Rightarrow> js result"
  wb_request :: "wallet_request \<Rightarrow> ('w, string option) io"
  wb_connect :: "('w, unit) io"
  wb_isConnected :: "('w, bool) io"
  wb_localStorage :: "'w \<Rightarrow> js \<times> 'w"
  wb_disconnect :: "'w \<Rightarrow> 'w"

section \<open>Configuration\<close>

definition NETWORK :: "'w web \<Rightarrow> network_name" where
  "NETWORK sv = env_or (wb_env sv) ''NEXT_PUBLIC_NETWORK'' ''testnet''"

definition STACKS_API_URL :: "'w web \<Rightarrow> string" where
  "STACKS_API_URL sv = env_or (wb_env sv) ''NEXT_PUBLIC_STACKS_API_URL'' ''https://api.testnet.hiro.so''"

definition DEPLOYER_ADDRESS :: "'w web \<Rightarrow> string" where
  "DEPLOYER_ADDRESS sv = env_or (wb_env sv) ''NEXT_PUBLIC_DEPLOYER_ADDRESS'' []"

definition SBTC_CONTRACT_ADDRESS :: "'w web \<Rightarrow> string" where
  "SBTC_CONTRACT_ADDRESS sv =
     env_or (wb_env sv) ''NEXT_PUBLIC_SBTC_CONTRACT_ADDRESS'' ''SN3VMHXEN64ZZF71JQ5VESXDWTR301XTTXGF4J8F1''"

definition SBTC_CONTRACT_NAME :: "'w web \<Rightarrow> string" where
  "SBTC_CONTRACT_NAME sv = env_or (wb_env sv) ''NEXT_PUBLIC_SBTC_CONTRACT_NAME'' ''sbtc-token''"

definition SBTC_CONTRACT_ID :: "'w web \<Rightarrow> string" where
  "SBTC_CONTRACT_ID sv = SBTC_CONTRACT_ADDRESS sv @ ''.'' @ SBTC_CONTRACT_NAME sv"

definition SBTC_ASSET_NAME :: string where
  "SBTC_ASSET_NAME = ''sbtc-token''"

definition EXPLORER_BASE :: string where
  "EXPLORER_BASE = ''https://explorer.hiro.so''"

definition with_0x :: "string \<Rightarrow> string" where
  "with_0x txId = (if starts_with txId ''0x'' then txId else ''0x'' @ txId)"

definition explorerTxUrl :: "'w web \<Rightarrow> string \<Rightarrow> string" where
  "explorerTxUrl sv txId = EXPLORER_BASE @ ''/txid/'' @ with_0x txId @ ''?chain='' @ NETWORK sv"

definition explorerAddressUrl :: "'w web \<Rightarrow> string \<Rightarrow> string" where
  "explorerAddressUrl sv address = EXPLORER_BASE @ ''/address/'' @ address @ ''?chain='' @ NETWORK sv"

definition isProtocolConfigured :: "'w web \<Rightarrow> bool" where
  "isProtocolConfigured sv \<longleftrightarrow> DEPLOYER_ADDRESS sv \<noteq> []"

definition WEB_CONTRACT_NAMES :: "(string \<times> string) list" where
  "WEB_CONTRACT_NAMES =
     [(''protocol-admin'', ''sovereignty-protocol-admin-v4''),
      (''agent-registry'', ''agent-registry-v4''),
      (''strategy-registry'', ''strategy-registry-v6''),
      (''risk-guard'', ''risk-guard-v7''),
      (''sovereignty-vault'', ''sovereignty-vault-v7''),
      (''receipt-token'', ''receipt-token-v7''),
      (''execution-engine'', ''execution-engine-v7''),
      (''sip-010-trait'', ''sip-010-trait-v4''),
      (''strategy-trait'', ''strategy-trait-v4'')]"

definition web_contractId :: "'w web \<Rightarrow> string \<Rightarrow> string result" where
  "web_contractId sv logicalName =
     (if DEPLOYER_ADDRESS sv = [] then
        Inl (JsError (''NEXT_PUBLIC_DEPLOYER_ADDRESS is not set. The protocol has not been deployed on this network yet ''
          @ emdash @ '' see docs/deployment.md.''))
      else
        Inr (DEPLOYER_ADDRESS sv @ ''.'' @
             (case map_of WEB_CONTRACT_NAMES logicalName of Some n \<Rightarrow> n | None \<Rightarrow> logicalName)))"

section \<open>The wallet\<close>

datatype address_network = Testnet | Mainnet | Unknown

text \<open>\<^verbatim>\<open>/^S[TN]/\<close> and \<^verbatim>\<open>/^S[PM]/\<close>.\<close>

definition networkOfAddress :: "string \<Rightarrow> address_network" where
  "networkOfAddress address =
     (case address of
        a # b # _ \<Rightarrow> (if a = CHR ''S'' \<and> (b = CHR ''T'' \<or> b = CHR ''N'') then Testnet
                    else if a = CHR ''S'' \<and> (b = CHR ''P'' \<or> b = CHR ''M'') then Mainnet else Unknown)
      | _ \<Rightarrow> Unknown)"

fun network_text :: "address_network \<Rightarrow> string" where
  "network_text Testnet = ''testnet''"
| "network_text Mainnet = ''mainnet''"
| "network_text Unknown = ''unknown''"

definition pc_depositStx :: "string \<Rightarrow> int \<Rightarrow> post_condition list" where
  "pc_depositStx sender amount = [SendEq sender amount None]"

definition pc_depositSbtc :: "'w web \<Rightarrow> string \<Rightarrow> int \<Rightarrow> post_condition list" where
  "pc_depositSbtc sv sender amount = [SendEq sender amount (Some (SBTC_CONTRACT_ID sv, SBTC_ASSET_NAME))]"

definition pc_redeemStx :: "'w web \<Rightarrow> int \<Rightarrow> post_condition list result" where
  "pc_redeemStx sv maxAmount =
     js_try (web_contractId sv ''sovereignty-vault'') (\<lambda>c. Inr [SendLte c maxAmount None])"

definition pc_redeemSbtc :: "'w web \<Rightarrow> int \<Rightarrow> post_condition list result" where
  "pc_redeemSbtc sv maxAmount =
     js_try (web_contractId sv ''sovereignty-vault'') (\<lambda>c.
       Inr [SendLte c maxAmount (Some (SBTC_CONTRACT_ID sv, SBTC_ASSET_NAME))])"

definition signAndBroadcastContractCall ::
    "'w web \<Rightarrow> string \<Rightarrow> string \<Rightarrow> web_arg list \<Rightarrow> post_condition list option \<Rightarrow> ('w, string) io" where
  "signAndBroadcastContractCall sv contract fname args postConditions =
     io_bind (wb_request sv
       \<lparr> wr_contract = contract, wr_functionName = fname, wr_functionArgs = args,
         wr_postConditions = (case postConditions of Some ps \<Rightarrow> ps | None \<Rightarrow> []),
         wr_postConditionMode = ''deny'', wr_network = NETWORK sv \<rparr>) (\<lambda>txid.
       if \<not> truthy_text txid then io_throw (JsError ''Wallet did not return a transaction id.'')
       else io_return (the txid))"

text \<open>The session: \<open>data?.addresses?.stx?.[0]\<close>, with \<open>undefined\<close> passed on by every \<open>?.\<close>.\<close>

definition js_opt :: "js \<Rightarrow> string \<Rightarrow> js" where
  "js_opt v k = (case js_get v k of Inr x \<Rightarrow> x | Inl _ \<Rightarrow> JUndef)"

definition js_index :: "js \<Rightarrow> nat \<Rightarrow> js" where
  "js_index v i = (case v of JArr xs \<Rightarrow> if i < length xs then xs ! i else JUndef | _ \<Rightarrow> JUndef)"

definition getAddresses :: "'w web \<Rightarrow> ('w, string \<times> string option) io" where
  "getAddresses sv =
     io_bind (io_of (wb_localStorage sv)) (\<lambda>d.
       let stx = js_index (js_opt (js_opt d ''addresses'') ''stx'') 0;
           btc = js_index (js_opt (js_opt d ''addresses'') ''btc'') 0 in
       if \<not> truthy stx then io_throw (JsError ''No STX address found in wallet session.'')
       else
         io_bind (io_lift (js_try (js_get stx ''address'') as_string)) (\<lambda>a.
         io_return (a, (case js_opt btc ''address'' of JStr b \<Rightarrow> Some b | _ \<Rightarrow> None))))"

definition connectWallet :: "'w web \<Rightarrow> ('w, string \<times> string option) io" where
  "connectWallet sv = io_bind (wb_connect sv) (\<lambda>_. getAddresses sv)"

definition walletIsConnected :: "'w web \<Rightarrow> ('w, bool) io" where
  "walletIsConnected sv = io_catch (wb_isConnected sv) (\<lambda>_. io_return False)"

section \<open>Facts\<close>

text \<open>Both sides of the repository name the deployed contracts alike.\<close>

lemma contract_names_agree: "WEB_CONTRACT_NAMES = DEPLOYED_CONTRACT_NAMES"
  by (simp add: WEB_CONTRACT_NAMES_def DEPLOYED_CONTRACT_NAMES_def)

lemma web_contractId_Inr:
  "web_contractId sv n = Inr c \<longleftrightarrow>
     DEPLOYER_ADDRESS sv \<noteq> [] \<and>
     c = DEPLOYER_ADDRESS sv @ ''.'' @ (case map_of DEPLOYED_CONTRACT_NAMES n of Some m \<Rightarrow> m | None \<Rightarrow> n)"
  by (auto simp: web_contractId_def contract_names_agree)

end
