(* ===== verification/Web_Onchain.thy ===== *)
theory Web_Onchain
  imports Web_Config
begin

text \<open>
  What the web application reads from the chain (apps/web/src/lib/onchain.ts): wallet balances,
  protocol state, vaults with their pools, positions and allocations, the on-chain indexes, the
  previews, and the wait for a transaction. Promises that run at the same time are run in the
  order they are written; none of them changes what another reads.
\<close>

section \<open>Reading\<close>

definition web_apiGet :: "'w web \<Rightarrow> string \<Rightarrow> ('w, js) io" where
  "web_apiGet sv path =
     io_bind (wb_fetch sv (STACKS_API_URL sv @ path)) (\<lambda>(ok, status, body).
       if \<not> ok then io_throw (JsError (''Stacks API '' @ path @ '' returned HTTP '' @ int_text status))
       else io_return body)"

definition readOnlyJSON :: "'w web \<Rightarrow> string \<Rightarrow> string \<Rightarrow> cl_arg list \<Rightarrow> string \<Rightarrow> ('w, js) io" where
  "readOnlyJSON sv contract fname args sender =
     io_bind (io_lift (splitContract contract)) (\<lambda>(addr, cname).
       wb_readOnly sv (NETWORK sv) addr cname fname args sender)"

definition deployerOf :: "'w web \<Rightarrow> string result" where
  "deployerOf sv =
     js_try (web_contractId sv ''sovereignty-vault'') (\<lambda>c. Inr (hd (split_on (CHR ''.'') c)))"

definition web_read :: "'w web \<Rightarrow> string \<Rightarrow> string \<Rightarrow> cl_arg list \<Rightarrow> string option \<Rightarrow> ('w, js) io" where
  "web_read sv logical fname args sender =
     io_bind (io_lift (web_contractId sv logical)) (\<lambda>c.
     io_bind (case sender of Some s \<Rightarrow> io_return s | None \<Rightarrow> io_lift (deployerOf sv)) (\<lambda>from.
       readOnlyJSON sv c fname args from))"

definition vaultRead :: "'w web \<Rightarrow> string \<Rightarrow> cl_arg list \<Rightarrow> string option \<Rightarrow> ('w, js) io" where
  "vaultRead sv fname args sender = web_read sv ''sovereignty-vault'' fname args sender"

section \<open>Balances and protocol state\<close>

definition web_getStxBalance :: "'w web \<Rightarrow> string \<Rightarrow> ('w, int) io" where
  "web_getStxBalance sv address =
     io_bind (web_apiGet sv (''/extended/v1/address/'' @ address @ ''/stx'')) (\<lambda>d.
     io_lift (js_try (js_get d ''balance'') to_bigint))"

definition web_getSbtcBalance :: "'w web \<Rightarrow> string \<Rightarrow> ('w, int) io" where
  "web_getSbtcBalance sv address =
     io_bind (readOnlyJSON sv (SBTC_CONTRACT_ADDRESS sv @ ''.'' @ SBTC_CONTRACT_NAME sv) ''get-balance''
               [ClPrincipal address] address) (\<lambda>json.
     io_lift (js_try (js_get json ''success'') (\<lambda>ok.
       if ok = JBool False then Inl (JsError (''get-balance failed: '' @ json_text json))
       else js_try (js_path json [''value'', ''value'']) to_bigint)))"

definition web_getBlockHeight :: "'w web \<Rightarrow> ('w, int) io" where
  "web_getBlockHeight sv =
     io_bind (web_apiGet sv ''/v2/info'') (\<lambda>d.
     io_lift (js_try (js_get d ''stacks_tip_height'') (\<lambda>v.
       (case v of JNum n \<Rightarrow> Inr n
        | JFrac q \<Rightarrow> Inl (OutOfModel ''fractional height'')
        | _ \<Rightarrow> Inl (JsError ''Stacks API /v2/info did not return stacks_tip_height'')))))"

definition isProtocolPaused :: "'w web \<Rightarrow> ('w, bool) io" where
  "isProtocolPaused sv =
     io_bind (web_read sv ''protocol-admin'' ''is-paused'' [] None) (\<lambda>json.
     io_lift (js_try (js_get json ''value'') (\<lambda>v. Inr (is_true v))))"

record web_environment =
  we_network :: chain_network
  we_chainId :: int
  we_mainnetExecutionArmed :: bool
  we_strategyExecutionEnabled :: bool

definition web_getExecutionEnvironment :: "'w web \<Rightarrow> ('w, web_environment) io" where
  "web_getExecutionEnvironment sv =
     io_bind (web_read sv ''risk-guard'' ''get-execution-environment'' [] None) (\<lambda>json.
     io_lift (js_try (js_get json ''value'') (\<lambda>e.
       js_try (js_path e [''network'', ''value'']) (\<lambda>n.
       js_try (bigint_field e ''chain-id'') (\<lambda>cid.
       js_try (js_path e [''mainnet-execution-armed'', ''value'']) (\<lambda>armed.
       js_try (js_path e [''strategy-execution-enabled'', ''value'']) (\<lambda>enabled.
       Inr \<lparr> we_network = (if n = JStr ''MAINNET'' then MAINNET else TESTNET), we_chainId = cid,
             we_mainnetExecutionArmed = is_true armed, we_strategyExecutionEnabled = is_true enabled \<rparr>)))))))"

record protocol_limits =
  pl_maxSlippageBps :: int
  pl_maxExposureBps :: int
  pl_minCooldownBlocks :: int
  pl_minLiquidityBps :: int
  pl_approvedSbtcAsset :: "string option"

definition getProtocolLimits :: "'w web \<Rightarrow> ('w, protocol_limits) io" where
  "getProtocolLimits sv =
     io_bind (web_read sv ''risk-guard'' ''get-protocol-limits'' [] None) (\<lambda>json.
     io_lift (js_try (js_get json ''value'') (\<lambda>l.
       js_try (number_field l ''max-slippage-bps'') (\<lambda>slip.
       js_try (number_field l ''max-exposure-bps'') (\<lambda>exposure.
       js_try (number_field l ''min-cooldown-blocks'') (\<lambda>cool.
       js_try (number_field l ''min-liquidity-bps'') (\<lambda>liq.
       js_try (js_try (js_get l ''approved-sbtc-asset'') decode_approved_asset) (\<lambda>approved.
       Inr \<lparr> pl_maxSlippageBps = slip, pl_maxExposureBps = exposure, pl_minCooldownBlocks = cool,
             pl_minLiquidityBps = liq, pl_approvedSbtcAsset = approved \<rparr>))))))))"

definition decode_strategy_data :: "int \<Rightarrow> js \<Rightarrow> strategy_snapshot result" where
  "decode_strategy_data sid entry =
     js_try (js_try (js_path entry [''name'', ''value'']) as_string) (\<lambda>nm.
     js_try (js_try (js_path entry [''strategy-contract'', ''value'']) as_string) (\<lambda>ct.
     js_try (js_try (js_path entry [''asset'', ''value'']) as_string) (\<lambda>ast.
     js_try (js_path entry [''active'', ''value'']) (\<lambda>act.
     js_try (number_field entry ''max-allocation-bps'') (\<lambda>mx.
     Inr \<lparr> ss_strategyId = sid, ss_name = nm, ss_contract = ct, ss_asset = ast, ss_active = is_true act,
           ss_maxAllocationBps = mx \<rparr>)))))"

text \<open>\<open>StrategyData\<close> has the fields of the agent's \<open>StrategySnapshot\<close>; the loop stops at id 25.\<close>

fun list_strategies :: "'w web \<Rightarrow> nat \<Rightarrow> int \<Rightarrow> ('w, strategy_snapshot list) io" where
  "list_strategies sv 0 sid = io_return []"
| "list_strategies sv (Suc n) sid =
     io_bind (web_read sv ''strategy-registry'' ''get-strategy'' [ClUint sid] None) (\<lambda>json.
     io_bind (io_lift (js_get json ''value'')) (\<lambda>v.
       if v = JNull then io_return []
       else
         io_bind (io_lift (js_try (js_get v ''value'') (decode_strategy_data sid))) (\<lambda>here.
         io_bind (list_strategies sv n (sid + 1)) (\<lambda>rest. io_return (here # rest)))))"

definition listStrategies :: "'w web \<Rightarrow> ('w, strategy_snapshot list) io" where
  "listStrategies sv = list_strategies sv 25 1"

record protocol_snapshot =
  ps_blockHeight :: int
  ps_paused :: bool
  ps_environment :: web_environment
  ps_vaultCount :: int
  ps_approvedSbtc :: "string option"
  ps_activeStrategyCount :: int
  ps_readAt :: int

definition getProtocolSnapshot :: "'w web \<Rightarrow> ('w, protocol_snapshot) io" where
  "getProtocolSnapshot sv =
     io_bind (web_getBlockHeight sv) (\<lambda>blockHeight.
     io_bind (isProtocolPaused sv) (\<lambda>paused.
     io_bind (web_getExecutionEnvironment sv) (\<lambda>environment.
     io_bind (getProtocolLimits sv) (\<lambda>limits.
     io_bind (listStrategies sv) (\<lambda>strats.
     io_bind (vaultRead sv ''get-vault-count'' [] None) (\<lambda>countJson.
     io_bind (io_lift (js_try (js_get countJson ''value'') to_number)) (\<lambda>count.
     io_bind (io_of (wb_now sv)) (\<lambda>now.
     io_return \<lparr> ps_blockHeight = blockHeight, ps_paused = paused, ps_environment = environment,
                 ps_vaultCount = count, ps_approvedSbtc = pl_approvedSbtcAsset limits,
                 ps_activeStrategyCount = int (length (filter ss_active strats)), ps_readAt = now \<rparr>))))))))"

section \<open>Vaults\<close>

record vault_meta =
  vm_vaultId :: int
  vm_owner :: string
  vm_name :: string
  vm_purpose :: int
  vm_assets :: int
  vm_openDeposits :: bool
  vm_paused :: bool
  vm_createdAt :: int

record risk_config =
  rk_maxExposureBps :: int
  rk_maxStxTx :: int
  rk_maxSbtcTx :: int
  rk_maxSlippageBps :: int
  rk_minIdleBps :: int
  rk_autonomousEnabled :: bool
  rk_cooldownBlocks :: int
  rk_lastUsedNonce :: int
  rk_lastExecutionHeight :: int

record asset_pool =
  ap_asset :: asset
  ap_idle :: int
  ap_total :: int
  ap_supply :: int

record web_position =
  wp_asset :: asset
  wp_shares :: int
  wp_supply :: int
  wp_totalAssets :: int
  wp_idle :: int
  wp_ownershipBps :: int
  wp_claim :: int
  wp_redeemable :: int

record strategy_allocation =
  sa_strategyId :: int
  sa_asset :: asset
  sa_amount :: int

record vault_overview =
  vo_meta :: vault_meta
  vo_risk :: risk_config
  vo_pools :: "asset \<rightharpoonup> asset_pool"
  vo_positions :: "asset \<rightharpoonup> web_position"
  vo_allocations :: "strategy_allocation list"
  vo_strategies :: "strategy_snapshot list"
  vo_environment :: web_environment
  vo_blockHeight :: int
  vo_loadedAt :: int

definition supportedAssets :: "int \<Rightarrow> asset list" where
  "supportedAssets assetsMode =
     (if assetsMode = 1 then [''STX''] else if assetsMode = 2 then [''SBTC''] else [''STX'', ''SBTC''])"

definition decode_meta :: "int \<Rightarrow> js \<Rightarrow> vault_meta result" where
  "decode_meta vaultId v =
     js_try (js_try (js_path v [''owner'', ''value'']) as_string) (\<lambda>own.
     js_try (js_try (js_path v [''name'', ''value'']) as_string) (\<lambda>nm.
     js_try (number_field v ''purpose'') (\<lambda>purpose.
     js_try (number_field v ''assets'') (\<lambda>assets.
     js_try (js_path v [''open-deposits'', ''value'']) (\<lambda>od.
     js_try (js_path v [''paused'', ''value'']) (\<lambda>paused.
     js_try (number_field v ''created-at'') (\<lambda>created.
     Inr \<lparr> vm_vaultId = vaultId, vm_owner = own, vm_name = nm, vm_purpose = purpose, vm_assets = assets,
           vm_openDeposits = is_true od, vm_paused = is_true paused, vm_createdAt = created \<rparr>)))))))"

definition getVaultMeta :: "'w web \<Rightarrow> int \<Rightarrow> ('w, vault_meta option) io" where
  "getVaultMeta sv vaultId =
     io_bind (vaultRead sv ''get-vault'' [ClUint vaultId] None) (\<lambda>json.
     io_lift (js_try (js_get json ''value'') (\<lambda>vv.
       if vv = JNull then Inr None
       else js_try (js_try (js_get vv ''value'') (decode_meta vaultId)) (\<lambda>m. Inr (Some m)))))"

definition decode_risk :: "js \<Rightarrow> risk_config result" where
  "decode_risk c =
     js_try (number_field c ''max-exposure-bps'') (\<lambda>mexp.
     js_try (bigint_field c ''max-stx-tx-amount'') (\<lambda>mstx.
     js_try (bigint_field c ''max-sbtc-tx-amount'') (\<lambda>mbtc.
     js_try (number_field c ''max-slippage-bps'') (\<lambda>msl.
     js_try (number_field c ''min-idle-bps'') (\<lambda>midle.
     js_try (js_path c [''autonomous-enabled'', ''value'']) (\<lambda>auton.
     js_try (number_field c ''cooldown-blocks'') (\<lambda>cool.
     js_try (number_field c ''last-used-nonce'') (\<lambda>nonce.
     js_try (number_field c ''last-execution-height'') (\<lambda>leh.
     Inr \<lparr> rk_maxExposureBps = mexp, rk_maxStxTx = mstx, rk_maxSbtcTx = mbtc, rk_maxSlippageBps = msl,
           rk_minIdleBps = midle, rk_autonomousEnabled = is_true auton, rk_cooldownBlocks = cool,
           rk_lastUsedNonce = nonce, rk_lastExecutionHeight = leh \<rparr>)))))))))"

definition getRiskConfig :: "'w web \<Rightarrow> int \<Rightarrow> ('w, risk_config) io" where
  "getRiskConfig sv vaultId =
     io_bind (web_read sv ''risk-guard'' ''get-vault-config'' [ClUint vaultId] None) (\<lambda>json.
     io_lift (js_try (js_get json ''value'') (\<lambda>cv.
       if cv = JNull then Inl (JsError (''Vault '' @ int_text vaultId @ '' has no risk configuration on-chain.''))
       else js_try (js_get cv ''value'') decode_risk)))"

definition getPool :: "'w web \<Rightarrow> int \<Rightarrow> asset \<Rightarrow> ('w, asset_pool) io" where
  "getPool sv vaultId asset =
     io_bind (vaultRead sv ''get-pool'' [ClUint vaultId, ClStringAscii asset] None) (\<lambda>json.
     io_lift (js_try (js_get json ''value'') (\<lambda>p.
       js_try (bigint_field p ''idle'') (\<lambda>idle.
       js_try (bigint_field p ''total'') (\<lambda>whole.
       js_try (bigint_field p ''supply'') (\<lambda>supply.
       Inr \<lparr> ap_asset = asset, ap_idle = idle, ap_total = whole, ap_supply = supply \<rparr>))))))"

definition decode_position :: "asset \<Rightarrow> js \<Rightarrow> web_position result" where
  "decode_position asset p =
     js_try (bigint_field p ''shares'') (\<lambda>shares.
     js_try (bigint_field p ''supply'') (\<lambda>supply.
     js_try (bigint_field p ''total-assets'') (\<lambda>whole.
     js_try (bigint_field p ''idle'') (\<lambda>idle.
     js_try (bigint_field p ''ownership-bps'') (\<lambda>own.
     js_try (bigint_field p ''claim'') (\<lambda>claim.
     js_try (bigint_field p ''redeemable'') (\<lambda>red.
     Inr \<lparr> wp_asset = asset, wp_shares = shares, wp_supply = supply, wp_totalAssets = whole, wp_idle = idle,
           wp_ownershipBps = own, wp_claim = claim, wp_redeemable = red \<rparr>)))))))"

definition getPosition :: "'w web \<Rightarrow> int \<Rightarrow> asset \<Rightarrow> string \<Rightarrow> ('w, web_position) io" where
  "getPosition sv vaultId asset holder =
     io_bind (vaultRead sv ''get-position'' [ClUint vaultId, ClStringAscii asset, ClPrincipal holder] (Some holder)) (\<lambda>json.
     io_lift (js_try (js_get json ''value'') (decode_position asset)))"

definition getAllocation :: "'w web \<Rightarrow> int \<Rightarrow> int \<Rightarrow> asset \<Rightarrow> ('w, int) io" where
  "getAllocation sv vaultId strategyId asset =
     io_bind (vaultRead sv ''get-strategy-allocation'' [ClUint vaultId, ClUint strategyId, ClStringAscii asset] None) (\<lambda>json.
     io_lift (js_try (js_get json ''value'') to_bigint))"

text \<open>
  The viewer is optional (an empty address counts as none). Allocations are pushed as their reads
  come back; they are listed here in the order of the strategies.
\<close>

definition getVaultOverview :: "'w web \<Rightarrow> int \<Rightarrow> string option \<Rightarrow> ('w, vault_overview option) io" where
  "getVaultOverview sv vaultId viewer =
     io_bind (getVaultMeta sv vaultId) (\<lambda>meta.
     (case meta of
        None \<Rightarrow> io_return None
      | Some m \<Rightarrow>
          let assets = supportedAssets (vm_assets m) in
          io_bind (getRiskConfig sv vaultId) (\<lambda>risk.
          io_bind (web_getExecutionEnvironment sv) (\<lambda>environment.
          io_bind (web_getBlockHeight sv) (\<lambda>blockHeight.
          io_bind (listStrategies sv) (\<lambda>strats.
          io_bind (io_map (getPool sv vaultId) assets) (\<lambda>poolList.
          io_bind (if truthy_text viewer then io_map (\<lambda>a. getPosition sv vaultId a (the viewer)) assets
                   else io_return []) (\<lambda>positionList.
          io_bind (io_map (\<lambda>s. io_bind (getAllocation sv vaultId (ss_strategyId s) (ss_asset s)) (\<lambda>amount.
                     io_return \<lparr> sa_strategyId = ss_strategyId s, sa_asset = ss_asset s, sa_amount = amount \<rparr>))
                   (filter (\<lambda>s. ss_asset s \<in> set assets) strats)) (\<lambda>allocations.
          io_bind (io_of (wb_now sv)) (\<lambda>now.
          io_return (Some
            \<lparr> vo_meta = m, vo_risk = risk,
              vo_pools = fold (\<lambda>p m. m(ap_asset p \<mapsto> p)) poolList Map.empty,
              vo_positions = fold (\<lambda>p m. m(wp_asset p \<mapsto> p)) positionList Map.empty,
              vo_allocations = allocations, vo_strategies = strats, vo_environment = environment,
              vo_blockHeight = blockHeight, vo_loadedAt = now \<rparr>)))))))))))"

section \<open>The on-chain indexes\<close>

definition indexedIds :: "'w web \<Rightarrow> string \<Rightarrow> string \<Rightarrow> string \<Rightarrow> ('w, int list) io" where
  "indexedIds sv countFn idFn who =
     io_bind (vaultRead sv countFn [ClPrincipal who] (Some who)) (\<lambda>countJson.
     io_bind (io_lift (js_try (js_get countJson ''value'') to_number)) (\<lambda>count.
     io_bind (io_map (\<lambda>i.
         io_bind (vaultRead sv idFn [ClPrincipal who, ClUint (int i)] (Some who)) (\<lambda>j.
         io_lift (js_try (js_get j ''value'') (\<lambda>v.
           if truthy v then js_try (js_try (js_get v ''value'') to_number) (\<lambda>n. Inr (Some n)) else Inr None))))
       [0..<nat count]) (\<lambda>ids.
     io_return (map the (filter (\<lambda>x. x \<noteq> None) ids)))))"

definition getOwnerVaultIds :: "'w web \<Rightarrow> string \<Rightarrow> ('w, int list) io" where
  "getOwnerVaultIds sv own = indexedIds sv ''get-owner-vault-count'' ''get-owner-vault-id'' own"

definition getHolderVaultIds :: "'w web \<Rightarrow> string \<Rightarrow> ('w, int list) io" where
  "getHolderVaultIds sv holder = indexedIds sv ''get-holder-vault-count'' ''get-holder-vault-id'' holder"

section \<open>Previews\<close>

text \<open>\<open>Inr\<close> is \<open>ok: true\<close> with the amount, \<open>Inl\<close> is \<open>ok: false\<close> with the code.\<close>

definition decode_preview :: "js \<Rightarrow> (int + int) result" where
  "decode_preview json =
     js_try (js_get json ''success'') (\<lambda>success.
       if truthy success then js_try (js_try (js_path json [''value'', ''value'']) to_bigint) (\<lambda>n. Inr (Inr n))
       else js_try (js_try (js_path json [''value'', ''value'']) to_number) (\<lambda>n. Inr (Inl n)))"

definition previewDeposit :: "'w web \<Rightarrow> int \<Rightarrow> asset \<Rightarrow> int \<Rightarrow> string \<Rightarrow> ('w, int + int) io" where
  "previewDeposit sv vaultId asset amount viewer =
     io_bind (vaultRead sv ''preview-deposit'' [ClUint vaultId, ClStringAscii asset, ClUint amount] (Some viewer))
       (\<lambda>json. io_lift (decode_preview json))"

definition previewRedeem :: "'w web \<Rightarrow> int \<Rightarrow> asset \<Rightarrow> int \<Rightarrow> string \<Rightarrow> ('w, int + int) io" where
  "previewRedeem sv vaultId asset shares viewer =
     io_bind (vaultRead sv ''preview-redeem'' [ClUint vaultId, ClStringAscii asset, ClUint shares] (Some viewer))
       (\<lambda>json. io_lift (decode_preview json))"

end
