(* ===== verification/Web_Errors.thy ===== *)
theory Web_Errors
  imports Web_Onchain
begin

text \<open>
  User-facing explanations of the contracts' error codes (apps/web/src/lib/errors.ts), one table
  per contract as the file groups them.
\<close>

definition vault_messages :: "(int \<times> string) list" where
  "vault_messages =
     [(100, ''You are not the owner of this vault.''),
      (101, ''That vault does not exist.''),
      (102, ''The protocol is currently paused - new deposits and new vaults are not accepted right now. Redemptions are never affected.''),
      (103, ''That token is not the protocol'' @ [CHR 0x27] @ ''s approved sBTC contract.''),
      (104, ''Amount must be greater than zero.''),
      (105, ''Not enough idle liquidity in this vault to pay that redemption right now (part of the pool is allocated to strategies). Redeem fewer shares.''),
      (106, ''The token transfer failed.''),
      (107, ''Only the execution engine can trigger a rebalance.''),
      (108, ''The strategy contract supplied does not match the one registered for this strategy id - execution refused.''),
      (109, ''No approved sBTC contract has been configured for the protocol yet.''),
      (110, ''Unsupported asset.''),
      (111, ''This vault was not created to hold that asset.''),
      (112, ''This vault is paused by its owner - deposits are disabled (redemptions still work).''),
      (113, ''Only the vault owner can deposit into this vault (it is not open to other depositors).''),
      (114, ''The first deposit into an empty pool must meet the minimum (1 STX or 0.0001 sBTC).''),
      (115, ''That deposit is too small to mint even one receipt share at the current share price.''),
      (116, ''This pool is in an inconsistent state (shares without assets, or assets without shares) - deposits are refused for safety.''),
      (117, ''You do not hold that many receipt shares in this vault.''),
      (118, ''That redemption is too small to pay out even one base unit.''),
      (119, ''A vault needs a name.''),
      (120, ''Unknown vault purpose.''),
      (121, ''Invalid asset selection.''),
      (122, ''This vault is already paused.''),
      (123, ''This vault is not paused.''),
      (124, ''Strategy execution is disabled on Stacks Testnet.'')]"

definition engine_messages :: "(int \<times> string) list" where
  "engine_messages =
     [(200, ''Vault not found.''),
      (201, ''This executor is not authorized to submit intents for this vault.''),
      (202, ''The destination strategy is not registered and active.''),
      (203, ''IDLE is not a valid rebalance destination.''),
      (204, ''Invalid asset for this intent.''),
      (205, ''The intent'' @ [CHR 0x27] @ ''s asset does not match the destination strategy'' @ [CHR 0x27] @ ''s registered asset.''),
      (206, ''This vault is paused.''),
      (207, ''This vault does not hold the asset named in the intent.''),
      (208, ''Strategy execution is disabled on Stacks Testnet.'')]"

definition guard_messages :: "(int \<times> string) list" where
  "guard_messages =
     [(300, ''Not the protocol admin.''),
      (301, ''Only the vault contract may call this.''),
      (302, ''Only the execution engine may call this.''),
      (303, ''The protocol is currently paused.''),
      (304, ''This vault has no risk configuration yet.''),
      (305, ''This vault'' @ [CHR 0x27] @ ''s risk configuration already exists.''),
      (306, ''Autonomous execution is not enabled for this vault - only the owner can submit intents.''),
      (307, ''This intent'' @ [CHR 0x27] @ ''s deadline has passed.''),
      (308, ''Invalid or already-used nonce - this intent may have been replayed.''),
      (309, ''The cooldown period between executions has not elapsed yet.''),
      (310, ''Amount must be greater than zero.''),
      (311, ''Amount exceeds this vault'' @ [CHR 0x27] @ ''s configured maximum transaction size.''),
      (312, ''The per-strategy exposure cap would be exceeded.''),
      (313, ''The protocol-wide exposure cap for this strategy would be exceeded.''),
      (314, ''Requested slippage exceeds this vault'' @ [CHR 0x27] @ ''s configured maximum.''),
      (315, ''Insufficient idle balance to fund this allocation.''),
      (316, ''This would leave the vault below its minimum idle-liquidity floor.''),
      (317, ''One or more risk parameters are outside the protocol'' @ [CHR 0x27] @ ''s allowed bounds.''),
      (318, ''Internal calculation error.''),
      (319, ''Invalid asset.''),
      (320, ''Strategy execution is disabled on Stacks Testnet.''),
      (321, ''This can only be done on Stacks mainnet.'')]"

definition strategy_messages :: "(int \<times> string) list" where
  "strategy_messages =
     [(400, ''Not the protocol admin.''),
      (401, ''This strategy is already registered.''),
      (402, ''That strategy id does not exist.''),
      (403, ''Invalid strategy parameters.''),
      (404, ''Invalid strategy asset.'')]"

definition executor_messages :: "(int \<times> string) list" where
  "executor_messages =
     [(500, ''Not the protocol admin.''),
      (501, ''This executor is already registered.''),
      (502, ''This executor is not registered.''),
      (503, ''This executor is already in that active/inactive state.'')]"

definition admin_messages :: "(int \<times> string) list" where
  "admin_messages =
     [(600, ''Not the protocol admin.''),
      (601, ''No pending admin transfer.''),
      (602, ''The protocol is already paused.''),
      (603, ''The protocol is not paused.''),
      (604, ''That principal is already the admin.'')]"

definition receipt_messages :: "(int \<times> string) list" where
  "receipt_messages =
     [(700, ''Only the vault contract can mint or burn receipt shares.''),
      (701, ''Invalid receipt asset.''),
      (702, ''Receipt amount must be greater than zero.''),
      (703, ''Insufficient receipt balance.''),
      (704, ''Receipt shares are non-transferable.'')]"

definition MESSAGES :: "(int \<times> string) list" where
  "MESSAGES = vault_messages @ engine_messages @ guard_messages @ strategy_messages @ executor_messages
     @ admin_messages @ receipt_messages"

definition explainClarityError :: "int \<Rightarrow> string" where
  "explainClarityError code =
     (case map_of MESSAGES code of
        Some m \<Rightarrow> m
      | None \<Rightarrow> ''Transaction rejected by the contract (error code '' @ int_text code @ '').'')"

definition describeFailure :: "int option \<Rightarrow> string option \<Rightarrow> string" where
  "describeFailure errorCode errorText =
     (case errorCode of
        Some c \<Rightarrow> explainClarityError c
      | None \<Rightarrow>
          (case errorText of
             Some t \<Rightarrow>
               if str_includes t ''post_condition''
               then ''The transaction was rejected because it would have moved assets other than those you approved.''
               else if t \<noteq> [] then t else ''Transaction failed on-chain.''
           | None \<Rightarrow> ''Transaction failed on-chain.''))"

text \<open>The codes with an explanation.\<close>

lemmas message_defs = MESSAGES_def vault_messages_def engine_messages_def guard_messages_def strategy_messages_def
  executor_messages_def admin_messages_def receipt_messages_def

lemma explained_codes:
  "map fst MESSAGES = [100..124] @ [200..208] @ [300..321] @ [400..404] @ [500..503] @ [600..604] @ [700..704]"
  by (simp add: message_defs)

definition explained :: "int \<Rightarrow> bool" where
  "explained code \<longleftrightarrow> 100 \<le> code \<and> code \<le> 124 \<or> 200 \<le> code \<and> code \<le> 208 \<or> 300 \<le> code \<and> code \<le> 321 \<or>
     400 \<le> code \<and> code \<le> 404 \<or> 500 \<le> code \<and> code \<le> 503 \<or> 600 \<le> code \<and> code \<le> 604 \<or> 700 \<le> code \<and> code \<le> 704"

lemma explained_iff: "explained code \<longleftrightarrow> map_of MESSAGES code \<noteq> None"
proof -
  have "map_of MESSAGES code \<noteq> None \<longleftrightarrow> code \<in> set (map fst MESSAGES)"
    by (simp add: map_of_eq_None_iff)
  then show ?thesis
    unfolding explained_codes by (simp only: explained_def set_append set_upto Un_iff atLeastAtMost_iff disj_assoc)
qed

end
