(* ===== verification/Web_Transaction.thy ===== *)
theory Web_Transaction
  imports Web_Errors
begin

text \<open>
  A transaction as the web application follows it: waiting for its result
  (\<open>waitForTxResult\<close> of apps/web/src/lib/onchain.ts) and the phases the page shows
  (apps/web/src/hooks/useTransaction.ts).
\<close>

section \<open>The error code in a result\<close>

text \<open>The match of \<^verbatim>\<open>/\(err u(\d+)\)/\<close> at the start of a text: its digits.\<close>

definition match_err :: "string \<Rightarrow> string option" where
  "match_err s =
     (if \<not> starts_with s ''(err u'' then None
      else (let r = drop 6 s; ds = takeWhile is_digit r in
        if ds \<noteq> [] \<and> starts_with (dropWhile is_digit r) '')'' then Some ds else None))"

fun find_err :: "string \<Rightarrow> string option" where
  "find_err [] = None"
| "find_err (c # s) = (case match_err (c # s) of Some ds \<Rightarrow> Some ds | None \<Rightarrow> find_err s)"

definition errorCodeFromRepr :: "string option \<Rightarrow> int option" where
  "errorCodeFromRepr repr =
     (case repr of None \<Rightarrow> None | Some r \<Rightarrow> map_option (\<lambda>ds. js_Number (int (digits_val ds))) (find_err r))"

section \<open>Waiting for a result\<close>

datatype tx_status = TxConfirmed | TxFailed | TxTimeout

record tx_result =
  tr_status :: tx_status
  tr_resultCV :: "js option"
  tr_errorCode :: "int option"
  tr_errorText :: "string option"
  tr_blockHeight :: js

definition read_transaction :: "'w web \<Rightarrow> string \<Rightarrow> ('w, js option) io" where
  "read_transaction sv txid =
     io_catch
       (io_bind (wb_fetch sv (STACKS_API_URL sv @ ''/extended/v1/tx/'' @ txid)) (\<lambda>(ok, status, body).
          io_return (if status \<noteq> 404 \<and> ok then Some body else None)))
       (\<lambda>_. io_return None)"

definition text_or_none :: "js \<Rightarrow> string option" where
  "text_or_none v = (case v of JStr s \<Rightarrow> Some s | _ \<Rightarrow> None)"

text \<open>What a terminal status resolves the wait with; \<open>None\<close> while it is pending.\<close>

definition settle :: "'w web \<Rightarrow> js \<Rightarrow> tx_result option result" where
  "settle sv d =
     js_try (js_get d ''tx_status'') (\<lambda>st.
     js_try (js_get d ''tx_result'') (\<lambda>res.
     js_try (js_get d ''block_height'') (\<lambda>bh.
       if st = JStr ''success'' then
         (if truthy res then
            js_try (js_try (js_try (js_get res ''hex'') as_string) (wb_decodeCV sv)) (\<lambda>cv.
            Inr (Some \<lparr> tr_status = TxConfirmed, tr_resultCV = Some cv, tr_errorCode = None, tr_errorText = None,
                        tr_blockHeight = bh \<rparr>))
          else Inr (Some \<lparr> tr_status = TxConfirmed, tr_resultCV = None, tr_errorCode = None, tr_errorText = None,
                           tr_blockHeight = bh \<rparr>))
       else
         (case st of
            JStr s \<Rightarrow>
              if starts_with s ''abort_'' \<or> s = ''dropped_replace_by_fee'' \<or> starts_with s ''dropped'' then
                (let repr = text_or_none (js_opt res ''repr'') in
                 Inr (Some \<lparr> tr_status = TxFailed, tr_resultCV = None, tr_errorCode = errorCodeFromRepr repr,
                             tr_errorText = (case repr of Some r \<Rightarrow> Some r | None \<Rightarrow> Some s), tr_blockHeight = bh \<rparr>))
              else Inr None
          | JUndef \<Rightarrow> Inl (TypeError (''Cannot read properties of undefined (reading '' @ [CHR 0x27] @ ''startsWith'' @ [CHR 0x27] @ '')''))
          | JNull \<Rightarrow> Inl (TypeError (''Cannot read properties of null (reading '' @ [CHR 0x27] @ ''startsWith'' @ [CHR 0x27] @ '')''))
          | _ \<Rightarrow> Inl (TypeError ''data.tx_status.startsWith is not a function'')))))"

text \<open>The loop, with fuel: \<open>None\<close> is a wait that has not ended after \<open>n\<close> rounds.\<close>

fun wait_loop :: "'w web \<Rightarrow> nat \<Rightarrow> string \<Rightarrow> int \<Rightarrow> int \<Rightarrow> ('w, tx_result option) io" where
  "wait_loop sv 0 txid deadline interval = io_return None"
| "wait_loop sv (Suc n) txid deadline interval =
     io_bind (io_of (wb_now sv)) (\<lambda>now.
       if \<not> now < deadline then
         io_return (Some \<lparr> tr_status = TxTimeout, tr_resultCV = None, tr_errorCode = None, tr_errorText = None,
                           tr_blockHeight = JUndef \<rparr>)
       else
         io_bind (read_transaction sv txid) (\<lambda>d.
         io_bind (io_lift (case d of Some v \<Rightarrow> if truthy v then settle sv v else Inr None | None \<Rightarrow> Inr None)) (\<lambda>r.
         (case r of
            Some t \<Rightarrow> io_return (Some t)
          | None \<Rightarrow> io_bind (\<lambda>w. (Inr (), wb_sleep sv interval w)) (\<lambda>_. wait_loop sv n txid deadline interval)))))"

definition waitForTxResult :: "'w web \<Rightarrow> nat \<Rightarrow> string \<Rightarrow> int \<Rightarrow> int \<Rightarrow> ('w, tx_result option) io" where
  "waitForTxResult sv fuel txId timeoutMs interval =
     io_bind (io_of (wb_now sv)) (\<lambda>now. wait_loop sv fuel (with_0x txId) (now + timeoutMs) interval)"

definition WAIT_TIMEOUT_MS :: int where
  "WAIT_TIMEOUT_MS = 5 * 60000"

definition WAIT_POLL_MS :: int where
  "WAIT_POLL_MS = 4000"

section \<open>The phases of a transaction\<close>

datatype tx_phase = Idle | Signing | Confirming | ConfirmedPhase | FailedPhase

record transaction_state =
  ts_phase :: tx_phase
  ts_txId :: "string option"
  ts_error :: "string option"
  ts_result :: "tx_result option"

definition reset_transaction :: transaction_state where
  "reset_transaction = \<lparr> ts_phase = Idle, ts_txId = None, ts_error = None, ts_result = None \<rparr>"

definition busy :: "transaction_state \<Rightarrow> bool" where
  "busy t \<longleftrightarrow> ts_phase t = Signing \<or> ts_phase t = Confirming"

definition to_lower :: "char \<Rightarrow> char" where
  "to_lower c = (let n = of_char c :: nat in if 65 \<le> n \<and> n \<le> 90 then char_of (n + 32) else c)"

definition mentions :: "string \<Rightarrow> string \<Rightarrow> bool" where
  "mentions s w \<longleftrightarrow> str_includes (map to_lower s) w"

text \<open>What the page shows when the wallet refuses (\<^verbatim>\<open>/cancel|reject|denied|closed/i\<close>).\<close>

definition submit_error_text :: "string \<Rightarrow> string" where
  "submit_error_text message =
     (if mentions message ''cancel'' \<or> mentions message ''reject'' \<or> mentions message ''denied'' \<or> mentions message ''closed''
      then ''You cancelled the request in your wallet. Nothing was submitted.''
      else if message \<noteq> [] then message else ''Could not submit the transaction.'')"

text \<open>
  \<open>run\<close>: the states the page goes through and the value it resolves with. The submission and the
  wait are given by their outcomes.
\<close>

definition run_transaction ::
    "string result \<Rightarrow> tx_result result \<Rightarrow> transaction_state \<Rightarrow> transaction_state list \<times> tx_result option" where
  "run_transaction submitted waited t =
     (let signing = t\<lparr>ts_error := None, ts_result := None, ts_txId := None, ts_phase := Signing\<rparr> in
      (case submitted of
         Inl e \<Rightarrow> ([signing, signing\<lparr>ts_error := Some (submit_error_text (err_message e)), ts_phase := FailedPhase\<rparr>], None)
       | Inr txid \<Rightarrow>
           (let confirming = signing\<lparr>ts_txId := Some txid, ts_phase := Confirming\<rparr> in
            (case waited of
               Inl e \<Rightarrow> ([signing, confirming, confirming\<lparr>ts_error := Some (err_message e), ts_phase := FailedPhase\<rparr>], None)
             | Inr res \<Rightarrow>
                 (let known = confirming\<lparr>ts_result := Some res\<rparr> in
                  if tr_status res = TxConfirmed then ([signing, confirming, known\<lparr>ts_phase := ConfirmedPhase\<rparr>], Some res)
                  else ([signing, confirming, known\<lparr>ts_phase := FailedPhase, ts_error := Some
                    (if tr_status res = TxTimeout
                     then ''Still not confirmed after several minutes. It may yet confirm - check the explorer link; your balances below only update once it does.''
                     else describeFailure (tr_errorCode res) (tr_errorText res))\<rparr>], None))))))"

section \<open>Facts\<close>

lemma match_err_repr: "match_err (''(err u'' @ nat_text n @ '')'' @ b) = Some (nat_text n)"
proof -
  have p: "\<not> is_digit (CHR '')'')" by code_simp
  have "takeWhile is_digit (nat_text n @ '')'' @ b) = nat_text n"
    "dropWhile is_digit (nat_text n @ '')'' @ b) = '')'' @ b"
    using nat_text_digits [of n] p by (auto simp: list_all_iff takeWhile_append2 dropWhile_append2)
  then show ?thesis by (simp add: match_err_def Let_def)
qed

lemma errorCode_repr: "errorCodeFromRepr (Some (''(err u'' @ nat_text n @ '')'')) = Some (js_Number (int n))"
  using match_err_repr [of n "[]"] by (simp add: errorCodeFromRepr_def)

lemma find_err_append:
  "CHR ''('' \<notin> set a \<Longrightarrow> find_err (a @ s) = find_err s"
  by (induction a) (auto simp: match_err_def)

text \<open>A wait resolves with a terminal status of the transaction, or after its deadline.\<close>

definition terminal_for :: "'w web \<Rightarrow> string \<Rightarrow> tx_result \<Rightarrow> bool" where
  "terminal_for sv txid t \<longleftrightarrow>
     (\<exists>u u' v. read_transaction sv txid u = (Inr (Some v), u') \<and> truthy v \<and> settle sv v = Inr (Some t))"

lemma settle_status:
  assumes "settle sv v = Inr (Some t)"
  shows "(tr_status t = TxConfirmed \<longleftrightarrow> js_get v ''tx_status'' = Inr (JStr ''success'')) \<and> tr_status t \<noteq> TxTimeout"
proof -
  obtain st res where st: "js_get v ''tx_status'' = Inr st" and res: "js_get v ''tx_result'' = Inr res"
    using assms by (auto simp: settle_def js_try_Inr_iff)
  show ?thesis
  proof (cases "st = JStr ''success''")
    case True
    with assms st res show ?thesis
      by (auto simp: settle_def js_try_Inr_iff simp del: js_get.simps split: if_split_asm)
  next
    case False
    have "tr_status t = TxFailed"
      using assms unfolding settle_def st res js_try.simps
      by (cases st) (auto simp: js_try_Inr_iff Let_def False [simplified] split: if_split_asm)
    with False st show ?thesis by simp
  qed
qed

lemma wait_loop_result:
  "wait_loop sv n txid d k w = (Inr (Some t), w') \<Longrightarrow>
     terminal_for sv txid t \<or> (tr_status t = TxTimeout \<and> (\<exists>u. d \<le> fst (wb_now sv u)))"
proof (induction n arbitrary: w)
  case 0
  then show ?case by (simp add: io_return_def)
next
  case (Suc n)
  obtain now w1 where now: "wb_now sv w = (now, w1)" by (cases "wb_now sv w") auto
  show ?case
  proof (cases "now < d")
    case False
    with Suc.prems now have "tr_status t = TxTimeout" by (auto simp: io_bind_def io_of_def io_return_def)
    moreover have "d \<le> fst (wb_now sv w)" using False now by simp
    ultimately show ?thesis by blast
  next
    case True
    obtain r w2 where r: "read_transaction sv txid w1 = (r, w2)" by (cases "read_transaction sv txid w1") auto
    from Suc.prems now True r obtain o' where o': "r = Inr o'"
      by (cases r) (auto simp: io_bind_def io_of_def)
    from Suc.prems now True r o' obtain x where
        x: "(case o' of Some v \<Rightarrow> if truthy v then settle sv v else Inr None | None \<Rightarrow> Inr None) = Inr x"
      and rest: "(case x of Some t \<Rightarrow> io_return (Some t)
          | None \<Rightarrow> \<lambda>w. wait_loop sv n txid d k (wb_sleep sv k w)) w2 = (Inr (Some t), w')"
      by (auto simp: io_bind_def io_of_def io_lift_def split: sum.splits)
    show ?thesis
    proof (cases x)
      case None
      with rest have "wait_loop sv n txid d k (wb_sleep sv k w2) = (Inr (Some t), w')" by simp
      then show ?thesis by (rule Suc.IH)
    next
      case (Some t')
      with rest have "t' = t" by (simp add: io_return_def)
      with Some x obtain v where "o' = Some v" "truthy v" "settle sv v = Inr (Some t)"
        by (auto split: option.splits if_splits)
      with r o' show ?thesis unfolding terminal_for_def by blast
    qed
  qed
qed

text \<open>
  Termination: with a clock that no read turns back and sleeps that last at least the interval,
  the loop ends within one round per interval.
\<close>

lemma wait_loop_terminates:
  assumes clock: "\<And>w. fst (wb_now sv w) = clk w" "\<And>w. clk (snd (wb_now sv w)) = clk w"
    and read: "\<And>w. clk w \<le> clk (snd (wb_fetch sv u w))" and u: "u = STACKS_API_URL sv @ ''/extended/v1/tx/'' @ txid"
    and sleep: "\<And>w. clk w + k \<le> clk (wb_sleep sv k w)" and pos: "0 < k"
  shows "d \<le> clk w + int n * k \<Longrightarrow> fst (wait_loop sv (Suc n) txid d k w) \<noteq> Inr None"
proof (induction n arbitrary: w)
  case 0
  obtain now w1 where n: "wb_now sv w = (now, w1)" by (cases "wb_now sv w") auto
  then have "now = clk w" using clock(1) [of w] by simp
  with 0 n show ?case by (simp add: io_bind_def io_of_def io_return_def)
next
  case (Suc n)
  obtain now w1 where n: "wb_now sv w = (now, w1)" by (cases "wb_now sv w") auto
  obtain r w2 where r: "read_transaction sv txid w1 = (r, w2)" by (cases "read_transaction sv txid w1") auto
  obtain fr fw where f: "wb_fetch sv u w1 = (fr, fw)" by (cases "wb_fetch sv u w1") auto
  have "w2 = fw" using r f u
    by (auto simp: read_transaction_def io_catch_def io_bind_def io_return_def split: sum.splits if_splits)
  moreover have "clk w1 = clk w" using clock(2) [of w] n by simp
  ultimately have "clk w \<le> clk w2" using read [of w1] f by simp
  then have "clk w + k \<le> clk (wb_sleep sv k w2)" using sleep [of w2] by linarith
  then have "d \<le> clk (wb_sleep sv k w2) + int n * k" using Suc.prems by (simp add: algebra_simps)
  then have "fst (wait_loop sv (Suc n) txid d k (wb_sleep sv k w2)) \<noteq> Inr None" by (rule Suc.IH)
  then show ?case
    using n r by (auto simp: io_bind_def io_of_def io_return_def io_lift_def split: sum.splits option.splits)
qed

text \<open>Nothing is shown as confirmed that is not: the invariant of every state the page goes through.\<close>

definition truthful :: "transaction_state \<Rightarrow> bool" where
  "truthful t \<longleftrightarrow>
     (ts_phase t = ConfirmedPhase \<longrightarrow> ts_error t = None \<and> ts_txId t \<noteq> None \<and>
        (\<exists>r. ts_result t = Some r \<and> tr_status r = TxConfirmed)) \<and>
     (ts_phase t = FailedPhase \<longrightarrow> ts_error t \<noteq> None) \<and>
     (ts_phase t = Confirming \<longrightarrow> ts_txId t \<noteq> None \<and> ts_error t = None)"

lemma run_transaction_truthful:
  "run_transaction submitted waited t = (states, out) \<Longrightarrow> list_all truthful states"
  by (auto simp: run_transaction_def truthful_def Let_def split: sum.splits if_splits)

lemma run_transaction_out:
  "run_transaction submitted waited t = (states, out) \<Longrightarrow>
     out = Some r \<longleftrightarrow> (\<exists>txid. submitted = Inr txid \<and> waited = Inr r \<and> tr_status r = TxConfirmed)"
  by (auto simp: run_transaction_def Let_def split: sum.splits if_splits)

lemma run_transaction_last:
  "run_transaction submitted waited t = (states, out) \<Longrightarrow>
     ts_phase (last states) = (if out = None then FailedPhase else ConfirmedPhase) \<and> \<not> busy (last states)"
  by (auto simp: run_transaction_def busy_def Let_def split: sum.splits if_splits)

end
