(* ===== verification/Web_Reader.thy ===== *)
theory Web_Reader
  imports Web_Transaction Agent_On_Chain Protocol_Theorems
begin

text \<open>
  The web application on top of the contracts: the answers of the read-only functions it calls, and
  what its readers return for a state of the contract model. What a page shows of a vault is what
  the contracts hold.
\<close>

section \<open>The answers of the contracts\<close>

definition limits_json :: "('x, 'b) sovereignty_vault_scheme \<Rightarrow> js" where
  "limits_json s = tuple_json
     [(''max-slippage-bps'', uint_json (protocol_max_slippage_bps s)),
      (''max-exposure-bps'', uint_json (protocol_max_exposure_bps s)),
      (''min-cooldown-blocks'', uint_json (protocol_min_cooldown_blocks s)),
      (''min-liquidity-bps'', uint_json (protocol_min_liquidity_bps s)),
      (''approved-sbtc-asset'', option_json (map_option principal_json (approved_sbtc_asset s)))]"

definition position_json :: "position \<Rightarrow> js" where
  "position_json p = tuple_json
     [(''shares'', uint_json (pos_shares p)), (''supply'', uint_json (pos_supply p)),
      (''total-assets'', uint_json (pos_total_assets p)), (''idle'', uint_json (pos_idle p)),
      (''ownership-bps'', uint_json (pos_ownership_bps p)), (''claim'', uint_json (pos_claim p)),
      (''redeemable'', uint_json (pos_redeemable p))]"

text \<open>A value, an error response, or the failure of the virtual machine.\<close>

definition resp_json :: "('a \<Rightarrow> js) \<Rightarrow> 'a resp \<Rightarrow> js result" where
  "resp_json f r =
     (case r of Ok x \<Rightarrow> Inr (response_json True (f x)) | Err e \<Rightarrow> Inr (response_json False (uint_json e))
      | Abort \<Rightarrow> Inl (JsError ''Runtime error''))"

definition plain_json :: "('a \<Rightarrow> js) \<Rightarrow> 'a resp \<Rightarrow> js result" where
  "plain_json f r = (case r of Ok x \<Rightarrow> Inr (f x) | _ \<Rightarrow> Inl (JsError ''Runtime error''))"

definition web_answer ::
    "('x, 'b) sovereignty_vault_scheme \<Rightarrow> string \<Rightarrow> string \<Rightarrow> cl_arg list \<Rightarrow> string \<Rightarrow> js result" where
  "web_answer s cname fname args sender =
     (if cname = ''risk-guard-v7'' \<and> fname = ''get-protocol-limits'' then Inr (limits_json s)
      else if cname = ''sovereignty-vault-v7'' \<and> fname = ''get-vault-count'' then plain_json uint_json (get_vault_count s)
      else if cname = ''sovereignty-vault-v7'' \<and> fname = ''get-position'' then
        (case args of [ClUint v, ClStringAscii a, ClPrincipal p] \<Rightarrow> plain_json position_json (get_position (nat v) a p s)
         | _ \<Rightarrow> Inl (JsError ''bad arguments''))
      else if cname = ''sovereignty-vault-v7'' \<and> fname = ''preview-deposit'' then
        (case args of [ClUint v, ClStringAscii a, ClUint n] \<Rightarrow> resp_json uint_json (preview_deposit (nat v) a (nat n) s)
         | _ \<Rightarrow> Inl (JsError ''bad arguments''))
      else if cname = ''sovereignty-vault-v7'' \<and> fname = ''preview-redeem'' then
        (case args of [ClUint v, ClStringAscii a, ClUint n] \<Rightarrow> resp_json uint_json (preview_redeem (nat v) a (nat n) s)
         | _ \<Rightarrow> Inl (JsError ''bad arguments''))
      else if cname = ''sovereignty-vault-v7'' \<and> fname = ''get-owner-vault-count'' then
        (case args of [ClPrincipal p] \<Rightarrow> Inr (uint_json (get_or 0 (owner_vault_count s) p)) | _ \<Rightarrow> Inl (JsError ''bad arguments''))
      else if cname = ''sovereignty-vault-v7'' \<and> fname = ''get-owner-vault-id'' then
        (case args of [ClPrincipal p, ClUint i] \<Rightarrow> Inr (option_json (map_option uint_json (owner_vaults s (p, nat i))))
         | _ \<Rightarrow> Inl (JsError ''bad arguments''))
      else if cname = ''sovereignty-vault-v7'' \<and> fname = ''get-holder-vault-count'' then
        (case args of [ClPrincipal p] \<Rightarrow> Inr (uint_json (get_or 0 (holder_vault_count s) p)) | _ \<Rightarrow> Inl (JsError ''bad arguments''))
      else if cname = ''sovereignty-vault-v7'' \<and> fname = ''get-holder-vault-id'' then
        (case args of [ClPrincipal p, ClUint i] \<Rightarrow> Inr (option_json (map_option uint_json (holder_vaults s (p, nat i))))
         | _ \<Rightarrow> Inl (JsError ''bad arguments''))
      else answer s cname fname args sender)"

definition web_chain_answers :: "'w web \<Rightarrow> ('x, 'b) sovereignty_vault_scheme \<Rightarrow> 'w \<Rightarrow> bool" where
  "web_chain_answers sv s w \<longleftrightarrow>
     DEPLOYER_ADDRESS sv = deployer s \<and> deployer s \<noteq> [] \<and> CHR ''.'' \<notin> set (deployer s) \<and>
     (\<forall>net cname fname args sender. list_all arg_ok args \<longrightarrow>
        wb_readOnly sv net (deployer s) cname fname args sender w = (web_answer s cname fname args sender, w)) \<and>
     wb_fetch sv (STACKS_API_URL sv @ ''/v2/info'') w =
       (Inr (True, 200, JObj [(''stacks_tip_height'', JNum (int (block_height s)))]), w)"

lemma web_read_answer:
  assumes "web_chain_answers sv s w" "map_of DEPLOYED_CONTRACT_NAMES logical = Some cname"
    "CHR ''.'' \<notin> set cname" "list_all arg_ok args"
  shows "web_read sv logical fname args sender w =
     (web_answer s cname fname args (case sender of Some x \<Rightarrow> x | None \<Rightarrow> deployer s), w)"
proof -
  have sp: "splitContract (deployer s @ ''.'' @ cname) = Inr (deployer s, cname)"
    using assms by (simp add: web_chain_answers_def splitContract_def split_on_first split_on_none)
  have id: "web_contractId sv n = Inr (deployer s @ ''.'' @ (case map_of DEPLOYED_CONTRACT_NAMES n of Some m \<Rightarrow> m | None \<Rightarrow> n))" for n
    using assms(1) by (simp add: web_chain_answers_def web_contractId_Inr)
  have "deployerOf sv = Inr (deployer s)"
    using assms(1) by (simp add: deployerOf_def id split_on_first web_chain_answers_def)
  then show ?thesis
    using assms sp id [of logical]
    by (cases sender)
       (simp_all add: web_read_def readOnlyJSON_def web_chain_answers_def io_bind_def io_lift_def io_return_def)
qed

lemma web_answer_simps:
  "web_answer s ''risk-guard-v7'' ''get-protocol-limits'' as x = Inr (limits_json s)"
  "web_answer s ''sovereignty-vault-v7'' ''get-vault-count'' as x = plain_json uint_json (get_vault_count s)"
  "web_answer s ''sovereignty-vault-v7'' ''get-position'' [ClUint v, ClStringAscii a, ClPrincipal p] x =
     plain_json position_json (get_position (nat v) a p s)"
  "web_answer s ''sovereignty-vault-v7'' ''preview-deposit'' [ClUint v, ClStringAscii a, ClUint n] x =
     resp_json uint_json (preview_deposit (nat v) a (nat n) s)"
  "web_answer s ''sovereignty-vault-v7'' ''preview-redeem'' [ClUint v, ClStringAscii a, ClUint n] x =
     resp_json uint_json (preview_redeem (nat v) a (nat n) s)"
  "web_answer s ''sovereignty-vault-v7'' ''get-owner-vault-count'' [ClPrincipal p] x =
     Inr (uint_json (get_or 0 (owner_vault_count s) p))"
  "web_answer s ''sovereignty-vault-v7'' ''get-owner-vault-id'' [ClPrincipal p, ClUint i] x =
     Inr (option_json (map_option uint_json (owner_vaults s (p, nat i))))"
  "web_answer s ''sovereignty-protocol-admin-v4'' ''is-paused'' as x = Inr (bool_json (protocol_paused s))"
  "web_answer s ''risk-guard-v7'' ''get-execution-environment'' as x = Inr (environment_json (get_execution_environment s))"
  "web_answer s ''risk-guard-v7'' ''get-vault-config'' [ClUint v] x =
     Inr (option_json (map_option config_json (vault_configs s (nat v))))"
  "web_answer s ''strategy-registry-v6'' ''get-strategy'' [ClUint v] x =
     Inr (option_json (map_option strategy_json (strategies s (nat v))))"
  "web_answer s ''sovereignty-vault-v7'' ''get-vault'' [ClUint v] x =
     Inr (option_json (map_option vault_json (vaults s (nat v))))"
  "web_answer s ''sovereignty-vault-v7'' ''get-pool'' [ClUint v, ClStringAscii a] x = Inr (pool_json (nat v) a s)"
  "web_answer s ''sovereignty-vault-v7'' ''get-strategy-allocation'' [ClUint v, ClUint i, ClStringAscii a] x =
     Inr (uint_json (get_strategy_allocation (nat v) (nat i) a s))"
  by (simp_all add: web_answer_def answer_simps)

section \<open>Previews, pools and positions\<close>

lemma vault_read_answer:
  assumes "web_chain_answers sv s w" "list_all arg_ok args"
  shows "vaultRead sv fname args sender w =
     (web_answer s ''sovereignty-vault-v7'' fname args (case sender of Some x \<Rightarrow> x | None \<Rightarrow> deployer s), w)"
  using web_read_answer [OF assms(1) deployed_names(5) _ assms(2)] by (simp add: vaultRead_def)

fun preview_value :: "nat resp \<Rightarrow> (int + int) result" where
  "preview_value (Ok n) = Inr (Inr (int n))"
| "preview_value (Err e) = Inr (Inl (js_Number (int e)))"
| "preview_value Abort = Inl (JsError ''Runtime error'')"

lemma decode_resp: "js_try (resp_json uint_json r) decode_preview = preview_value r"
  by (cases r) (simp_all add: resp_json_def decode_preview_def json_defs)

lemma io_lift_result: "io_bind m (\<lambda>x. io_lift (f x)) w = (case m w of (r, w') \<Rightarrow> (js_try r f, w'))"
  by (auto simp: io_bind_def io_lift_def split: prod.split sum.split)

lemma preview_deposit_answers:
  assumes "web_chain_answers sv s w" "arg_ok (ClUint (int vid))" "arg_ok (ClUint (int n))"
  shows "previewDeposit sv (int vid) asset (int n) viewer w = (preview_value (preview_deposit vid asset n s), w)"
  using assms
  by (simp add: previewDeposit_def io_lift_result vault_read_answer arg_ok_def web_answer_simps decode_resp)

lemma preview_redeem_answers:
  assumes "web_chain_answers sv s w" "arg_ok (ClUint (int vid))" "arg_ok (ClUint (int n))"
  shows "previewRedeem sv (int vid) asset (int n) viewer w = (preview_value (preview_redeem vid asset n s), w)"
  using assms
  by (simp add: previewRedeem_def io_lift_result vault_read_answer arg_ok_def web_answer_simps decode_resp)

definition pool_of :: "('x, 'b) sovereignty_vault_scheme \<Rightarrow> nat \<Rightarrow> asset \<Rightarrow> asset_pool" where
  "pool_of s vid asset =
     \<lparr> ap_asset = asset, ap_idle = int (get_idle_balance vid asset s), ap_total = int (get_total_balance vid asset s),
       ap_supply = int (get_total_supply vid asset s) \<rparr>"

definition position_of :: "asset \<Rightarrow> position \<Rightarrow> web_position" where
  "position_of asset p =
     \<lparr> wp_asset = asset, wp_shares = int (pos_shares p), wp_supply = int (pos_supply p),
       wp_totalAssets = int (pos_total_assets p), wp_idle = int (pos_idle p),
       wp_ownershipBps = int (pos_ownership_bps p), wp_claim = int (pos_claim p), wp_redeemable = int (pos_redeemable p) \<rparr>"

lemma field_uint [simp]:
  "bigint_field (JObj fs) k = js_try (js_get (JObj fs) k) (\<lambda>v. js_try (js_get v ''value'') to_bigint)"
  "number_field (JObj fs) k = js_try (js_get (JObj fs) k) (\<lambda>v. js_try (js_get v ''value'') to_number)"
  by (auto simp: bigint_field_def number_field_def split: option.split)
     (metis js_get.cases js_try.simps sum.exhaust)+

lemma pool_answers:
  assumes "web_chain_answers sv s w" "arg_ok (ClUint (int vid))"
  shows "getPool sv (int vid) asset w = (Inr (pool_of s vid asset), w)"
  using assms
  by (simp add: getPool_def io_lift_result vault_read_answer arg_ok_def web_answer_simps pool_json_def json_defs pool_of_def)

lemma position_answers:
  assumes "web_chain_answers sv s w" "arg_ok (ClUint (int vid))" "get_position vid asset holder s = Ok p"
  shows "getPosition sv (int vid) asset holder w = (Inr (position_of asset p), w)"
  using assms
  by (simp add: getPosition_def io_lift_result vault_read_answer arg_ok_def web_answer_simps plain_json_def
      position_json_def decode_position_def json_defs position_of_def)

lemma allocation_answers:
  assumes "web_chain_answers sv s w" "arg_ok (ClUint (int vid))" "arg_ok (ClUint (int sid))"
  shows "getAllocation sv (int vid) (int sid) asset w = (Inr (int (get_strategy_allocation vid sid asset s)), w)"
  using assms
  by (simp add: getAllocation_def io_lift_result vault_read_answer arg_ok_def web_answer_simps json_defs)

section \<open>The overview of a vault\<close>

definition meta_of :: "nat \<Rightarrow> vault_entry \<Rightarrow> vault_meta" where
  "meta_of vid v =
     \<lparr> vm_vaultId = int vid, vm_owner = v_owner v, vm_name = v_name v, vm_purpose = js_Number (int (v_purpose v)),
       vm_assets = js_Number (int (v_assets v)), vm_openDeposits = v_open_deposits v, vm_paused = v_paused v,
       vm_createdAt = js_Number (int (v_created_at v)) \<rparr>"

definition web_risk_of :: "vault_config \<Rightarrow> risk_config" where
  "web_risk_of c =
     \<lparr> rk_maxExposureBps = js_Number (int (max_exposure_bps c)), rk_maxStxTx = int (max_stx_tx_amount c),
       rk_maxSbtcTx = int (max_sbtc_tx_amount c), rk_maxSlippageBps = js_Number (int (max_slippage_bps c)),
       rk_minIdleBps = js_Number (int (min_idle_bps c)), rk_autonomousEnabled = autonomous_enabled c,
       rk_cooldownBlocks = js_Number (int (cooldown_blocks c)), rk_lastUsedNonce = js_Number (int (last_used_nonce c)),
       rk_lastExecutionHeight = js_Number (int (last_execution_height c)) \<rparr>"

definition web_environment_of :: "('x, 'b) sovereignty_vault_scheme \<Rightarrow> web_environment" where
  "web_environment_of s =
     \<lparr> we_network = (if is_mainnet_chain s then MAINNET else TESTNET), we_chainId = int (chain_id s),
       we_mainnetExecutionArmed = mainnet_execution_armed s,
       we_strategyExecutionEnabled = is_strategy_execution_enabled s \<rparr>"

definition strategy_data :: "nat \<Rightarrow> strategy_entry \<Rightarrow> strategy_snapshot" where
  "strategy_data i e = (snapshot_strategy i e)\<lparr>ss_active := strat_active e\<rparr>"

fun strategies_from :: "('x, 'b) sovereignty_vault_scheme \<Rightarrow> nat \<Rightarrow> nat \<Rightarrow> strategy_snapshot list" where
  "strategies_from s 0 i = []"
| "strategies_from s (Suc n) i =
     (case strategies s i of None \<Rightarrow> [] | Some e \<Rightarrow> strategy_data i e # strategies_from s n (Suc i))"

definition allocation_of :: "('x, 'b) sovereignty_vault_scheme \<Rightarrow> nat \<Rightarrow> strategy_snapshot \<Rightarrow> strategy_allocation" where
  "allocation_of s vid x =
     \<lparr> sa_strategyId = ss_strategyId x, sa_asset = ss_asset x,
       sa_amount = int (get_strategy_allocation vid (nat (ss_strategyId x)) (ss_asset x) s) \<rparr>"

definition limits_of :: "('x, 'b) sovereignty_vault_scheme \<Rightarrow> protocol_limits" where
  "limits_of s =
     \<lparr> pl_maxSlippageBps = js_Number (int (protocol_max_slippage_bps s)),
       pl_maxExposureBps = js_Number (int (protocol_max_exposure_bps s)),
       pl_minCooldownBlocks = js_Number (int (protocol_min_cooldown_blocks s)),
       pl_minLiquidityBps = js_Number (int (protocol_min_liquidity_bps s)),
       pl_approvedSbtcAsset = approved_sbtc_asset s \<rparr>"

definition overview_of ::
    "('x, 'b) sovereignty_vault_scheme \<Rightarrow> nat \<Rightarrow> vault_entry \<Rightarrow> vault_config \<Rightarrow> (asset \<Rightarrow> position) option \<Rightarrow> int
     \<Rightarrow> vault_overview" where
  "overview_of s vid v c pos now =
     (let assets = supportedAssets (vm_assets (meta_of vid v)); ss = strategies_from s 25 1 in
      \<lparr> vo_meta = meta_of vid v, vo_risk = web_risk_of c,
        vo_pools = (\<lambda>a. if a \<in> set assets then Some (pool_of s vid a) else None),
        vo_positions = (case pos of None \<Rightarrow> Map.empty
          | Some f \<Rightarrow> (\<lambda>a. if a \<in> set assets then Some (position_of a (f a)) else None)),
        vo_allocations = map (allocation_of s vid) (filter (\<lambda>x. ss_asset x \<in> set assets) ss),
        vo_strategies = ss, vo_environment = web_environment_of s, vo_blockHeight = int (block_height s),
        vo_loadedAt = now \<rparr>)"

lemma meta_answers:
  assumes "web_chain_answers sv s w" "arg_ok (ClUint (int vid))"
  shows "getVaultMeta sv (int vid) w = (Inr (map_option (meta_of vid) (vaults s vid)), w)"
  using assms
  by (cases "vaults s vid")
     (simp_all add: getVaultMeta_def io_lift_result vault_read_answer arg_ok_def web_answer_simps vault_json_def
       json_defs decode_meta_def meta_of_def is_true_def)

lemma risk_answers:
  assumes "web_chain_answers sv s w" "arg_ok (ClUint (int vid))" "vault_configs s vid = Some c"
  shows "getRiskConfig sv (int vid) w = (Inr (web_risk_of c), w)"
  using assms
  by (simp add: getRiskConfig_def io_lift_result web_read_answer [OF assms(1) deployed_names(2)] arg_ok_def
      web_answer_simps config_json_def json_defs decode_risk_def web_risk_of_def is_true_def)

lemma environment_answers:
  assumes "web_chain_answers sv s w"
  shows "web_getExecutionEnvironment sv w = (Inr (web_environment_of s), w)"
  using assms
  by (simp add: web_getExecutionEnvironment_def io_lift_result web_read_answer [OF assms deployed_names(2)]
      web_answer_simps environment_json_def get_execution_environment_def json_defs web_environment_of_def is_true_def)

lemma height_answers:
  "web_chain_answers sv s w \<Longrightarrow> web_getBlockHeight sv w = (Inr (int (block_height s)), w)"
  by (simp add: web_getBlockHeight_def web_apiGet_def web_chain_answers_def io_bind_def io_lift_def io_return_def)

lemma limits_answers:
  assumes "web_chain_answers sv s w"
  shows "getProtocolLimits sv w = (Inr (limits_of s), w)"
  using assms
  by (cases "approved_sbtc_asset s")
     (simp_all add: getProtocolLimits_def io_lift_result web_read_answer [OF assms deployed_names(2)]
      web_answer_simps limits_json_def json_defs limits_of_def decode_approved_asset_def)

lemma paused_answers:
  assumes "web_chain_answers sv s w"
  shows "isProtocolPaused sv w = (Inr (protocol_paused s), w)"
  using assms
  by (simp add: isProtocolPaused_def io_lift_result web_read_answer [OF assms deployed_names(1)]
      web_answer_simps json_defs is_true_def)

lemma decode_strategy_data_json:
  "js_try (js_get (strategy_json e) ''value'') (decode_strategy_data (int i)) = Inr (strategy_data i e)"
  by (simp add: strategy_json_def json_defs decode_strategy_data_def strategy_data_def snapshot_strategy_def is_true_def)

lemma strategies_answers:
  assumes "web_chain_answers sv s w"
  shows "i + n < 2 ^ 128 \<Longrightarrow> list_strategies sv n (int i) w = (Inr (strategies_from s n i), w)"
proof (induction n arbitrary: i)
  case 0
  then show ?case by (simp add: io_return_def)
next
  case (Suc n)
  have "int i < 2 ^ 128" using Suc.prems by (intro int_range) simp
  then have r: "web_read sv ''strategy-registry'' ''get-strategy'' [ClUint (int i)] None w =
     (Inr (option_json (map_option strategy_json (strategies s i))), w)"
    by (simp add: web_read_answer [OF assms deployed_names(3)] arg_ok_def web_answer_simps)
  have ih: "list_strategies sv n (1 + int i) w = (Inr (strategies_from s n (Suc i)), w)"
    using Suc.IH [of "Suc i"] Suc.prems by simp
  show ?case
  proof (cases "strategies s i")
    case None
    with r show ?thesis by (simp add: io_bind_def io_lift_def io_return_def json_defs)
  next
    case (Some e)
    have "strategy_json e \<noteq> JNull" by (simp add: strategy_json_def json_defs)
    with r ih Some decode_strategy_data_json [of e i] show ?thesis
      by (simp add: io_bind_def io_lift_def io_return_def option_json_def typed_def add.commute)
  qed
qed

lemma io_bind_app: "io_bind m f w = (case m w of (Inl e, w') \<Rightarrow> (Inl e, w') | (Inr x, w') \<Rightarrow> f x w')"
  by (simp add: io_bind_def)

lemma io_return_app: "io_return x w = (Inr x, w)"
  by (simp add: io_return_def)

lemma io_map_constant:
  "(\<And>x. x \<in> set xs \<Longrightarrow> f x w = (Inr (g x), w)) \<Longrightarrow> io_map f xs w = (Inr (map g xs), w)"
  by (induction xs) (simp_all add: io_return_def io_bind_def)

lemma fold_index:
  "(\<And>x. x \<in> set xs \<Longrightarrow> key (f x) = x) \<Longrightarrow>
   fold (\<lambda>p m. m(key p \<mapsto> p)) (map f xs) m = (\<lambda>a. if a \<in> set xs then Some (f a) else m a)"
  by (induction xs arbitrary: m) (auto simp: fun_eq_iff)

lemma strategies_from_ids:
  "x \<in> set (strategies_from s n i) \<Longrightarrow> \<exists>j. ss_strategyId x = int j \<and> i \<le> j \<and> j < i + n"
  by (induction n arbitrary: i) (fastforce simp: strategy_data_def snapshot_strategy_def split: option.splits)+

theorem overview_answers:
  assumes ch: "web_chain_answers sv s w" and vid: "arg_ok (ClUint (int vid))"
    and v: "vaults s vid = Some v" and c: "vault_configs s vid = Some c"
    and pos: "\<And>a. viewer \<noteq> [] \<Longrightarrow> a \<in> set (supportedAssets (vm_assets (meta_of vid v))) \<Longrightarrow>
      get_position vid a viewer s = Ok (f a)"
    and now: "wb_now sv w = (now, w')"
  shows "getVaultOverview sv (int vid) (Some viewer) w =
     (Inr (Some (overview_of s vid v c (if viewer = [] then None else Some f) now)), w')"
proof -
  let ?as = "supportedAssets (vm_assets (meta_of vid v))" and ?ss = "strategies_from s 25 (Suc 0)"
  have pools: "io_map (getPool sv (int vid)) ?as w = (Inr (map (pool_of s vid) ?as), w)"
    by (intro io_map_constant pool_answers [OF ch vid])
  have positions: "io_map (\<lambda>a. getPosition sv (int vid) a viewer) ?as w = (Inr (map (\<lambda>a. position_of a (f a)) ?as), w)"
    if "viewer \<noteq> []"
    by (intro io_map_constant position_answers [OF ch vid] pos that)
  have ss: "listStrategies sv w = (Inr ?ss, w)"
    using strategies_answers [OF ch, of 1 25] by (simp add: listStrategies_def)
  have "getAllocation sv (int vid) (ss_strategyId x) (ss_asset x) w = (Inr (sa_amount (allocation_of s vid x)), w)"
    if x: "x \<in> set ?ss" for x
  proof -
    obtain j where j: "ss_strategyId x = int j" "j < 26" using strategies_from_ids [OF x] by auto
    then have "arg_ok (ClUint (int j))" by (simp add: arg_ok_def)
    from allocation_answers [OF ch vid this] j show ?thesis by (simp add: allocation_of_def)
  qed
  then have allocs: "io_map (\<lambda>x. io_bind (getAllocation sv (int vid) (ss_strategyId x) (ss_asset x)) (\<lambda>amount.
        io_return \<lparr> sa_strategyId = ss_strategyId x, sa_asset = ss_asset x, sa_amount = amount \<rparr>))
      (filter (\<lambda>x. ss_asset x \<in> set ?as) ?ss) w
    = (Inr (map (allocation_of s vid) (filter (\<lambda>x. ss_asset x \<in> set ?as) ?ss)), w)"
    by (intro io_map_constant) (simp add: io_bind_def io_return_def allocation_of_def)
  have fp: "fold (\<lambda>p m. m(ap_asset p \<mapsto> p)) (map (pool_of s vid) ?as) Map.empty
      = (\<lambda>a. if a \<in> set ?as then Some (pool_of s vid a) else None)"
    by (subst fold_index) (simp_all add: pool_of_def)
  have fq: "fold (\<lambda>p m. m(wp_asset p \<mapsto> p)) (map (\<lambda>a. position_of a (f a)) ?as) Map.empty
      = (\<lambda>a. if a \<in> set ?as then Some (position_of a (f a)) else None)"
    by (subst fold_index) (simp_all add: position_of_def)
  note steps = meta_answers [OF ch vid] risk_answers [OF ch vid c] environment_answers [OF ch] height_answers [OF ch]
    ss pools allocs
  have now': "io_of (wb_now sv) w = (Inr now, w')" using now by (simp add: io_of_def)
  show ?thesis
    by (cases "viewer = []")
       (simp_all add: getVaultOverview_def io_bind_app io_return_app steps v now' positions Let_def fp fq
         overview_of_def del: io_map.simps)
qed

end
