(* ===== verification/Web_Forms.thy ===== *)
theory Web_Forms
  imports Web_Presets Web_Reader
begin

text \<open>
  The risk form of the creation and settings pages (apps/web/src/components/vault/RiskFields.tsx):
  what the fields show for a preset or for a vault's configuration, and the exact parse of the
  fields against the protocol's live limits.
\<close>

record risk_form =
  rf_maxExposurePct :: string
  rf_minIdlePct :: string
  rf_maxSlippagePct :: string
  rf_maxStxTx :: string
  rf_maxSbtcTx :: string
  rf_cooldown :: string
  rf_autonomous :: bool

record parsed_risk =
  pr_maxExposureBps :: int
  pr_minIdleBps :: int
  pr_maxSlippageBps :: int
  pr_maxStxTx :: int
  pr_maxSbtcTx :: int
  pr_cooldownBlocks :: int
  pr_autonomous :: bool

definition plain :: "int \<Rightarrow> nat \<Rightarrow> string" where
  "plain v decimals = strip_commas (formatUnits v decimals 0)"

definition valuesFromDefaults :: "risk_defaults \<Rightarrow> risk_form" where
  "valuesFromDefaults d =
     \<lparr> rf_maxExposurePct = bpsToPct (rd_maxExposureBps d), rf_minIdlePct = bpsToPct (rd_minIdleBps d),
       rf_maxSlippagePct = bpsToPct (rd_maxSlippageBps d), rf_maxStxTx = plain (rd_maxStxTx d) 6,
       rf_maxSbtcTx = plain (rd_maxSbtcTx d) 8, rf_cooldown = int_text (rd_cooldownBlocks d),
       rf_autonomous = rd_autonomous d \<rparr>"

definition valuesFromConfig :: "risk_config \<Rightarrow> risk_form" where
  "valuesFromConfig r =
     \<lparr> rf_maxExposurePct = bpsToPct (rk_maxExposureBps r), rf_minIdlePct = bpsToPct (rk_minIdleBps r),
       rf_maxSlippagePct = bpsToPct (rk_maxSlippageBps r), rf_maxStxTx = plain (rk_maxStxTx r) 6,
       rf_maxSbtcTx = plain (rk_maxSbtcTx r) 8, rf_cooldown = int_text (rk_cooldownBlocks r),
       rf_autonomous = rk_autonomousEnabled r \<rparr>"

section \<open>Parsing\<close>

text \<open>The errors are the pairs of a field and its text, in the order they are assigned.\<close>

type_synonym risk_errors = "(string \<times> string) list"

definition parse_cooldown :: "string \<Rightarrow> int option" where
  "parse_cooldown s =
     (let t = trim s in if t \<noteq> [] \<and> list_all is_digit t then Some (js_Number (int (digits_val t))) else None)"

definition exposure_error :: "int option \<Rightarrow> protocol_limits \<Rightarrow> risk_errors" where
  "exposure_error v l =
     (case v of
        None \<Rightarrow> [(''maxExposurePct'', ''Enter a percentage greater than 0 (max 2 decimals).'')]
      | Some b \<Rightarrow>
          if b \<le> 0 then [(''maxExposurePct'', ''Enter a percentage greater than 0 (max 2 decimals).'')]
          else if pl_maxExposureBps l < b then
            [(''maxExposurePct'', ''The protocol ceiling is '' @ bpsToPct (pl_maxExposureBps l) @ ''%.'')]
          else [])"

definition idle_error :: "int option \<Rightarrow> protocol_limits \<Rightarrow> risk_errors" where
  "idle_error v l =
     (case v of
        None \<Rightarrow> [(''minIdlePct'', ''Enter a percentage (max 2 decimals).'')]
      | Some b \<Rightarrow>
          if b < pl_minLiquidityBps l then
            [(''minIdlePct'', ''The protocol minimum is '' @ bpsToPct (pl_minLiquidityBps l) @ ''%.'')]
          else if 10000 < b then [(''minIdlePct'', ''Cannot exceed 100%.'')]
          else [])"

definition slippage_error :: "int option \<Rightarrow> protocol_limits \<Rightarrow> risk_errors" where
  "slippage_error v l =
     (case v of
        None \<Rightarrow> [(''maxSlippagePct'', ''Enter a percentage greater than 0 (max 2 decimals).'')]
      | Some b \<Rightarrow>
          if b \<le> 0 then [(''maxSlippagePct'', ''Enter a percentage greater than 0 (max 2 decimals).'')]
          else if pl_maxSlippageBps l < b then
            [(''maxSlippagePct'', ''The protocol ceiling is '' @ bpsToPct (pl_maxSlippageBps l) @ ''%.'')]
          else [])"

definition amount_error :: "string \<Rightarrow> string \<Rightarrow> int option \<Rightarrow> risk_errors" where
  "amount_error field decimals v =
     (case v of
        None \<Rightarrow> [(field, ''Enter an amount greater than 0 (max '' @ decimals @ '' decimals).'')]
      | Some n \<Rightarrow> if n \<le> 0 then [(field, ''Enter an amount greater than 0 (max '' @ decimals @ '' decimals).'')] else [])"

definition cooldown_error :: "int option \<Rightarrow> protocol_limits \<Rightarrow> risk_errors" where
  "cooldown_error v l =
     (case v of
        None \<Rightarrow> [(''cooldown'', ''Enter a whole number of blocks.'')]
      | Some n \<Rightarrow>
          if n < pl_minCooldownBlocks l then
            [(''cooldown'', ''The protocol minimum is '' @ int_text (pl_minCooldownBlocks l) @ '' block(s).'')]
          else [])"

definition parseRisk :: "risk_form \<Rightarrow> protocol_limits \<Rightarrow> risk_errors + parsed_risk" where
  "parseRisk v limits =
     (let exposure = pctToBps (rf_maxExposurePct v); idle = pctToBps (rf_minIdlePct v);
          slippage = pctToBps (rf_maxSlippagePct v); stx = parseUnits (rf_maxStxTx v) 6;
          sbtc = parseUnits (rf_maxSbtcTx v) 8; cooldown = parse_cooldown (rf_cooldown v);
          errors = exposure_error exposure limits @ idle_error idle limits @ slippage_error slippage limits @
            amount_error ''maxStxTx'' ''6'' stx @ amount_error ''maxSbtcTx'' ''8'' sbtc @ cooldown_error cooldown limits in
      if errors \<noteq> [] then Inl errors
      else Inr \<lparr> pr_maxExposureBps = the exposure, pr_minIdleBps = the idle, pr_maxSlippageBps = the slippage,
                 pr_maxStxTx = the stx, pr_maxSbtcTx = the sbtc, pr_cooldownBlocks = the cooldown,
                 pr_autonomous = rf_autonomous v \<rparr>)"

section \<open>What a parsed form satisfies\<close>

definition risk_within :: "parsed_risk \<Rightarrow> protocol_limits \<Rightarrow> bool" where
  "risk_within p l \<longleftrightarrow>
     0 < pr_maxExposureBps p \<and> pr_maxExposureBps p \<le> pl_maxExposureBps l \<and>
     pl_minLiquidityBps l \<le> pr_minIdleBps p \<and> pr_minIdleBps p \<le> 10000 \<and>
     0 < pr_maxSlippageBps p \<and> pr_maxSlippageBps p \<le> pl_maxSlippageBps l \<and>
     0 < pr_maxStxTx p \<and> 0 < pr_maxSbtcTx p \<and> pl_minCooldownBlocks l \<le> pr_cooldownBlocks p"

lemma no_error_iff:
  "exposure_error v l = [] \<longleftrightarrow> (\<exists>b. v = Some b \<and> 0 < b \<and> b \<le> pl_maxExposureBps l)"
  "idle_error v l = [] \<longleftrightarrow> (\<exists>b. v = Some b \<and> pl_minLiquidityBps l \<le> b \<and> b \<le> 10000)"
  "slippage_error v l = [] \<longleftrightarrow> (\<exists>b. v = Some b \<and> 0 < b \<and> b \<le> pl_maxSlippageBps l)"
  "amount_error f d v = [] \<longleftrightarrow> (\<exists>n. v = Some n \<and> 0 < n)"
  "cooldown_error v l = [] \<longleftrightarrow> (\<exists>n. v = Some n \<and> pl_minCooldownBlocks l \<le> n)"
  by (auto simp: exposure_error_def idle_error_def slippage_error_def amount_error_def cooldown_error_def
      split: option.splits if_splits)

lemma parseRisk_Inr_iff:
  "parseRisk v l = Inr p \<longleftrightarrow>
     pctToBps (rf_maxExposurePct v) = Some (pr_maxExposureBps p) \<and> pctToBps (rf_minIdlePct v) = Some (pr_minIdleBps p) \<and>
     pctToBps (rf_maxSlippagePct v) = Some (pr_maxSlippageBps p) \<and> parseUnits (rf_maxStxTx v) 6 = Some (pr_maxStxTx p) \<and>
     parseUnits (rf_maxSbtcTx v) 8 = Some (pr_maxSbtcTx p) \<and> parse_cooldown (rf_cooldown v) = Some (pr_cooldownBlocks p) \<and>
     pr_autonomous p = rf_autonomous v \<and> risk_within p l"
  by (cases p) (auto simp: parseRisk_def Let_def no_error_iff risk_within_def)

lemma js_Number_nonneg: "0 \<le> i \<Longrightarrow> 0 \<le> js_Number i"
  by (auto simp: js_Number_def round53_def Let_def pos_imp_zdiv_nonneg_iff intro!: mult_nonneg_nonneg add_nonneg_nonneg)

lemma parse_cooldown_nonneg: "parse_cooldown s = Some n \<Longrightarrow> 0 \<le> n"
  by (auto simp: parse_cooldown_def Let_def js_Number_nonneg split: if_splits)

lemma pctToBps_nonneg: "pctToBps s = Some b \<Longrightarrow> 0 \<le> b"
  by (auto simp: pctToBps_def js_Number_nonneg dest: parse_nonneg)

text \<open>A parsed form is one the contract accepts.\<close>

lemma params_valid_of_form:
  assumes p: "parseRisk v (limits_of s) = Inr p" and lim: "limits_ok s" and cd: "protocol_min_cooldown_blocks s \<le> 2 ^ 53"
  shows "params_valid (nat (pr_maxExposureBps p)) (nat (pr_maxStxTx p)) (nat (pr_maxSbtcTx p))
    (nat (pr_maxSlippageBps p)) (nat (pr_minIdleBps p)) (nat (pr_cooldownBlocks p)) s"
proof -
  have b: "protocol_max_exposure_bps s \<le> 10000" "protocol_max_slippage_bps s \<le> 10000" "protocol_min_liquidity_bps s \<le> 10000"
    using lim by (simp_all add: limits_ok_def)
  have cd': "js_Number (int (protocol_min_cooldown_blocks s)) = int (protocol_min_cooldown_blocks s)"
    by (rule js_Number_safe) (use cd in \<open>simp add: safe_int_def\<close>)
  from p have "0 \<le> pr_cooldownBlocks p" by (auto simp: parseRisk_Inr_iff dest: parse_cooldown_nonneg)
  with p show ?thesis
    unfolding parseRisk_Inr_iff risk_within_def limits_of_def params_valid_def
    by (simp add: js_Number_bps [OF b(1)] js_Number_bps [OF b(2)] js_Number_bps [OF b(3)] cd' nat_le_iff le_nat_iff)
qed

section \<open>Round trips\<close>

definition parsed_defaults :: "risk_defaults \<Rightarrow> parsed_risk" where
  "parsed_defaults d =
     \<lparr> pr_maxExposureBps = rd_maxExposureBps d, pr_minIdleBps = rd_minIdleBps d, pr_maxSlippageBps = rd_maxSlippageBps d,
       pr_maxStxTx = rd_maxStxTx d, pr_maxSbtcTx = rd_maxSbtcTx d, pr_cooldownBlocks = rd_cooldownBlocks d,
       pr_autonomous = rd_autonomous d \<rparr>"

definition parsed_config :: "risk_config \<Rightarrow> parsed_risk" where
  "parsed_config r =
     \<lparr> pr_maxExposureBps = rk_maxExposureBps r, pr_minIdleBps = rk_minIdleBps r, pr_maxSlippageBps = rk_maxSlippageBps r,
       pr_maxStxTx = rk_maxStxTx r, pr_maxSbtcTx = rk_maxSbtcTx r, pr_cooldownBlocks = rk_cooldownBlocks r,
       pr_autonomous = rk_autonomousEnabled r \<rparr>"

lemma parse_cooldown_text:
  assumes "0 \<le> n" "n \<le> 2 ^ 53"
  shows "parse_cooldown (int_text n) = Some n"
proof -
  have t: "int_text n = nat_text (nat n)" using assms by (simp add: int_text_def)
  have "trim (nat_text (nat n)) = nat_text (nat n)"
    by (rule trim_idle) (use nat_text_digits in \<open>auto simp: list_all_iff is_digit_not_space\<close>)
  with assms show ?thesis by (simp add: parse_cooldown_def t nat_text_digits safe_int_def)
qed

text \<open>What the fields show for a value inside the limits parses back to that value.\<close>

lemma form_round_trip:
  assumes v: "v = \<lparr> rf_maxExposurePct = bpsToPct (pr_maxExposureBps p), rf_minIdlePct = bpsToPct (pr_minIdleBps p),
       rf_maxSlippagePct = bpsToPct (pr_maxSlippageBps p), rf_maxStxTx = plain (pr_maxStxTx p) 6,
       rf_maxSbtcTx = plain (pr_maxSbtcTx p) 8, rf_cooldown = int_text (pr_cooldownBlocks p),
       rf_autonomous = pr_autonomous p \<rparr>"
    and within: "risk_within p l" and idle: "0 \<le> pr_minIdleBps p"
    and cd: "0 \<le> pr_cooldownBlocks p" "pr_cooldownBlocks p \<le> 2 ^ 53"
    and lim: "pl_maxExposureBps l \<le> 2 ^ 53" "pl_maxSlippageBps l \<le> 2 ^ 53"
  shows "parseRisk v l = Inr p"
  using within idle cd lim unfolding v parseRisk_Inr_iff risk_within_def plain_def
  by (simp add: pct_bps parse_format parse_cooldown_text)

lemma config_round_trip:
  assumes "risk_within (parsed_config r) l" "0 \<le> rk_minIdleBps r" "0 \<le> rk_cooldownBlocks r" "rk_cooldownBlocks r \<le> 2 ^ 53"
    "pl_maxExposureBps l \<le> 2 ^ 53" "pl_maxSlippageBps l \<le> 2 ^ 53"
  shows "parseRisk (valuesFromConfig r) l = Inr (parsed_config r)"
  using assms by (intro form_round_trip) (simp_all add: valuesFromConfig_def parsed_config_def)

lemma defaults_round_trip:
  assumes "risk_within (parsed_defaults d) l" "0 \<le> rd_minIdleBps d" "0 \<le> rd_cooldownBlocks d" "rd_cooldownBlocks d \<le> 2 ^ 53"
    "pl_maxExposureBps l \<le> 2 ^ 53" "pl_maxSlippageBps l \<le> 2 ^ 53"
  shows "parseRisk (valuesFromDefaults d) l = Inr (parsed_defaults d)"
  using assms by (intro form_round_trip) (simp_all add: valuesFromDefaults_def parsed_defaults_def)

end
