(* ===== verification/Vault_Index.thy ===== *)
theory Vault_Index
  imports Protocol_Theorems
begin

text \<open>
  The directory of the vault contract: the vaults themselves, and the two on-chain indexes from
  which the web client finds a user's vaults, by owner and by holder. In every reachable state the
  ids are dense, every vault is well formed and configured, each index lists exactly what it
  should and nothing twice, and whoever holds shares of a pool is registered with its vault.
\<close>

section \<open>Append-only indexes\<close>

text \<open>
  A count and a map from positions to ids, per principal, that lists a relation: every position
  below the count is filled, the listed ids are exactly the related ones, and none is listed twice.
\<close>

definition indexed :: "('p \<rightharpoonup> nat) \<Rightarrow> ('p \<times> nat \<rightharpoonup> nat) \<Rightarrow> ('p \<Rightarrow> nat \<Rightarrow> bool) \<Rightarrow> bool" where
  "indexed cnt idx R \<longleftrightarrow>
     (\<forall>p j. idx (p, j) \<noteq> None \<longleftrightarrow> j < get_or 0 cnt p) \<and>
     (\<forall>p i. R p i \<longleftrightarrow> (\<exists>j. idx (p, j) = Some i)) \<and>
     (\<forall>p j k. idx (p, j) = idx (p, k) \<longrightarrow> idx (p, j) \<noteq> None \<longrightarrow> j = k)"

lemma indexed_empty: "indexed Map.empty Map.empty (\<lambda>_ _. False)"
  by (simp add: indexed_def)

lemma indexed_append:
  assumes ok: "indexed cnt idx R" and new: "\<not> R p i"
  shows "indexed (cnt(p \<mapsto> get_or 0 cnt p + 1)) (idx((p, get_or 0 cnt p) \<mapsto> i)) (\<lambda>q k. R q k \<or> (q = p \<and> k = i))"
proof -
  let ?n = "get_or 0 cnt p"
  have filled: "idx (q, j) \<noteq> None \<longleftrightarrow> j < get_or 0 cnt q" and listed: "R q k \<longleftrightarrow> (\<exists>j. idx (q, j) = Some k)"
    and inj: "idx (q, j) = idx (q, l) \<Longrightarrow> idx (q, j) \<noteq> None \<Longrightarrow> j = l" for q j k l
    using ok by (auto simp: indexed_def)
  have free: "idx (p, ?n) = None" using filled [of p ?n] by simp
  have no: "idx (p, j) \<noteq> Some i" for j using new listed by blast
  show ?thesis
    unfolding indexed_def
  proof (intro conjI allI impI)
    fix q j show "((idx((p, ?n) \<mapsto> i)) (q, j) \<noteq> None) = (j < get_or 0 (cnt(p \<mapsto> ?n + 1)) q)"
      using filled [of q j] by (auto simp: get_or_upd)
  next
    fix q k show "(R q k \<or> q = p \<and> k = i) = (\<exists>j. (idx((p, ?n) \<mapsto> i)) (q, j) = Some k)"
      using listed free by (auto split: if_splits) (metis option.distinct(1))
  next
    fix q j l
    assume "(idx((p, ?n) \<mapsto> i)) (q, j) = (idx((p, ?n) \<mapsto> i)) (q, l)" "(idx((p, ?n) \<mapsto> i)) (q, j) \<noteq> None"
    then show "j = l" using inj no by (auto split: if_splits) (metis no)+
  qed
qed

lemma indexed_cong: "indexed cnt idx R \<Longrightarrow> (\<And>p i. R p i \<longleftrightarrow> S p i) \<Longrightarrow> indexed cnt idx S"
  by (simp add: indexed_def)

text \<open>Reading an index from position 0 up lists each related id once.\<close>

lemma indexed_listing:
  assumes ok: "indexed cnt idx R"
  shows "set (map (\<lambda>j. the (idx (p, j))) [0..<get_or 0 cnt p]) = {i. R p i} \<and>
     distinct (map (\<lambda>j. the (idx (p, j))) [0..<get_or 0 cnt p])"
proof
  show "set (map (\<lambda>j. the (idx (p, j))) [0..<get_or 0 cnt p]) = {i. R p i}"
  proof (intro set_eqI iffI)
    fix i assume "i \<in> set (map (\<lambda>j. the (idx (p, j))) [0..<get_or 0 cnt p])"
    then obtain j where j: "j < get_or 0 cnt p" "i = the (idx (p, j))" by auto
    then have "idx (p, j) \<noteq> None" using ok unfolding indexed_def by blast
    with j ok show "i \<in> {i. R p i}" by (auto simp: indexed_def)
  next
    fix i assume "i \<in> {i. R p i}"
    then obtain j where j: "idx (p, j) = Some i" using ok by (auto simp: indexed_def)
    then have "j < get_or 0 cnt p" using ok unfolding indexed_def by (metis option.distinct(1))
    with j show "i \<in> set (map (\<lambda>j. the (idx (p, j))) [0..<get_or 0 cnt p])" by force
  qed
  show "distinct (map (\<lambda>j. the (idx (p, j))) [0..<get_or 0 cnt p])"
  proof (simp add: distinct_map, rule inj_onI)
    fix j k assume jk: "j \<in> {0..<get_or 0 cnt p}" "k \<in> {0..<get_or 0 cnt p}" "the (idx (p, j)) = the (idx (p, k))"
    then have "idx (p, j) \<noteq> None" "idx (p, k) \<noteq> None" using ok by (auto simp: indexed_def)
    with jk have "idx (p, j) = idx (p, k)" by auto
    with ok \<open>idx (p, j) \<noteq> None\<close> show "j = k" unfolding indexed_def by blast
  qed
qed

section \<open>The invariant of the directory\<close>

definition valid_vault :: "vault_entry \<Rightarrow> bool" where
  "valid_vault v \<longleftrightarrow> v_name v \<noteq> [] \<and> v_purpose v \<le> 5 \<and> 1 \<le> v_assets v \<and> v_assets v \<le> 3"

definition owns :: "('x, 'b) sovereignty_vault_scheme \<Rightarrow> principal \<Rightarrow> nat \<Rightarrow> bool" where
  "owns s p i \<longleftrightarrow> (\<exists>v. vaults s i = Some v \<and> v_owner v = p)"

definition registered :: "('x, 'b) sovereignty_vault_scheme \<Rightarrow> principal \<Rightarrow> nat \<Rightarrow> bool" where
  "registered s p i \<longleftrightarrow> get_or False (holder_registered s) (p, i)"

definition directory_ok :: "('x, 'b) sovereignty_vault_scheme \<Rightarrow> bool" where
  "directory_ok s \<longleftrightarrow>
     0 < next_vault_id s \<and> dom (vaults s) = {i. 0 < i \<and> i < next_vault_id s} \<and>
     dom (vault_configs s) = dom (vaults s) \<and> (\<forall>i v. vaults s i = Some v \<longrightarrow> valid_vault v) \<and>
     indexed (owner_vault_count s) (owner_vaults s) (owns s) \<and>
     indexed (holder_vault_count s) (holder_vaults s) (registered s) \<and>
     (\<forall>p i. registered s p i \<longrightarrow> i \<in> dom (vaults s)) \<and>
     (\<forall>i a p. 0 < get_balance i a p s \<longrightarrow> registered s p i \<and> supports_asset i a s)"

definition directory where
  "directory s = (next_vault_id s, vaults s, dom (vault_configs s), owner_vault_count s, owner_vaults s,
     holder_vault_count s, holder_vaults s, holder_registered s, balances s)"

lemma directory_ok_cong: "directory t = directory s \<Longrightarrow> directory_ok t \<longleftrightarrow> directory_ok s"
  by (simp add: directory_def directory_ok_def owns_def [abs_def] registered_def [abs_def] get_balance_def
      supports_asset_def)

lemma directory_emit [simp]: "directory (emit e s) = directory s"
  by (simp add: directory_def emit_def)

lemma directory_upd [simp]:
  "directory (s\<lparr>admin := x0\<rparr>) = directory s"
  "directory (s\<lparr>pending_admin := x1\<rparr>) = directory s"
  "directory (s\<lparr>protocol_paused := x2\<rparr>) = directory s"
  "directory (s\<lparr>executors := x3\<rparr>) = directory s"
  "directory (s\<lparr>next_strategy_id := x4\<rparr>) = directory s"
  "directory (s\<lparr>strategies := x5\<rparr>) = directory s"
  "directory (s\<lparr>protocol_max_slippage_bps := x6\<rparr>) = directory s"
  "directory (s\<lparr>protocol_max_exposure_bps := x7\<rparr>) = directory s"
  "directory (s\<lparr>protocol_min_cooldown_blocks := x8\<rparr>) = directory s"
  "directory (s\<lparr>protocol_min_liquidity_bps := x9\<rparr>) = directory s"
  "directory (s\<lparr>approved_sbtc_asset := x10\<rparr>) = directory s"
  "directory (s\<lparr>mainnet_execution_armed := x11\<rparr>) = directory s"
  "directory (s\<lparr>block_height := x12\<rparr>) = directory s"
  by (simp_all add: directory_def)

lemma directory_configs:
  "v \<in> dom (vault_configs s) \<Longrightarrow> directory (s\<lparr>vault_configs := (vault_configs s)(v \<mapsto> c)\<rparr>) = directory s"
  by (auto simp: directory_def)

section \<open>Calls that leave the directory alone\<close>

lemma admin_directory:
  "propose_admin c p s = Ok (b, s') \<Longrightarrow> directory s' = directory s"
  "accept_admin c s = Ok (b, s') \<Longrightarrow> directory s' = directory s"
  "pause_protocol c s = Ok (b, s') \<Longrightarrow> directory s' = directory s"
  "unpause_protocol c s = Ok (b, s') \<Longrightarrow> directory s' = directory s"
  by (auto simp: protocol_admin_ops split: if_splits)

lemma registries_directory:
  "register_executor c e l s = Ok (b, s') \<Longrightarrow> directory s' = directory s"
  "revoke_executor c e s = Ok (b, s') \<Longrightarrow> directory s' = directory s"
  "reactivate_executor c e s = Ok (b, s') \<Longrightarrow> directory s' = directory s"
  "register_strategy c n p a m s = Ok (i, s') \<Longrightarrow> directory s' = directory s"
  "activate_strategy c j s = Ok (b, s') \<Longrightarrow> directory s' = directory s"
  "deactivate_strategy c j s = Ok (b, s') \<Longrightarrow> directory s' = directory s"
  by (auto simp: agent_registry_ops strategy_registry_ops Let_def rbind_Ok_iff split: if_splits option.splits)

lemma guard_directory:
  "set_approved_sbtc_asset c p s = Ok (b, s') \<Longrightarrow> directory s' = directory s"
  "set_protocol_limits c w x y z s = Ok (b, s') \<Longrightarrow> directory s' = directory s"
  "set_mainnet_execution_armed c arm s = Ok (b, s') \<Longrightarrow> directory s' = directory s"
  "set_vault_risk_config g v me ms mb sl mi au cd s = Ok (b, s') \<Longrightarrow> directory s' = directory s"
  "set_autonomous_enabled g v en s = Ok (b, s') \<Longrightarrow> directory s' = directory s"
  by (auto simp: risk_guard_ops domI intro!: directory_configs split: if_splits option.splits)

lemma wrappers_directory:
  "set_risk_config c v me ms mb sl mi au cd s = Ok (b, s') \<Longrightarrow> directory s' = directory s"
  "set_autonomous_mode c v en s = Ok (b, s') \<Longrightarrow> directory s' = directory s"
  by (auto simp: set_risk_config_def set_autonomous_mode_def rbind_Ok_iff dest: guard_directory
      split: if_splits option.splits)

lemma submit_directory:
  assumes "submit_rebalance_intent sd c v i a n sl no d p s = Ok (b, s')"
  shows "directory s' = directory s"
proof -
  from assms obtain cfg b2 s2 ev where cfg: "vault_configs s v = Some cfg"
    and x: "execute_rebalance sd (engine_contract s) v i a n p
           (s\<lparr>vault_configs := (vault_configs s)(v \<mapsto>
                cfg\<lparr>last_used_nonce := no, last_execution_height := block_height s\<rparr>)\<rparr>) = Ok (b2, s2)"
    and s': "s' = emit ev s2"
    by (rule submit_effect)
  have "directory s2 = directory (s\<lparr>vault_configs := (vault_configs s)(v \<mapsto>
                cfg\<lparr>last_used_nonce := no, last_execution_height := block_height s\<rparr>)\<rparr>)"
    by (rule execute_rebalance_effect [OF x]) (simp add: directory_def emit_def)
  with cfg s' show ?thesis by (simp add: directory_configs domI)
qed

section \<open>Calls that change the directory\<close>

lemma entry_update_ok:
  assumes ok: "directory_ok s" and v: "vaults s i = Some v"
    and v': "valid_vault v'" "v_owner v' = v_owner v" "v_assets v' = v_assets v"
  shows "directory_ok (s\<lparr>vaults := (vaults s)(i \<mapsto> v')\<rparr>)"
proof -
  let ?t = "s\<lparr>vaults := (vaults s)(i \<mapsto> v')\<rparr>"
  have "owns ?t = owns s" using v v' by (auto simp: owns_def fun_eq_iff)
  moreover have "registered ?t = registered s" by (simp add: registered_def fun_eq_iff)
  moreover have "supports_asset k a ?t = supports_asset k a s" for k a
    using v v' by (simp add: supports_asset_def)
  moreover have "dom (vaults ?t) = dom (vaults s)" using v by auto
  ultimately show ?thesis
    using ok v' by (auto simp: directory_ok_def get_balance_def)
qed

lemma lifecycle_ok:
  assumes ok: "directory_ok s"
  shows "set_vault_config c i n od s = Ok (b, s') \<Longrightarrow> directory_ok s'"
    and "pause_vault c i s = Ok (b, s') \<Longrightarrow> directory_ok s'"
    and "unpause_vault c i s = Ok (b, s') \<Longrightarrow> directory_ok s'"
proof -
  have valid: "vaults s i = Some v \<Longrightarrow> valid_vault v" for v using ok by (simp add: directory_ok_def)
  note emit = directory_ok_cong [OF directory_emit]
  show "set_vault_config c i n od s = Ok (b, s') \<Longrightarrow> directory_ok s'"
    using valid by (auto simp: set_vault_config_def valid_vault_def emit intro!: entry_update_ok [OF ok]
      split: option.splits if_splits)
  show "pause_vault c i s = Ok (b, s') \<Longrightarrow> directory_ok s'"
    using valid by (auto simp: pause_vault_def valid_vault_def emit intro!: entry_update_ok [OF ok]
      split: option.splits if_splits)
  show "unpause_vault c i s = Ok (b, s') \<Longrightarrow> directory_ok s'"
    using valid by (auto simp: unpause_vault_def valid_vault_def emit intro!: entry_update_ok [OF ok]
      split: option.splits if_splits)
qed

lemma create_vault_effect:
  assumes "create_vault c n p a od me ms mb sl mi au cd s = Ok (i, s')"
  obtains cfg where "i = next_vault_id s" "n \<noteq> []" "p \<le> 5" "1 \<le> a" "a \<le> 3"
    and "directory s' = directory (s\<lparr>vaults := (vaults s)(i \<mapsto> \<lparr>v_owner = c, v_name = n, v_purpose = p,
           v_assets = a, v_open_deposits = od, v_paused = False, v_created_at = block_height s\<rparr>),
         owner_vaults := (owner_vaults s)((c, get_or 0 (owner_vault_count s) c) \<mapsto> i),
         owner_vault_count := (owner_vault_count s)(c \<mapsto> get_or 0 (owner_vault_count s) c + 1),
         next_vault_id := i + 1, vault_configs := (vault_configs s)(i \<mapsto> cfg)\<rparr>)"
  using assms
  by (auto simp: create_vault_def Let_def rbind_Ok_iff init_vault_config_def directory_def emit_def
      split: if_splits option.splits intro: that)

lemma create_vault_ok:
  assumes ok: "directory_ok s" and e: "create_vault c n p a od me ms mb sl mi au cd s = Ok (i, s')"
  shows "directory_ok s'"
proof -
  from e obtain cfg where i: "i = next_vault_id s" and valid: "n \<noteq> []" "p \<le> 5" "1 \<le> a" "a \<le> 3"
    and d: "directory s' = directory (s\<lparr>vaults := (vaults s)(i \<mapsto> \<lparr>v_owner = c, v_name = n, v_purpose = p,
           v_assets = a, v_open_deposits = od, v_paused = False, v_created_at = block_height s\<rparr>),
         owner_vaults := (owner_vaults s)((c, get_or 0 (owner_vault_count s) c) \<mapsto> i),
         owner_vault_count := (owner_vault_count s)(c \<mapsto> get_or 0 (owner_vault_count s) c + 1),
         next_vault_id := i + 1, vault_configs := (vault_configs s)(i \<mapsto> cfg)\<rparr>)" (is "_ = directory ?t")
    by (rule create_vault_effect)
  have fresh: "vaults s i = None" using ok i by (auto simp: directory_ok_def dom_def)
  have new: "\<not> owns s c i" by (simp add: owns_def fresh)
  have "indexed (owner_vault_count s) (owner_vaults s) (owns s)" using ok by (simp add: directory_ok_def)
  from indexed_append [of _ _ "owns s", OF this new]
  have "indexed (owner_vault_count ?t) (owner_vaults ?t) (\<lambda>q k. owns s q k \<or> (q = c \<and> k = i))"
    by simp
  moreover have "owns s q k \<or> (q = c \<and> k = i) \<longleftrightarrow> owns ?t q k" for q k by (auto simp: owns_def fresh)
  ultimately have o: "indexed (owner_vault_count ?t) (owner_vaults ?t) (owns ?t)" by (rule indexed_cong)
  have r: "registered ?t = registered s" by (simp add: registered_def fun_eq_iff)
  have "supports_asset k x s \<Longrightarrow> supports_asset k x ?t" for k x by (auto simp: supports_asset_def fresh)
  moreover have "dom (vaults ?t) = {k. 0 < k \<and> k < next_vault_id ?t}"
    using ok i by (auto simp: directory_ok_def less_Suc_eq)
  ultimately have "directory_ok ?t"
    using ok o r valid fresh by (auto simp: directory_ok_def get_balance_def valid_vault_def)
  with directory_ok_cong [OF d] show ?thesis by simp
qed

lemma register_holder_effect:
  assumes "register_holder h i s = Ok (b, s')"
  shows "s' = (if registered s h i then s
     else s\<lparr>holder_registered := (holder_registered s)((h, i) \<mapsto> True),
            holder_vaults := (holder_vaults s)((h, get_or 0 (holder_vault_count s) h) \<mapsto> i),
            holder_vault_count := (holder_vault_count s)(h \<mapsto> get_or 0 (holder_vault_count s) h + 1)\<rparr>)"
  using assms by (auto simp: register_holder_def registered_def Let_def rbind_Ok_iff split: if_splits)

text \<open>A deposit registers the depositor before anything else is different for them.\<close>

definition directory_deposit ::
    "principal \<Rightarrow> nat \<Rightarrow> string \<Rightarrow> nat \<Rightarrow> ('x, 'b) sovereignty_vault_scheme \<Rightarrow> ('x, 'b) sovereignty_vault_scheme" where
  "directory_deposit h i a sh s =
     (let t = s\<lparr>balances := (balances s)((i, a, h) \<mapsto> get_balance i a h s + sh)\<rparr> in
      if registered s h i then t
      else t\<lparr>holder_registered := (holder_registered s)((h, i) \<mapsto> True),
             holder_vaults := (holder_vaults s)((h, get_or 0 (holder_vault_count s) h) \<mapsto> i),
             holder_vault_count := (holder_vault_count s)(h \<mapsto> get_or 0 (holder_vault_count s) h + 1)\<rparr>)"

lemma deposit_steps_directory:
  assumes d: "directory t = directory s" and s1: "credit_pool i a n t = Ok (b1, s1)"
    and s2: "mint c i a sh h s1 = Ok (b2, s2)" and s3: "register_holder h i s2 = Ok (b3, s3)"
  shows "directory s3 = directory (directory_deposit h i a sh s)"
proof -
  have "directory s1 = directory s" using d by (simp add: credit_pool_effect [OF s1] directory_def)
  then have "directory s2 = directory (s\<lparr>balances := (balances s)((i, a, h) \<mapsto> get_balance i a h s + sh)\<rparr>)"
    by (simp add: mint_effect(1) [OF s2] directory_def emit_def get_balance_def)
  then show ?thesis
    by (auto simp: register_holder_effect [OF s3] directory_deposit_def directory_def registered_def Let_def)
qed

lemma deposit_stx_directory:
  assumes "deposit_stx h i n s = Ok (sh, s')"
  shows "directory s' = directory (directory_deposit h i ASSET_STX sh s)" and "supports_asset i ASSET_STX s"
proof -
  from assms obtain v ledger s1 s2 s3 b1 b2 b3 e where
    v: "vaults s i = Some v" "asset_in_mode (v_assets v) ASSET_STX"
    and s1: "credit_pool i ASSET_STX n (s\<lparr>stx_ledger := ledger\<rparr>) = Ok (b1, s1)"
    and s2: "mint (vault_contract s) i ASSET_STX sh h s1 = Ok (b2, s2)"
    and s3: "register_holder h i s2 = Ok (b3, s3)"
    and s': "s' = emit e s3"
    by (auto simp: deposit_stx_def rbind_Ok_iff split: option.splits if_splits; blast)
  show "directory s' = directory (directory_deposit h i ASSET_STX sh s)"
    unfolding s' directory_emit by (rule deposit_steps_directory [OF _ s1 s2 s3]) (simp add: directory_def)
  show "supports_asset i ASSET_STX s" using v by (simp add: supports_asset_def)
qed

lemma deposit_sbtc_directory:
  assumes "deposit_sbtc tt h i n p s = Ok (sh, s')"
  shows "directory s' = directory (directory_deposit h i ASSET_SBTC sh s)" and "supports_asset i ASSET_SBTC s"
proof -
  from assms obtain v w s1 s2 s3 b1 b2 b3 e where
    v: "vaults s i = Some v" "asset_in_mode (v_assets v) ASSET_SBTC"
    and s1: "credit_pool i ASSET_SBTC n (s\<lparr>world := w\<rparr>) = Ok (b1, s1)"
    and s2: "mint (vault_contract s) i ASSET_SBTC sh h s1 = Ok (b2, s2)"
    and s3: "register_holder h i s2 = Ok (b3, s3)"
    and s': "s' = emit e s3"
    by (auto simp: deposit_sbtc_def rbind_Ok_iff split: option.splits if_splits; blast)
  show "directory s' = directory (directory_deposit h i ASSET_SBTC sh s)"
    unfolding s' directory_emit by (rule deposit_steps_directory [OF _ s1 s2 s3]) (simp add: directory_def)
  show "supports_asset i ASSET_SBTC s" using v by (simp add: supports_asset_def)
qed

lemma directory_deposit_ok:
  assumes ok: "directory_ok s" and a: "supports_asset i a s"
  shows "directory_ok (directory_deposit h i a sh s)"
proof -
  let ?t = "directory_deposit h i a sh s"
  have same: "vaults ?t = vaults s" "next_vault_id ?t = next_vault_id s" "vault_configs ?t = vault_configs s"
      "owner_vault_count ?t = owner_vault_count s" "owner_vaults ?t = owner_vaults s"
    by (simp_all add: directory_deposit_def Let_def)
  have i: "i \<in> dom (vaults s)" using a by (auto simp: supports_asset_def split: option.splits)
  have r: "registered ?t p k \<longleftrightarrow> registered s p k \<or> (p = h \<and> k = i)" for p k
    by (auto simp: directory_deposit_def registered_def Let_def get_or_upd)
  have o: "owns ?t = owns s" by (simp add: owns_def fun_eq_iff same)
  have sup: "supports_asset k x ?t = supports_asset k x s" for k x by (simp add: supports_asset_def same)
  have b: "get_balance k x p ?t = (if k = i \<and> x = a \<and> p = h then get_balance i a h s + sh else get_balance k x p s)" for k x p
    by (simp add: directory_deposit_def get_balance_def Let_def get_or_upd)
  have "indexed (holder_vault_count ?t) (holder_vaults ?t) (registered ?t)"
  proof (cases "registered s h i")
    case True
    then have "registered ?t = registered s" by (auto simp: fun_eq_iff r)
    with True ok show ?thesis by (simp add: directory_ok_def directory_deposit_def)
  next
    case False
    from ok have "indexed (holder_vault_count s) (holder_vaults s) (registered s)" by (simp add: directory_ok_def)
    from indexed_cong [OF indexed_append [of _ _ "registered s", OF this False], of "registered ?t"] r False
    show ?thesis by (simp add: directory_deposit_def Let_def)
  qed
  with ok show ?thesis
    using i a by (auto simp: directory_ok_def same o sup b r split: if_splits)
qed

lemma redeemed_ok:
  assumes ok: "directory_ok s" and d: "directory s' = directory (s\<lparr>balances := (balances s)((i, a, h) \<mapsto> get_balance i a h s - sh)\<rparr>)"
  shows "directory_ok s'"
proof -
  let ?t = "s\<lparr>balances := (balances s)((i, a, h) \<mapsto> get_balance i a h s - sh)\<rparr>"
  have eqs: "owns ?t = owns s" "registered ?t = registered s" "supports_asset k x ?t = supports_asset k x s" for k x
    by (simp_all add: owns_def registered_def supports_asset_def fun_eq_iff)
  have le: "get_balance k x p ?t \<le> get_balance k x p s" for k x p
    by (simp add: get_balance_def get_or_upd)
  have "\<forall>k x p. 0 < get_balance k x p s \<longrightarrow> registered s p k \<and> supports_asset k x s"
    using ok unfolding directory_ok_def by (elim conjE) assumption
  then have held: "\<forall>k x p. 0 < get_balance k x p ?t \<longrightarrow> registered s p k \<and> supports_asset k x s"
  proof (intro allI impI)
    fix k x p assume "0 < get_balance k x p ?t"
    with le [of k x p] have "0 < get_balance k x p s" by linarith
    with \<open>\<forall>k x p. 0 < get_balance k x p s \<longrightarrow> _\<close> show "registered s p k \<and> supports_asset k x s" by simp
  qed
  have "directory_ok ?t"
    unfolding directory_ok_def eqs using ok [unfolded directory_ok_def]
    by (elim conjE, intro conjI held) simp_all
  with directory_ok_cong [OF d] show ?thesis by simp
qed

lemma burn_debit_directory:
  assumes "burn c i a sh h s = Ok (b1, s1)" and "debit_pool i a n s1 = Ok (b2, s2)"
  shows "directory s2 = directory (s\<lparr>balances := (balances s)((i, a, h) \<mapsto> get_balance i a h s - sh)\<rparr>)"
  using burn_effect(1) [OF assms(1)] debit_pool_effect [OF assms(2)] by (auto simp: directory_def emit_def)

lemma redeem_directory:
  assumes "redeem_stx h i sh s = Ok (n, s')"
  shows "directory s' = directory (s\<lparr>balances := (balances s)((i, ASSET_STX, h) \<mapsto> get_balance i ASSET_STX h s - sh)\<rparr>)"
proof -
  from assms obtain s1 s2 ledger b1 b2 e where s1: "burn (vault_contract s) i ASSET_STX sh h s = Ok (b1, s1)"
    and s2: "debit_pool i ASSET_STX n s1 = Ok (b2, s2)" and s': "s' = emit e (s2\<lparr>stx_ledger := ledger\<rparr>)"
    by (auto simp: redeem_stx_def rbind_Ok_iff split: option.splits if_splits; blast)
  have "directory s' = directory s2" by (simp add: s' directory_def emit_def)
  with burn_debit_directory [OF s1 s2] show ?thesis by simp
qed

lemma redeem_sbtc_directory:
  assumes "redeem_sbtc tt h i sh p s = Ok (n, s')"
  shows "directory s' = directory (s\<lparr>balances := (balances s)((i, ASSET_SBTC, h) \<mapsto> get_balance i ASSET_SBTC h s - sh)\<rparr>)"
proof -
  from assms obtain s1 s2 w b1 b2 e where s1: "burn (vault_contract s) i ASSET_SBTC sh h s = Ok (b1, s1)"
    and s2: "debit_pool i ASSET_SBTC n s1 = Ok (b2, s2)" and s': "s' = emit e (s2\<lparr>world := w\<rparr>)"
    by (auto simp: redeem_sbtc_def rbind_Ok_iff split: option.splits if_splits; blast)
  have "directory s' = directory s2" by (simp add: s' directory_def emit_def)
  with burn_debit_directory [OF s1 s2] show ?thesis by simp
qed

section \<open>The directory of every reachable state\<close>

lemma exec_directory_ok:
  assumes ok: "directory_ok s" and c: "\<not> is_protocol_contract s c" and e: "exec tt sd c k s = Ok s'"
  shows "directory_ok s'"
proof (cases "moves_funds k")
  case True
  note dep = directory_ok_cong [THEN iffD2, OF _ directory_deposit_ok [OF ok]]
  from True show ?thesis
    by (cases k rule: moves_funds.cases)
       (use e in \<open>auto intro: dep deposit_stx_directory deposit_sbtc_directory redeemed_ok [OF ok redeem_directory]
          redeemed_ok [OF ok redeem_sbtc_directory] directory_ok_cong [THEN iffD2, OF submit_directory ok]\<close>)
next
  case False
  have "\<not> reserved k" using reserved_fails [OF _ c] e by blast
  note kept = directory_ok_cong [THEN iffD2, OF _ ok]
  from e False \<open>\<not> reserved k\<close> show ?thesis
    by (cases k) (auto intro: lifecycle_ok [OF ok] create_vault_ok [OF ok] kept [OF admin_directory(1)]
        kept [OF admin_directory(2)] kept [OF admin_directory(3)] kept [OF admin_directory(4)]
        kept [OF registries_directory(1)] kept [OF registries_directory(2)] kept [OF registries_directory(3)]
        kept [OF registries_directory(4)] kept [OF registries_directory(5)] kept [OF registries_directory(6)]
        kept [OF guard_directory(1)] kept [OF guard_directory(2)] kept [OF guard_directory(3)]
        kept [OF wrappers_directory(1)] kept [OF wrappers_directory(2)])
qed

lemma step_directory_ok: "chain_step tt sd s s' \<Longrightarrow> directory_ok s \<Longrightarrow> directory_ok s'"
proof (induction rule: chain_step.induct)
  case (transaction s c k s')
  then show ?case by (blast intro: exec_directory_ok)
next
  case (new_block s h)
  then show ?case by (simp add: directory_ok_cong [of "s\<lparr>block_height := h\<rparr>" s])
next
  case (outside s l w)
  have "directory (s\<lparr>stx_ledger := l, world := w\<rparr>) = directory s" by (simp add: directory_def)
  from directory_ok_cong [OF this] outside show ?case by simp
qed

lemma deployed_directory_ok: "directory_ok (deployed_state dep cid h adm ledger w)"
  by (auto simp: directory_ok_def deployed_state_def owns_def [abs_def] registered_def [abs_def] indexed_empty get_balance_def)

lemma reachable_directory_ok: "reachable tt sd s \<Longrightarrow> directory_ok s"
  by (induction rule: reachable.induct) (auto intro: deployed_directory_ok step_directory_ok)

end
