(* ===== verification/Web_Create.thy ===== *)
theory Web_Create
  imports Web_Forms Vault_Index
begin

text \<open>
  Creating a treasury (apps/web/src/app/vault/create/page.tsx): the seven steps as a state machine
  driven by the widgets each step shows, and the one transaction it ends in. What the wallet is
  asked to sign is read back as a call of the contracts.
\<close>

section \<open>A wallet request as a call of the vault contract\<close>

definition call_of_request :: "string \<Rightarrow> web_arg list \<Rightarrow> call option" where
  "call_of_request fname args =
     (if fname = ''create-vault'' then
        (case args of
           [CvStringUtf8 n, CvUint p, CvUint a, CvBool od, CvUint me, CvUint ms, CvUint mb, CvUint sl, CvUint mi,
            CvBool au, CvUint cd] \<Rightarrow>
             Some (CreateVault n (nat p) (nat a) od (nat me) (nat ms) (nat mb) (nat sl) (nat mi) au (nat cd))
         | _ \<Rightarrow> None)
      else if fname = ''set-risk-config'' then
        (case args of
           [CvUint v, CvUint me, CvUint ms, CvUint mb, CvUint sl, CvUint mi, CvBool au, CvUint cd] \<Rightarrow>
             Some (SetRiskConfig (nat v) (nat me) (nat ms) (nat mb) (nat sl) (nat mi) au (nat cd))
         | _ \<Rightarrow> None)
      else if fname = ''set-vault-config'' then
        (case args of [CvUint v, CvStringUtf8 n, CvBool od] \<Rightarrow> Some (SetVaultConfig (nat v) n od) | _ \<Rightarrow> None)
      else if fname = ''deposit-stx'' then
        (case args of [CvUint v, CvUint n] \<Rightarrow> Some (DepositStx (nat v) (nat n)) | _ \<Rightarrow> None)
      else if fname = ''deposit-sbtc'' then
        (case args of [CvUint v, CvUint n, CvContractPrincipal a c] \<Rightarrow> Some (DepositSbtc (nat v) (nat n) (a @ ''.'' @ c))
         | _ \<Rightarrow> None)
      else if fname = ''redeem-stx'' then
        (case args of [CvUint v, CvUint n] \<Rightarrow> Some (RedeemStx (nat v) (nat n)) | _ \<Rightarrow> None)
      else if fname = ''redeem-sbtc'' then
        (case args of [CvUint v, CvUint n, CvContractPrincipal a c] \<Rightarrow> Some (RedeemSbtc (nat v) (nat n) (a @ ''.'' @ c))
         | _ \<Rightarrow> None)
      else if fname = ''pause-vault'' then (case args of [CvUint v] \<Rightarrow> Some (PauseVault (nat v)) | _ \<Rightarrow> None)
      else if fname = ''unpause-vault'' then (case args of [CvUint v] \<Rightarrow> Some (UnpauseVault (nat v)) | _ \<Rightarrow> None)
      else None)"

section \<open>The state of the page\<close>

record create_state =
  cs_step :: int
  cs_purposeId :: "int option"
  cs_name :: string
  cs_nameEdited :: bool
  cs_mode :: int
  cs_openDeposits :: bool
  cs_values :: risk_form
  cs_errors :: risk_errors
  cs_accepted :: bool
  cs_createdId :: "int option"
  cs_limits :: "protocol_limits option"

definition STEPS :: "string list" where
  "STEPS = [''Purpose'', ''Name'', ''Assets'', ''Risk'', ''Autonomy'', ''Review'', ''Create'']"

definition NAME_MAX :: nat where
  "NAME_MAX = 48"

definition initial_create :: create_state where
  "initial_create =
     \<lparr> cs_step = 0, cs_purposeId = None, cs_name = [], cs_nameEdited = False, cs_mode = 1, cs_openDeposits = False,
       cs_values = valuesFromDefaults (vp_defaults (PURPOSES ! 5)), cs_errors = [], cs_accepted = False,
       cs_createdId = None, cs_limits = None \<rparr>"

definition name_valid :: "string \<Rightarrow> bool" where
  "name_valid name \<longleftrightarrow> 1 \<le> length (trim name) \<and> length (trim name) \<le> NAME_MAX"

definition create_parsed :: "create_state \<Rightarrow> (risk_errors + parsed_risk) option" where
  "create_parsed st = map_option (parseRisk (cs_values st)) (cs_limits st)"

definition wrong_network :: "'w web \<Rightarrow> string option \<Rightarrow> bool" where
  "wrong_network sv address =
     (case address of Some a \<Rightarrow> a \<noteq> [] \<and> network_text (networkOfAddress a) \<noteq> NETWORK sv | None \<Rightarrow> False)"

definition choosePurpose :: "int \<Rightarrow> create_state \<Rightarrow> create_state" where
  "choosePurpose i st =
     (let p = purposeById i in
      st\<lparr>cs_purposeId := Some i, cs_values := valuesFromDefaults (vp_defaults p),
         cs_openDeposits := rd_openDeposits (vp_defaults p), cs_accepted := False, cs_errors := [],
         cs_name := (if \<not> cs_nameEdited st then vp_suggestedName p else cs_name st)\<rparr>)"

definition create_next :: "create_state \<Rightarrow> create_state" where
  "create_next st =
     (if cs_step st = 3 then
        (case create_parsed st of
           None \<Rightarrow> st
         | Some (Inl es) \<Rightarrow> st\<lparr>cs_errors := es\<rparr>
         | Some (Inr _) \<Rightarrow> st\<lparr>cs_errors := [], cs_step := min (cs_step st + 1) 5\<rparr>)
      else st\<lparr>cs_step := min (cs_step st + 1) 5\<rparr>)"

definition can_next :: "create_state \<Rightarrow> bool" where
  "can_next st \<longleftrightarrow>
     (cs_step st = 0 \<and> cs_purposeId st \<noteq> None) \<or> (cs_step st = 1 \<and> name_valid (cs_name st)) \<or> cs_step st = 2 \<or>
     (cs_step st = 3 \<and> cs_limits st \<noteq> None) \<or>
     (cs_step st = 4 \<and> (\<not> rf_autonomous (cs_values st) \<or> cs_accepted st))"

definition can_create :: "'w web \<Rightarrow> string option \<Rightarrow> create_state \<Rightarrow> bool" where
  "can_create sv address st \<longleftrightarrow>
     (\<exists>p. create_parsed st = Some (Inr p)) \<and> name_valid (cs_name st) \<and> cs_purposeId st \<noteq> None \<and>
     \<not> wrong_network sv address"

text \<open>The arguments of the call, when \<open>create\<close> gets past its guards.\<close>

definition create_call :: "create_state \<Rightarrow> (string \<times> web_arg list) option" where
  "create_call st =
     (case (create_parsed st, cs_purposeId st) of
        (Some (Inr v), Some i) \<Rightarrow>
          Some (''create-vault'',
            [CvStringUtf8 (trim (cs_name st)), CvUint (vp_id (purposeById i)), CvUint (cs_mode st),
             CvBool (cs_openDeposits st), CvUint (pr_maxExposureBps v), CvUint (pr_maxStxTx v), CvUint (pr_maxSbtcTx v),
             CvUint (pr_maxSlippageBps v), CvUint (pr_minIdleBps v), CvBool (pr_autonomous v), CvUint (pr_cooldownBlocks v)])
      | _ \<Rightarrow> None)"

section \<open>What the user can do\<close>

datatype create_event =
    Choose int | EditName string | PickMode int | PickDepositors bool | EditRisk risk_form
  | PickAutonomy bool | Accept bool | Continue | GoBack | Create | BackToReview
  | LimitsRead protocol_limits | VaultCreated int

text \<open>
  Each event belongs to the widgets of its step; an event whose widget is not shown or disabled
  changes nothing. The fields of step 3 never change the autonomy flag, and the limits are read
  once, when the page opens.
\<close>

fun create_step :: "'w web \<Rightarrow> string option \<Rightarrow> create_event \<Rightarrow> create_state \<Rightarrow> create_state" where
  "create_step sv a (Choose i) st =
     (if cs_step st = 0 \<and> i \<in> set (map vp_id PURPOSES) then choosePurpose i st else st)"
| "create_step sv a (EditName n) st = (if cs_step st = 1 then st\<lparr>cs_name := n, cs_nameEdited := True\<rparr> else st)"
| "create_step sv a (PickMode m) st =
     (if cs_step st = 2 \<and> m \<in> set (map am_id ASSET_MODES) then st\<lparr>cs_mode := m\<rparr> else st)"
| "create_step sv a (PickDepositors b) st = (if cs_step st = 2 then st\<lparr>cs_openDeposits := b\<rparr> else st)"
| "create_step sv a (EditRisk v) st =
     (if cs_step st = 3 then st\<lparr>cs_values := v\<lparr>rf_autonomous := rf_autonomous (cs_values st)\<rparr>\<rparr> else st)"
| "create_step sv a (PickAutonomy b) st =
     (if cs_step st = 4 then
        st\<lparr>cs_values := (cs_values st)\<lparr>rf_autonomous := b\<rparr>, cs_accepted := (if \<not> b then False else cs_accepted st)\<rparr>
      else st)"
| "create_step sv a (Accept b) st =
     (if cs_step st = 4 \<and> rf_autonomous (cs_values st) then st\<lparr>cs_accepted := b\<rparr> else st)"
| "create_step sv a Continue st = (if cs_step st < 5 \<and> can_next st then create_next st else st)"
| "create_step sv a GoBack st =
     (if cs_step st < 6 \<and> cs_step st \<noteq> 0 then st\<lparr>cs_step := max 0 (cs_step st - 1)\<rparr> else st)"
| "create_step sv a Create st =
     (if cs_step st = 5 \<and> can_create sv a st \<and> create_call st \<noteq> None then st\<lparr>cs_step := 6\<rparr> else st)"
| "create_step sv a BackToReview st = (if cs_step st = 6 then st\<lparr>cs_step := 5\<rparr> else st)"
| "create_step sv a (LimitsRead l) st = (if cs_limits st = None then st\<lparr>cs_limits := Some l\<rparr> else st)"
| "create_step sv a (VaultCreated i) st = (if cs_step st = 6 then st\<lparr>cs_createdId := Some i\<rparr> else st)"

inductive create_reachable :: "'w web \<Rightarrow> string option \<Rightarrow> create_state \<Rightarrow> bool" for sv a where
  opened: "create_reachable sv a initial_create"
| acted: "create_reachable sv a st \<Longrightarrow> create_reachable sv a (create_step sv a e st)"

section \<open>The invariant of the page\<close>

definition risk_ready :: "create_state \<Rightarrow> bool" where
  "risk_ready st \<longleftrightarrow> (\<exists>p. create_parsed st = Some (Inr p))"

definition create_ok :: "create_state \<Rightarrow> bool" where
  "create_ok st \<longleftrightarrow>
     0 \<le> cs_step st \<and> cs_step st \<le> 6 \<and> cs_mode st \<in> {1, 2, 3} \<and>
     (\<forall>i. cs_purposeId st = Some i \<longrightarrow> i \<in> set (map vp_id PURPOSES)) \<and>
     (1 \<le> cs_step st \<longrightarrow> cs_purposeId st \<noteq> None) \<and> (2 \<le> cs_step st \<longrightarrow> name_valid (cs_name st)) \<and>
     (4 \<le> cs_step st \<longrightarrow> risk_ready st) \<and>
     (5 \<le> cs_step st \<longrightarrow> rf_autonomous (cs_values st) \<longrightarrow> cs_accepted st)"

lemma parse_autonomy_Inr:
  "parseRisk v l = Inr p \<Longrightarrow> parseRisk (v\<lparr>rf_autonomous := b\<rparr>) l = Inr (p\<lparr>pr_autonomous := b\<rparr>)"
  by (simp add: parseRisk_Inr_iff risk_within_def)

lemma parse_autonomy:
  "(\<exists>p. parseRisk (v\<lparr>rf_autonomous := b\<rparr>) l = Inr p) \<longleftrightarrow> (\<exists>p. parseRisk v l = Inr p)"
proof
  assume "\<exists>p. parseRisk (v\<lparr>rf_autonomous := b\<rparr>) l = Inr p"
  then obtain p where "parseRisk (v\<lparr>rf_autonomous := b\<rparr>) l = Inr p" ..
  from parse_autonomy_Inr [OF this, of "rf_autonomous v"]
  have "parseRisk v l = Inr (p\<lparr>pr_autonomous := rf_autonomous v\<rparr>)" by simp
  then show "\<exists>p. parseRisk v l = Inr p" ..
qed (blast intro: parse_autonomy_Inr)

lemma risk_ready_autonomy:
  "risk_ready (st\<lparr>cs_values := (cs_values st)\<lparr>rf_autonomous := b\<rparr>, cs_accepted := c\<rparr>) \<longleftrightarrow> risk_ready st"
  "risk_ready (st\<lparr>cs_values := (cs_values st)\<lparr>rf_autonomous := b\<rparr>\<rparr>) \<longleftrightarrow> risk_ready st"
  using parse_autonomy by (cases "cs_limits st"; simp add: risk_ready_def create_parsed_def)+

lemma risk_ready_upd [simp]:
  "risk_ready (st\<lparr>cs_step := n\<rparr>) = risk_ready st"
  "risk_ready (st\<lparr>cs_errors := es\<rparr>) = risk_ready st"
  "risk_ready (st\<lparr>cs_accepted := b\<rparr>) = risk_ready st"
  "risk_ready (st\<lparr>cs_createdId := i\<rparr>) = risk_ready st"
  by (simp_all add: risk_ready_def create_parsed_def)

lemma create_next_ok:
  assumes ok: "create_ok st" and nx: "can_next st"
  shows "create_ok (create_next st)"
proof (cases "cs_step st = 3")
  case True
  show ?thesis
  proof (cases "create_parsed st")
    case None
    with True ok show ?thesis by (simp add: create_next_def)
  next
    case (Some r)
    show ?thesis
    proof (cases r)
      case (Inl es)
      with Some True ok show ?thesis by (simp add: create_next_def create_ok_def)
    next
      case (Inr p)
      with Some have "risk_ready st" by (simp add: risk_ready_def)
      with Inr Some True ok show ?thesis by (simp add: create_next_def create_ok_def)
    qed
  qed
next
  case False
  with nx consider "cs_step st = 0" "cs_purposeId st \<noteq> None" | "cs_step st = 1" "name_valid (cs_name st)"
    | "cs_step st = 2" | "cs_step st = 4" "rf_autonomous (cs_values st) \<longrightarrow> cs_accepted st"
    unfolding can_next_def by blast
  then show ?thesis using ok by cases (simp_all add: create_next_def create_ok_def)
qed

lemma choosePurpose_ok:
  assumes ok: "create_ok st" and "cs_step st = 0" and "i \<in> set (map vp_id PURPOSES)"
  shows "create_ok (choosePurpose i st)"
  using assms by (simp add: create_ok_def choosePurpose_def Let_def)

lemma create_step_ok:
  assumes ok: "create_ok st"
  shows "create_ok (create_step sv a e st)"
proof (cases e)
  case (Choose i)
  with ok choosePurpose_ok [OF ok] show ?thesis by simp
next
  case Continue
  with ok create_next_ok [OF ok] show ?thesis by simp
next
  case (PickAutonomy b)
  with ok show ?thesis by (simp add: create_ok_def risk_ready_autonomy)
next
  case (LimitsRead l)
  with ok show ?thesis by (auto simp: create_ok_def risk_ready_def create_parsed_def)
next
  case (PickMode m)
  with ok show ?thesis by (auto simp: create_ok_def ASSET_MODES_def)
next
  case GoBack
  with ok show ?thesis by (auto simp: create_ok_def max_def)
qed (use ok in \<open>simp_all add: create_ok_def\<close>)

lemma create_reachable_ok: "create_reachable sv a st \<Longrightarrow> create_ok st"
proof (induction rule: create_reachable.induct)
  case opened
  show ?case by (simp add: create_ok_def initial_create_def)
next
  case (acted st e)
  show ?case by (rule create_step_ok) (rule acted)
qed

section \<open>What is signed\<close>

text \<open>
  At the review step an enabled Create button sends a call the contracts accept, with the limits
  the page read still in force, and never one that enables autonomous mode without consent.
\<close>

lemma create_vault_succeeds:
  assumes "\<not> protocol_paused s" "nm \<noteq> []" "p \<le> 5" "1 \<le> a" "a \<le> 3" "directory_ok s"
    "params_valid me ms mb sl mi cd s" "next_vault_id s + 1 < u128" "get_or 0 (owner_vault_count s) c + 1 < u128"
  shows "\<exists>s'. create_vault c nm p a od me ms mb sl mi au cd s = Ok (next_vault_id s, s')"
proof -
  let ?t = "s\<lparr>vaults := (vaults s)(next_vault_id s \<mapsto> \<lparr>v_owner = c, v_name = nm, v_purpose = p, v_assets = a,
        v_open_deposits = od, v_paused = False, v_created_at = block_height s\<rparr>),
      owner_vaults := (owner_vaults s)((c, get_or 0 (owner_vault_count s) c) \<mapsto> next_vault_id s),
      owner_vault_count := (owner_vault_count s)(c \<mapsto> get_or 0 (owner_vault_count s) c + 1),
      next_vault_id := next_vault_id s + 1\<rparr>"
  have "next_vault_id s \<notin> dom (vault_configs s)" using assms(6) by (simp add: directory_ok_def)
  moreover have "params_valid me ms mb sl mi cd ?t" "vault_contract ?t = vault_contract s"
    using assms(7) by (simp_all add: params_valid_def vault_contract_def contract_of_def)
  ultimately have "\<exists>u. init_vault_config (vault_contract s) (next_vault_id s) me ms mb sl mi au cd ?t = Ok (True, u)"
    by (auto simp: init_vault_config_def)
  with assms show ?thesis
    by (auto simp: create_vault_def Let_def uadd_def rbind_Ok_iff)
qed

lemma create_accepted:
  assumes r: "create_reachable sv (Some addr) st" and step: "cs_step st = 5" and can: "can_create sv (Some addr) st"
    and lim: "cs_limits st = Some (limits_of s)" and g: "limits_ok s" "protocol_min_cooldown_blocks s \<le> 2 ^ 53"
    and d: "directory_ok s" and np: "\<not> protocol_paused s"
    and fits: "next_vault_id s + 1 < u128" "get_or 0 (owner_vault_count s) addr + 1 < u128"
  shows "\<exists>fname args k s' v. create_call st = Some (fname, args) \<and> call_of_request fname args = Some k \<and>
     exec tt sd addr k s = Ok s' \<and> vaults s' (next_vault_id s) = Some v \<and> v_owner v = addr \<and>
     v_name v = trim (cs_name st) \<and> (rf_autonomous (cs_values st) \<longrightarrow> cs_accepted st)"
proof -
  from create_reachable_ok [OF r] have ok: "create_ok st" .
  from can lim obtain p i where p: "parseRisk (cs_values st) (limits_of s) = Inr p" and i: "cs_purposeId st = Some i"
    and nm: "name_valid (cs_name st)" by (auto simp: can_create_def create_parsed_def)
  let ?n = "trim (cs_name st)" and ?q = "nat (vp_id (purposeById i))" and ?a = "nat (cs_mode st)"
  let ?k = "CreateVault ?n ?q ?a (cs_openDeposits st) (nat (pr_maxExposureBps p)) (nat (pr_maxStxTx p))
     (nat (pr_maxSbtcTx p)) (nat (pr_maxSlippageBps p)) (nat (pr_minIdleBps p)) (pr_autonomous p) (nat (pr_cooldownBlocks p))"
  have cc: "create_call st = Some (''create-vault'',
            [CvStringUtf8 ?n, CvUint (vp_id (purposeById i)), CvUint (cs_mode st),
             CvBool (cs_openDeposits st), CvUint (pr_maxExposureBps p), CvUint (pr_maxStxTx p), CvUint (pr_maxSbtcTx p),
             CvUint (pr_maxSlippageBps p), CvUint (pr_minIdleBps p), CvBool (pr_autonomous p), CvUint (pr_cooldownBlocks p)])"
    by (simp add: create_call_def create_parsed_def lim p i)
  have q: "?q \<le> 5" using purpose_range [OF purposeById_mem [of i]] by linarith
  have a: "1 \<le> ?a" "?a \<le> 3" using ok by (auto simp: create_ok_def)
  have ne: "?n \<noteq> []" using nm by (auto simp: name_valid_def)
  from create_vault_succeeds [OF np ne q a d params_valid_of_form [OF p g] fits]
  obtain s' where s': "create_vault addr ?n ?q ?a (cs_openDeposits st) (nat (pr_maxExposureBps p)) (nat (pr_maxStxTx p))
     (nat (pr_maxSbtcTx p)) (nat (pr_maxSlippageBps p)) (nat (pr_minIdleBps p)) (pr_autonomous p)
     (nat (pr_cooldownBlocks p)) s = Ok (next_vault_id s, s')" by blast
  then have "\<exists>v. vaults s' (next_vault_id s) = Some v \<and> v_owner v = addr \<and> v_name v = ?n"
    by (rule create_vault_effect) (auto simp: directory_def)
  moreover have "exec tt sd addr ?k s = Ok s'" using s' by simp
  moreover have "rf_autonomous (cs_values st) \<longrightarrow> cs_accepted st" using ok step by (simp add: create_ok_def)
  ultimately show ?thesis using cc by (auto simp: call_of_request_def)
qed

end
