(* ===== verification/Web_Derive.thy ===== *)
theory Web_Derive
  imports Web_Reader
begin

text \<open>
  What the pages compute from an overview (apps/web/src/lib/derive.ts), and the share calculator of
  the home page (apps/web/src/components/home/ShareCalculator.tsx) against the contract's formula.
\<close>

section \<open>The allocation of a pool\<close>

definition WEB_BPS :: int where
  "WEB_BPS = 10000"

record strategy_share =
  sh_strategyId :: int
  sh_name :: string
  sh_amount :: int
  sh_bps :: int

record pool_allocation =
  pa_asset :: asset
  pa_total :: int
  pa_idleBps :: int
  pa_idle :: int
  pa_strategies :: "strategy_share list"
  pa_deployedBps :: int

definition poolAllocation :: "vault_overview \<Rightarrow> asset \<Rightarrow> pool_allocation option" where
  "poolAllocation o' asset =
     (case vo_pools o' asset of
        None \<Rightarrow> None
      | Some pool \<Rightarrow>
          if ap_total pool \<le> 0 then None
          else Some
            \<lparr> pa_asset = asset, pa_total = ap_total pool,
              pa_idleBps = js_Number (quot_int (ap_idle pool * WEB_BPS) (ap_total pool)),
              pa_idle = ap_idle pool,
              pa_strategies = map (\<lambda>x.
                let amount = (case List.find (\<lambda>a. sa_strategyId a = ss_strategyId x \<and> sa_asset a = asset) (vo_allocations o') of
                                Some a \<Rightarrow> sa_amount a | None \<Rightarrow> 0) in
                \<lparr> sh_strategyId = ss_strategyId x, sh_name = ss_name x, sh_amount = amount,
                  sh_bps = js_Number (quot_int (amount * WEB_BPS) (ap_total pool)) \<rparr>)
                (filter (\<lambda>x. ss_asset x = asset \<and> ss_active x) (vo_strategies o')),
              pa_deployedBps = js_Number (quot_int ((ap_total pool - ap_idle pool) * WEB_BPS) (ap_total pool)) \<rparr>)"

definition ownershipAfterDeposit :: "int \<Rightarrow> int \<Rightarrow> int \<Rightarrow> int" where
  "ownershipAfterDeposit currentShares supply minted =
     (let newSupply = supply + minted in
      if newSupply = 0 then 0 else quot_int ((currentShares + minted) * WEB_BPS) newSupply)"

definition vaultAssets :: "vault_overview \<Rightarrow> asset list" where
  "vaultAssets o' = supportedAssets (vm_assets (vo_meta o'))"

definition viewerHoldsShares :: "vault_overview \<Rightarrow> bool" where
  "viewerHoldsShares o' \<longleftrightarrow>
     list_ex (\<lambda>a. case vo_positions o' a of Some p \<Rightarrow> 0 < wp_shares p | None \<Rightarrow> False) [''STX'', ''SBTC'']"

lemma quot_int_nonneg: "0 \<le> a \<Longrightarrow> 0 < b \<Longrightarrow> quot_int a b = a div b"
  by (simp add: quot_int_def)

text \<open>The two shares of a pool that are shown leave at most one basis point unaccounted for.\<close>

lemma bps_split:
  fixes i t :: int
  assumes "0 \<le> i" "i \<le> t" "0 < t"
  shows "i * 10000 div t + (t - i) * 10000 div t \<in> {9999, 10000}"
proof -
  let ?a = "i * 10000 div t" and ?b = "(t - i) * 10000 div t"
  have low: "x div t * t \<le> x" for x
    using div_mult_mod_eq [of x t] pos_mod_sign [OF assms(3), of x] by linarith
  have high: "x < (x div t + 1) * t" for x
    using div_mult_mod_eq [of x t] pos_mod_bound [OF assms(3), of x] unfolding distrib_right by linarith
  have "?a * t \<le> i * 10000" "i * 10000 < (?a + 1) * t" "?b * t \<le> (t - i) * 10000" "(t - i) * 10000 < (?b + 1) * t"
    using low high by blast+
  then have "(?a + ?b) * t \<le> 10000 * t" "10000 * t < (?a + ?b + 2) * t" by (simp_all add: algebra_simps)
  then have "?a + ?b \<le> 10000" "10000 < ?a + ?b + 2" using assms(3) by (simp_all add: mult_le_cancel_right mult_less_cancel_right)
  then show ?thesis by auto
qed

lemma js_Number_small: "0 \<le> i \<Longrightarrow> i \<le> 10000 \<Longrightarrow> js_Number i = i"
  by (rule js_Number_safe) (simp add: safe_int_def)

lemma pool_allocation_split:
  assumes "poolAllocation o' a = Some p" and "vo_pools o' a = Some pool" and "0 \<le> ap_idle pool" "ap_idle pool \<le> ap_total pool"
  shows "0 \<le> pa_idleBps p \<and> 0 \<le> pa_deployedBps p \<and> pa_idleBps p + pa_deployedBps p \<in> {9999, 10000}"
proof -
  let ?i = "ap_idle pool" and ?t = "ap_total pool"
  have t: "0 < ?t" and p: "pa_idleBps p = js_Number (quot_int (?i * 10000) ?t)"
      "pa_deployedBps p = js_Number (quot_int ((?t - ?i) * 10000) ?t)"
    using assms(1,2) by (auto simp: poolAllocation_def WEB_BPS_def split: if_splits)
  have nn: "0 \<le> ?i * 10000 div ?t" "0 \<le> (?t - ?i) * 10000 div ?t"
    using assms(3,4) t by (simp_all add: pos_imp_zdiv_nonneg_iff)
  have s: "?i * 10000 div ?t + (?t - ?i) * 10000 div ?t \<in> {9999, 10000}" by (rule bps_split [OF assms(3,4) t])
  then have "?i * 10000 div ?t \<le> 10000" "(?t - ?i) * 10000 div ?t \<le> 10000" using nn by auto
  with nn have "pa_idleBps p = ?i * 10000 div ?t" "pa_deployedBps p = (?t - ?i) * 10000 div ?t"
    using p assms(3,4) t by (simp_all add: quot_int_nonneg js_Number_small)
  with s nn show ?thesis by simp
qed

section \<open>The share calculator\<close>

text \<open>\<^verbatim>\<open>/^\d{1,15}$/\<close> on the trimmed text.\<close>

definition toInt :: "string \<Rightarrow> int option" where
  "toInt v = (let t = trim v in
     if 1 \<le> length t \<and> length t \<le> 15 \<and> list_all is_digit t then Some (int (digits_val t)) else None)"

datatype calculation =
    CalcInvalid | CalcZero | CalcInsolvent | CalcTiny
  | CalcOk int "string option" string bool

definition calculate :: "string \<Rightarrow> string \<Rightarrow> string \<Rightarrow> calculation" where
  "calculate assets supply deposit =
     (case (toInt assets, toInt supply, toInt deposit) of
        (Some tot, Some spl, Some amt) \<Rightarrow>
          if amt = 0 then CalcZero
          else if spl = 0 then (if tot = 0 then CalcOk amt None ''100.00'' True else CalcInsolvent)
          else if tot = 0 then CalcInsolvent
          else
            (let shares = quot_int (amt * spl) tot in
             if shares = 0 then CalcTiny
             else
               (let newSupply = spl + shares; own = quot_int (shares * 10000) newSupply;
                    priceScaled = quot_int (tot * 10000) spl;
                    price = int_text (quot_int priceScaled 10000) @ ''.'' @
                      pad_start 4 (CHR ''0'') (int_text (rem_int priceScaled 10000)) in
                CalcOk shares (Some price)
                  (int_text (quot_int own 100) @ ''.'' @ pad_start 2 (CHR ''0'') (int_text (rem_int own 100))) False))
      | _ \<Rightarrow> CalcInvalid)"

text \<open>What the contract's formula answers for the same numbers, as one of the calculator's cases.\<close>

fun outcome_of :: "nat resp \<Rightarrow> calculation \<Rightarrow> bool" where
  "outcome_of (Ok n) c \<longleftrightarrow> (\<exists>price own first. c = CalcOk (int n) price own first)"
| "outcome_of (Err e) c \<longleftrightarrow> (e = 104 \<and> c = CalcZero) \<or> (e = 116 \<and> c = CalcInsolvent) \<or> (e = 115 \<and> c = CalcTiny)"
| "outcome_of Abort c \<longleftrightarrow> False"

lemma digits_val_bound: "list_all is_digit t \<Longrightarrow> digits_val t < 10 ^ length t"
proof (induction t rule: rev_induct)
  case Nil
  then show ?case by (simp add: digits_val_def)
next
  case (snoc c t)
  then have "digits_val t + 1 \<le> 10 ^ length t" by simp
  moreover have "digit_val c < 10" using snoc.prems by (auto simp: is_digit_def digit_val_def)
  ultimately have "10 * digits_val t + digit_val c < 10 * 10 ^ length t" by linarith
  then show ?case by (simp add: digits_val_snoc)
qed

lemma toInt_range:
  assumes "toInt v = Some n"
  shows "0 \<le> n \<and> n < 10 ^ 15"
proof -
  from assms have d: "list_all is_digit (trim v)" "length (trim v) \<le> 15" and n: "n = int (digits_val (trim v))"
    by (auto simp: toInt_def Let_def split: if_splits)
  have "digits_val (trim v) < 10 ^ 15"
    using digits_val_bound [OF d(1)] power_increasing [OF d(2), of "10::nat"] by simp
  with n show ?thesis by simp
qed

text \<open>
  On every valid input the calculator gives the contract's answer, except for the minimum of a
  first deposit, which it does not have (the contract is asked with minimum 0).
\<close>

lemma calculator_agrees:
  assumes t: "toInt assets = Some t" and s: "toInt supply = Some s" and a: "toInt deposit = Some a"
  shows "outcome_of (compute_deposit_shares (nat s) (nat t) (nat a) 0) (calculate assets supply deposit)"
proof -
  have r: "0 \<le> t" "0 \<le> s" "0 \<le> a" "a < 10 ^ 15" "s < 10 ^ 15" using toInt_range [OF t] toInt_range [OF s] toInt_range [OF a] by auto
  have "nat a * nat s \<le> 10 ^ 15 * 10 ^ 15" by (intro mult_mono) (use r in \<open>simp_all add: nat_le_iff\<close>)
  then have fits: "nat a * nat s < u128" by (simp add: u128_def)
  show ?thesis
  proof (cases "a = 0 \<or> s = 0 \<or> t = 0")
    case True
    with r t s a show ?thesis by (auto simp: calculate_def compute_deposit_shares_def)
  next
    case False
    with r have pos: "0 < a" "0 < s" "0 < t" by auto
    have q: "quot_int (a * s) t = int (nat a * nat s div nat t)"
      using pos by (simp add: quot_int_def zdiv_int)
    show ?thesis
      using pos fits t s a q
      by (auto simp: calculate_def compute_deposit_shares_def umul_def udiv_def Let_def)
  qed
qed

end
