(* ===== verification/Web_Discovery.thy ===== *)
theory Web_Discovery
  imports Web_Reader Vault_Index
begin

text \<open>
  \<^verbatim>\<open>getOwnerVaultIds\<close> and \<^verbatim>\<open>getHolderVaultIds\<close> of \<^verbatim>\<open>onchain.ts\<close> against the contracts: the ids
  the client reads from the on-chain indexes are exactly the user's vaults, each once.
\<close>

lemma safe_nat: "n \<le> 2 ^ 53 \<Longrightarrow> js_Number (int n) = int n"
  by (rule js_Number_safe) (simp add: safe_int_def)

lemma io_lift_app: "io_lift r w = (r, w)"
  by (simp add: io_lift_def)

lemma index_answers:
  assumes ch: "web_chain_answers sv s w" and ok: "indexed cnt idx R"
    and cnt: "web_answer s ''sovereignty-vault-v7'' cf [ClPrincipal who] who = Inr (uint_json (get_or 0 cnt who))"
    and idx: "\<And>i. web_answer s ''sovereignty-vault-v7'' f [ClPrincipal who, ClUint (int i)] who =
      Inr (option_json (map_option uint_json (idx (who, i))))"
    and bound: "get_or 0 cnt who \<le> 2 ^ 53" "\<And>i. R who i \<Longrightarrow> i \<le> 2 ^ 53"
  shows "indexedIds sv cf f who w = (Inr (map int (map (\<lambda>j. the (idx (who, j))) [0..<get_or 0 cnt who])), w)"
proof -
  let ?n = "get_or 0 cnt who"
  have "idx (who, j) = Some (the (idx (who, j))) \<and> the (idx (who, j)) \<le> 2 ^ 53" if j: "j < ?n" for j
  proof -
    have "idx (who, j) \<noteq> None" using ok j unfolding indexed_def by blast
    then obtain i where i: "idx (who, j) = Some i" by blast
    with ok have "R who i" unfolding indexed_def by blast
    with bound(2) i show ?thesis by simp
  qed
  then have each: "io_bind (vaultRead sv f [ClPrincipal who, ClUint (int j)] (Some who)) (\<lambda>x.
         io_lift (js_try (js_get x ''value'') (\<lambda>v.
           if truthy v then js_try (js_try (js_get v ''value'') to_number) (\<lambda>n. Inr (Some n)) else Inr None))) w
       = (Inr (Some (int (the (idx (who, j))))), w)" if j: "j \<in> set [0..<?n]" for j
  proof -
    from j obtain i where i: "idx (who, j) = Some i" "i \<le> 2 ^ 53"
      using \<open>\<And>j. j < ?n \<Longrightarrow> _\<close> by fastforce
    have "int j < 2 ^ 128" using j bound(1) by simp
    with i safe_nat [OF i(2)] show ?thesis
      by (simp add: io_lift_result vault_read_answer [OF ch] arg_ok_def idx json_defs)
  qed
  have all: "io_map (\<lambda>j. io_bind (vaultRead sv f [ClPrincipal who, ClUint (int j)] (Some who)) (\<lambda>x.
         io_lift (js_try (js_get x ''value'') (\<lambda>v.
           if truthy v then js_try (js_try (js_get v ''value'') to_number) (\<lambda>n. Inr (Some n)) else Inr None))))
       [0..<?n] w = (Inr (map (\<lambda>j. Some (int (the (idx (who, j))))) [0..<?n]), w)"
    by (rule io_map_constant) (rule each)
  have "vaultRead sv cf [ClPrincipal who] (Some who) w = (Inr (uint_json ?n), w)"
    by (simp add: vault_read_answer [OF ch] arg_ok_def cnt)
  moreover have "js_try (js_get (uint_json ?n) ''value'') to_number = Inr (int ?n)"
    using safe_nat [OF bound(1)] by (simp add: json_defs)
  ultimately show ?thesis
    unfolding indexedIds_def by (simp add: io_bind_app io_lift_app io_return_app all o_def)
qed

lemma index_complete:
  assumes "web_chain_answers sv s w" "indexed cnt idx R"
    and "web_answer s ''sovereignty-vault-v7'' cf [ClPrincipal who] who = Inr (uint_json (get_or 0 cnt who))"
    and "\<And>i. web_answer s ''sovereignty-vault-v7'' f [ClPrincipal who, ClUint (int i)] who =
      Inr (option_json (map_option uint_json (idx (who, i))))"
    and "get_or 0 cnt who \<le> 2 ^ 53" "\<And>i. R who i \<Longrightarrow> i \<le> 2 ^ 53"
  shows "\<exists>ids. indexedIds sv cf f who w = (Inr (map int ids), w) \<and> distinct ids \<and> set ids = {i. R who i}"
  using index_answers [OF assms] indexed_listing [OF assms(2), of who] by blast

lemma listing_within:
  assumes "indexed cnt idx R" and "\<And>i. R p i \<Longrightarrow> 0 < i \<and> i < n"
  shows "get_or 0 cnt p \<le> n"
proof -
  let ?l = "map (\<lambda>j. the (idx (p, j))) [0..<get_or 0 cnt p]"
  from indexed_listing [OF assms(1), of p] have l: "set ?l = {i. R p i}" "distinct ?l" by simp_all
  have "get_or 0 cnt p = card (set ?l)" using distinct_card [OF l(2)] by simp
  also have "\<dots> \<le> card {0..<n}" unfolding l(1) using assms(2) by (intro card_mono) auto
  finally show ?thesis by simp
qed

theorem discovery_complete:
  assumes ch: "web_chain_answers sv s w" and ok: "directory_ok s" and bound: "next_vault_id s \<le> 2 ^ 53"
  shows "\<exists>ids. getOwnerVaultIds sv who w = (Inr (map int ids), w) \<and> distinct ids \<and> set ids = {i. owns s who i}"
    and "\<exists>ids. getHolderVaultIds sv who w = (Inr (map int ids), w) \<and> distinct ids \<and> set ids = {i. registered s who i}"
proof -
  have o: "indexed (owner_vault_count s) (owner_vaults s) (owns s)"
    and h: "indexed (holder_vault_count s) (holder_vaults s) (registered s)"
    using ok by (simp_all add: directory_ok_def)
  have ob: "0 < i \<and> i < next_vault_id s" if "owns s who i" for i
    using ok that by (auto simp: directory_ok_def owns_def)
  have hb: "0 < i \<and> i < next_vault_id s" if "registered s who i" for i
    using ok that by (auto simp: directory_ok_def)
  have oc: "get_or 0 (owner_vault_count s) who \<le> 2 ^ 53" by (rule order_trans [OF listing_within [OF o] bound]) (rule ob)
  have hc: "get_or 0 (holder_vault_count s) who \<le> 2 ^ 53" by (rule order_trans [OF listing_within [OF h] bound]) (rule hb)
  have oi: "i \<le> 2 ^ 53" if "owns s who i" for i using ob [OF that] bound by simp
  have hi: "i \<le> 2 ^ 53" if "registered s who i" for i using hb [OF that] bound by simp
  show "\<exists>ids. getOwnerVaultIds sv who w = (Inr (map int ids), w) \<and> distinct ids \<and> set ids = {i. owns s who i}"
    unfolding getOwnerVaultIds_def by (rule index_complete [OF ch o _ _ oc oi]) (simp_all add: web_answer_def)
  show "\<exists>ids. getHolderVaultIds sv who w = (Inr (map int ids), w) \<and> distinct ids \<and> set ids = {i. registered s who i}"
    unfolding getHolderVaultIds_def by (rule index_complete [OF ch h _ _ hc hi]) (simp_all add: web_answer_def)
qed

end
