(* ===== verification/Web_Vault_Pages.thy ===== *)
theory Web_Vault_Pages
  imports Web_Create Web_Derive Web_Transaction Web_Discovery
begin

text \<open>
  The pages of a vault that end in a transaction: deposit, redeem and settings
  (apps/web/src/app/vault/[id]/deposit/page.tsx, redeem/page.tsx, settings/page.tsx). Each is a
  record of its form, the condition that blocks it, and the request it asks the wallet to sign.
\<close>

section \<open>The deposit page\<close>

definition STX_FEE_RESERVE :: int where
  "STX_FEE_RESERVE = 50000"

datatype preview = PreviewIdle | PreviewLoading | PreviewOk int | PreviewError string

record deposit_page =
  dp_asset :: asset
  dp_amountText :: string
  dp_preview :: preview
  dp_protocolPaused :: "bool option"
  dp_sbtcApproved :: "bool option"
  dp_tx :: transaction_state

definition asset_decimals :: "asset \<Rightarrow> nat" where
  "asset_decimals a = (case map_of DECIMALS a of Some d \<Rightarrow> d | None \<Rightarrow> 0)"

definition asset_label :: "asset \<Rightarrow> string" where
  "asset_label a = (case map_of AMOUNT_LABEL a of Some l \<Rightarrow> l | None \<Rightarrow> ''undefined'')"

definition deposit_amount :: "deposit_page \<Rightarrow> int option" where
  "deposit_amount d = parseUnits (dp_amountText d) (asset_decimals (dp_asset d))"

text \<open>The preview shown for the contract's answer to \<open>previewDeposit\<close> or \<open>previewRedeem\<close>.\<close>

fun preview_shown :: "(int + int) result \<Rightarrow> preview" where
  "preview_shown (Inr (Inr n)) = PreviewOk n"
| "preview_shown (Inr (Inl code)) = PreviewError (explainClarityError code)"
| "preview_shown (Inl e) = PreviewError (err_message e)"

text \<open>The first condition that stands in the way, in the order the user should fix them.\<close>

definition deposit_blocker :: "'w web \<Rightarrow> vault_overview \<Rightarrow> string \<Rightarrow> int option \<Rightarrow> deposit_page \<Rightarrow> string option" where
  "deposit_blocker sv ov viewer walletBalance d =
     (let amount = deposit_amount d; net = network_text (networkOfAddress viewer);
          positive = (\<exists>n \<in> set_option amount. 0 < n);
          over = (\<lambda>extra. \<exists>n \<in> set_option amount. \<exists>b \<in> set_option walletBalance. b < n + extra) in
      if net \<noteq> NETWORK sv then
        Some (''Your wallet account is a '' @ net @ '' account. Switch to a '' @ NETWORK sv @ '' account.'')
      else if dp_protocolPaused d = Some True then Some (explainClarityError 102)
      else if vm_paused (vo_meta ov) then Some (explainClarityError 112)
      else if \<not> vm_openDeposits (vo_meta ov) \<and> vm_owner (vo_meta ov) \<noteq> viewer then Some (explainClarityError 113)
      else if dp_asset d = ''SBTC'' \<and> dp_sbtcApproved d = Some False then Some (explainClarityError 109)
      else if trim (dp_amountText d) \<noteq> [] \<and> amount = None then
        Some (''Enter a valid amount with at most '' @ nat_text (asset_decimals (dp_asset d)) @ '' decimals.'')
      else if positive \<and> over 0 then
        Some (''Amount exceeds your wallet'' @ [CHR 0x27] @ ''s '' @ asset_label (dp_asset d) @ '' balance.'')
      else if positive \<and> dp_asset d = ''STX'' \<and> over STX_FEE_RESERVE then
        Some ''Keep about 0.05 STX in your wallet to pay the network fee.''
      else (case dp_preview d of PreviewError m \<Rightarrow> Some m | _ \<Rightarrow> None))"

text \<open>A blocker is a string the code tests for truth, so an empty one does not block.\<close>

definition blocks :: "string option \<Rightarrow> bool" where
  "blocks b \<longleftrightarrow> (\<exists>t. b = Some t \<and> t \<noteq> [])"

definition can_deposit :: "'w web \<Rightarrow> vault_overview \<Rightarrow> string \<Rightarrow> int option \<Rightarrow> deposit_page \<Rightarrow> bool" where
  "can_deposit sv ov viewer walletBalance d \<longleftrightarrow>
     \<not> blocks (deposit_blocker sv ov viewer walletBalance d) \<and> (\<exists>n. deposit_amount d = Some n \<and> 0 < n) \<and>
     (\<exists>n. dp_preview d = PreviewOk n) \<and> \<not> busy (dp_tx d) \<and> walletBalance \<noteq> None"

definition deposit_request ::
    "'w web \<Rightarrow> int \<Rightarrow> string \<Rightarrow> deposit_page \<Rightarrow> (string \<times> web_arg list \<times> post_condition list) option" where
  "deposit_request sv vaultId viewer d =
     (case (deposit_amount d, dp_preview d) of
        (Some amount, PreviewOk _) \<Rightarrow>
          if viewer = [] then None
          else if dp_asset d = ''STX'' then
            Some (''deposit-stx'', [CvUint vaultId, CvUint amount], pc_depositStx viewer amount)
          else
            Some (''deposit-sbtc'',
              [CvUint vaultId, CvUint amount, CvContractPrincipal (SBTC_CONTRACT_ADDRESS sv) (SBTC_CONTRACT_NAME sv)],
              pc_depositSbtc sv viewer amount)
      | _ \<Rightarrow> None)"

text \<open>The buttons 25 %, 50 %, 75 % and Max.\<close>

definition quick_amount :: "int \<Rightarrow> int \<Rightarrow> asset \<Rightarrow> string" where
  "quick_amount walletBalance pct asset =
     (let target = quot_int (walletBalance * pct) 100;
          target' = (if pct = 100 \<and> asset = ''STX''
                     then (if STX_FEE_RESERVE < target then target - STX_FEE_RESERVE else 0) else target) in
      strip_commas (formatUnits target' (asset_decimals asset) 0))"

section \<open>The redeem page\<close>

record redeem_page =
  rp_asset :: asset
  rp_sharesText :: string
  rp_preview :: preview
  rp_tx :: transaction_state

definition redeem_shares :: "redeem_page \<Rightarrow> int option" where
  "redeem_shares r = (let t = trim (rp_sharesText r) in
     if t \<noteq> [] \<and> list_all is_digit t then Some (int (digits_val t)) else None)"

definition held_shares :: "vault_overview \<Rightarrow> asset \<Rightarrow> int" where
  "held_shares ov a = (case vo_positions ov a of Some p \<Rightarrow> wp_shares p | None \<Rightarrow> 0)"

definition redeem_blocker :: "'w web \<Rightarrow> vault_overview \<Rightarrow> string \<Rightarrow> redeem_page \<Rightarrow> string option" where
  "redeem_blocker sv ov viewer r =
     (let shares = redeem_shares r; net = network_text (networkOfAddress viewer) in
      if net \<noteq> NETWORK sv then
        Some (''Your wallet account is a '' @ net @ '' account. Switch to a '' @ NETWORK sv @ '' account.'')
      else if trim (rp_sharesText r) \<noteq> [] \<and> shares = None then Some ''Enter a whole number of receipt shares.''
      else if (\<exists>n \<in> set_option shares. held_shares ov (rp_asset r) < n) then Some (explainClarityError 117)
      else
        (case rp_preview r of
           PreviewError m \<Rightarrow> Some m
         | PreviewOk n \<Rightarrow>
             (case vo_pools ov (rp_asset r) of
                Some pool \<Rightarrow> if ap_idle pool < n then Some (explainClarityError 105) else None
              | None \<Rightarrow> None)
         | _ \<Rightarrow> None))"

definition can_redeem :: "'w web \<Rightarrow> vault_overview \<Rightarrow> string \<Rightarrow> redeem_page \<Rightarrow> bool" where
  "can_redeem sv ov viewer r \<longleftrightarrow>
     \<not> blocks (redeem_blocker sv ov viewer r) \<and> (\<exists>n. redeem_shares r = Some n \<and> 0 < n) \<and>
     (\<exists>n. rp_preview r = PreviewOk n) \<and> \<not> busy (rp_tx r)"

definition redeem_request ::
    "'w web \<Rightarrow> int \<Rightarrow> redeem_page \<Rightarrow> (string \<times> web_arg list \<times> post_condition list) option result" where
  "redeem_request sv vaultId r =
     (case (redeem_shares r, rp_preview r) of
        (Some shares, PreviewOk expected) \<Rightarrow>
          if rp_asset r = ''STX'' then
            js_try (pc_redeemStx sv expected) (\<lambda>pc. Inr (Some (''redeem-stx'', [CvUint vaultId, CvUint shares], pc)))
          else
            js_try (pc_redeemSbtc sv expected) (\<lambda>pc. Inr (Some (''redeem-sbtc'',
              [CvUint vaultId, CvUint shares, CvContractPrincipal (SBTC_CONTRACT_ADDRESS sv) (SBTC_CONTRACT_NAME sv)], pc)))
      | _ \<Rightarrow> Inr None)"

definition quick_shares :: "int \<Rightarrow> int \<Rightarrow> string" where
  "quick_shares held pct = int_text (quot_int (held * pct) 100)"

section \<open>The settings page\<close>

record settings_page =
  sp_name :: string
  sp_openDeposits :: bool
  sp_values :: risk_form
  sp_accepted :: bool
  sp_limits :: "protocol_limits option"

definition initial_settings :: "vault_overview \<Rightarrow> settings_page" where
  "initial_settings ov =
     \<lparr> sp_name = vm_name (vo_meta ov), sp_openDeposits = vm_openDeposits (vo_meta ov),
       sp_values = valuesFromConfig (vo_risk ov), sp_accepted = rk_autonomousEnabled (vo_risk ov), sp_limits = None \<rparr>"

definition save_meta :: "int \<Rightarrow> settings_page \<Rightarrow> string \<times> web_arg list" where
  "save_meta vaultId p =
     (''set-vault-config'', [CvUint vaultId, CvStringUtf8 (trim (sp_name p)), CvBool (sp_openDeposits p)])"

definition can_save_meta :: "'w web \<Rightarrow> vault_overview \<Rightarrow> string option \<Rightarrow> settings_page \<Rightarrow> bool" where
  "can_save_meta sv ov viewer p \<longleftrightarrow>
     name_valid (sp_name p) \<and> \<not> wrong_network sv viewer \<and>
     \<not> (trim (sp_name p) = vm_name (vo_meta ov) \<and> sp_openDeposits p = vm_openDeposits (vo_meta ov))"

definition save_risk :: "int \<Rightarrow> settings_page \<Rightarrow> (risk_errors + (string \<times> web_arg list)) option" where
  "save_risk vaultId p =
     (case sp_limits p of
        None \<Rightarrow> None
      | Some limits \<Rightarrow>
          (case parseRisk (sp_values p) limits of
             Inl es \<Rightarrow> Some (Inl es)
           | Inr v \<Rightarrow> Some (Inr (''set-risk-config'',
               [CvUint vaultId, CvUint (pr_maxExposureBps v), CvUint (pr_maxStxTx v), CvUint (pr_maxSbtcTx v),
                CvUint (pr_maxSlippageBps v), CvUint (pr_minIdleBps v), CvBool (pr_autonomous v),
                CvUint (pr_cooldownBlocks v)]))))"

definition autonomy_needs_ack :: "vault_overview \<Rightarrow> settings_page \<Rightarrow> bool" where
  "autonomy_needs_ack ov p \<longleftrightarrow>
     rf_autonomous (sp_values p) \<and> \<not> rk_autonomousEnabled (vo_risk ov) \<and> \<not> sp_accepted p"

definition can_save_risk :: "'w web \<Rightarrow> vault_overview \<Rightarrow> string option \<Rightarrow> settings_page \<Rightarrow> bool" where
  "can_save_risk sv ov viewer p \<longleftrightarrow> sp_limits p \<noteq> None \<and> \<not> wrong_network sv viewer \<and> \<not> autonomy_needs_ack ov p"

definition toggle_pause :: "int \<Rightarrow> vault_overview \<Rightarrow> string \<times> web_arg list" where
  "toggle_pause vaultId ov =
     ((if vm_paused (vo_meta ov) then ''unpause-vault'' else ''pause-vault''), [CvUint vaultId])"

section \<open>Post-conditions\<close>

text \<open>
  The chain's rule for STX in deny mode: whoever's balance falls is named by a condition, and each
  condition holds of what its principal sent.
\<close>

fun condition_holds :: "(principal \<Rightarrow> nat) \<Rightarrow> (principal \<Rightarrow> nat) \<Rightarrow> post_condition \<Rightarrow> bool" where
  "condition_holds l l' (SendEq p n None) \<longleftrightarrow> int (l p) - int (l' p) = n"
| "condition_holds l l' (SendLte p n None) \<longleftrightarrow> int (l p) - int (l' p) \<le> n"
| "condition_holds l l' _ \<longleftrightarrow> True"

fun condition_sender :: "post_condition \<Rightarrow> principal" where
  "condition_sender (SendEq p n a) = p"
| "condition_sender (SendLte p n a) = p"

definition conditions_hold :: "post_condition list \<Rightarrow> (principal \<Rightarrow> nat) \<Rightarrow> (principal \<Rightarrow> nat) \<Rightarrow> bool" where
  "conditions_hold pcs l l' \<longleftrightarrow>
     list_all (condition_holds l l') pcs \<and> (\<forall>p. l' p < l p \<longrightarrow> p \<in> set (map condition_sender pcs))"

section \<open>A deposit that is offered succeeds\<close>

lemma deposit_stx_succeeds:
  assumes ok: "pools_ok s" and dir: "directory_ok s" and v: "vaults s vid = Some v" "asset_in_mode (v_assets v) ASSET_STX"
    and open': "\<not> protocol_paused s" "\<not> v_paused v" "h = v_owner v \<or> v_open_deposits v"
    and p: "preview_deposit vid ASSET_STX n s = Ok sh" and l: "n \<le> stx_ledger s h" "h \<noteq> vault_contract s"
    and fits: "get_total_balance vid ASSET_STX s + n < u128" "get_total_supply vid ASSET_STX s + sh < u128"
      "next_vault_id s + 1 < u128"
  shows "\<exists>s'. deposit_stx h vid n s = Ok (sh, s') \<and> stx_ledger s' =
    (stx_ledger s)(h := stx_ledger s h - n, vault_contract s := stx_ledger s (vault_contract s) + n)"
proof -
  have pos: "0 < n" "0 < sh" using deposit_amount_pos [OF p] by simp_all
  have "receipts_ok s" using ok by (rule pools_okD(1))
  then have fin: "finite (dom (balances s))"
    and sup: "get_total_supply vid ASSET_STX s = sum_over (balances s) (in_class vid ASSET_STX)"
    by (simp_all add: receipts_ok_def)
  have "get_balance vid ASSET_STX h s \<le> get_total_supply vid ASSET_STX s"
    unfolding sup get_balance_def by (rule get_or_le_sum_over [OF fin]) (simp add: in_class_def)
  with fits have bal: "get_balance vid ASSET_STX h s + sh < u128" by simp
  have idle: "get_idle_balance vid ASSET_STX s + n < u128" using idle_le_total [OF ok, of vid ASSET_STX] fits by simp
  have "get_or 0 (holder_vault_count s) h \<le> next_vault_id s"
    by (rule listing_within [of _ "holder_vaults s" "registered s"]) (use dir in \<open>auto simp: directory_ok_def\<close>)
  with fits have reg: "get_or 0 (holder_vault_count s) h + 1 < u128" by simp
  show ?thesis
    using v open' p l pos fits bal idle reg
    by (auto simp: deposit_stx_def stx_transfer_def credit_pool_def mint_def register_holder_def uadd_def Let_def
        emit_def is_valid_asset_def vault_contract_def contract_of_def get_balance_def get_total_supply_def
        get_idle_balance_def get_total_balance_def)
qed

lemma explain_ne: "explainClarityError code \<noteq> []"
proof (cases "map_of MESSAGES code")
  case None
  then show ?thesis by (simp add: explainClarityError_def)
next
  case (Some t)
  then have "t \<in> set (map snd MESSAGES)" by (force dest: map_of_SomeD)
  moreover have "list_all (\<lambda>t. t \<noteq> []) (map snd MESSAGES)" by (simp add: message_defs)
  ultimately show ?thesis using Some by (auto simp: list_all_iff explainClarityError_def)
qed

lemma blocks_explained [simp]: "blocks (Some (explainClarityError code))"
  by (simp add: blocks_def explain_ne)

lemma deposit_not_blocked:
  assumes "\<not> blocks (deposit_blocker sv ov viewer (Some b) d)" and "deposit_amount d = Some n" "0 < n"
  shows "dp_protocolPaused d \<noteq> Some True" "\<not> vm_paused (vo_meta ov)"
    "vm_openDeposits (vo_meta ov) \<or> vm_owner (vo_meta ov) = viewer" "n \<le> b"
    "dp_asset d = ''STX'' \<Longrightarrow> n + STX_FEE_RESERVE \<le> b" "network_text (networkOfAddress viewer) = NETWORK sv"
  using assms by (auto simp: deposit_blocker_def blocks_def Let_def explain_ne split: if_splits)

lemma supported_mode:
  assumes "directory_ok s" "vaults s vid = Some v" "a \<in> set (supportedAssets (vm_assets (meta_of vid v)))"
  shows "asset_in_mode (v_assets v) a"
proof -
  have m: "1 \<le> v_assets v" "v_assets v \<le> 3" using assms by (auto simp: directory_ok_def valid_vault_def)
  then have "js_Number (int (v_assets v)) = int (v_assets v)" by (intro js_Number_small) simp_all
  with assms(3) m show ?thesis
    by (auto simp: meta_of_def supportedAssets_def asset_in_mode_def ASSET_STX_def ASSET_SBTC_def split: if_splits)
qed

theorem deposit_offered:
  assumes can: "can_deposit sv ov viewer (Some (int (stx_ledger s viewer))) d" and stx: "dp_asset d = ''STX''"
    and ov: "ov = overview_of s vid v c pos now" "vaults s vid = Some v" and asset: "''STX'' \<in> set (vaultAssets ov)"
    and amt: "deposit_amount d = Some n"
    and pv: "dp_preview d = preview_shown (preview_value (preview_deposit vid ''STX'' (nat n) s))"
    and pp: "dp_protocolPaused d = Some (protocol_paused s)" and ok: "pools_ok s" "directory_ok s"
    and who: "viewer \<noteq> vault_contract s" "viewer \<noteq> []"
    and fits: "get_total_balance vid ''STX'' s + nat n < u128"
      "\<And>sh. preview_deposit vid ''STX'' (nat n) s = Ok sh \<Longrightarrow> get_total_supply vid ''STX'' s + sh < u128"
      "next_vault_id s + 1 < u128"
  shows "\<exists>fname args pcs k s' sh. deposit_request sv (int vid) viewer d = Some (fname, args, pcs) \<and>
     call_of_request fname args = Some k \<and> exec tt sd viewer k s = Ok s' \<and> dp_preview d = PreviewOk (int sh) \<and>
     get_balance vid ''STX'' viewer s' = get_balance vid ''STX'' viewer s + sh \<and>
     conditions_hold pcs (stx_ledger s) (stx_ledger s')"
proof -
  have n: "0 < n" and nb: "\<not> blocks (deposit_blocker sv ov viewer (Some (int (stx_ledger s viewer))) d)"
    and pk: "\<exists>m. dp_preview d = PreviewOk m"
    using can amt by (auto simp: can_deposit_def)
  note free = deposit_not_blocked [OF nb amt n]
  obtain sh where sh: "preview_deposit vid ''STX'' (nat n) s = Ok sh"
    using pk pv by (cases "preview_deposit vid ''STX'' (nat n) s") auto
  have meta: "vo_meta ov = meta_of vid v" using ov by (simp add: overview_of_def Let_def)
  have mode: "asset_in_mode (v_assets v) ASSET_STX"
    using supported_mode [OF ok(2) ov(2)] asset by (simp add: vaultAssets_def meta ASSET_STX_def)
  have "\<not> protocol_paused s" "\<not> v_paused v" "viewer = v_owner v \<or> v_open_deposits v" "nat n \<le> stx_ledger s viewer"
    using free(1-4) pp by (auto simp: meta meta_of_def)
  from deposit_stx_succeeds [OF ok ov(2) mode this(1-3) _ this(4) who(1), of sh] sh fits
  obtain s' where s': "deposit_stx viewer vid (nat n) s = Ok (sh, s')" and l: "stx_ledger s' =
      (stx_ledger s)(viewer := stx_ledger s viewer - nat n, vault_contract s := stx_ledger s (vault_contract s) + nat n)"
    by (auto simp: ASSET_STX_def)
  have req: "deposit_request sv (int vid) viewer d =
      Some (''deposit-stx'', [CvUint (int vid), CvUint n], pc_depositStx viewer n)"
    using amt pk who stx by (auto simp: deposit_request_def)
  have "get_balance vid ''STX'' viewer s' = get_balance vid ''STX'' viewer s + sh"
    using deposit_stx_effect(2) [OF s'] by (simp add: deposited_def get_balance_def ASSET_STX_def)
  moreover have "conditions_hold (pc_depositStx viewer n) (stx_ledger s) (stx_ledger s')"
    using n who \<open>nat n \<le> stx_ledger s viewer\<close> by (auto simp: conditions_hold_def pc_depositStx_def l of_nat_diff split: if_splits)
  ultimately show ?thesis using req s' pv sh by (auto simp: call_of_request_def)
qed

text \<open>The Max button offers an amount that leaves the fee, and that is exact.\<close>

lemma max_button:
  assumes "0 \<le> b"
  shows "\<exists>n. parseUnits (quick_amount b 100 ''STX'') 6 = Some n \<and> 0 \<le> n \<and> n \<le> b \<and> (0 < n \<longrightarrow> n + STX_FEE_RESERVE = b)"
proof -
  let ?t = "if STX_FEE_RESERVE < b then b - STX_FEE_RESERVE else 0"
  have q: "quot_int (b * 100) 100 = b" using assms by (simp add: quot_int_def)
  have "quick_amount b 100 ''STX'' = strip_commas (formatUnits ?t 6 0)"
    by (simp add: quick_amount_def Let_def q asset_decimals_def DECIMALS_def)
  then have "parseUnits (quick_amount b 100 ''STX'') 6 = Some ?t" by (simp add: parse_format)
  with assms show ?thesis by (auto simp: STX_FEE_RESERVE_def)
qed

section \<open>A redemption that is offered succeeds\<close>

lemma redeem_stx_pays:
  assumes ok: "pools_ok s" and v: "vaults s vid = Some v" "asset_in_mode (v_assets v) ASSET_STX"
    and h: "sh \<le> get_balance vid ASSET_STX h s" "h \<noteq> vault_contract s"
    and p: "preview_redeem vid ASSET_STX sh s = Ok n" and idle: "n \<le> get_idle_balance vid ASSET_STX s"
  shows "\<exists>s'. redeem_stx h vid sh s = Ok (n, s') \<and> stx_ledger s' =
    (stx_ledger s)(vault_contract s := stx_ledger s (vault_contract s) - n, h := stx_ledger s h + n)"
proof -
  have pay: "compute_redeem_assets sh (get_total_supply vid ASSET_STX s) (get_total_balance vid ASSET_STX s) = Ok n"
    using p by (simp add: preview_redeem_def)
  have pos: "0 < n" "0 < sh" "sh \<le> get_total_supply vid ASSET_STX s"
    using pay by (auto simp: compute_redeem_assets_Ok)
  have tot: "n \<le> get_total_balance vid ASSET_STX s" using pay by (rule redeem_payout_le)
  have led: "n \<le> stx_ledger s (vault_contract s)" using stx_covered [OF ok, of vid] idle by simp
  show ?thesis
    using v h pay idle tot pos led
    by (auto simp: redeem_stx_def burn_def debit_pool_def stx_transfer_def is_valid_asset_def Let_def emit_def
        get_idle_balance_def get_total_balance_def vault_contract_def contract_of_def usub_def)
qed

lemma redeem_not_blocked:
  assumes "\<not> blocks (redeem_blocker sv ov viewer r)" "redeem_shares r = Some m" "rp_preview r = PreviewOk n"
    "vo_pools ov (rp_asset r) = Some pool"
  shows "m \<le> held_shares ov (rp_asset r)" "n \<le> ap_idle pool" "network_text (networkOfAddress viewer) = NETWORK sv"
  using assms by (auto simp: redeem_blocker_def blocks_def Let_def explain_ne split: if_splits)

lemma position_shares: "get_position vid a h s = Ok q \<Longrightarrow> pos_shares q = get_balance vid a h s"
  by (auto simp: get_position_def Let_def rbind_Ok_iff)

theorem redeem_offered:
  assumes can: "can_redeem sv ov viewer r" and stx: "rp_asset r = ''STX''"
    and ov: "ov = overview_of s vid v c (Some f) now" "vaults s vid = Some v" and asset: "''STX'' \<in> set (vaultAssets ov)"
    and pos: "get_position vid ''STX'' viewer s = Ok (f ''STX'')" and sh: "redeem_shares r = Some m"
    and pv: "rp_preview r = preview_shown (preview_value (preview_redeem vid ''STX'' (nat m) s))"
    and ok: "pools_ok s" "directory_ok s" and who: "viewer \<noteq> vault_contract s"
    and cfg: "web_contractId sv ''sovereignty-vault'' = Inr (vault_contract s)"
  shows "\<exists>fname args pcs k s' n. redeem_request sv (int vid) r = Inr (Some (fname, args, pcs)) \<and>
     call_of_request fname args = Some k \<and> exec tt sd viewer k s = Ok s' \<and> rp_preview r = PreviewOk (int n) \<and>
     stx_ledger s' viewer = stx_ledger s viewer + n \<and> conditions_hold pcs (stx_ledger s) (stx_ledger s')"
proof -
  have m: "0 < m" and nb: "\<not> blocks (redeem_blocker sv ov viewer r)" and pk: "\<exists>n. rp_preview r = PreviewOk n"
    using can sh by (auto simp: can_redeem_def)
  obtain n where n: "preview_redeem vid ''STX'' (nat m) s = Ok n"
    using pk pv by (cases "preview_redeem vid ''STX'' (nat m) s") auto
  have pn: "rp_preview r = PreviewOk (int n)" using pv n by simp
  have meta: "vo_meta ov = meta_of vid v" using ov by (simp add: overview_of_def Let_def)
  have mem: "''STX'' \<in> set (supportedAssets (vm_assets (meta_of vid v)))" using asset by (simp add: vaultAssets_def meta)
  then have pool: "vo_pools ov (rp_asset r) = Some (pool_of s vid ''STX'')"
    using ov stx by (simp add: overview_of_def Let_def)
  have held: "held_shares ov (rp_asset r) = int (pos_shares (f ''STX''))"
    using mem ov stx by (simp add: overview_of_def Let_def held_shares_def position_of_def)
  note free = redeem_not_blocked [OF nb sh pn pool]
  have "pos_shares (f ''STX'') = get_balance vid ''STX'' viewer s" using pos by (rule position_shares)
  with free held have bal: "nat m \<le> get_balance vid ASSET_STX viewer s" by (simp add: ASSET_STX_def)
  have idle: "n \<le> get_idle_balance vid ASSET_STX s" using free(2) by (simp add: pool_of_def ASSET_STX_def)
  have mode: "asset_in_mode (v_assets v) ASSET_STX" using supported_mode [OF ok(2) ov(2) mem] by (simp add: ASSET_STX_def)
  from redeem_stx_pays [OF ok(1) ov(2) mode bal who _ idle] n
  obtain s' where s': "redeem_stx viewer vid (nat m) s = Ok (n, s')" and l: "stx_ledger s' =
      (stx_ledger s)(vault_contract s := stx_ledger s (vault_contract s) - n, viewer := stx_ledger s viewer + n)"
    by (auto simp: ASSET_STX_def)
  have req: "redeem_request sv (int vid) r = Inr (Some (''redeem-stx'', [CvUint (int vid), CvUint m],
      [SendLte (vault_contract s) (int n) None]))"
    using sh pn stx cfg by (simp add: redeem_request_def pc_redeemStx_def)
  have "conditions_hold [SendLte (vault_contract s) (int n) None] (stx_ledger s) (stx_ledger s')"
    using who by (auto simp: conditions_hold_def l split: if_splits)
  with req s' l pn show ?thesis by (auto simp: call_of_request_def)
qed

section \<open>Settings that can be saved are accepted\<close>

theorem settings_accepted:
  assumes ow: "vaults s vid = Some v" "v_owner v = viewer" and lim: "sp_limits p = Some (limits_of s)"
    and g: "limits_ok s" "protocol_min_cooldown_blocks s \<le> 2 ^ 53" and d: "directory_ok s"
    and saved: "save_risk (int vid) p = Some (Inr (fname, args))"
  shows "\<exists>k s'. call_of_request fname args = Some k \<and> exec tt sd viewer k s = Ok s'"
proof -
  from saved lim obtain r where r: "parseRisk (sp_values p) (limits_of s) = Inr r" and
    fa: "fname = ''set-risk-config''" "args = [CvUint (int vid), CvUint (pr_maxExposureBps r), CvUint (pr_maxStxTx r),
      CvUint (pr_maxSbtcTx r), CvUint (pr_maxSlippageBps r), CvUint (pr_minIdleBps r), CvBool (pr_autonomous r),
      CvUint (pr_cooldownBlocks r)]"
    by (auto simp: save_risk_def split: sum.splits)
  have "vid \<in> dom (vault_configs s)" using d ow by (auto simp: directory_ok_def)
  then obtain cfg where cfg: "vault_configs s vid = Some cfg" by blast
  have "params_valid (nat (pr_maxExposureBps r)) (nat (pr_maxStxTx r)) (nat (pr_maxSbtcTx r))
    (nat (pr_maxSlippageBps r)) (nat (pr_minIdleBps r)) (nat (pr_cooldownBlocks r)) s"
    by (rule params_valid_of_form [OF r g])
  then show ?thesis
    using ow cfg fa by (auto simp: call_of_request_def set_risk_config_def set_vault_risk_config_def new_state_def)
qed

lemma rename_accepted:
  assumes "vaults s vid = Some v" "v_owner v = viewer" "can_save_meta sv ov (Some viewer) p"
  shows "\<exists>k s'. (case save_meta (int vid) p of (fname, args) \<Rightarrow> call_of_request fname args) = Some k \<and> exec tt sd viewer k s = Ok s'"
  using assms by (auto simp: save_meta_def call_of_request_def can_save_meta_def name_valid_def set_vault_config_def new_state_def)

lemma toggle_accepted:
  assumes "vaults s vid = Some v" "v_owner v = viewer" "ov = overview_of s vid v c pos now"
  shows "\<exists>k s' v'. (case toggle_pause (int vid) ov of (fname, args) \<Rightarrow> call_of_request fname args) = Some k \<and>
     exec tt sd viewer k s = Ok s' \<and> vaults s' vid = Some v' \<and> v_paused v' = (\<not> v_paused v)"
  using assms
  by (auto simp: toggle_pause_def call_of_request_def overview_of_def meta_of_def Let_def pause_vault_def
      unpause_vault_def new_state_def emit_def)

text \<open>Saving a form that shows the current configuration writes that configuration again.\<close>

lemma settings_unchanged:
  assumes ok: "configs_ok s" and v: "vaults s vid = Some v" and c: "vault_configs s vid = Some c"
    and valid: "params_valid (max_exposure_bps c) (max_stx_tx_amount c) (max_sbtc_tx_amount c) (max_slippage_bps c)
      (min_idle_bps c) (cooldown_blocks c) s"
    and cool: "cooldown_blocks c \<le> 2 ^ 53"
    and page: "sp_values p = valuesFromConfig (web_risk_of c)" "sp_limits p = Some (limits_of s)"
  shows "\<exists>fname args k s'. save_risk (int vid) p = Some (Inr (fname, args)) \<and> call_of_request fname args = Some k \<and>
     exec tt sd (v_owner v) k s = Ok s' \<and> vault_configs s' = vault_configs s"
proof -
  have lim: "protocol_max_slippage_bps s \<le> 10000" "protocol_max_exposure_bps s \<le> 10000" "protocol_min_liquidity_bps s \<le> 10000"
    using ok by (simp_all add: configs_ok_def guard_ok_def limits_ok_def)
  have small: "max_exposure_bps c \<le> 10000" "max_slippage_bps c \<le> 10000" "min_idle_bps c \<le> 10000"
    "protocol_min_cooldown_blocks s \<le> 2 ^ 53"
    using valid lim cool by (simp_all add: params_valid_def)
  let ?r = "web_risk_of c"
  have r: "parsed_config ?r = \<lparr> pr_maxExposureBps = int (max_exposure_bps c), pr_minIdleBps = int (min_idle_bps c),
      pr_maxSlippageBps = int (max_slippage_bps c), pr_maxStxTx = int (max_stx_tx_amount c),
      pr_maxSbtcTx = int (max_sbtc_tx_amount c), pr_cooldownBlocks = int (cooldown_blocks c), pr_autonomous = autonomous_enabled c \<rparr>"
    using small cool by (simp add: parsed_config_def web_risk_of_def safe_nat)
  have l: "limits_of s = \<lparr> pl_maxSlippageBps = int (protocol_max_slippage_bps s),
      pl_maxExposureBps = int (protocol_max_exposure_bps s), pl_minCooldownBlocks = int (protocol_min_cooldown_blocks s),
      pl_minLiquidityBps = int (protocol_min_liquidity_bps s), pl_approvedSbtcAsset = approved_sbtc_asset s \<rparr>"
    using lim small by (simp add: limits_of_def safe_nat)
  have "parseRisk (sp_values p) (limits_of s) = Inr (parsed_config ?r)"
    unfolding page(1)
  proof (rule config_round_trip)
    show "risk_within (parsed_config ?r) (limits_of s)" using valid by (simp add: r l risk_within_def params_valid_def)
    show "rk_cooldownBlocks ?r \<le> 2 ^ 53" using cool by (simp add: web_risk_of_def safe_nat)
  qed (use lim small cool in \<open>simp_all add: web_risk_of_def l safe_nat\<close>)
  then show ?thesis
    using v c valid page(2)
    by (auto simp: save_risk_def r call_of_request_def set_risk_config_def set_vault_risk_config_def new_state_def emit_def
        fun_upd_idem)
qed

end
