(* ===== verification/Web_Hooks.thy ===== *)
theory Web_Hooks
  imports Web_Discovery
begin

text \<open>
  The hooks that hold chain state for the pages: \<^verbatim>\<open>useVaultOverview.ts\<close>, \<^verbatim>\<open>useMyVaults.ts\<close> and
  \<^verbatim>\<open>useBalances.ts\<close> of apps/web/src/hooks, and the wallet session of
  apps/web/src/lib/wallet-context.tsx. A hook is a state and the steps of its callbacks; a request
  that is in flight answers in a later step, and answers of different requests may arrive in any
  order.
\<close>

section \<open>useVaultOverview\<close>

text \<open>
  \<open>oh_overview\<close> is \<open>None\<close> while loading, \<open>Some None\<close> for a vault that does not exist. The requests
  issued so far are listed by their target, so \<open>seq.current\<close> is the length of the list and the
  \<open>mine\<close> of a request its position, counted from 1.
\<close>

type_synonym overview_target = "int \<times> string option"

record overview_hook =
  oh_target :: overview_target
  oh_overview :: "vault_overview option option"
  oh_error :: "string option"
  oh_refreshing :: bool
  oh_requests :: "overview_target list"

definition overview_refresh :: "overview_hook \<Rightarrow> overview_hook" where
  "overview_refresh h = h\<lparr>oh_requests := oh_requests h @ [oh_target h], oh_refreshing := True\<rparr>"

definition overview_mounted :: "overview_target \<Rightarrow> overview_hook" where
  "overview_mounted t = overview_refresh
     \<lparr> oh_target = t, oh_overview = None, oh_error = None, oh_refreshing = False, oh_requests = [] \<rparr>"

definition overview_retarget :: "overview_target \<Rightarrow> overview_hook \<Rightarrow> overview_hook" where
  "overview_retarget t h = overview_refresh (h\<lparr>oh_target := t, oh_overview := None\<rparr>)"

definition overview_response :: "nat \<Rightarrow> vault_overview option result \<Rightarrow> overview_hook \<Rightarrow> overview_hook" where
  "overview_response mine r h =
     (if mine \<noteq> length (oh_requests h) then h
      else (case r of
              Inr x \<Rightarrow> h\<lparr>oh_overview := Some x, oh_error := None, oh_refreshing := False\<rparr>
            | Inl e \<Rightarrow> h\<lparr>oh_error := Some (err_message e), oh_refreshing := False\<rparr>))"

text \<open>\<open>R t r\<close>: the chain may answer \<open>r\<close> to a read of \<open>t\<close>, at some time.\<close>

inductive overview_reachable :: "(overview_target \<Rightarrow> vault_overview option result \<Rightarrow> bool) \<Rightarrow> overview_hook \<Rightarrow> bool" for R where
  mounted: "overview_reachable R (overview_mounted t)"
| refreshed: "overview_reachable R h \<Longrightarrow> overview_reachable R (overview_refresh h)"
| retargeted: "overview_reachable R h \<Longrightarrow> overview_reachable R (overview_retarget t h)"
| answered: "overview_reachable R h \<Longrightarrow> 0 < mine \<Longrightarrow> mine \<le> length (oh_requests h) \<Longrightarrow>
     R (oh_requests h ! (mine - 1)) r \<Longrightarrow> overview_reachable R (overview_response mine r h)"

text \<open>What is shown is an answer for the vault and the viewer the page is about now.\<close>

lemma overview_current:
  "overview_reachable R h \<Longrightarrow>
     oh_requests h \<noteq> [] \<and> last (oh_requests h) = oh_target h \<and>
     (\<forall>x. oh_overview h = Some x \<longrightarrow> R (oh_target h) (Inr x))"
proof (induction rule: overview_reachable.induct)
  case (answered h mine r)
  then show ?case
    by (auto simp: overview_response_def last_conv_nth split: sum.splits)
qed (simp_all add: overview_mounted_def overview_refresh_def overview_retarget_def)

text \<open>An answer that a newer request has superseded changes nothing.\<close>

lemma overview_stale: "mine < length (oh_requests h) \<Longrightarrow> overview_response mine r h = h"
  by (simp add: overview_response_def)

lemma overview_settles:
  "\<not> oh_refreshing (overview_response (length (oh_requests h)) r h)"
  by (simp add: overview_response_def split: sum.split)

section \<open>useMyVaults\<close>

datatype vault_role = RoleOwner | RoleHolder | RoleBoth

type_synonym my_vault = "vault_overview \<times> vault_role"

definition AUTO_REFRESH_MS :: int where
  "AUTO_REFRESH_MS = 45000"

fun first_occurrences :: "'a list \<Rightarrow> 'a list" where
  "first_occurrences [] = []"
| "first_occurrences (x # xs) = x # filter (\<lambda>y. y \<noteq> x) (first_occurrences xs)"

definition role_of :: "int list \<Rightarrow> int list \<Rightarrow> int \<Rightarrow> vault_role" where
  "role_of ownedIds heldIds i =
     (if i \<in> set ownedIds \<and> i \<in> set heldIds then RoleBoth else if i \<in> set ownedIds then RoleOwner else RoleHolder)"

definition load_my_vaults :: "'w web \<Rightarrow> string \<Rightarrow> ('w, my_vault list) io" where
  "load_my_vaults sv address =
     io_bind (getOwnerVaultIds sv address) (\<lambda>ownedIds.
     io_bind (getHolderVaultIds sv address) (\<lambda>heldIds.
     io_bind (io_map (\<lambda>i. io_bind (getVaultOverview sv i (Some address)) (\<lambda>ov.
         io_return (map_option (\<lambda>x. (x, role_of ownedIds heldIds i)) ov)))
       (sort (first_occurrences (ownedIds @ heldIds)))) (\<lambda>results.
     io_return (map the (filter (\<lambda>x. x \<noteq> None) results)))))"

record my_vaults_hook =
  mv_address :: "string option"
  mv_vaults :: "my_vault list"
  mv_loading :: bool
  mv_refreshing :: bool
  mv_error :: "string option"
  mv_updatedAt :: "int option"
  mv_loaded :: bool
  mv_requests :: "string list"

definition my_vaults_refresh :: "my_vaults_hook \<Rightarrow> my_vaults_hook" where
  "my_vaults_refresh h =
     (if \<not> truthy_text (mv_address h) then h\<lparr>mv_vaults := [], mv_updatedAt := None, mv_loaded := False\<rparr>
      else
        (let h' = (if mv_loaded h then h\<lparr>mv_refreshing := True\<rparr> else h\<lparr>mv_loading := True\<rparr>) in
         h'\<lparr>mv_requests := mv_requests h @ [the (mv_address h)]\<rparr>))"

definition my_vaults_retarget :: "string option \<Rightarrow> my_vaults_hook \<Rightarrow> my_vaults_hook" where
  "my_vaults_retarget a h = my_vaults_refresh (h\<lparr>mv_address := a, mv_loaded := False\<rparr>)"

definition my_vaults_initial :: "my_vaults_hook" where
  "my_vaults_initial =
     \<lparr> mv_address = None, mv_vaults = [], mv_loading = False, mv_refreshing = False, mv_error = None,
       mv_updatedAt = None, mv_loaded = False, mv_requests = [] \<rparr>"

text \<open>The answer to a request: there is no check that the request is still the latest.\<close>

definition my_vaults_response :: "my_vault list result \<Rightarrow> int \<Rightarrow> my_vaults_hook \<Rightarrow> my_vaults_hook" where
  "my_vaults_response r now h =
     (let h' = (case r of
          Inr vs \<Rightarrow> h\<lparr>mv_vaults := vs, mv_updatedAt := Some now, mv_error := None, mv_loaded := True\<rparr>
        | Inl e \<Rightarrow> h\<lparr>mv_error := Some (err_message e)\<rparr>) in
      h'\<lparr>mv_loading := False, mv_refreshing := False\<rparr>)"

inductive my_vaults_reachable :: "(string \<Rightarrow> my_vault list result \<Rightarrow> bool) \<Rightarrow> my_vaults_hook \<Rightarrow> bool" for R where
  mounted: "my_vaults_reachable R (my_vaults_retarget a my_vaults_initial)"
| refreshed: "my_vaults_reachable R h \<Longrightarrow> my_vaults_reachable R (my_vaults_refresh h)"
| retargeted: "my_vaults_reachable R h \<Longrightarrow> my_vaults_reachable R (my_vaults_retarget a h)"
| answered: "my_vaults_reachable R h \<Longrightarrow> a \<in> set (mv_requests h) \<Longrightarrow> R a r \<Longrightarrow>
     my_vaults_reachable R (my_vaults_response r now h)"

text \<open>A failed refresh keeps what is on the screen.\<close>

lemma my_vaults_failure: "mv_vaults (my_vaults_response (Inl e) now h) = mv_vaults h"
  by (simp add: my_vaults_response_def)

text \<open>
  The hook does not keep the promise of \<^verbatim>\<open>useVaultOverview\<close>: after the wallet account has changed,
  a late answer for the former account replaces the list of the new one.
\<close>

lemma my_vaults_race:
  assumes "R a (Inr va)" "R b (Inr vb)" "a \<noteq> []" "b \<noteq> []"
  shows "\<exists>h. my_vaults_reachable R h \<and> mv_address h = Some b \<and> mv_vaults h = va"
proof -
  let ?h0 = "my_vaults_retarget (Some a) my_vaults_initial"
  let ?h1 = "my_vaults_retarget (Some b) ?h0"
  let ?h2 = "my_vaults_response (Inr vb) 0 ?h1"
  let ?h3 = "my_vaults_response (Inr va) 0 ?h2"
  have req: "mv_requests ?h1 = [a, b]" "mv_requests ?h2 = [a, b]" "mv_address ?h3 = Some b"
    using assms(3,4)
    by (simp_all add: my_vaults_retarget_def my_vaults_refresh_def my_vaults_initial_def my_vaults_response_def)
  have "my_vaults_reachable R ?h1" by (intro my_vaults_reachable.intros)
  then have "my_vaults_reachable R ?h2" by (rule my_vaults_reachable.answered [of _ _ b]) (simp_all add: req assms)
  then have "my_vaults_reachable R ?h3" by (rule my_vaults_reachable.answered [of _ _ a]) (simp_all add: req assms)
  moreover have "mv_vaults ?h3 = va" by (simp add: my_vaults_response_def)
  ultimately show ?thesis using req(3) by blast
qed

section \<open>The list of treasuries is complete\<close>

lemma first_occurrences_set [simp]: "set (first_occurrences xs) = set xs"
  by (induction xs) auto

lemma first_occurrences_distinct [simp]: "distinct (first_occurrences xs)"
  by (induction xs) auto

lemma first_occurrences_sorted:
  assumes "finite S" "set is = S"
  shows "sort (first_occurrences (map int is)) = map int (sorted_list_of_set S)"
proof (rule sorted_distinct_set_unique)
  show "sorted (map int (sorted_list_of_set S))"
    using sorted_list_of_set(2) [of S] by (simp add: sorted_map)
  show "set (sort (first_occurrences (map int is))) = set (map int (sorted_list_of_set S))"
    using assms by simp
qed (simp_all add: distinct_map)

definition my_vault_of ::
    "('x, 'b) sovereignty_vault_scheme \<Rightarrow> string \<Rightarrow> (nat \<Rightarrow> asset \<Rightarrow> position) \<Rightarrow> int \<Rightarrow> nat \<Rightarrow> my_vault" where
  "my_vault_of s address f now i =
     (overview_of s i (the (vaults s i)) (the (vault_configs s i)) (Some (f i)) now,
      if owns s address i \<and> registered s address i then RoleBoth else if owns s address i then RoleOwner else RoleHolder)"

theorem my_vaults_complete:
  assumes ch: "web_chain_answers sv s w" and ok: "directory_ok s" and bound: "next_vault_id s \<le> 2 ^ 53" and a: "a \<noteq> []"
    and pos: "\<And>i x. i \<in> dom (vaults s) \<Longrightarrow> get_position i x a s = Ok (f i x)" and now: "wb_now sv w = (now, w)"
  shows "load_my_vaults sv a w =
    (Inr (map (my_vault_of s a f now) (sorted_list_of_set {i. owns s a i \<or> registered s a i})), w)"
proof -
  let ?S = "{i. owns s a i \<or> registered s a i}"
  obtain os where o: "getOwnerVaultIds sv a w = (Inr (map int os), w)" "set os = {i. owns s a i}"
    using discovery_complete(1) [OF ch ok bound] by blast
  obtain hs where h: "getHolderVaultIds sv a w = (Inr (map int hs), w)" "set hs = {i. registered s a i}"
    using discovery_complete(2) [OF ch ok bound] by blast
  have dom: "i \<in> dom (vaults s)" if "i \<in> ?S" for i using ok that by (auto simp: directory_ok_def owns_def)
  have fin: "finite ?S"
    by (rule finite_subset [of _ "{..<next_vault_id s}"]) (use dom ok in \<open>auto simp: directory_ok_def\<close>)
  have ids: "sort (first_occurrences (map int os @ map int hs)) = map int (sorted_list_of_set ?S)"
    using first_occurrences_sorted [OF fin, of "os @ hs"] o(2) h(2) by (simp add: Un_def)
  have role: "role_of (map int os) (map int hs) (int i) = snd (my_vault_of s a f now i)" for i
    using o(2) h(2) by (auto simp: role_of_def my_vault_of_def)
  have each: "io_bind (getVaultOverview sv (int i) (Some a)) (\<lambda>ov.
         io_return (map_option (\<lambda>x. (x, role_of (map int os) (map int hs) (int i))) ov)) w = (Inr (Some (my_vault_of s a f now i)), w)"
    if i: "i \<in> set (sorted_list_of_set ?S)" for i
  proof -
    have i': "i \<in> ?S" using i fin by simp
    from dom [OF i'] obtain v where v: "vaults s i = Some v" by blast
    with ok have "i \<in> dom (vault_configs s)" by (auto simp: directory_ok_def)
    then obtain c where c: "vault_configs s i = Some c" by blast
    have lt: "i < next_vault_id s" using dom [OF i'] ok by (auto simp: directory_ok_def)
    have "arg_ok (ClUint (int i))" using lt bound by (simp add: arg_ok_def)
    from overview_answers [OF ch this v c, of a "f i" now w] pos [OF dom [OF i']] now a
    have "getVaultOverview sv (int i) (Some a) w = (Inr (Some (overview_of s i v c (Some (f i)) now)), w)" by simp
    then show ?thesis using role [of i] by (simp add: io_bind_app io_return_app my_vault_of_def v c)
  qed
  have "io_map (\<lambda>i. io_bind (getVaultOverview sv i (Some a)) (\<lambda>ov.
         io_return (map_option (\<lambda>x. (x, role_of (map int os) (map int hs) i)) ov))) (map int (sorted_list_of_set ?S)) w =
      (Inr (map (\<lambda>i. Some (my_vault_of s a f now (nat i))) (map int (sorted_list_of_set ?S))), w)"
    by (rule io_map_constant) (use each in auto)
  then show ?thesis
    by (simp add: load_my_vaults_def io_bind_app o(1) h(1) ids io_return_app o_def)
qed

section \<open>useBalances\<close>

record balance_hook =
  bh_address :: "string option"
  bh_stx :: "int option"
  bh_sbtc :: "int option"
  bh_loading :: bool
  bh_error :: "string option"
  bh_generation :: nat

text \<open>The effect runs for a new address or a new tick, and cancels the request of the run before.\<close>

definition balance_effect :: "string option \<Rightarrow> balance_hook \<Rightarrow> balance_hook" where
  "balance_effect a h =
     (let h' = h\<lparr>bh_address := a, bh_generation := bh_generation h + 1\<rparr> in
      if \<not> truthy_text a then h'\<lparr>bh_stx := None, bh_sbtc := None\<rparr>
      else h'\<lparr>bh_loading := True, bh_error := None\<rparr>)"

definition balance_response :: "nat \<Rightarrow> (int \<times> int) result \<Rightarrow> balance_hook \<Rightarrow> balance_hook" where
  "balance_response generation r h =
     (if generation \<noteq> bh_generation h then h
      else (case r of
              Inr (x, y) \<Rightarrow> h\<lparr>bh_stx := Some x, bh_sbtc := Some y, bh_loading := False\<rparr>
            | Inl e \<Rightarrow> h\<lparr>bh_error := Some (err_message e), bh_loading := False\<rparr>))"

definition load_balances :: "'w web \<Rightarrow> string \<Rightarrow> ('w, int \<times> int) io" where
  "load_balances sv a =
     io_bind (web_getStxBalance sv a) (\<lambda>x. io_bind (web_getSbtcBalance sv a) (\<lambda>y. io_return (x, y)))"

text \<open>A balance stays on the screen while the balance of another account is being read.\<close>

lemma balance_stale:
  "a \<noteq> [] \<Longrightarrow> bh_stx (balance_effect (Some a) h) = bh_stx h \<and> bh_address (balance_effect (Some a) h) = Some a"
  by (simp add: balance_effect_def)

section \<open>The wallet session\<close>

record wallet_session =
  wl_stxAddress :: "string option"
  wl_btcAddress :: "string option"
  wl_connecting :: bool
  wl_error :: "string option"

definition session_initial :: wallet_session where
  "session_initial = \<lparr> wl_stxAddress = None, wl_btcAddress = None, wl_connecting = False, wl_error = None \<rparr>"

definition session_connected :: "wallet_session \<Rightarrow> bool" where
  "session_connected t = truthy_text (wl_stxAddress t)"

text \<open>On mount: a stale or corrupt session counts as disconnected.\<close>

definition session_restore :: "'w web \<Rightarrow> wallet_session \<Rightarrow> ('w, wallet_session) io" where
  "session_restore sv t =
     io_bind (walletIsConnected sv) (\<lambda>c.
       if \<not> c then io_return t
       else io_catch (io_bind (getAddresses sv) (\<lambda>(stx, btc). io_return (t\<lparr>wl_stxAddress := Some stx, wl_btcAddress := btc\<rparr>)))
              (\<lambda>_. io_return t))"

definition session_connect :: "'w web \<Rightarrow> wallet_session \<Rightarrow> ('w, wallet_session) io" where
  "session_connect sv t =
     (let t' = t\<lparr>wl_connecting := True, wl_error := None\<rparr> in
      io_bind (io_catch
          (io_bind (connectWallet sv) (\<lambda>(stx, btc). io_return (t'\<lparr>wl_stxAddress := Some stx, wl_btcAddress := btc\<rparr>)))
          (\<lambda>e. io_return (t'\<lparr>wl_error := Some (err_message e)\<rparr>)))
        (\<lambda>u. io_return (u\<lparr>wl_connecting := False\<rparr>)))"

definition session_disconnect :: "'w web \<Rightarrow> wallet_session \<Rightarrow> ('w, wallet_session) io" where
  "session_disconnect sv t = (\<lambda>w. (Inr (t\<lparr>wl_stxAddress := None, wl_btcAddress := None\<rparr>), wb_disconnect sv w))"

lemma session_connect_result:
  assumes "\<And>e. fst (connectWallet sv w) = Inl e \<Longrightarrow> \<not> out_of_model e"
  shows "\<exists>t'. fst (session_connect sv t w) = Inr t' \<and> \<not> wl_connecting t' \<and>
     (case fst (connectWallet sv w) of
        Inr (stx, btc) \<Rightarrow> wl_stxAddress t' = Some stx \<and> wl_error t' = None
      | Inl e \<Rightarrow> wl_stxAddress t' = wl_stxAddress t \<and> wl_error t' = Some (err_message e))"
  using assms
  by (auto simp: session_connect_def io_bind_app io_catch_def io_return_app Let_def split: sum.split prod.split)

end
