(* ===== verification/Contract_Errors.thy ===== *)
theory Contract_Errors
  imports Chain_Safety Web_Transaction
begin

text \<open>
  The error codes the contracts can answer with, against the table of messages of
  \<^verbatim>\<open>apps/web/src/lib/errors.ts\<close>: every public function of every contract fails only with a code
  the table explains, so no failure of a transaction is shown as an unrecognised number.
\<close>

lemma rbind_Err_iff: "rbind m f = Err e \<longleftrightarrow> m = Err e \<or> (\<exists>x. m = Ok x \<and> f x = Err e)"
  by (cases m) auto

lemma new_state_Err [simp]: "new_state r = Err e \<longleftrightarrow> r = Err e"
  by (auto simp: new_state_def rbind_Err_iff)

lemma admin_errors:
  "propose_admin c p s = Err e \<Longrightarrow> 600 \<le> e \<and> e \<le> 604"
  "accept_admin c s = Err e \<Longrightarrow> 600 \<le> e \<and> e \<le> 604"
  "pause_protocol c s = Err e \<Longrightarrow> 600 \<le> e \<and> e \<le> 604"
  "unpause_protocol c s = Err e \<Longrightarrow> 600 \<le> e \<and> e \<le> 604"
  by (auto simp: protocol_admin_ops split: if_splits option.splits)

lemma registries_errors:
  "register_executor c x l s = Err e \<Longrightarrow> 500 \<le> e \<and> e \<le> 503"
  "revoke_executor c x s = Err e \<Longrightarrow> 500 \<le> e \<and> e \<le> 503"
  "reactivate_executor c x s = Err e \<Longrightarrow> 500 \<le> e \<and> e \<le> 503"
  "register_strategy c n p a m s = Err e \<Longrightarrow> 400 \<le> e \<and> e \<le> 404"
  "activate_strategy c j s = Err e \<Longrightarrow> 400 \<le> e \<and> e \<le> 404"
  "deactivate_strategy c j s = Err e \<Longrightarrow> 400 \<le> e \<and> e \<le> 404"
  by (auto simp: agent_registry_ops strategy_registry_ops Let_def rbind_Err_iff split: if_splits option.splits)

lemma guard_errors:
  "set_approved_sbtc_asset c p s = Err e \<Longrightarrow> 300 \<le> e \<and> e \<le> 321"
  "set_protocol_limits c w x y z s = Err e \<Longrightarrow> 300 \<le> e \<and> e \<le> 321"
  "set_mainnet_execution_armed c arm s = Err e \<Longrightarrow> 300 \<le> e \<and> e \<le> 321"
  "init_vault_config g v me ms mb sl mi au cd s = Err e \<Longrightarrow> 300 \<le> e \<and> e \<le> 321"
  "set_vault_risk_config g v me ms mb sl mi au cd s = Err e \<Longrightarrow> 300 \<le> e \<and> e \<le> 321"
  "set_autonomous_enabled g v en s = Err e \<Longrightarrow> 300 \<le> e \<and> e \<le> 321"
  by (simp_all add: set_approved_sbtc_asset_def set_protocol_limits_def set_mainnet_execution_armed_def
      init_vault_config_def set_vault_risk_config_def set_autonomous_enabled_def Let_def
      split: if_split_asm option.split_asm)

lemma guard_arithmetic_errors [simp]:
  "cooldown_over cfg h \<noteq> Err e"
  "allocation_bps al n t \<noteq> Err e" "idle_bps_after av n t \<noteq> Err e"
  by (simp_all add: cooldown_over_def allocation_bps_def idle_bps_after_def rbind_Err_iff split: if_split_asm)

lemma check_errors: "check_intent v a n sl no d ow av t al cp s = Err e \<Longrightarrow> 300 \<le> e \<and> e \<le> 321"
  by (clarsimp simp: check_intent_def split: if_split_asm option.split_asm)
     (auto simp: rbind_Err_iff split: if_split_asm)

lemma record_errors: "validate_and_record_intent c v a n sl no d ow i t al cp s = Err e \<Longrightarrow> 300 \<le> e \<and> e \<le> 321"
  by (auto simp: validate_and_record_intent_def rbind_Err_iff dest: check_errors split: if_splits option.splits)

lemma receipt_errors:
  "mint c v a n h s = Err e \<Longrightarrow> 700 \<le> e \<and> e \<le> 704"
  "burn c v a n h s = Err e \<Longrightarrow> 700 \<le> e \<and> e \<le> 704"
  "transfer_shares v a n h k s = Err e \<Longrightarrow> 700 \<le> e \<and> e \<le> 704"
  by (auto simp: mint_def burn_def transfer_shares_def rbind_Err_iff Let_def split: if_splits option.splits)

lemma share_errors:
  "compute_deposit_shares p t n m = Err e \<Longrightarrow> 100 \<le> e \<and> e \<le> 124"
  "compute_redeem_assets sh p t = Err e \<Longrightarrow> 100 \<le> e \<and> e \<le> 124"
  by (auto simp: compute_deposit_shares_def compute_redeem_assets_def rbind_Err_iff split: if_splits)

lemma bookkeeping_errors:
  "credit_pool v a n s \<noteq> Err e" "debit_pool v a n s \<noteq> Err e" "register_holder h v s \<noteq> Err e"
  by (auto simp: credit_pool_def debit_pool_def register_holder_def rbind_Err_iff Let_def split: if_splits)

lemmas explained_numeral [simp] = explained_def [of "numeral n"] for n

lemma explained_ranges:
  "100 \<le> e \<and> e \<le> 124 \<Longrightarrow> explained (int e)" "200 \<le> e \<and> e \<le> 208 \<Longrightarrow> explained (int e)"
  "300 \<le> e \<and> e \<le> 321 \<Longrightarrow> explained (int e)" "400 \<le> e \<and> e \<le> 404 \<Longrightarrow> explained (int e)"
  "500 \<le> e \<and> e \<le> 503 \<Longrightarrow> explained (int e)" "600 \<le> e \<and> e \<le> 604 \<Longrightarrow> explained (int e)"
  "700 \<le> e \<and> e \<le> 704 \<Longrightarrow> explained (int e)"
  by (simp_all add: explained_def)

lemma lifecycle_errors:
  "create_vault c n p a od me ms mb sl mi au cd s = Err e \<Longrightarrow> explained (int e)"
  "set_vault_config c v n od s = Err e \<Longrightarrow> explained (int e)"
  "set_risk_config c v me ms mb sl mi au cd s = Err e \<Longrightarrow> explained (int e)"
  "set_autonomous_mode c v en s = Err e \<Longrightarrow> explained (int e)"
  "pause_vault c v s = Err e \<Longrightarrow> explained (int e)"
  "unpause_vault c v s = Err e \<Longrightarrow> explained (int e)"
  unfolding create_vault_def set_vault_config_def set_risk_config_def set_autonomous_mode_def pause_vault_def
    unpause_vault_def Let_def
  by (auto simp: rbind_Err_iff dest: guard_errors [THEN explained_ranges(3)]
      split: if_splits option.splits)

lemma deposit_errors:
  "deposit_stx h v n s = Err e \<Longrightarrow> explained (int e)"
  "deposit_sbtc tt h v n p s = Err e \<Longrightarrow> explained (int e)"
  unfolding deposit_stx_def deposit_sbtc_def preview_deposit_def
  by (auto simp: rbind_Err_iff bookkeeping_errors
      dest: share_errors(1) [THEN explained_ranges(1)] receipt_errors(1) [THEN explained_ranges(7)]
      split: if_splits option.splits)

lemma redeem_errors:
  "redeem_stx h v n s = Err e \<Longrightarrow> explained (int e)"
  "redeem_sbtc tt h v n p s = Err e \<Longrightarrow> explained (int e)"
  unfolding redeem_stx_def redeem_sbtc_def
  by (auto simp: rbind_Err_iff bookkeeping_errors
      dest: share_errors(2) [THEN explained_ranges(1)] receipt_errors(2) [THEN explained_ranges(7)]
      split: if_splits option.splits)

lemma engine_errors:
  "evaluate c v i a n sl no d s = Err e \<Longrightarrow> explained (int e)"
  "execute_rebalance sd c v i a n p s = Err e \<Longrightarrow> explained (int e)"
  unfolding evaluate_def execute_rebalance_def Let_def
  by (auto simp: rbind_Err_iff dest: check_errors [THEN explained_ranges(3)]
      split: if_splits option.splits)

lemma submit_errors: "submit_rebalance_intent sd c v i a n sl no d p s = Err e \<Longrightarrow> explained (int e)"
  unfolding submit_rebalance_intent_def
  by (auto simp: rbind_Err_iff dest: engine_errors record_errors [THEN explained_ranges(3)]
      split: if_splits option.splits)

theorem exec_explained: "exec tt sd c k s = Err e \<Longrightarrow> explained (int e)"
  by (cases k)
    (auto dest: admin_errors [THEN explained_ranges(6)] registries_errors(1,2,3) [THEN explained_ranges(5)]
       registries_errors(4,5,6) [THEN explained_ranges(4)] guard_errors [THEN explained_ranges(3)]
       record_errors [THEN explained_ranges(3)] receipt_errors [THEN explained_ranges(7)]
       lifecycle_errors deposit_errors redeem_errors engine_errors submit_errors)

end
