(* ===== verification/Web_Scenario.thy ===== *)
theory Web_Scenario
  imports Scenario Web_Vault_Pages Web_Hooks Contract_Errors
begin

text \<open>
  The web application over the concrete state of \<^verbatim>\<open>Scenario\<close>: a browser environment whose reads are
  the answers of that state, and forms filled in for it. It shows that the hypotheses of the
  properties of the pages and hooks can hold together.
\<close>

definition scenario_web :: "unit sovereignty_vault \<Rightarrow> unit web" where
  "scenario_web s =
     \<lparr> wb_env = [''NEXT_PUBLIC_DEPLOYER_ADDRESS'' \<mapsto> ''SP1''],
       wb_readOnly = (\<lambda>net addr cname fname args sender w.
          (if addr = deployer s then web_answer s cname fname args sender else Inl (JsError ''unknown contract''), w)),
       wb_fetch = (\<lambda>url w. (Inr (True, 200, JObj [(''stacks_tip_height'', JNum (int (block_height s)))]), w)),
       wb_now = (\<lambda>w. (0, w)), wb_sleep = (\<lambda>ms w. w), wb_decodeCV = (\<lambda>h. Inr JNull),
       wb_request = (\<lambda>r w. (Inr (Some ''0xabc''), w)), wb_connect = (\<lambda>w. (Inr (), w)),
       wb_isConnected = (\<lambda>w. (Inr True, w)), wb_localStorage = (\<lambda>w. (JNull, w)), wb_disconnect = (\<lambda>w. w) \<rparr>"

lemma env_or_Some: "m k = Some v \<Longrightarrow> v \<noteq> [] \<Longrightarrow> env_or m k d = v"
  by (simp add: env_or_def)

lemma scenario_web_env [simp]:
  "DEPLOYER_ADDRESS (scenario_web s) = ''SP1''" "NETWORK (scenario_web s) = ''testnet''"
  "STACKS_API_URL (scenario_web s) = ''https://api.testnet.hiro.so''"
  by (simp_all add: DEPLOYER_ADDRESS_def NETWORK_def STACKS_API_URL_def scenario_web_def env_or_def)

lemma scenario_web_answers: "deployer s = ''SP1'' \<Longrightarrow> web_chain_answers (scenario_web s) s w"
  unfolding web_chain_answers_def scenario_web_env by (simp add: scenario_web_def)

lemma scenario_next [simp]: "next_vault_id (scenario TESTNET_ID) = 2"
  by (simp add: scenario_eq [folded TESTNET_ID_def])

lemma scenario_indexes:
  "owner_vault_count (scenario TESTNET_ID) = [''ST1ALICE'' \<mapsto> 1]"
  "owner_vaults (scenario TESTNET_ID) = [(''ST1ALICE'', 0) \<mapsto> 1]"
  "holder_registered (scenario TESTNET_ID) = [(''ST1ALICE'', 1) \<mapsto> True, (''ST2BOB'', 1) \<mapsto> True]"
  "stx_ledger (scenario TESTNET_ID) ''ST1ALICE'' = 40000000"
  "stx_ledger (scenario TESTNET_ID) ''ST2BOB'' = 46999999"
  by (simp_all add: scenario_eq [folded TESTNET_ID_def] fun_upd_twist)

lemma scenario_limits:
  "limits_of (scenario TESTNET_ID) =
     \<lparr> pl_maxSlippageBps = 1000, pl_maxExposureBps = 5000, pl_minCooldownBlocks = 1, pl_minLiquidityBps = 500,
       pl_approvedSbtcAsset = None \<rparr>"
  by (simp add: limits_of_def scenario_eq [folded TESTNET_ID_def] safe_int_def)

definition bob_position :: "nat \<Rightarrow> asset \<Rightarrow> position" where
  "bob_position i a = ok_value \<lparr> pos_shares = 0, pos_supply = 0, pos_total_assets = 0, pos_idle = 0, pos_ownership_bps = 0,
     pos_claim = 0, pos_redeemable = 0 \<rparr> (get_position i a ''ST2BOB'' (scenario TESTNET_ID))"

lemma bob_position_Ok: "get_position i a ''ST2BOB'' (scenario TESTNET_ID) = Ok (bob_position i a)"
proof -
  have "is_ok (get_position i a ''ST2BOB'' (scenario TESTNET_ID))"
    by (simp add: get_position_def get_balance_def get_total_supply_def get_total_balance_def get_idle_balance_def
        get_or_def umul_def udiv_def u128_def)
  then show ?thesis unfolding bob_position_def by (rule is_ok_value)
qed

section \<open>Forms filled in\<close>

definition bob_deposit :: deposit_page where
  "bob_deposit = \<lparr> dp_asset = ''STX'', dp_amountText = ''2'', dp_preview = PreviewOk 2000000,
     dp_protocolPaused = Some False, dp_sbtcApproved = Some False, dp_tx = reset_transaction \<rparr>"

lemma bob_amount: "deposit_amount bob_deposit = Some 2000000"
proof -
  have d: "is_digit (CHR ''2'')" by (simp add: is_digit_def)
  have z: "pad_end 6 (CHR ''0'') [] = replicate 6 (CHR ''0'')" by (simp add: pad_end_def)
  have v: "digits_val (''2'' @ replicate 6 (CHR ''0'')) = 2000000"
    unfolding digits_val_append digits_val_zeros by (simp add: digits_val_def digit_val_def)
  from parse_digits [of "''2''" "[]" 6] show ?thesis
    unfolding z v by (simp add: d v deposit_amount_def bob_deposit_def asset_decimals_def DECIMALS_def)
qed

definition bob_overview :: vault_overview where
  "bob_overview = overview_of (scenario TESTNET_ID) 1 the_vault the_config (Some (bob_position 1)) 0"

lemma bob_overview_fields [simp]:
  "vo_meta bob_overview = meta_of 1 the_vault" "vaultAssets bob_overview = [''STX'', ''SBTC'']"
  "vo_pools bob_overview ''STX'' = Some (pool_of (scenario TESTNET_ID) 1 ''STX'')"
  "vo_positions bob_overview ''STX'' = Some (position_of ''STX'' (bob_position 1 ''STX''))"
  by (simp_all add: bob_overview_def overview_of_def Let_def meta_of_def the_vault_def supportedAssets_def
      vaultAssets_def safe_int_def)

lemma bob_preview: "preview_deposit 1 ''STX'' 2000000 (scenario TESTNET_ID) = Ok 2000000"
  by (simp add: preview_deposit_def compute_deposit_shares_def get_total_supply_def get_total_balance_def get_or_def
      umul_def udiv_def u128_def)

lemma bob_can_deposit: "can_deposit (scenario_web s) bob_overview ''ST2BOB'' (Some 46999999) bob_deposit"
proof -
  have "deposit_blocker (scenario_web s) bob_overview ''ST2BOB'' (Some 46999999) bob_deposit = None"
    by (simp add: deposit_blocker_def bob_amount networkOfAddress_def Let_def)
       (simp add: bob_deposit_def meta_of_def the_vault_def STX_FEE_RESERVE_def)
  then show ?thesis
    by (simp add: can_deposit_def bob_amount blocks_def) (simp add: bob_deposit_def busy_def reset_transaction_def)
qed

definition bob_redeem :: redeem_page where
  "bob_redeem = \<lparr> rp_asset = ''STX'', rp_sharesText = ''3000001'', rp_preview = PreviewOk 3000001, rp_tx = reset_transaction \<rparr>"

lemma bob_shares: "redeem_shares bob_redeem = Some 3000001"
  by (simp add: bob_redeem_def redeem_shares_def trim_def is_space_def Let_def is_digit_def digits_val_def digit_val_def)

lemma bob_redeem_preview: "preview_redeem 1 ''STX'' 3000001 (scenario TESTNET_ID) = Ok 3000001"
  by (simp add: preview_redeem_def compute_redeem_assets_def get_total_supply_def get_total_balance_def get_or_def
      umul_def udiv_def u128_def)

lemma bob_can_redeem: "can_redeem (scenario_web s) bob_overview ''ST2BOB'' bob_redeem"
proof -
  have "pos_shares (bob_position 1 ''STX'') = 3000001"
    using position_shares [OF bob_position_Ok] by (simp add: get_balance_def get_or_def)
  then have "redeem_blocker (scenario_web s) bob_overview ''ST2BOB'' bob_redeem = None"
    by (simp add: redeem_blocker_def bob_shares networkOfAddress_def Let_def held_shares_def)
       (simp add: bob_redeem_def held_shares_def position_of_def pool_of_def get_idle_balance_def get_or_def)
  then show ?thesis
    by (simp add: can_redeem_def bob_shares blocks_def) (simp add: bob_redeem_def busy_def reset_transaction_def)
qed

section \<open>A clock that advances\<close>

text \<open>The world is the time; the API reports the transaction as successful from time \<open>t\<close> on.\<close>

definition clock_web :: "int \<Rightarrow> int web" where
  "clock_web t =
     \<lparr> wb_env = Map.empty, wb_readOnly = (\<lambda>net addr cname fname args sender w. (Inr JNull, w)),
       wb_fetch = (\<lambda>url w. (Inr (t \<le> w, if t \<le> w then 200 else 404, JObj [(''tx_status'', JStr ''success'')]), w)),
       wb_now = (\<lambda>w. (w, w)), wb_sleep = (\<lambda>ms w. w + ms), wb_decodeCV = (\<lambda>h. Inr JNull),
       wb_request = (\<lambda>r w. (Inr (Some ''0xabc''), w)), wb_connect = (\<lambda>w. (Inr (), w)),
       wb_isConnected = (\<lambda>w. (Inr True, w)), wb_localStorage = (\<lambda>w. (JNull, w)), wb_disconnect = (\<lambda>w. w) \<rparr>"

section \<open>A walk through the creation page\<close>

text \<open>The page after the limits are read and the conservative purpose is chosen.\<close>

definition chosen_page :: create_state where
  "chosen_page = choosePurpose 0 (initial_create\<lparr>cs_limits := Some (limits_of (scenario TESTNET_ID))\<rparr>)"

lemma chosen_purpose: "purposeById 0 = conservative_purpose"
  by (simp add: purposeById_def PURPOSES_def conservative_purpose_def)

lemma chosen_page_fields [simp]:
  "cs_step chosen_page = 0" "cs_purposeId chosen_page = Some 0" "cs_mode chosen_page = 1" "cs_errors chosen_page = []"
  "cs_name chosen_page = ''Conservative Treasury''" "cs_limits chosen_page = Some (limits_of (scenario TESTNET_ID))"
  "cs_values chosen_page = valuesFromDefaults (vp_defaults conservative_purpose)"
  by (simp_all add: chosen_page_def choosePurpose_def chosen_purpose initial_create_def)
     (simp add: conservative_purpose_def)

lemma chosen_parsed:
  "create_parsed (chosen_page\<lparr>cs_step := n\<rparr>) = Some (Inr (parsed_defaults (vp_defaults conservative_purpose)))"
proof -
  let ?d = "vp_defaults conservative_purpose"
  have "parseRisk (valuesFromDefaults ?d) (limits_of (scenario TESTNET_ID)) = Inr (parsed_defaults ?d)"
    by (rule defaults_round_trip) (simp_all add: scenario_limits risk_within_def parsed_defaults_def purpose_defs)
  then show ?thesis by (simp add: create_parsed_def)
qed

lemma chosen_name: "name_valid ''Conservative Treasury''"
  by (simp add: name_valid_def NAME_MAX_def trim_def is_space_def Let_def)

lemma chosen_manual: "\<not> rf_autonomous (valuesFromDefaults (vp_defaults conservative_purpose))"
  by (simp add: valuesFromDefaults_def conservative_purpose_def)

lemma walk_step:
  assumes "create_reachable sv a (chosen_page\<lparr>cs_step := i\<rparr>)" and "i \<in> {0, 1, 2, 3, 4}"
  shows "create_reachable sv a (chosen_page\<lparr>cs_step := i + 1\<rparr>)"
proof -
  have ok: "can_next (chosen_page\<lparr>cs_step := i\<rparr>)"
    using assms(2) chosen_name chosen_manual by (auto simp: can_next_def)
  have e: "chosen_page\<lparr>cs_step := n, cs_errors := []\<rparr> = chosen_page\<lparr>cs_step := n\<rparr>" for n
    using chosen_page_fields(4) by (cases chosen_page) simp
  have "create_next (chosen_page\<lparr>cs_step := i\<rparr>) = chosen_page\<lparr>cs_step := i + 1\<rparr>"
    using assms(2) e [of 4] chosen_parsed [of 3] by (auto simp: create_next_def)
  with ok assms(2) have "create_step sv a Continue (chosen_page\<lparr>cs_step := i\<rparr>) = chosen_page\<lparr>cs_step := i + 1\<rparr>"
    by auto
  with create_reachable.acted [OF assms(1), of Continue] show ?thesis by simp
qed

lemma review_reachable: "create_reachable sv a (chosen_page\<lparr>cs_step := 5\<rparr>)"
proof -
  have "create_reachable sv a (create_step sv a (LimitsRead (limits_of (scenario TESTNET_ID))) initial_create)"
    by (intro create_reachable.intros)
  moreover have "create_step sv a (LimitsRead l) initial_create = initial_create\<lparr>cs_limits := Some l\<rparr>" for l
    by (simp add: initial_create_def)
  ultimately have "create_reachable sv a (initial_create\<lparr>cs_limits := Some (limits_of (scenario TESTNET_ID))\<rparr>)" by simp
  from create_reachable.acted [OF this, of "Choose 0"] have c: "create_reachable sv a chosen_page"
    by (simp add: chosen_page_def initial_create_def purpose_ids)
  have eq: "chosen_page\<lparr>cs_step := 0\<rparr> = chosen_page" using chosen_page_fields(1) by (cases chosen_page) simp
  have "create_reachable sv a (chosen_page\<lparr>cs_step := 0\<rparr>)" unfolding eq by (rule c)
  from walk_step [OF walk_step [OF walk_step [OF walk_step [OF walk_step [OF this]]]]] show ?thesis by simp
qed

lemma review_can_create: "can_create (scenario_web s) (Some ''ST2BOB'') (chosen_page\<lparr>cs_step := 5\<rparr>)"
  using chosen_parsed [of 5] chosen_name by (simp add: can_create_def wrong_network_def networkOfAddress_def)

end
