(* ===== verification/Market_Data.thy ===== *)
theory Market_Data
  imports Ecosystem_Protocols
begin

text \<open>
  Live market data (agent/src/data/marketData.ts): the price of STX from the first of several
  exchanges that gives a sane answer, and the total value locked in a protocol. It also holds
  the combinators of promises that run at the same time.
\<close>

section \<open>The result of a computation\<close>

lemma bind_Inr: "fst (io_bind m f w) = Inr y \<longleftrightarrow> (\<exists>x. fst (m w) = Inr x \<and> fst (f x (snd (m w))) = Inr y)"
  by (cases "m w"; cases "fst (m w)") (auto simp: io_bind_def)

lemma bind_Inl:
  "fst (io_bind m f w) = Inl e \<longleftrightarrow>
     fst (m w) = Inl e \<or> (\<exists>x. fst (m w) = Inr x \<and> fst (f x (snd (m w))) = Inl e)"
  by (cases "m w"; cases "fst (m w)") (auto simp: io_bind_def)

lemma catch_Inr:
  "fst (io_catch m h w) = Inr y \<longleftrightarrow>
     fst (m w) = Inr y \<or> (\<exists>e. fst (m w) = Inl e \<and> \<not> out_of_model e \<and> fst (h e (snd (m w))) = Inr y)"
  by (cases "m w"; cases "fst (m w)") (auto simp: io_catch_def)

lemma catch_Inl:
  "fst (io_catch m h w) = Inl e \<longleftrightarrow>
     fst (m w) = Inl e \<and> out_of_model e \<or>
     (\<exists>e'. fst (m w) = Inl e' \<and> \<not> out_of_model e' \<and> fst (h e' (snd (m w))) = Inl e)"
  by (cases "m w"; cases "fst (m w)") (auto simp: io_catch_def)

lemma return_fst [simp]: "fst (io_return x w) = Inr x" "snd (io_return x w) = w"
  by (simp_all add: io_return_def)

lemma throw_fst [simp]: "fst (io_throw e w) = Inl e"
  by (simp add: io_throw_def)

lemma lift_fst [simp]: "fst (io_lift r w) = r"
  by (simp add: io_lift_def)

lemmas io_results = bind_Inr bind_Inl catch_Inr catch_Inl

section \<open>Promises that run at the same time\<close>

text \<open>
  The computations of \<open>Promise.any\<close> all run; \<open>sv_settled\<close> tells in which order they settle, as
  positions in the list, and positions it leaves out come last. The first one that is fulfilled
  wins, and \<open>None\<close> means that all of them were rejected.
\<close>

fun io_all :: "('w, 'a) io list \<Rightarrow> 'w \<Rightarrow> 'a result list \<times> 'w" where
  "io_all [] w = ([], w)"
| "io_all (m # ms) w =
     (let (r, w') = m w; (rs, w'') = io_all ms w' in (r # rs, w''))"

lemma io_all_fst [simp]:
  "fst (io_all [] w) = []" "fst (io_all (m # ms) w) = fst (m w) # fst (io_all ms (snd (m w)))"
  by (simp_all add: Let_def case_prod_beta)

definition settle_order :: "nat \<Rightarrow> nat list \<Rightarrow> nat list" where
  "settle_order n order = filter (\<lambda>i. i < n) order @ filter (\<lambda>i. i \<notin> set order) [0..<n]"

fun first_fulfilled :: "'a result list \<Rightarrow> 'a option result" where
  "first_fulfilled [] = Inr None"
| "first_fulfilled (Inr x # rs) = Inr (Some x)"
| "first_fulfilled (Inl e # rs) = (if out_of_model e then Inl e else first_fulfilled rs)"

definition promise_any :: "'w services \<Rightarrow> ('w, 'a) io list \<Rightarrow> ('w, 'a option) io" where
  "promise_any sv ms w =
     (case io_all ms w of (rs, w1) \<Rightarrow>
      (case sv_settled sv w1 of (order, w2) \<Rightarrow>
         (first_fulfilled (map (\<lambda>i. rs ! i) (settle_order (length rs) order)), w2)))"

text \<open>\<open>Promise.race\<close> with a timer that rejects.\<close>

definition with_timeout :: "'w services \<Rightarrow> ('w, 'a) io \<Rightarrow> ('w, 'a) io" where
  "with_timeout sv m w =
     (case m w of (r, w1) \<Rightarrow>
      (case sv_timedOut sv w1 of (late, w2) \<Rightarrow> (if late then Inl (JsError ''timeout'') else r, w2)))"

lemma io_all_length: "length (fst (io_all ms w)) = length ms"
  by (induction ms arbitrary: w) (simp_all del: io_all.simps)

lemma settle_order_set [simp]: "set (settle_order n order) = {..<n}"
  by (auto simp: settle_order_def)

lemma first_fulfilled_mem: "first_fulfilled rs = Inr (Some x) \<Longrightarrow> Inr x \<in> set rs"
  by (induction rs rule: first_fulfilled.induct) (auto split: if_splits)

lemma first_fulfilled_none: "first_fulfilled rs = Inr None \<Longrightarrow> r \<in> set rs \<Longrightarrow> \<exists>e. r = Inl e"
  by (induction rs rule: first_fulfilled.induct) (auto split: if_splits)

lemma promise_any_result:
  assumes "fst (promise_any sv ms w) = Inr r"
  shows "(\<forall>x. r = Some x \<longrightarrow> Inr x \<in> set (fst (io_all ms w))) \<and>
     (r = None \<longrightarrow> (\<forall>x. Inr x \<notin> set (fst (io_all ms w))))"
proof -
  obtain rs w1 where a: "io_all ms w = (rs, w1)" by fastforce
  obtain order w2 where s: "sv_settled sv w1 = (order, w2)" by fastforce
  let ?rs = "map (\<lambda>i. rs ! i) (settle_order (length rs) order)"
  have r: "first_fulfilled ?rs = Inr r" using assms by (simp add: promise_any_def a s)
  have "set ?rs = (\<lambda>i. rs ! i) ` {..<length rs}" by simp
  also have "\<dots> = set rs" by (auto simp: in_set_conv_nth)
  finally have "set ?rs = set rs" .
  with r show ?thesis using first_fulfilled_mem [of ?rs] first_fulfilled_none [of ?rs] by (fastforce simp: a)
qed

lemma io_all_mem: "Inr x \<in> set (fst (io_all ms w)) \<Longrightarrow> \<exists>m \<in> set ms. \<exists>u. fst (m u) = Inr x"
proof (induction ms arbitrary: w)
  case (Cons m ms)
  then show ?case by (cases "fst (m w) = Inr x") (auto simp del: io_all.simps)
qed simp

lemma rejected_all:
  assumes "\<And>m u. m \<in> set ms \<Longrightarrow> \<exists>e. fst (m u) = Inl e \<and> \<not> out_of_model e"
  shows "fst (promise_any sv ms w) = Inr None"
proof -
  obtain rs w1 where a: "io_all ms w = (rs, w1)" by fastforce
  have "\<exists>e. r = Inl e \<and> \<not> out_of_model e" if "r \<in> set rs" for r
  proof -
    have "r \<in> set (fst (io_all ms w))" using that by (simp add: a)
    then show ?thesis using assms
    proof (induction ms arbitrary: w)
      case (Cons m ms)
      then show ?case by (auto simp del: io_all.simps)
    qed simp
  qed
  moreover have none: "first_fulfilled xs = Inr None" if "\<And>r. r \<in> set xs \<Longrightarrow> \<exists>e. r = Inl e \<and> \<not> out_of_model e"
    for xs :: "'b result list"
    using that by (induction xs rule: first_fulfilled.induct) force+
  ultimately have "first_fulfilled (map (\<lambda>i. rs ! i) (settle_order (length rs) order)) = Inr None" for order
    by (intro none) auto
  then show ?thesis by (simp add: promise_any_def a split: prod.split)
qed

section \<open>The price of STX\<close>

record stx_quote =
  q_usd :: js_num
  q_change :: js_num

record stx_market_data =
  sm_usd :: rat
  sm_change :: rat
  sm_fetchedAt :: string

definition getJson :: "'w services \<Rightarrow> string \<Rightarrow> ('w, js) io" where
  "getJson sv url =
     io_bind (sv_fetch sv url) (\<lambda>(ok, status, body).
       if \<not> ok then io_throw (JsError (''HTTP '' @ int_text status)) else io_return body)"

definition pct :: "js_num \<Rightarrow> js_num \<Rightarrow> js_num" where
  "pct last' open' = (if num_less (Fin 0) open' then num_mul (num_div (num_sub last' open') open') (Fin 100) else NaN)"

text \<open>\<open>Number(v.k1.k2 ..)\<close>; an array is indexed by the text of the position.\<close>

fun js_item :: "js \<Rightarrow> nat \<Rightarrow> js result" where
  "js_item (JArr xs) i = Inr (if i < length xs then xs ! i else JUndef)"
| "js_item (JStr s) i = Inr (if i < length s then JStr [s ! i] else JUndef)"
| "js_item v i = js_get v (nat_text i)"

definition number_at :: "js \<Rightarrow> string list \<Rightarrow> js_num result" where
  "number_at v ks = js_try (js_path v ks) number_value"

text \<open>\<open>Object.values(v)[0]\<close>.\<close>

fun first_value :: "js \<Rightarrow> js result" where
  "first_value (JObj ((k, v) # fs)) = Inr v"
| "first_value (JArr (v # vs)) = Inr v"
| "first_value (JStr (c # cs)) = Inr (JStr [c])"
| "first_value JUndef = Inl (TypeError ''Cannot convert undefined or null to object'')"
| "first_value JNull = Inl (TypeError ''Cannot convert undefined or null to object'')"
| "first_value _ = Inr JUndef"

definition coingecko_quote :: "js \<Rightarrow> stx_quote result" where
  "coingecko_quote j =
     js_try (number_at j [''blockstack'', ''usd'']) (\<lambda>u.
     js_try (number_at j [''blockstack'', ''usd_24h_change'']) (\<lambda>c. Inr \<lparr> q_usd = u, q_change = c \<rparr>))"

definition binance_quote :: "js \<Rightarrow> stx_quote result" where
  "binance_quote j =
     js_try (number_at j [''lastPrice'']) (\<lambda>u.
     js_try (number_at j [''priceChangePercent'']) (\<lambda>c. Inr \<lparr> q_usd = u, q_change = c \<rparr>))"

definition coinbase_quote :: "js \<Rightarrow> stx_quote result" where
  "coinbase_quote j =
     js_try (number_at j [''last'']) (\<lambda>u.
     js_try (number_at j [''open'']) (\<lambda>o'. Inr \<lparr> q_usd = u, q_change = pct u o' \<rparr>))"

definition kraken_quote :: "js \<Rightarrow> stx_quote result" where
  "kraken_quote j =
     js_try (js_try (js_get j ''result'') first_value) (\<lambda>tk.
     js_try (js_try (js_try (js_get tk ''c'') (\<lambda>c. js_item c 0)) number_value) (\<lambda>u.
     js_try (number_at tk [''o'']) (\<lambda>o'. Inr \<lparr> q_usd = u, q_change = pct u o' \<rparr>)))"

definition SOURCES :: "(string \<times> (js \<Rightarrow> stx_quote result)) list" where
  "SOURCES =
     [(''https://api.coingecko.com/api/v3/simple/price?ids=blockstack&vs_currencies=usd&include_24hr_change=true'',
       coingecko_quote),
      (''https://api.binance.com/api/v3/ticker/24hr?symbol=STXUSDT'', binance_quote),
      (''https://api.exchange.coinbase.com/products/STX-USD/stats'', coinbase_quote),
      (''https://api.kraken.com/0/public/Ticker?pair=STXUSD'', kraken_quote)]"

definition plausible :: "stx_quote \<Rightarrow> bool" where
  "plausible q \<longleftrightarrow> is_finite_num (q_usd q) \<and> num_less (Fin 0) (q_usd q) \<and> is_finite_num (q_change q)"

definition ask_source :: "'w services \<Rightarrow> string \<times> (js \<Rightarrow> stx_quote result) \<Rightarrow> ('w, stx_quote) io" where
  "ask_source sv x =
     io_bind (getJson sv (fst x)) (\<lambda>j. io_bind (io_lift (snd x j)) (\<lambda>q.
       if \<not> plausible q then io_throw (JsError ''implausible quote'') else io_return q))"

fun num_rat :: "js_num \<Rightarrow> rat" where
  "num_rat (Fin q) = q"
| "num_rat _ = 0"

definition getStxPrice :: "'w services \<Rightarrow> ('w, stx_market_data) io" where
  "getStxPrice sv =
     io_bind (promise_any sv (map (ask_source sv) SOURCES)) (\<lambda>r.
       (case r of
          None \<Rightarrow> io_throw (JsError ''No STX price source is reachable'')
        | Some q \<Rightarrow> io_bind (io_of (sv_isoNow sv)) (\<lambda>t.
            io_return \<lparr> sm_usd = num_rat (q_usd q), sm_change = num_rat (q_change q), sm_fetchedAt = t \<rparr>)))"

section \<open>Total value locked\<close>

text \<open>\<open>encodeURIComponent\<close>, for characters below 256 encoded in UTF-8.\<close>

definition unreserved :: "char \<Rightarrow> bool" where
  "unreserved c \<longleftrightarrow> is_digit c \<or> (let n = of_char c :: nat in 65 \<le> n \<and> n \<le> 90 \<or> 97 \<le> n \<and> n \<le> 122) \<or>
     c \<in> set ''-_.!~*()'' \<or> c = CHR 0x27"

definition hex_upper :: "nat \<Rightarrow> char" where
  "hex_upper d = (if d < 10 then digit_char d else char_of (55 + d))"

definition percent_byte :: "nat \<Rightarrow> string" where
  "percent_byte n = [CHR ''%'', hex_upper (n div 16), hex_upper (n mod 16)]"

definition encodeURIComponent :: "string \<Rightarrow> string" where
  "encodeURIComponent s =
     concat (map (\<lambda>c. let n = of_char c :: nat in
       if unreserved c then [c]
       else if n < 128 then percent_byte n
       else percent_byte (192 + n div 64) @ percent_byte (128 + n mod 64)) s)"

definition getProtocolTvl :: "'w services \<Rightarrow> string \<Rightarrow> ('w, rat option) io" where
  "getProtocolTvl sv slug =
     io_catch
       (io_bind (sv_fetchText sv (''https://api.llama.fi/tvl/'' @ encodeURIComponent slug)) (\<lambda>(ok, status, text).
          if \<not> ok then io_return None
          else io_bind (io_lift (num_of_text text)) (\<lambda>usd.
            io_return (case usd of Fin q \<Rightarrow> Some q | _ \<Rightarrow> None))))
       (\<lambda>_. io_return None)"

section \<open>A price is never made up\<close>

text \<open>The price returned is positive, and some source answered it just then.\<close>

lemma ask_source_plausible: "fst (ask_source sv x w) = Inr q \<Longrightarrow> plausible q"
  by (auto simp: ask_source_def io_defs split: prod.splits sum.splits if_splits)

lemma ask_source_answer:
  assumes "fst (ask_source sv x w) = Inr q"
  shows "\<exists>status body w'. sv_fetch sv (fst x) w = (Inr (True, status, body), w') \<and> snd x body = Inr q"
  using assms by (auto simp: ask_source_def getJson_def io_defs split: prod.splits sum.splits if_splits)

lemma price_from_source:
  assumes "fst (getStxPrice sv w) = Inr p"
  shows "0 < sm_usd p \<and> (\<exists>src \<in> set SOURCES. \<exists>u w' status body q.
     sv_fetch sv (fst src) u = (Inr (True, status, body), w') \<and> snd src body = Inr q \<and>
     q_usd q = Fin (sm_usd p) \<and> q_change q = Fin (sm_change p))"
proof -
  obtain r w1 where a: "promise_any sv (map (ask_source sv) SOURCES) w = (r, w1)" by fastforce
  with assms obtain q where r: "r = Inr (Some q)"
    and p: "sm_usd p = num_rat (q_usd q)" "sm_change p = num_rat (q_change q)"
    by (auto simp: getStxPrice_def io_defs io_of_def split: sum.splits option.splits prod.splits)
  have "fst (promise_any sv (map (ask_source sv) SOURCES) w) = Inr (Some q)" using a r by simp
  from promise_any_result [OF this] have "Inr q \<in> set (fst (io_all (map (ask_source sv) SOURCES) w))" by simp
  from io_all_mem [OF this] obtain src u where src: "src \<in> set SOURCES" "fst (ask_source sv src u) = Inr q" by auto
  from ask_source_plausible [OF src(2)] obtain x y where q: "q_usd q = Fin x" "q_change q = Fin y" "0 < x"
    by (cases "q_usd q"; cases "q_change q") (auto simp: plausible_def)
  with p src ask_source_answer [OF src(2)] show ?thesis by fastforce
qed

end
