(* ===== verification/Pool_Analysis.thy ===== *)
theory Pool_Analysis
  imports Market_Data
begin

text \<open>
  The comparison of one pool of a vault with the catalogue of Mainnet protocols
  (agent/src/analysis/poolStrategyAnalysis.ts): which protocols are candidates, how they are ranked,
  and how much the vault's own limits would let into one of them. It is analysis only: the function
  reads and returns, and has no intent, key or record to act on.
\<close>

section \<open>Tables\<close>

record risk_shape =
  rs_tier :: int
  rs_label :: string
  rs_note :: string

datatype candidate_verdict = CANDIDATE | EXCLUDED

record hypothetical_allocation =
  ha_amount :: string
  ha_bpsOfPool :: int
  ha_shareOfTvlPct :: "js_num option"

record strategy_evaluation =
  ev_protocolId :: string
  ev_name :: string
  ev_category :: protocol_category
  ev_website :: string
  ev_plainSummary :: string
  ev_contractLive :: "bool option"
  ev_contractId :: string
  ev_tvlUsd :: "rat option"
  ev_assetSupported :: bool
  ev_riskTier :: int
  ev_riskLabel :: string
  ev_riskNote :: string
  ev_rank :: "int option"
  ev_verdict :: candidate_verdict
  ev_reasons :: "string list"
  ev_hypothetical :: "hypothetical_allocation option"

record pool_facts =
  pf_totalBalance :: string
  pf_idleBalance :: string
  pf_idleBps :: int
  pf_maxExposureBps :: int
  pf_minIdleBps :: int
  pf_maxTxAmount :: string
  pf_maxDeployable :: string

record pool_analysis =
  an_vaultId :: int
  an_asset :: asset
  an_network :: network_name
  an_generatedAt :: string
  an_pool :: pool_facts
  an_blockers :: "string list"
  an_stxPriceUsd :: "rat option"
  an_strategies :: "strategy_evaluation list"
  an_topPickId :: "string option"
  an_summary :: string
  an_limitations :: "string list"
  an_executed :: bool
  an_executionNote :: string

definition ASSET_SUPPORT :: "(string \<times> asset list) list" where
  "ASSET_SUPPORT =
     [(''alex'', [''STX'', ''SBTC'']), (''zest'', [''SBTC'', ''STX'']), (''arkadiko'', [''STX'']),
      (''stackingdao'', [''STX'']), (''granite'', [''SBTC''])]"

fun CATEGORY_RISK :: "protocol_category \<Rightarrow> risk_shape" where
  "CATEGORY_RISK Lending =
     \<lparr> rs_tier = 1, rs_label = ''Lower'',
       rs_note = ''Supplying to a lending market earns interest from borrowers. Main risks: borrower shortfalls '' @
         ''if collateral falls faster than it is liquidated, and contract bugs. No impermanent loss.'' \<rparr>"
| "CATEGORY_RISK LiquidStaking =
     \<lparr> rs_tier = 1, rs_label = ''Lower'',
       rs_note = ''Staking earns protocol rewards while the receipt token stays usable. Main risks: the receipt '' @
         ''token trading below its underlying value, unlock delays, and contract bugs.'' \<rparr>"
| "CATEGORY_RISK DexAmm =
     \<lparr> rs_tier = 2, rs_label = ''Moderate'',
       rs_note = ''Providing liquidity to a trading pool earns trading fees but carries impermanent loss when '' @
         ''prices move, plus contract bugs.'' \<rparr>"
| "CATEGORY_RISK CdpStablecoin =
     \<lparr> rs_tier = 3, rs_label = ''Higher'',
       rs_note = ''Locking collateral to mint a stablecoin is borrowing, not passive yield: if collateral value '' @
         ''drops far enough it can be liquidated. It does not fit idle-capital deployment well.'' \<rparr>"
| "CATEGORY_RISK SyntheticDollar =
     \<lparr> rs_tier = 3, rs_label = ''Higher'',
       rs_note = ''Synthetic dollars rely on a hedging strategy and its counterparties rather than direct '' @
         ''collateral.'' \<rparr>"

section \<open>The checks\<close>

text \<open>\<open>Some True\<close>: deployed, \<open>Some False\<close>: a real 404, \<open>None\<close>: unknown.\<close>

definition ask_host :: "'w services \<Rightarrow> string \<Rightarrow> string \<Rightarrow> ('w, bool) io" where
  "ask_host sv contract host =
     io_bind (sv_fetch sv (host @ ''/extended/v1/contract/'' @ contract)) (\<lambda>(ok, status, body).
       if status = 404 then io_return False
       else if \<not> ok then io_throw (JsError (''HTTP '' @ int_text status))
       else io_return True)"

definition contractLive :: "'w services \<Rightarrow> string \<Rightarrow> ('w, bool option) io" where
  "contractLive sv contract =
     promise_any sv (map (ask_host sv contract) [''https://api.hiro.so'', ''https://api.mainnet.hiro.so''])"

text \<open>\<open>Math.round\<close> of a small negative number is the negative zero, which prints with its sign.\<close>

definition fmtUsd :: "rat \<Rightarrow> string" where
  "fmtUsd n = (let r = \<lfloor>n + 1 / 2\<rfloor> in ''$'' @ (if n < 0 \<and> r = 0 then ''-0'' else locale_int r))"

definition sizeDeployable :: "vault_snapshot \<Rightarrow> int" where
  "sizeDeployable vault =
     (let maxExposure = big_div (vs_totalBalance vault * rc_maxExposureBps (vs_riskConfig vault)) BPS;
          reserve = big_div (vs_totalBalance vault * rc_minIdleBps (vs_riskConfig vault) + BPS - 1) BPS;
          idleAfterReserve = (if vs_idleBalance vault > reserve then vs_idleBalance vault - reserve else 0);
          a1 = (if idleAfterReserve > maxExposure then maxExposure else idleAfterReserve);
          a2 = (if a1 > rc_maxTxAmount (vs_riskConfig vault) then rc_maxTxAmount (vs_riskConfig vault) else a1)
      in if a2 > 0 then a2 else 0)"

definition pool_label :: "vault_snapshot \<Rightarrow> string" where
  "pool_label vault = (if vs_asset vault = ''STX'' then ''STX'' else ''sBTC'')"

definition first_blockers :: "vault_snapshot \<Rightarrow> protocol_context \<Rightarrow> string list" where
  "first_blockers vault ctx =
     (if pc_protocolPaused ctx then [''The protocol is paused by governance, so no new allocation is possible.''] else [])
   @ (if \<not> vs_supportsAsset vault then [''This vault was not created to hold '' @ pool_label vault @ ''.''] else [])
   @ (if vs_paused vault then [''This vault is paused by its owner.''] else [])
   @ (if vs_totalBalance vault \<le> 0
      then [''This vault holds no '' @ pool_label vault @ '' yet, so there is nothing to deploy.''] else [])"

definition deployable_now :: "vault_snapshot \<Rightarrow> protocol_context \<Rightarrow> int" where
  "deployable_now vault ctx = (if first_blockers vault ctx = [] then sizeDeployable vault else 0)"

definition all_blockers :: "vault_snapshot \<Rightarrow> protocol_context \<Rightarrow> string list" where
  "all_blockers vault ctx =
     (if first_blockers vault ctx = [] \<and> deployable_now vault ctx \<le> 0 then
        [''The vault is at its own limits ('' @ percent_text (rc_maxExposureBps (vs_riskConfig vault))
         @ ''% per-strategy cap, '' @ percent_text (rc_minIdleBps (vs_riskConfig vault))
         @ ''% minimum idle) or has no idle '' @ pool_label vault @ '' beyond the reserve.'']
      else first_blockers vault ctx)"

definition check_protocol :: "'w services \<Rightarrow> ecosystem_protocol \<Rightarrow> ('w, bool option \<times> rat option) io" where
  "check_protocol sv p =
     io_bind (contractLive sv (ep_mainnetContract p)) (\<lambda>live.
     io_bind (case ep_defiLlamaSlug p of
                None \<Rightarrow> io_return None
              | Some slug \<Rightarrow>
                  if slug = [] then io_return None
                  else io_catch (with_timeout sv (getProtocolTvl sv slug)) (\<lambda>_. io_return None)) (\<lambda>tvl.
     io_return (live, tvl)))"

section \<open>Evaluating and ranking\<close>

definition evaluate_protocol ::
    "vault_snapshot \<Rightarrow> int \<Rightarrow> rat option \<Rightarrow> ecosystem_protocol \<Rightarrow> bool option \<times> rat option \<Rightarrow> strategy_evaluation" where
  "evaluate_protocol vault deployable price p check =
     (let (live, tvl) = check; risk = CATEGORY_RISK (ep_category p); label = pool_label vault;
          support = map_of ASSET_SUPPORT (ep_id p);
          supported = (case support of Some as \<Rightarrow> vs_asset vault \<in> set as | None \<Rightarrow> False);
          candidate = (live = Some True \<and> supported);
          share = (case (price, tvl) of
              (Some usd, Some t) \<Rightarrow>
                if vs_asset vault = ''STX'' \<and> 0 < t then
                  Some (num_mul (num_div (num_mul (num_div (Fin (of_int (js_Number deployable))) (Fin 1000000)) (Fin usd))
                    (Fin t)) (Fin 100))
                else None
            | _ \<Rightarrow> None) in
      \<lparr> ev_protocolId = ep_id p, ev_name = ep_name p, ev_category = ep_category p, ev_website = ep_website p,
        ev_plainSummary = ep_plainSummary p, ev_contractLive = live, ev_contractId = ep_mainnetContract p,
        ev_tvlUsd = tvl, ev_assetSupported = supported,
        ev_riskTier = rs_tier risk, ev_riskLabel = rs_label risk, ev_riskNote = rs_note risk, ev_rank = None,
        ev_verdict = (if candidate then CANDIDATE else EXCLUDED),
        ev_reasons =
          (case live of
             Some False \<Rightarrow> [''Its Mainnet contract was not found on-chain, so it is not a valid destination.'']
           | None \<Rightarrow> [''Its Mainnet contract could not be verified just now (the public API was unreachable), so it '' @
               ''is not ranked.'']
           | Some True \<Rightarrow> [])
        @ (if supported then []
           else if support \<noteq> None then [''Its published description does not include '' @ label @ '' deposits.'']
           else [''Whether it accepts '' @ label @ '' is not established by its published description, so it is not '' @
             ''assumed.'']),
        ev_hypothetical =
          (if candidate \<and> 0 < deployable then
             Some \<lparr> ha_amount = int_text deployable, ha_bpsOfPool = bpsOf deployable (vs_totalBalance vault),
                    ha_shareOfTvlPct = share \<rparr>
           else None) \<rparr>)"

definition tvl_or :: "strategy_evaluation \<Rightarrow> rat" where
  "tvl_or e = (case ev_tvlUsd e of Some t \<Rightarrow> t | None \<Rightarrow> - 1)"

text \<open>\<open>a.riskTier - b.riskTier || (b.tvlUsd ?? -1) - (a.tvlUsd ?? -1)\<close>.\<close>

definition compare_evaluations :: "strategy_evaluation \<Rightarrow> strategy_evaluation \<Rightarrow> js_num" where
  "compare_evaluations a b =
     (if ev_riskTier a \<noteq> ev_riskTier b then Fin (of_int (ev_riskTier a - ev_riskTier b))
      else num_sub (Fin (tvl_or b)) (Fin (tvl_or a)))"

text \<open>\<open>Array.prototype.sort\<close> is stable, so insertion from the right gives its result.\<close>

fun js_insert :: "('a \<Rightarrow> 'a \<Rightarrow> js_num) \<Rightarrow> 'a \<Rightarrow> 'a list \<Rightarrow> 'a list" where
  "js_insert cmp x [] = [x]"
| "js_insert cmp x (y # ys) = (if num_less (Fin 0) (cmp x y) then y # js_insert cmp x ys else x # y # ys)"

definition js_sort :: "('a \<Rightarrow> 'a \<Rightarrow> js_num) \<Rightarrow> 'a list \<Rightarrow> 'a list" where
  "js_sort cmp xs = foldr (js_insert cmp) xs []"

definition rank_reasons :: "strategy_evaluation \<Rightarrow> string list" where
  "rank_reasons e =
     [ev_riskLabel e @ '' risk shape for a single-asset deposit ('' @ category_text (ev_category e) @ '').'',
      case ev_tvlUsd e of
        Some t \<Rightarrow> ''About '' @ fmtUsd t @ '' of other capital is locked in it (DefiLlama).''
      | None \<Rightarrow> ''No live TVL figure was available for it.'']
   @ (case (ev_tvlUsd e, Option.bind (ev_hypothetical e) ha_shareOfTvlPct) of
        (Some t, Some s) \<Rightarrow>
          [''A maximum-size position would be about '' @
           (if num_less s (round_double (1 / 100)) then ''<0.01'' else to_fixed s 2) @ ''% of its TVL.'']
      | _ \<Rightarrow> [])"

definition rank_entry :: "nat \<Rightarrow> strategy_evaluation \<Rightarrow> strategy_evaluation" where
  "rank_entry i e = e\<lparr>ev_rank := Some (int i + 1), ev_reasons := ev_reasons e @ rank_reasons e\<rparr>"

definition ranked_candidates :: "strategy_evaluation list \<Rightarrow> strategy_evaluation list" where
  "ranked_candidates evs =
     map2 rank_entry [0..<length evs] (js_sort compare_evaluations (filter (\<lambda>e. ev_verdict e = CANDIDATE) evs))"

definition pool_summary ::
    "string \<Rightarrow> nat \<Rightarrow> strategy_evaluation list \<Rightarrow> strategy_evaluation list \<Rightarrow> string list \<Rightarrow> string" where
  "pool_summary label n evs ranked blockers =
     (let supported = length (filter ev_assetSupported evs);
          s = (case ranked of
             [] \<Rightarrow>
               if supported = 0 then
                 ''None of the '' @ nat_text n @ '' real Mainnet protocols reviewed is established to accept '' @ label @
                 '', so there is no candidate.''
               else
                 nat_text supported @ '' reviewed protocol'' @ (if supported = 1 then [] else ''s'') @ '' accept'' @
                 (if supported = 1 then ''s'' else []) @ '' '' @ label @
                 '', but none could be verified live right now. No candidate is ranked.''
           | best # _ \<Rightarrow>
               nat_text (length ranked) @ '' of '' @ nat_text n @ '' real Mainnet protocols accept '' @ label @
               '' and are live. Best fit by risk shape and depth: '' @ ev_name best @ '' ('' @
               category_text (ev_category best) @
               (case ev_tvlUsd best of Some t \<Rightarrow> '', '' @ fmtUsd t @ '' TVL'' | None \<Rightarrow> []) @ '').'') in
      s @ (case blockers of [] \<Rightarrow> [] | b # _ \<Rightarrow> '' Right now this vault could not allocate anything: '' @ b))"

definition LIMITATIONS :: "string list" where
  "LIMITATIONS =
     [''No APY or yield is shown or used: none is independently verified for these protocols. Check each protocol'' @
        [CHR 0x27] @ ''s own site for current rates.'',
      ''Ranking compares category-level risk shape and live TVL. It is not a yield forecast or financial advice.'',
      ''Which assets a protocol accepts comes from its published description; protocols where that is unclear are '' @
        ''excluded rather than assumed.'']"

definition execution_note :: "network_name \<Rightarrow> string" where
  "execution_note network =
     (if network = ''testnet'' then
        ''Analysis only. SovereigntyAI is running on Stacks Testnet with test tokens: nothing was executed, no '' @
        ''transaction was created, and your vault is unchanged. These Mainnet protocols cannot receive Testnet funds.''
      else ''Analysis only. Nothing was executed and no transaction was created.'')"

definition analyzePoolAgainstEcosystem ::
    "'w services \<Rightarrow> vault_snapshot \<Rightarrow> protocol_context \<Rightarrow> network_name \<Rightarrow> ecosystem_protocol list \<Rightarrow>
     ('w, pool_analysis) io" where
  "analyzePoolAgainstEcosystem sv vault ctx network protocols =
     (let deployable = deployable_now vault ctx; blockers = all_blockers vault ctx in
      io_bind (io_catch (io_bind (with_timeout sv (getStxPrice sv)) (\<lambda>p. io_return (Some (sm_usd p))))
                        (\<lambda>_. io_return None)) (\<lambda>price.
      io_bind (io_map (check_protocol sv) protocols) (\<lambda>checks.
      let evs = map2 (evaluate_protocol vault deployable price) protocols checks; ranked = ranked_candidates evs in
      io_bind (io_of (sv_isoNow sv)) (\<lambda>now.
      io_return
        \<lparr> an_vaultId = vs_vaultId vault, an_asset = vs_asset vault, an_network = network, an_generatedAt = now,
          an_pool = \<lparr> pf_totalBalance = int_text (vs_totalBalance vault), pf_idleBalance = int_text (vs_idleBalance vault),
            pf_idleBps = bpsOf (vs_idleBalance vault) (vs_totalBalance vault),
            pf_maxExposureBps = rc_maxExposureBps (vs_riskConfig vault), pf_minIdleBps = rc_minIdleBps (vs_riskConfig vault),
            pf_maxTxAmount = int_text (rc_maxTxAmount (vs_riskConfig vault)), pf_maxDeployable = int_text deployable \<rparr>,
          an_blockers = blockers, an_stxPriceUsd = price,
          an_strategies = ranked @ filter (\<lambda>e. ev_verdict e = EXCLUDED) evs,
          an_topPickId = (case ranked of [] \<Rightarrow> None | e # _ \<Rightarrow> Some (ev_protocolId e)),
          an_summary = pool_summary (pool_label vault) (length protocols) evs ranked blockers,
          an_limitations = LIMITATIONS, an_executed = False, an_executionNote = execution_note network \<rparr>))))"

end
