(* ===== verification/Js_Number_Order.thy ===== *)
theory Js_Number_Order
  imports Js_Values
begin

text \<open>
  The order of doubles: every rounded value lies on the grid of the smallest positive double, and
  on that grid the sign of a rounded difference is the sign of the exact one. So a comparison
  function that subtracts compares.
\<close>

definition least_double :: rat where
  "least_double = 2 powi (- 1074)"

lemma least_double_pos [simp]: "0 < least_double"
  unfolding least_double_def by (rule zero_less_power_int) simp

lemma bit_length_bounds:
  assumes "0 < n"
  shows "0 < bit_length n \<and> 2 ^ (bit_length n - 1) \<le> n \<and> n < 2 ^ bit_length n"
  using assms
proof (induction n rule: bit_length.induct)
  case (1 n)
  show ?case
  proof (cases "n = 1")
    case True
    then show ?thesis by (simp add: bit_length.simps)
  next
    case False
    with 1 have h: "0 < n div 2" by linarith
    with 1 have ih: "0 < bit_length (n div 2)" "2 ^ (bit_length (n div 2) - 1) \<le> n div 2"
      "n div 2 < 2 ^ bit_length (n div 2)" by auto
    have b: "bit_length n = Suc (bit_length (n div 2))" using 1 by (subst bit_length.simps) simp
    have "(2::int) ^ bit_length (n div 2) = 2 * 2 ^ (bit_length (n div 2) - 1)"
      using ih(1) by (simp flip: power_Suc)
    with ih have "2 ^ bit_length (n div 2) \<le> n \<and> n < 2 * 2 ^ bit_length (n div 2)" by linarith
    then show ?thesis unfolding b by simp
  qed
qed

lemma powi_bits:
  assumes "0 < k"
  shows "(2::rat) powi (int k - int l - 1) = 2 ^ (k - 1) / 2 ^ l"
proof -
  have "int k - int l - 1 = int (k - 1) - int l" using assms by simp
  then have "(2::rat) powi (int k - int l - 1) = 2 powi (int (k - 1) - int l)" by (rule arg_cong)
  also have "\<dots> = 2 powi int (k - 1) / 2 powi int l" by (rule power_int_diff) simp
  finally show ?thesis unfolding power_int_of_nat .
qed

lemma ulp_exponent_le:
  assumes "least_double \<le> a"
  shows "2 powi (ulp_exponent a) \<le> a"
proof -
  obtain n d where q: "quotient_of a = (n, d)" by fastforce
  have pos: "0 < a" by (rule less_le_trans [OF least_double_pos assms])
  have d: "0 < d" and a: "a = of_int n / of_int d"
    using quotient_of_denom_pos [OF q] quotient_of_div [OF q] by auto
  with pos have n: "0 < n" by (simp add: zero_less_divide_iff)
  let ?k = "int (bit_length n) - int (bit_length d)"
  note bn = bit_length_bounds [OF n] and bd = bit_length_bounds [OF d]
  have "(2::rat) powi (?k - 1) = 2 ^ (bit_length n - 1) / 2 ^ bit_length d"
    using bn by (intro powi_bits) simp
  also have "\<dots> \<le> of_int n / of_int d"
  proof (rule frac_le)
    show "(2::rat) ^ (bit_length n - 1) \<le> of_int n" using bn of_int_le_iff [of "2 ^ (bit_length n - 1)" n, where 'a = rat] by simp
    show "of_int d \<le> (2::rat) ^ bit_length d" using bd of_int_le_iff [of d "2 ^ bit_length d", where 'a = rat] by simp
  qed (use n d in auto)
  finally have low: "2 powi (?k - 1) \<le> a" by (simp add: a)
  let ?e = "if a < 2 powi ?k then ?k - 1 else ?k"
  have e: "2 powi ?e \<le> a" using low by simp
  have u: "ulp_exponent a = max (?e - 52) (- 1074)" by (simp add: ulp_exponent_def q Let_def)
  show ?thesis
  proof (cases "?e - 52 \<le> - 1074")
    case True
    then have "ulp_exponent a = - 1074" unfolding u by (simp only: max_absorb2)
    then show ?thesis using assms by (simp add: least_double_def)
  next
    case False
    have "(2::rat) powi (?e - 52) \<le> 2 powi ?e" by (rule power_int_increasing) simp_all
    with e have "2 powi (?e - 52) \<le> a" by linarith
    moreover have "ulp_exponent a = ?e - 52" using False unfolding u by (intro max_absorb1) linarith
    ultimately show ?thesis by simp
  qed
qed

lemma round_half_even_pos: "1 \<le> x \<Longrightarrow> 1 \<le> round_half_even x"
  by (auto simp: round_half_even_def Let_def le_floor_iff intro: order_trans)

lemma round_double_pos:
  assumes "least_double \<le> q"
  shows "num_less (Fin 0) (round_double q)"
proof -
  have q: "0 < q" by (rule less_le_trans [OF least_double_pos assms])
  have "1 \<le> q / 2 powi (ulp_exponent q)" using ulp_exponent_le [OF assms] by (simp add: le_divide_eq)
  from round_half_even_pos [OF this] have "0 < round_half_even (q / 2 powi (ulp_exponent q))" by simp
  then have "0 < of_int (round_half_even (q / 2 powi (ulp_exponent q))) * (2::rat) powi (ulp_exponent q)" by simp
  with q show ?thesis by (simp add: round_double_def Let_def)
qed

lemma round_double_neg: "round_double (- q) = num_neg (round_double q)"
  by (simp add: round_double_def Let_def)

definition on_grid :: "rat \<Rightarrow> bool" where
  "on_grid q \<longleftrightarrow> (\<exists>m::int. q = of_int m * least_double)"

lemma on_grid_int: "on_grid (of_int i)"
proof -
  have "2 ^ 1074 * least_double = 1" unfolding least_double_def by (simp only: power_int_minus power_int_numeral) simp
  then have "of_int (i * 2 ^ 1074) * least_double = of_int i" by (simp only: of_int_mult of_int_power of_int_numeral mult.assoc)
  then show ?thesis unfolding on_grid_def by metis
qed

lemma on_grid_minus: "on_grid q \<Longrightarrow> on_grid (- q)"
  unfolding on_grid_def by (metis mult_minus_left of_int_minus)

lemma round_double_grid:
  assumes "round_double q = Fin r"
  shows "on_grid r"
proof (cases "q = 0")
  case True
  then show ?thesis using assms on_grid_int [of 0] by (simp add: round_double_def)
next
  case False
  let ?e = "ulp_exponent \<bar>q\<bar>" and ?m = "round_half_even (\<bar>q\<bar> / 2 powi (ulp_exponent \<bar>q\<bar>))"
  have e: "- 1074 \<le> ?e" by (simp add: ulp_exponent_def Let_def split: prod.split)
  then have "(2::rat) powi ?e = 2 powi (int (nat (?e + 1074)) + - 1074)" by simp
  also have "\<dots> = 2 ^ nat (?e + 1074) * least_double"
    unfolding least_double_def power_int_of_nat [symmetric] by (rule power_int_add) simp
  finally have "(2::rat) powi ?e = 2 ^ nat (?e + 1074) * least_double" .
  then have "of_int ?m * (2::rat) powi ?e = of_int (?m * 2 ^ nat (?e + 1074)) * least_double" by simp
  then have g: "on_grid (of_int ?m * 2 powi ?e)" unfolding on_grid_def by blast
  from assms False have "r = of_int ?m * 2 powi ?e \<or> r = - (of_int ?m * 2 powi ?e)"
    by (auto simp: round_double_def Let_def split: if_splits)
  with g on_grid_minus show ?thesis by metis
qed

lemma num_of_text_grid: "num_of_text s = Inr (Fin q) \<Longrightarrow> on_grid q"
  using on_grid_int [of 0]
  by (auto simp: num_of_text_def Let_def round_double_grid split: if_splits option.splits list.splits)

lemma grid_difference:
  assumes "on_grid a" "on_grid b" "a < b"
  shows "least_double \<le> b - a"
proof -
  obtain m n where "a = of_int m * least_double" "b = of_int n * least_double"
    using assms by (auto simp: on_grid_def)
  moreover from this have "m < n" using assms(3) mult_less_cancel_right_pos [OF least_double_pos] by auto
  ultimately have d: "b - a = of_int (n - m) * least_double" and "1 \<le> n - m" by (simp_all add: left_diff_distrib)
  then have "(1::rat) \<le> of_int (n - m)" using of_int_le_iff [of 1 "n - m", where 'a = rat] by simp
  then have "1 * least_double \<le> of_int (n - m) * least_double" by (rule mult_right_mono) (simp add: less_imp_le)
  then show ?thesis using d by simp
qed

text \<open>The sign of a difference of doubles.\<close>

lemma num_sub_sign:
  assumes "on_grid a" "on_grid b"
  shows "num_less (Fin 0) (num_sub (Fin b) (Fin a)) \<longleftrightarrow> a < b"
proof -
  consider "a < b" | "a = b" | "b < a" by linarith
  then show ?thesis
  proof cases
    case 1
    from round_double_pos [OF grid_difference [OF assms 1]] 1 show ?thesis by (simp add: num_sub_def)
  next
    case 2
    then show ?thesis by (simp add: num_sub_def round_double_def)
  next
    case 3
    have "num_less (Fin 0) (round_double (a - b))" by (rule round_double_pos [OF grid_difference [OF assms(2,1) 3]])
    moreover have "round_double (b - a) = num_neg (round_double (a - b))" using round_double_neg [of "a - b"] by simp
    ultimately show ?thesis using 3 by (cases "round_double (a - b)") (auto simp: num_sub_def)
  qed
qed

end
