(* ===== verification/Pool_Ranking.thy ===== *)
theory Pool_Ranking
  imports Pool_Analysis Js_Number_Order "HOL-Library.Multiset" "HOL-Library.Product_Lexorder"
begin

text \<open>
  What the comparison of a pool with the catalogue promises: it always returns, the candidates are
  ranked by risk shape and depth and every one of them was verified just then, and the amount it
  calls deployable is the one the decision engine would size.
\<close>

section \<open>Computations that do not throw\<close>

text \<open>Such a computation ends in a value, unless the world answers with something outside the model.\<close>

definition no_throw :: "('w, 'a) io \<Rightarrow> bool" where
  "no_throw m \<longleftrightarrow> (\<forall>w e. fst (m w) = Inl e \<longrightarrow> out_of_model e)"

named_theorems no_throws \<open>rules for computations that do not throw\<close>

lemma no_throw_return [no_throws]: "no_throw (io_return x)"
  by (simp add: no_throw_def io_return_def)

lemma no_throw_of [no_throws]: "no_throw (io_of f)"
  by (simp add: no_throw_def io_of_def split: prod.split)

lemma no_throw_bind [no_throws]:
  assumes "no_throw m" "\<And>x. no_throw (f x)"
  shows "no_throw (io_bind m f)"
  using assms by (auto simp: no_throw_def bind_Inl)

lemma no_throw_catch [no_throws]:
  assumes "\<And>e. no_throw (h e)"
  shows "no_throw (io_catch m h)"
  using assms by (auto simp: no_throw_def catch_Inl)

lemma no_throw_map [no_throws]: "(\<And>x. no_throw (f x)) \<Longrightarrow> no_throw (io_map f xs)"
  by (induction xs) (auto intro!: no_throws)

lemma first_fulfilled_out: "first_fulfilled rs = Inl e \<Longrightarrow> out_of_model e"
  by (induction rs rule: first_fulfilled.induct) (auto split: if_splits)

lemma no_throw_any [no_throws]: "no_throw (promise_any sv ms)"
  by (auto simp: no_throw_def promise_any_def split: prod.splits dest: first_fulfilled_out)

lemma no_throw_if [no_throws]: "no_throw m \<Longrightarrow> no_throw n \<Longrightarrow> no_throw (if b then m else n)"
  by simp

lemma analyze_pool_returns: "no_throw (analyzePoolAgainstEcosystem sv vault ctx network protocols)"
proof -
  have "no_throw (check_protocol sv p)" for p
    by (cases "ep_defiLlamaSlug p") (auto simp: check_protocol_def contractLive_def intro!: no_throws)
  then show ?thesis by (auto simp: analyzePoolAgainstEcosystem_def Let_def intro!: no_throws)
qed

section \<open>Sorting with a comparison function\<close>

text \<open>A comparison function that agrees with a key sorts by the key, stably.\<close>

lemma js_sort_key:
  assumes "\<And>x y. x \<in> set xs \<Longrightarrow> y \<in> set xs \<Longrightarrow> num_less (Fin 0) (cmp x y) \<longleftrightarrow> key y < (key x :: 'k :: linorder)"
  shows "js_sort cmp xs = sort_key key xs"
proof -
  have ins: "js_insert cmp x ys = insort_key key x ys" if "x \<in> set xs" "set ys \<subseteq> set xs" for x ys
    using that by (induction ys) (auto simp: assms not_less [symmetric])
  have "foldr (js_insert cmp) zs [] = foldr (insort_key key) zs [] \<and> set (foldr (insort_key key) zs []) = set zs"
    if "set zs \<subseteq> set xs" for zs
    using that by (induction zs) (auto simp: ins set_insort_key)
  then show ?thesis by (simp add: js_sort_def sort_key_def)
qed

definition rank_key :: "strategy_evaluation \<Rightarrow> int \<times> rat" where
  "rank_key e = (ev_riskTier e, - tvl_or e)"

lemma compare_key:
  assumes "on_grid (tvl_or a)" "on_grid (tvl_or b)"
  shows "num_less (Fin 0) (compare_evaluations a b) \<longleftrightarrow> rank_key b < rank_key a"
  using num_sub_sign [OF assms] by (auto simp: compare_evaluations_def rank_key_def less_prod_def)

section \<open>The checks of a run\<close>

lemma tvl_on_grid:
  assumes "fst (getProtocolTvl sv slug w) = Inr (Some t)"
  shows "on_grid t"
  using assms num_of_text_grid
  by (fastforce simp: getProtocolTvl_def io_defs split: prod.splits sum.splits if_splits js_num.splits)

lemma check_on_grid:
  assumes "fst (check_protocol sv p w) = Inr (live, Some t)"
  shows "on_grid t"
proof -
  have "\<exists>slug u. fst (getProtocolTvl sv slug u) = Inr (Some t)"
    using assms
    by (auto simp: check_protocol_def with_timeout_def bind_Inr catch_Inr case_prod_beta split: option.splits if_splits)
  then show ?thesis by (elim exE) (rule tvl_on_grid)
qed

lemma io_map_results:
  assumes "fst (io_map f xs w) = Inr ys"
  shows "length ys = length xs \<and> (\<forall>i < length xs. \<exists>u. fst (f (xs ! i) u) = Inr (ys ! i))"
  using assms
proof (induction xs arbitrary: w ys)
  case Nil
  then show ?case by (simp add: io_return_def)
next
  case (Cons x xs)
  then obtain y w1 zs where y: "f x w = (Inr y, w1)" and zs: "fst (io_map f xs w1) = Inr zs" and ys: "ys = y # zs"
    by (auto simp: io_defs split: prod.splits sum.splits)
  from Cons.IH [OF zs] y show ?case unfolding ys by (auto simp: nth_Cons split: nat.split intro: exI [of _ w])
qed

section \<open>The ranking\<close>

lemma rank_entry_keeps [simp]:
  "ev_protocolId (rank_entry i e) = ev_protocolId e" "ev_verdict (rank_entry i e) = ev_verdict e"
  "ev_contractLive (rank_entry i e) = ev_contractLive e" "ev_contractId (rank_entry i e) = ev_contractId e"
  "ev_assetSupported (rank_entry i e) = ev_assetSupported e" "ev_hypothetical (rank_entry i e) = ev_hypothetical e"
  "rank_key (rank_entry i e) = rank_key e" "ev_rank (rank_entry i e) = Some (int i + 1)"
  by (simp_all add: rank_entry_def rank_key_def tvl_or_def)

lemma map2_upt:
  "length xs \<le> n \<Longrightarrow> map2 f [m..<m + n] xs = map (\<lambda>i. f (m + i) (xs ! i)) [0..<length xs]"
  by (rule nth_equalityI) simp_all

lemma map_of_nth: "map (\<lambda>i. g (xs ! i)) [0..<length xs] = map g xs"
  by (rule nth_equalityI) simp_all

definition candidates :: "strategy_evaluation list \<Rightarrow> strategy_evaluation list" where
  "candidates evs = filter (\<lambda>e. ev_verdict e = CANDIDATE) evs"

definition excluded :: "strategy_evaluation list \<Rightarrow> strategy_evaluation list" where
  "excluded evs = filter (\<lambda>e. ev_verdict e = EXCLUDED) evs"

lemma candidates_excluded: "mset (candidates evs) + mset (excluded evs) = mset evs"
proof (induction evs)
  case (Cons e evs)
  then show ?case by (cases "ev_verdict e") (simp_all add: candidates_def excluded_def)
qed (simp add: candidates_def excluded_def)

lemma ranked_facts:
  assumes "\<forall>e \<in> set evs. on_grid (tvl_or e)"
  defines "R \<equiv> ranked_candidates evs" and "S \<equiv> sort_key rank_key (candidates evs)"
  shows "R = map (\<lambda>i. rank_entry i (S ! i)) [0..<length S]" and "length S = length (candidates evs)"
    and "set S = set (candidates evs)" and "mset S = mset (candidates evs)" and "sorted (map rank_key S)"
proof -
  have k: "js_sort compare_evaluations (candidates evs) = S" unfolding S_def
    by (rule js_sort_key) (rule compare_key, auto simp: candidates_def assms(1))
  have l: "length S = length (candidates evs)" by (simp add: S_def)
  then have "length S \<le> length evs" by (simp add: candidates_def)
  from map2_upt [OF this, of rank_entry 0] show "R = map (\<lambda>i. rank_entry i (S ! i)) [0..<length S]"
    by (simp add: R_def ranked_candidates_def k flip: candidates_def)
  show "length S = length (candidates evs)" by (rule l)
qed (simp_all add: S_def)

lemma evaluation_facts:
  fixes vault d price p check
  defines "e \<equiv> evaluate_protocol vault d price p check"
  shows "ev_protocolId e = ep_id p" "ev_rank e = None" "ev_contractLive e = fst check" "ev_contractId e = ep_mainnetContract p"
    "ev_tvlUsd e = snd check"
    "ev_verdict e = CANDIDATE \<longleftrightarrow> fst check = Some True \<and> ev_assetSupported e"
    "ev_hypothetical e = Some h \<Longrightarrow> ev_verdict e = CANDIDATE \<and> 0 < d \<and> ha_amount h = int_text d"
  by (auto simp: e_def evaluate_protocol_def Let_def case_prod_beta split: if_splits)

text \<open>What an analysis holds: the candidates, ranked, then the rest in the order of the catalogue.\<close>

lemma analysis_parts:
  assumes "fst (analyzePoolAgainstEcosystem sv vault ctx network protocols w) = Inr an"
  shows "\<exists>price checks. length checks = length protocols \<and>
     (\<forall>i < length protocols. \<exists>u. fst (check_protocol sv (protocols ! i) u) = Inr (checks ! i)) \<and>
     (let evs = map2 (evaluate_protocol vault (deployable_now vault ctx) price) protocols checks in
       an_strategies an = ranked_candidates evs @ excluded evs \<and>
       an_topPickId an = (case ranked_candidates evs of [] \<Rightarrow> None | e # _ \<Rightarrow> Some (ev_protocolId e)))"
proof -
  from assms obtain price checks u
    where c: "fst (io_map (check_protocol sv) protocols u) = Inr checks"
      and an: "let evs = map2 (evaluate_protocol vault (deployable_now vault ctx) price) protocols checks in
       an_strategies an = ranked_candidates evs @ excluded evs \<and>
       an_topPickId an = (case ranked_candidates evs of [] \<Rightarrow> None | e # _ \<Rightarrow> Some (ev_protocolId e))"
    unfolding analyzePoolAgainstEcosystem_def Let_def bind_Inr excluded_def by auto
  from io_map_results [OF c] an show ?thesis by blast
qed

theorem analysis_ranking:
  assumes "fst (analyzePoolAgainstEcosystem sv vault ctx network protocols w) = Inr an"
  defines "C \<equiv> candidates (an_strategies an)" and "X \<equiv> excluded (an_strategies an)"
  shows "an_strategies an = C @ X" and "mset (map ev_protocolId (C @ X)) = mset (map ep_id protocols)"
    and "sorted (map rank_key C)" and "map ev_rank C = map (\<lambda>i. Some (int i + 1)) [0..<length C]"
    and "\<forall>e \<in> set X. ev_rank e = None"
    and "\<forall>e \<in> set C. ev_assetSupported e \<and> (\<exists>u. fst (contractLive sv (ev_contractId e) u) = Inr (Some True))"
    and "an_topPickId an = (case C of [] \<Rightarrow> None | e # _ \<Rightarrow> Some (ev_protocolId e))"
    and "\<forall>e \<in> set (C @ X). \<forall>h. ev_hypothetical e = Some h \<longrightarrow>
       e \<in> set C \<and> 0 < deployable_now vault ctx \<and> ha_amount h = int_text (deployable_now vault ctx)"
proof -
  from analysis_parts [OF assms(1)] obtain price checks where len: "length checks = length protocols"
    and chk: "\<forall>i < length protocols. \<exists>u. fst (check_protocol sv (protocols ! i) u) = Inr (checks ! i)"
    and parts: "let evs = map2 (evaluate_protocol vault (deployable_now vault ctx) price) protocols checks in
       an_strategies an = ranked_candidates evs @ excluded evs \<and>
       an_topPickId an = (case ranked_candidates evs of [] \<Rightarrow> None | e # _ \<Rightarrow> Some (ev_protocolId e))"
    by blast
  define evs where "evs = map2 (evaluate_protocol vault (deployable_now vault ctx) price) protocols checks"
  have an: "an_strategies an = ranked_candidates evs @ excluded evs"
    "an_topPickId an = (case ranked_candidates evs of [] \<Rightarrow> None | e # _ \<Rightarrow> Some (ev_protocolId e))"
    using parts by (simp_all add: evs_def Let_def)
  have nth: "\<exists>i < length protocols. e = evaluate_protocol vault (deployable_now vault ctx) price (protocols ! i) (checks ! i)"
    if e: "e \<in> set evs" for e
  proof -
    obtain i where "i < length evs" "e = evs ! i" using e by (auto simp: in_set_conv_nth)
    with len show ?thesis by (intro exI [of _ i]) (simp add: evs_def)
  qed
  have grid: "on_grid (tvl_or e)" if e: "e \<in> set evs" for e
  proof (cases "ev_tvlUsd e")
    case None
    then show ?thesis using on_grid_int [of "- 1"] by (simp add: tvl_or_def)
  next
    case (Some t)
    from nth [OF e] obtain i where i: "i < length protocols"
      and ei: "e = evaluate_protocol vault (deployable_now vault ctx) price (protocols ! i) (checks ! i)" by blast
    from chk i obtain u where u: "fst (check_protocol sv (protocols ! i) u) = Inr (checks ! i)" by blast
    have "snd (checks ! i) = Some t" using Some unfolding ei evaluation_facts(5) .
    with u have "fst (check_protocol sv (protocols ! i) u) = Inr (fst (checks ! i), Some t)"
      by (cases "checks ! i") simp
    from check_on_grid [OF this] Some show ?thesis by (simp add: tvl_or_def)
  qed
  define S where "S = sort_key rank_key (candidates evs)"
  from grid have "\<forall>e \<in> set evs. on_grid (tvl_or e)" by blast
  note R = ranked_facts [OF this, folded S_def]
  have cS: "ev_verdict (S ! i) = CANDIDATE" if "i < length S" for i
    using R(3) nth_mem [OF that] by (auto simp: candidates_def)
  have cR: "ev_verdict e = CANDIDATE" if "e \<in> set (ranked_candidates evs)" for e
    using that cS unfolding R(1) by auto
  have C: "C = ranked_candidates evs" unfolding C_def an(1) candidates_def filter_append
    using cR by (simp add: excluded_def filter_True)
  have X: "X = excluded evs" unfolding X_def an(1) excluded_def filter_append
    using cR by (simp add: filter_False)
  show split: "an_strategies an = C @ X" by (simp add: an(1) C X)
  show "map ev_rank C = map (\<lambda>i. Some (int i + 1)) [0..<length C]" by (simp add: C R(1) o_def)
  have "map rank_key C = map rank_key S" by (simp add: C R(1) o_def map_of_nth)
  then show "sorted (map rank_key C)" using R(5) by simp
  have ids: "map ev_protocolId C = map ev_protocolId S" by (simp add: C R(1) o_def map_of_nth)
  have "mset (map ev_protocolId (C @ X)) = image_mset ev_protocolId (mset (candidates evs) + mset (excluded evs))"
    unfolding map_append ids by (simp add: X R(4))
  also have "mset (candidates evs) + mset (excluded evs) = mset evs"
    by (rule candidates_excluded)
  also have "image_mset ev_protocolId (mset evs) = mset (map ep_id protocols)"
  proof -
    have "map ev_protocolId evs = map ep_id protocols"
      by (rule nth_equalityI) (simp_all add: evs_def len evaluation_facts)
    then show ?thesis by (metis mset_map)
  qed
  finally show "mset (map ev_protocolId (C @ X)) = mset (map ep_id protocols)" .
  have memC: "\<exists>x \<in> set evs. ev_verdict x = CANDIDATE \<and> (\<exists>i. e = rank_entry i x)" if "e \<in> set C" for e
    using that cS R(3) by (auto simp: C R(1) candidates_def) (metis (mono_tags, lifting) mem_Collect_eq nth_mem set_filter)
  show "\<forall>e \<in> set X. ev_rank e = None" using nth by (fastforce simp: X excluded_def evaluation_facts)
  show "\<forall>e \<in> set C. ev_assetSupported e \<and> (\<exists>u. fst (contractLive sv (ev_contractId e) u) = Inr (Some True))"
  proof
    fix e assume "e \<in> set C"
    from memC [OF this] obtain x j where x: "x \<in> set evs" "ev_verdict x = CANDIDATE" "e = rank_entry j x" by blast
    from nth [OF x(1)] obtain i where i: "i < length protocols"
      and xi: "x = evaluate_protocol vault (deployable_now vault ctx) price (protocols ! i) (checks ! i)" by blast
    from chk i obtain u where u: "fst (check_protocol sv (protocols ! i) u) = Inr (checks ! i)" by blast
    have live: "fst (checks ! i) = Some True" "ev_assetSupported x" using x(2) unfolding xi evaluation_facts(6) by auto
    from u have "fst (contractLive sv (ep_mainnetContract (protocols ! i)) u) = Inr (fst (checks ! i))"
      unfolding check_protocol_def bind_Inr by (auto dest!: sym [of _ "checks ! i"])
    with live x(3) show "ev_assetSupported e \<and> (\<exists>u. fst (contractLive sv (ev_contractId e) u) = Inr (Some True))"
      by (auto simp: xi evaluation_facts)
  qed
  show "an_topPickId an = (case C of [] \<Rightarrow> None | e # _ \<Rightarrow> Some (ev_protocolId e))" by (simp add: an(2) C)
  show "\<forall>e \<in> set (C @ X). \<forall>h. ev_hypothetical e = Some h \<longrightarrow>
       e \<in> set C \<and> 0 < deployable_now vault ctx \<and> ha_amount h = int_text (deployable_now vault ctx)"
  proof (intro ballI allI impI)
    fix e h assume e: "e \<in> set (C @ X)" and h: "ev_hypothetical e = Some h"
    have "e \<in> set C \<or> e \<in> set X" using e by simp
    then show "e \<in> set C \<and> 0 < deployable_now vault ctx \<and> ha_amount h = int_text (deployable_now vault ctx)"
    proof
      assume c: "e \<in> set C"
      from memC [OF c] obtain x j where x: "x \<in> set evs" "e = rank_entry j x" by blast
      with nth [OF x(1)] h c show ?thesis by (auto dest: evaluation_facts(7))
    next
      assume "e \<in> set X"
      then have "e \<in> set evs" "ev_verdict e = EXCLUDED" by (auto simp: X excluded_def)
      with nth [OF this(1)] h show ?thesis by (auto dest: evaluation_facts(7))
    qed
  qed
qed

section \<open>The deployable amount\<close>

text \<open>It is what the decision engine sizes for a strategy with no funds in it and no tighter protocol cap.\<close>

lemma sizeDeployable_eq:
  "sizeDeployable vault = max 0 (min (min (max 0 (vs_idleBalance vault - minLiquidityReserve vault))
     (maxExposureAmount vault)) (rc_maxTxAmount (vs_riskConfig vault)))"
  unfolding sizeDeployable_def Let_def maxExposureAmount_def [symmetric] minLiquidityReserve_def [symmetric]
  by (simp add: min_def max_def)

lemma sized_amount_eq:
  "sized_amount vault s = min (min (min (max 0 (vs_idleBalance vault - minLiquidityReserve vault))
     (maxExposureAmount vault - alloc_of vault (ss_strategyId s)))
     (max 0 (maxProtocolAmount vault s - alloc_of vault (ss_strategyId s)))) (rc_maxTxAmount (vs_riskConfig vault))"
  unfolding sized_amount_def Let_def by (simp add: min_def max_def)

lemma sizing_without_cap:
  "0 \<le> (a::int) \<Longrightarrow> e \<le> p \<Longrightarrow> max 0 (min (min a e) t) = max 0 (min (min (min a (e - 0)) (max 0 (p - 0))) t)"
  by (simp add: min_def max_def)

lemma sizing_below:
  "0 \<le> (a::int) \<Longrightarrow> 0 \<le> c \<Longrightarrow> min (min (min a (e - c)) x) t \<le> max 0 (min (min a e) t)"
  by (simp add: min_def max_def)

lemma deployable_mirrors_engine:
  assumes "alloc_of vault (ss_strategyId s) = 0" and "maxExposureAmount vault \<le> maxProtocolAmount vault s"
  shows "sizeDeployable vault = max 0 (sized_amount vault s)"
  unfolding sizeDeployable_eq sized_amount_eq assms(1) by (rule sizing_without_cap [OF _ assms(2)]) simp

lemma deployable_bounds:
  shows "0 \<le> sizeDeployable vault"
    and "0 < sizeDeployable vault \<Longrightarrow> sizeDeployable vault \<le> maxExposureAmount vault"
    and "0 < sizeDeployable vault \<Longrightarrow> minLiquidityReserve vault \<le> vs_idleBalance vault - sizeDeployable vault"
    and "0 < sizeDeployable vault \<Longrightarrow> sizeDeployable vault \<le> rc_maxTxAmount (vs_riskConfig vault)"
  unfolding sizeDeployable_eq by (auto simp: min_def max_def split: if_splits)

lemma engine_within_deployable:
  assumes "0 \<le> alloc_of vault (ss_strategyId s)"
  shows "sized_amount vault s \<le> sizeDeployable vault"
  unfolding sizeDeployable_eq sized_amount_eq by (rule sizing_below [OF _ assms]) simp

end
