(* ===== verification/Js_Regex.thy ===== *)
theory Js_Regex
  imports Js_Values
begin

text \<open>
  Regular expressions as JavaScript runs them: a backtracking matcher that tries the greedy choice
  first, so the order of the possible ends is the order of preference. A position is the character
  before it, if any, and the rest of the text.
\<close>

datatype rx = REmpty | RChar "char \<Rightarrow> bool" | RSeq rx rx | ROpt rx | RStar rx | RBound

type_synonym rx_pos = "char option \<times> string"

definition is_word :: "char \<Rightarrow> bool" where
  "is_word c \<longleftrightarrow> is_digit c \<or> c = CHR ''_'' \<or> (let n = of_char c :: nat in 65 \<le> n \<and> n \<le> 90 \<or> 97 \<le> n \<and> n \<le> 122)"

definition at_bound :: "rx_pos \<Rightarrow> bool" where
  "at_bound s \<longleftrightarrow>
     (case fst s of Some c \<Rightarrow> is_word c | None \<Rightarrow> False) \<noteq> (case snd s of c # _ \<Rightarrow> is_word c | [] \<Rightarrow> False)"

text \<open>An iteration must consume something; the length of the rest bounds their number.\<close>

fun star_ends :: "nat \<Rightarrow> (rx_pos \<Rightarrow> rx_pos list) \<Rightarrow> rx_pos \<Rightarrow> rx_pos list" where
  "star_ends 0 f s = [s]"
| "star_ends (Suc n) f s =
     concat (map (\<lambda>t. if length (snd t) < length (snd s) then star_ends n f t else []) (f s)) @ [s]"

fun rx_ends :: "rx \<Rightarrow> rx_pos \<Rightarrow> rx_pos list" where
  "rx_ends REmpty s = [s]"
| "rx_ends (RChar p) s = (case snd s of c # cs \<Rightarrow> if p c then [(Some c, cs)] else [] | [] \<Rightarrow> [])"
| "rx_ends (RSeq a b) s = concat (map (rx_ends b) (rx_ends a s))"
| "rx_ends (ROpt a) s = rx_ends a s @ [s]"
| "rx_ends (RStar a) s = star_ends (length (snd s)) (rx_ends a) s"
| "rx_ends RBound s = (if at_bound s then [s] else [])"

text \<open>\<open>text.match(/../g)\<close>: the matches from left to right, each starting where the one before ended.\<close>

fun scan_matches :: "nat \<Rightarrow> rx \<Rightarrow> rx_pos \<Rightarrow> string list" where
  "scan_matches 0 r s = []"
| "scan_matches (Suc n) r s =
     (case rx_ends r s of
        t # _ \<Rightarrow>
          if length (snd t) < length (snd s)
          then take (length (snd s) - length (snd t)) (snd s) # scan_matches n r t
          else [] # (case snd s of [] \<Rightarrow> [] | c # cs \<Rightarrow> scan_matches n r (Some c, cs))
      | [] \<Rightarrow> (case snd s of [] \<Rightarrow> [] | c # cs \<Rightarrow> scan_matches n r (Some c, cs)))"

definition rx_match_all :: "rx \<Rightarrow> string \<Rightarrow> string list" where
  "rx_match_all r text = scan_matches (Suc (length text)) r (None, text)"

text \<open>\<open>text.replace(/../g, f)\<close>: what is between the matches stays.\<close>

fun scan_replace :: "nat \<Rightarrow> rx \<Rightarrow> (string \<Rightarrow> string) \<Rightarrow> rx_pos \<Rightarrow> string" where
  "scan_replace 0 r f s = snd s"
| "scan_replace (Suc n) r f s =
     (case rx_ends r s of
        t # _ \<Rightarrow>
          if length (snd t) < length (snd s)
          then f (take (length (snd s) - length (snd t)) (snd s)) @ scan_replace n r f t
          else f [] @ (case snd s of [] \<Rightarrow> [] | c # cs \<Rightarrow> c # scan_replace n r f (Some c, cs))
      | [] \<Rightarrow> (case snd s of [] \<Rightarrow> [] | c # cs \<Rightarrow> c # scan_replace n r f (Some c, cs)))"

definition rx_replace_all :: "rx \<Rightarrow> (string \<Rightarrow> string) \<Rightarrow> string \<Rightarrow> string" where
  "rx_replace_all r f text = scan_replace (Suc (length text)) r f (None, text)"

text \<open>\<open>text.replace(/c+/g, sep)\<close> for a class of characters.\<close>

fun replace_runs :: "(char \<Rightarrow> bool) \<Rightarrow> string \<Rightarrow> bool \<Rightarrow> string \<Rightarrow> string" where
  "replace_runs p sep inside [] = []"
| "replace_runs p sep inside (c # cs) =
     (if p c then (if inside then [] else sep) @ replace_runs p sep True cs
      else c # replace_runs p sep False cs)"

definition rx_plus :: "rx \<Rightarrow> rx" where
  "rx_plus r = RSeq r (RStar r)"

text \<open>\<open>toLowerCase\<close> below 256.\<close>

definition lower_latin :: "char \<Rightarrow> char" where
  "lower_latin c = (let n = of_char c :: nat in
     if 65 \<le> n \<and> n \<le> 90 \<or> 192 \<le> n \<and> n \<le> 222 \<and> n \<noteq> 215 then char_of (n + 32) else c)"

text \<open>\<open>s.split(/\r?\n/)\<close>.\<close>

definition drop_cr :: "string \<Rightarrow> string" where
  "drop_cr l = (if l \<noteq> [] \<and> last l = CHR 0x0D then butlast l else l)"

definition split_lines :: "string \<Rightarrow> string list" where
  "split_lines s = (let ps = split_on (CHR 0x0A) s in map drop_cr (butlast ps) @ [last ps])"

text \<open>Every end is a position further on in the same text.\<close>

definition reaches :: "rx_pos \<Rightarrow> rx_pos \<Rightarrow> bool" where
  "reaches s t \<longleftrightarrow> (\<exists>u. snd s = u @ snd t)"

lemma reaches_refl [simp]: "reaches s s"
  by (simp add: reaches_def)

lemma reaches_trans: "reaches s t \<Longrightarrow> reaches t u \<Longrightarrow> reaches s u"
  by (auto simp: reaches_def)

lemma star_ends_reach:
  "(\<And>s t. t \<in> set (f s) \<Longrightarrow> reaches s t) \<Longrightarrow> t \<in> set (star_ends n f s) \<Longrightarrow> reaches s t"
proof (induction n arbitrary: s)
  case (Suc n)
  from Suc.prems(2) consider "t = s" | u where "u \<in> set (f s)" "t \<in> set (star_ends n f u)"
    by (auto split: if_splits)
  then show ?case
  proof cases
    case 2
    with Suc show ?thesis by (blast intro: reaches_trans)
  qed simp
qed simp

lemma rx_ends_reach: "t \<in> set (rx_ends r s) \<Longrightarrow> reaches s t"
proof (induction r arbitrary: s t)
  case (RChar p)
  then show ?case by (cases "snd s") (auto simp: reaches_def split: if_splits)
next
  case (RSeq a b)
  then obtain u where "u \<in> set (rx_ends a s)" "t \<in> set (rx_ends b u)" by auto
  with RSeq.IH show ?case by (blast intro: reaches_trans)
next
  case (RStar r)
  then show ?case using star_ends_reach [of "rx_ends r"] by auto
qed (auto intro: reaches_trans split: if_splits)

text \<open>So every match is a piece of the text.\<close>

lemma scan_matches_pieces:
  "m \<in> set (scan_matches n r s) \<Longrightarrow> \<exists>a b. snd s = a @ m @ b"
proof (induction n arbitrary: s)
  case (Suc n)
  have next': "\<exists>a b. snd s = a @ m @ b" if "m \<in> set (scan_matches n r (Some c, cs))" "snd s = c # cs" for c cs
    using Suc.IH [OF that(1)] that(2) by (metis append_Cons snd_conv)
  show ?case
  proof (cases "rx_ends r s")
    case Nil
    with Suc.prems next' show ?thesis by (cases "snd s") auto
  next
    case (Cons t ts)
    then have "reaches s t" using rx_ends_reach [of t r s] by simp
    then obtain u where u: "snd s = u @ snd t" by (auto simp: reaches_def)
    show ?thesis
    proof (cases "length (snd t) < length (snd s)")
      case True
      with Cons Suc.prems u have "m = u \<or> m \<in> set (scan_matches n r t)" by simp
      then show ?thesis
      proof
        assume "m = u"
        with u show ?thesis by (intro exI [of _ "[]"] exI [of _ "snd t"]) simp
      next
        assume "m \<in> set (scan_matches n r t)"
        from Suc.IH [OF this] u show ?thesis by (metis append.assoc)
      qed
    next
      case False
      with Cons Suc.prems have "m = [] \<or> (\<exists>c cs. snd s = c # cs \<and> m \<in> set (scan_matches n r (Some c, cs)))"
        by (cases "snd s") auto
      then show ?thesis using next' by (auto intro: exI [of _ "[]"])
    qed
  qed
qed simp

lemma rx_match_all_pieces: "m \<in> set (rx_match_all r text) \<Longrightarrow> str_includes text m"
  unfolding rx_match_all_def str_includes_iff by (drule scan_matches_pieces) (simp only: snd_conv)

end
