(* ===== verification/Web_Chat.thy ===== *)
theory Web_Chat
  imports Chat_Handler
begin

text \<open>
  The chat of the web application: the route that runs the handler in the web server
  (apps/web/src/app/api/chat/route.ts), the reader of the stream (apps/web/src/lib/chat.ts) and the
  widget that shows the conversation (apps/web/src/components/chat/ChatWidget.tsx). The reader gets
  the body in pieces that are cut anywhere; the lemmas show that what it reports does not depend on
  the cuts.
\<close>

section \<open>The route\<close>

text \<open>The sink over a \<open>ReadableStream\<close>: nothing is enqueued once it is closed.\<close>

fun sink_chunks :: "bool \<Rightarrow> sink_call list \<Rightarrow> string list" where
  "sink_chunks isClosed [] = []"
| "sink_chunks isClosed (WriteHead st hs # cs) = sink_chunks isClosed cs"
| "sink_chunks isClosed (Write t # cs) = (if isClosed then [] else [t]) @ sink_chunks isClosed cs"
| "sink_chunks isClosed (SinkEnd # cs) = sink_chunks True cs"

datatype chat_response =
    ChatRefused string
  | ChatStream "string list"

text \<open>\<open>core\<close> is the agent's code as the server has loaded it, or the error loading it raised.\<close>

definition post_chat :: "'w services \<Rightarrow> agent_config result \<Rightarrow> js \<Rightarrow> ('w, chat_response) io" where
  "post_chat sv core body =
     io_bind (io_lift (read_body body)) (\<lambda>r.
       (case r of
          Inl e \<Rightarrow> io_return (ChatRefused e)
        | Inr (messages, vaultId, asset) \<Rightarrow>
            io_bind
              (io_catch (io_bind (io_lift core) (\<lambda>cfg. streamChat sv cfg messages vaultId asset))
                 (\<lambda>e. io_return [send ''error'' [(''message'', JStr (err_message e))]])) (\<lambda>calls.
            io_return (ChatStream (sink_chunks False (calls @ [SinkEnd]))))))"

section \<open>The reader of the stream\<close>

datatype chat_callback =
    OnDelta string
  | OnDone
  | OnError string

text \<open>\<open>s.split("\n\n")\<close>, from the left.\<close>

fun split_blank :: "string \<Rightarrow> string list" where
  "split_blank [] = [[]]"
| "split_blank [c] = [[c]]"
| "split_blank (c # d # s) =
     (if c = CHR 0x0A \<and> d = CHR 0x0A then [] # split_blank s
      else (case split_blank (d # s) of [] \<Rightarrow> [[c]] | y # ys \<Rightarrow> (c # y) # ys))"

definition dispatch_event :: "string \<Rightarrow> js \<Rightarrow> chat_callback list result" where
  "dispatch_event event data =
     (case (event = ''delta'' \<and> truthy data, optional_field data ''text'') of
        (True, JStr t) \<Rightarrow> Inr [OnDelta t]
      | _ \<Rightarrow>
          if event = ''error'' then
            js_try (js_get data ''message'') (\<lambda>m.
              if truthy m then js_try (as_string m) (\<lambda>s. Inr [OnError s]) else Inr [OnError ''AI agent error.''])
          else if event = ''note'' then Inr []
          else if event = ''done'' then Inr [OnDone]
          else Inr [])"

definition handle_raw :: "string \<Rightarrow> chat_callback list result" where
  "handle_raw raw =
     (let ls = split_on (CHR 0x0A) raw in
      (case (find (\<lambda>l. starts_with l ''event: '') ls, find (\<lambda>l. starts_with l ''data: '') ls) of
         (Some eventLine, Some dataLine) \<Rightarrow>
           (let event = trim (drop 7 eventLine) in
            (case json_parse (drop 6 dataLine) of
               Inl e \<Rightarrow> if out_of_model e then Inl e else Inr []
             | Inr data \<Rightarrow> dispatch_event event data))
       | _ \<Rightarrow> Inr []))"

text \<open>The callbacks that ran, and the error that ends the call, if any.\<close>

type_synonym chat_run = "chat_callback list \<times> js_error option"

definition run_then :: "chat_run \<Rightarrow> chat_run \<Rightarrow> chat_run" where
  "run_then r r' = (case r of (cs, Some e) \<Rightarrow> (cs, Some e) | (cs, None) \<Rightarrow> (cs @ fst r', snd r'))"

fun handle_events :: "string list \<Rightarrow> chat_run" where
  "handle_events [] = ([], None)"
| "handle_events (raw # raws) =
     (case handle_raw raw of Inl e \<Rightarrow> ([], Some e) | Inr cs \<Rightarrow> run_then (cs, None) (handle_events raws))"

text \<open>\<open>failed\<close> is the error of the last \<open>reader.read()\<close>; \<open>None\<close> is the end of the stream.\<close>

fun read_loop :: "js_error option \<Rightarrow> string \<Rightarrow> string list \<Rightarrow> chat_run" where
  "read_loop failed buffer [] = ([], failed)"
| "read_loop failed buffer (value # values) =
     (let events = split_blank (buffer @ value) in
      run_then (handle_events (butlast events)) (read_loop failed (last events) values))"

definition web_streamChat :: "(bool \<times> int \<times> (string list \<times> js_error option) option) result \<Rightarrow> chat_run" where
  "web_streamChat res =
     (case res of
        Inl e \<Rightarrow> ([], Some e)
      | Inr (ok, status, body) \<Rightarrow>
          (case body of
             Some (values, failed) \<Rightarrow>
               if \<not> ok then ([OnError (''AI agent returned HTTP '' @ int_text status)], None)
               else read_loop failed [] values
           | None \<Rightarrow> ([OnError (''AI agent returned HTTP '' @ int_text status)], None)))"

text \<open>The body of the request, with the vault and the asset left out as the widget does.\<close>

definition request_json :: "chat_message list \<Rightarrow> js" where
  "request_json msgs =
     JObj [(''messages'', JArr (map (\<lambda>m. JObj [(''role'', JStr (cm_role m)), (''content'', JStr (cm_content m))]) msgs)),
           (''vaultId'', JUndef), (''asset'', JUndef)]"

section \<open>The widget\<close>

record display_message =
  dm_id :: string
  dm_role :: string
  dm_content :: string
  dm_pending :: bool
  dm_error :: "string option"

record chat_widget =
  cw_messages :: "display_message list"
  cw_input :: string
  cw_streaming :: bool

definition chat_history :: "chat_widget \<Rightarrow> string \<Rightarrow> chat_message list" where
  "chat_history cw trimmed =
     map (\<lambda>m. \<lparr> cm_role = dm_role m, cm_content = dm_content m \<rparr>) (cw_messages cw) @
     [\<lparr> cm_role = ''user'', cm_content = trimmed \<rparr>]"

fun update_message :: "chat_callback \<Rightarrow> display_message \<Rightarrow> display_message" where
  "update_message (OnDelta t) m = m\<lparr> dm_content := dm_content m @ t, dm_pending := False \<rparr>"
| "update_message OnDone m = m\<lparr> dm_pending := False \<rparr>"
| "update_message (OnError e) m = m\<lparr> dm_pending := False, dm_error := Some e \<rparr>"

definition on_callback :: "string \<Rightarrow> chat_callback \<Rightarrow> display_message list \<Rightarrow> display_message list" where
  "on_callback assistantId cb ms = map (\<lambda>m. if dm_id m = assistantId then update_message cb m else m) ms"

definition send_started :: "string \<Rightarrow> string \<Rightarrow> string \<Rightarrow> chat_widget \<Rightarrow> chat_widget" where
  "send_started userId assistantId trimmed cw =
     cw\<lparr> cw_messages := cw_messages cw @
           [\<lparr> dm_id = userId, dm_role = ''user'', dm_content = trimmed, dm_pending = False, dm_error = None \<rparr>,
            \<lparr> dm_id = assistantId, dm_role = ''assistant'', dm_content = [], dm_pending = True, dm_error = None \<rparr>],
         cw_input := [], cw_streaming := True \<rparr>"

text \<open>
  \<open>send(text)\<close>, with the two random identifiers and the answer of the server to a history; the second
  component is the error its promise is rejected with (there is a \<open>finally\<close> but no \<open>catch\<close>).
\<close>

definition widget_send ::
    "string \<Rightarrow> string \<Rightarrow> (chat_message list \<Rightarrow> chat_run) \<Rightarrow> string \<Rightarrow> chat_widget \<Rightarrow> chat_widget \<times> js_error option" where
  "widget_send userId assistantId stream text cw =
     (let trimmed = trim text in
      if trimmed = [] \<or> cw_streaming cw then (cw, None)
      else
        (case stream (chat_history cw trimmed) of
           (cbs, failed) \<Rightarrow>
             (let started = send_started userId assistantId trimmed cw in
              (started\<lparr> cw_messages := fold (on_callback assistantId) cbs (cw_messages started),
                        cw_streaming := False \<rparr>, failed))))"

section \<open>Frames are found again\<close>

lemma json_char_line: "CHR 0x0A \<notin> set (json_char c)"
proof -
  have hex: "list_all (\<lambda>d. hex_digit d \<noteq> CHR 0x0A) [0..<16]" by code_simp
  then have hex: "hex_digit d \<noteq> CHR 0x0A" if "d < 16" for d
    using that by (simp only: list_all_iff set_upt) simp
  consider "c = CHR 0x22 \<or> c = CHR 0x5C \<or> c \<in> {CHR 0x08, CHR 0x09, CHR 0x0A, CHR 0x0C, CHR 0x0D}"
    | "(of_char c :: nat) < 32" "json_char c = [CHR 0x5C, CHR ''u'', CHR ''0'', CHR ''0'',
         hex_digit (of_char c div 16), hex_digit (of_char c mod 16)]"
    | "32 \<le> (of_char c :: nat)" "json_char c = [c]"
    using json_char_cases by blast
  then show ?thesis
  proof cases
    case 1
    have "list_all (\<lambda>c. CHR 0x0A \<notin> set (json_char c))
        [CHR 0x22, CHR 0x5C, CHR 0x08, CHR 0x09, CHR 0x0A, CHR 0x0C, CHR 0x0D]" by code_simp
    with 1 show ?thesis by auto
  next
    case 2
    then show ?thesis
      using hex [of "of_char c div 16"] hex [of "of_char c mod 16"] by (simp add: less_mult_imp_div_less eq_commute)
  next
    case 3
    then show ?thesis by auto
  qed
qed

lemma json_string_line: "CHR 0x0A \<notin> set (json_string s)"
  by (simp add: json_string_def quote_def json_char_line)

text \<open>The data of a frame: an object with no field, or one field with a text.\<close>

lemma frame_data_line: "CHR 0x0A \<notin> set (json_text (JObj [(k, JStr s)]))" "CHR 0x0A \<notin> set (json_text (JObj []))"
  by (simp_all add: json_string_line)

lemma frame_data_parses: "json_parse (json_text (JObj [(k, JStr s)])) = Inr (JObj [(k, JStr s)])"
  "json_parse (json_text (JObj [])) = Inr (JObj [])"
proof -
  have sp: "\<not> json_space (CHR 0x22)" "\<not> json_space (CHR ''{'')" "\<not> json_space (CHR '':'')" "\<not> json_space (CHR ''}'')"
    by code_simp+
  obtain m where "length (json_text (JObj [(k, JStr s)])) = Suc m" using not0_implies_Suc by fastforce
  then have n: "2 * length (json_text (JObj [(k, JStr s)])) + 2 = Suc (Suc (Suc (Suc (2 * m))))" by simp
  show "json_parse (json_text (JObj [(k, JStr s)])) = Inr (JObj [(k, JStr s)])"
    unfolding json_parse_def n
    by (simp add: json_string_def quote_def skip_ws_def sp parse_chars_escaped)
  show "json_parse (json_text (JObj [])) = Inr (JObj [])" by code_simp
qed

lemma split_blank_ne [simp]: "split_blank s \<noteq> []"
  by (induction s rule: split_blank.induct) (auto split: list.splits)

lemma split_blank_line: "CHR 0x0A \<notin> set a \<Longrightarrow> split_blank (a @ s) = (a @ hd (split_blank s)) # tl (split_blank s)"
proof (induction a)
  case (Cons c a)
  then show ?case by (cases "a @ s") (auto split: list.splits)
qed simp

lemma split_blank_single: "split_blank s = [y] \<Longrightarrow> y = s"
  by (induction s arbitrary: y rule: split_blank.induct) (auto split: list.splits if_splits)

text \<open>Splitting goes on where it stopped: the last piece is put before what arrives next.\<close>

lemma split_blank_append:
  "split_blank (a @ b) = butlast (split_blank a) @ split_blank (last (split_blank a) @ b)"
proof (induction a rule: split_blank.induct)
  case (3 c d s)
  show ?case
  proof (cases "c = CHR 0x0A \<and> d = CHR 0x0A")
    case True
    with 3 show ?thesis by simp
  next
    case False
    have step: "split_blank (c # d # t) = (c # hd (split_blank (d # t))) # tl (split_blank (d # t))" for t
      unfolding split_blank.simps if_not_P [OF False] by (cases "split_blank (d # t)") simp_all
    have IH: "split_blank (d # s @ b) = butlast (split_blank (d # s)) @ split_blank (last (split_blank (d # s)) @ b)"
      using 3(2) [OF False] by simp
    obtain y ys where y: "split_blank (d # s) = y # ys" by (cases "split_blank (d # s)") simp_all
    show ?thesis
    proof (cases ys)
      case Nil
      then have "y = d # s" using y split_blank_single by simp
      with Nil y show ?thesis by (simp only: step append_Cons) (simp add: step del: split_blank.simps)
    next
      case (Cons z zs)
      with y IH show ?thesis by (simp add: step del: split_blank.simps)
    qed
  qed
qed auto

text \<open>What remains after the last separator holds none.\<close>

lemma split_blank_last: "split_blank (last (split_blank s)) = [last (split_blank s)]"
proof (induction s rule: split_blank.induct)
  case (3 c d s)
  show ?case
  proof (cases "c = CHR 0x0A \<and> d = CHR 0x0A")
    case True
    with 3 show ?thesis by simp
  next
    case False
    obtain y ys where y: "split_blank (d # s) = y # ys" by (cases "split_blank (d # s)") simp_all
    have step: "split_blank (c # d # s) = (c # y) # ys"
      unfolding split_blank.simps if_not_P [OF False] by (simp add: y)
    have "split_blank (last (y # ys)) = [last (y # ys)]" using 3(2) [OF False] by (simp add: y)
    moreover have "c # y = c # d # s" if "ys = []" using that y split_blank_single by simp
    ultimately show ?thesis using y step by (cases ys) (simp_all del: split_blank.simps)
  qed
qed simp_all

lemma run_then_assoc: "run_then (run_then a b) c = run_then a (run_then b c)"
  by (simp add: run_then_def split: prod.splits option.splits)

lemma handle_events_append: "handle_events (a @ b) = run_then (handle_events a) (handle_events b)"
  by (induction a) (simp_all add: run_then_assoc, simp_all add: run_then_def split: sum.split prod.split option.split)

text \<open>The reader handles what a single split of the whole body gives, wherever the body is cut.\<close>

lemma read_loop_whole:
  assumes "split_blank buffer = [buffer]"
  shows "read_loop failed buffer vals =
     run_then (handle_events (butlast (split_blank (buffer @ concat vals)))) ([], failed)"
  using assms
proof (induction vals arbitrary: buffer)
  case Nil
  then show ?case by (simp add: run_then_def)
next
  case (Cons v vs)
  let ?r = "last (split_blank (buffer @ v))"
  have "split_blank (buffer @ concat (v # vs)) = butlast (split_blank (buffer @ v)) @ split_blank (?r @ concat vs)"
    using split_blank_append [of "buffer @ v" "concat vs"] by simp
  then show ?case
    by (simp add: Let_def Cons.IH [OF split_blank_last] butlast_append handle_events_append run_then_assoc)
qed

section \<open>The events of a reply\<close>

definition frame_body :: "string \<Rightarrow> js \<Rightarrow> string" where
  "frame_body event data = ''event: '' @ event @ newline @ ''data: '' @ json_text data"

lemma split_frame:
  assumes "CHR 0x0A \<notin> set event" "CHR 0x0A \<notin> set (json_text data)"
  shows "split_blank (sse_frame event data @ s) = frame_body event data # split_blank s"
proof -
  let ?d = "''data: '' @ json_text data"
  have d: "split_blank (?d @ CHR 0x0A # CHR 0x0A # s) = ?d # split_blank s"
    using assms split_blank_line [of ?d] by simp
  have "split_blank (CHR 0x0A # ?d @ CHR 0x0A # CHR 0x0A # s) = (CHR 0x0A # ?d) # split_blank s"
    using d by simp
  then show ?thesis
    using assms split_blank_line [of "''event: '' @ event" "CHR 0x0A # ?d @ CHR 0x0A # CHR 0x0A # s"]
    by (simp add: sse_frame_def frame_body_def newline_def)
qed

lemma handle_frame:
  assumes "CHR 0x0A \<notin> set event" "CHR 0x0A \<notin> set (json_text data)" "json_parse (json_text data) = Inr data"
  shows "handle_raw (frame_body event data) = dispatch_event (trim event) data"
proof -
  have "split_on (CHR 0x0A) (frame_body event data) = [''event: '' @ event, ''data: '' @ json_text data]"
    using assms split_on_first [of "CHR 0x0A" "''event: '' @ event"] split_on_none [of "CHR 0x0A" "''data: '' @ json_text data"]
    by (simp add: frame_body_def newline_def)
  then show ?thesis by (simp add: handle_raw_def assms(3))
qed

lemma handle_frames:
  assumes "list_all2 (\<lambda>(e, d) cs. CHR 0x0A \<notin> set e \<and> CHR 0x0A \<notin> set (json_text d) \<and> handle_raw (frame_body e d) = Inr cs)
             frames css"
  shows "handle_events (butlast (split_blank (concat (map (\<lambda>(e, d). sse_frame e d) frames)))) = (concat css, None)"
  using assms
proof (induction frames css rule: list_all2_induct)
  case (Cons x xs cs css)
  then show ?case by (cases x) (simp add: split_frame run_then_def)
qed simp

text \<open>What the reader reports for the events the handler sends.\<close>

definition shown_error :: "string \<Rightarrow> string" where
  "shown_error m = (if m = [] then ''AI agent error.'' else m)"

definition reply_callbacks :: "string list \<Rightarrow> js_error option \<Rightarrow> chat_callback list" where
  "reply_callbacks pieces err =
     map OnDelta pieces @
     (case err of None \<Rightarrow> [OnDone]
      | Some e \<Rightarrow> [OnError (shown_error (err_message e)), OnError (shown_error (err_message e))])"

lemma event_names:
  "list_all (\<lambda>e. CHR 0x0A \<notin> set e \<and> trim e = e) [''delta'', ''error'', ''note'', ''done'']" by code_simp

lemma heard:
  "handle_raw (frame_body ''delta'' (JObj [(''text'', JStr t)])) = Inr [OnDelta t]"
  "handle_raw (frame_body ''error'' (JObj [(''message'', JStr m)])) = Inr [OnError (shown_error m)]"
  "handle_raw (frame_body ''note'' (JObj [(''message'', JStr m)])) = Inr []"
  "handle_raw (frame_body ''done'' (JObj [])) = Inr [OnDone]"
  using event_names
  by (simp_all add: handle_frame frame_data_line frame_data_parses dispatch_event_def optional_field_def shown_error_def
      del: json_text.simps)

lemma grounding_notes:
  assumes "load_grounding sv cfg v a w = (Inr (ctx, vault, notes), w1)"
  shows "notes = [] \<or> (\<exists>m. notes = [send ''note'' [(''message'', JStr m)]])"
proof -
  have "fst (load_grounding sv cfg v a w) = Inr (ctx, vault, notes)" by (simp add: assms)
  then show ?thesis
    by (cases v; cases a) (auto simp: load_grounding_def Let_def bind_Inr catch_Inr)
qed

definition reply_frames :: "string list \<Rightarrow> js_error option \<Rightarrow> (string \<times> js) list" where
  "reply_frames pieces err =
     map (\<lambda>t. (''delta'', JObj [(''text'', JStr t)])) pieces @
     (case err of
        None \<Rightarrow> [(''done'', JObj [])]
      | Some e \<Rightarrow> replicate 2 (''error'', JObj [(''message'', JStr (err_message e))]))"

lemma sent_chunk:
  "sink_chunks b (send e fs # cs) = (if b then [] else [sse_frame e (JObj fs)]) @ sink_chunks b cs"
  by (simp add: send_def)

lemma reply_chunks:
  "sink_chunks False (map (\<lambda>t. send ''delta'' [(''text'', JStr t)]) pieces @ cs) =
     map (\<lambda>t. sse_frame ''delta'' (JObj [(''text'', JStr t)])) pieces @ sink_chunks False cs"
  by (induction pieces) (simp_all add: send_def)

lemma reply_heard:
  "list_all2 (\<lambda>(e, d) cs. CHR 0x0A \<notin> set e \<and> CHR 0x0A \<notin> set (json_text d) \<and> handle_raw (frame_body e d) = Inr cs)
     (reply_frames pieces err) (map (\<lambda>c. [c]) (reply_callbacks pieces err))"
proof -
  have "list_all2 (\<lambda>(e, d) cs. CHR 0x0A \<notin> set e \<and> CHR 0x0A \<notin> set (json_text d) \<and> handle_raw (frame_body e d) = Inr cs)
     (map (\<lambda>t. (''delta'', JObj [(''text'', JStr t)])) pieces) (map (\<lambda>c. [c]) (map OnDelta pieces))"
    by (induction pieces) (simp_all add: heard frame_data_line del: json_text.simps)
  then show ?thesis
    unfolding reply_frames_def reply_callbacks_def map_append
    by (rule list_all2_appendI)
      (simp add: heard frame_data_line numeral_2_eq_2 del: json_text.simps split: option.split)
qed

lemma reply_run:
  assumes "notes = [] \<or> (\<exists>m. notes = [send ''note'' [(''message'', JStr m)]])"
    and "concat vals = concat (sink_chunks False ([SSE_HEAD] @ notes @ stream_events pieces err @ [SinkEnd] @ [SinkEnd]))"
  shows "read_loop None [] vals = (reply_callbacks pieces err, None)"
proof -
  let ?ok = "\<lambda>(e, d) cs. CHR 0x0A \<notin> set e \<and> CHR 0x0A \<notin> set (json_text d) \<and> handle_raw (frame_body e d) = Inr cs"
  obtain nf ncs where n: "list_all2 ?ok nf ncs" "concat ncs = []"
    "\<And>cs. sink_chunks False (notes @ cs) = map (\<lambda>(e, d). sse_frame e d) nf @ sink_chunks False cs"
  proof -
    consider "notes = []" | m where "notes = [send ''note'' [(''message'', JStr m)]]" using assms(1) by blast
    then show thesis
    proof cases
      case 1
      then show ?thesis using that [of "[]" "[]"] by simp
    next
      case 2
      then show ?thesis using that [of "[(''note'', JObj [(''message'', JStr m)])]" "[[]]"]
        by (simp add: heard frame_data_line sent_chunk del: json_text.simps)
    qed
  qed
  have "concat vals = concat (map (\<lambda>(e, d). sse_frame e d) (nf @ reply_frames pieces err))"
    using assms(2) by (cases err) (simp_all add: SSE_HEAD_def n(3) stream_events_def reply_chunks reply_frames_def sent_chunk
      numeral_2_eq_2 comp_def)
  moreover have "list_all2 ?ok (nf @ reply_frames pieces err) (ncs @ map (\<lambda>c. [c]) (reply_callbacks pieces err))"
    using n(1) reply_heard by (rule list_all2_appendI)
  ultimately show ?thesis
    using handle_frames [of "nf @ reply_frames pieces err"] n(2) by (simp add: read_loop_whole run_then_def)
qed

section \<open>The route and the widget\<close>

lemma request_read: "read_body (request_json msgs) = Inr (Inr (msgs, None, None))"
proof -
  have "map_result read_message (map (\<lambda>m. JObj [(''role'', JStr (cm_role m)), (''content'', JStr (cm_content m))]) msgs) = Inr msgs"
    by (induction msgs) (simp_all add: read_message_def)
  then show ?thesis
    by (simp add: read_body_def request_json_def optional_field_def has_content_def list_all_iff)
qed

lemma post_reply:
  assumes "cf_anthropicApiKey cfg = Some k" "k \<noteq> []"
    and "load_grounding sv cfg None None w = (Inr (ctx, vault, notes), w1)"
    and "sv_stream sv k (system_text (buildContextBlock vault ctx None))
           (map (\<lambda>m. (cm_role m, sanitizeChatInput (cm_content m))) msgs) w1 = ((pieces, err), w2)"
  shows "fst (post_chat sv (Inr cfg) (request_json msgs) w) =
    Inr (ChatStream (sink_chunks False ([SSE_HEAD] @ notes @ stream_events pieces err @ [SinkEnd] @ [SinkEnd])))"
  using assms
  by (simp add: post_chat_def request_read io_lift_bind io_bind_def io_catch_def io_lift_def io_return_def streamChat_def io_of_def
      split: prod.split)

lemma on_callback_others: "a \<notin> dm_id ` set ms \<Longrightarrow> on_callback a cb (ms @ xs) = ms @ on_callback a cb xs"
  by (induction ms) (auto simp: on_callback_def)

lemma fold_others: "a \<notin> dm_id ` set ms \<Longrightarrow> fold (on_callback a) cbs (ms @ xs) = ms @ fold (on_callback a) cbs xs"
  by (induction cbs arbitrary: xs) (simp_all add: on_callback_others)

lemma fold_deltas:
  "fold (on_callback (dm_id m)) (map OnDelta pieces) [m] =
     [m\<lparr> dm_content := dm_content m @ concat pieces, dm_pending := dm_pending m \<and> pieces = [] \<rparr>]"
proof (induction pieces arbitrary: m)
  case (Cons p ps)
  then show ?case
    using Cons.IH [of "m\<lparr> dm_content := dm_content m @ p, dm_pending := False \<rparr>"] by (simp add: on_callback_def)
qed (simp add: on_callback_def)

definition reply_message :: "string \<Rightarrow> string list \<Rightarrow> js_error option \<Rightarrow> display_message" where
  "reply_message assistantId pieces err =
     \<lparr> dm_id = assistantId, dm_role = ''assistant'', dm_content = concat pieces, dm_pending = False,
       dm_error = map_option (\<lambda>e. shown_error (err_message e)) err \<rparr>"

lemma fold_reply:
  "fold (on_callback a) (reply_callbacks pieces err)
     [\<lparr> dm_id = a, dm_role = ''assistant'', dm_content = [], dm_pending = True, dm_error = None \<rparr>] =
   [reply_message a pieces err]"
proof -
  let ?m = "\<lparr> dm_id = a, dm_role = ''assistant'', dm_content = [], dm_pending = True, dm_error = None \<rparr>"
  have "fold (on_callback a) (map OnDelta pieces) [?m] = [?m\<lparr> dm_content := concat pieces, dm_pending := pieces = [] \<rparr>]"
    using fold_deltas [of ?m pieces] by simp
  then show ?thesis
    by (simp add: reply_callbacks_def reply_message_def on_callback_def split: option.split)
qed

text \<open>
  The widget does not catch the rejection of a failed request: the error leaves \<open>send\<close>, and the
  message goes on showing that an answer is on its way.
\<close>

lemma failed_request_pending:
  assumes "\<not> cw_streaming cw" "trim text \<noteq> []"
  shows "widget_send u a (\<lambda>h. web_streamChat (Inl e)) text cw =
     ((send_started u a (trim text) cw)\<lparr> cw_streaming := False \<rparr>, Some e)"
  using assms by (simp add: widget_send_def web_streamChat_def Let_def)

text \<open>
  A turn that ends in an error keeps its empty answer in the conversation, and every later request
  sends that empty message to the model.
\<close>

lemma failed_turn_kept:
  assumes "\<not> cw_streaming cw" "trim text \<noteq> []" "a \<notin> dm_id ` set (cw_messages cw)" "a \<noteq> u"
    and "widget_send u a (\<lambda>h. web_streamChat (Inr (False, 502, None))) text cw = (cw', f)"
  shows "\<lparr> cm_role = ''assistant'', cm_content = [] \<rparr> \<in> set (chat_history cw' later)"
  using assms(5)
  by (auto simp: widget_send_def web_streamChat_def Let_def assms(1-4) send_started_def fold_others chat_history_def
      on_callback_def)

end
