(* ===== verification/Js_Dates.thy ===== *)
theory Js_Dates
  imports Web_Amounts
begin

text \<open>
  Dates as texts: what \<open>toISOString\<close> prints and \<open>Date.parse\<close> reads, with the proof that reading a printed
  date gives the instant back.
\<close>

section \<open>Printing\<close>

text \<open>
  \<open>new Date(ms).toISOString()\<close> for the years 0 to 9999, with the days since March 1st of the year 0 split into
  eras of 400 years.
\<close>

definition civil_of_days :: "int \<Rightarrow> int \<times> int \<times> int" where
  "civil_of_days n =
     (let z = n + 719468; era = z div 146097; doe = z mod 146097;
          yoe = (doe - doe div 1460 + doe div 36524 - doe div 146096) div 365;
          doy = doe - (365 * yoe + yoe div 4 - yoe div 100); mp = (5 * doy + 2) div 153;
          d = doy - (153 * mp + 2) div 5 + 1; m = (if mp < 10 then mp + 3 else mp - 9) in
      (yoe + era * 400 + (if m \<le> 2 then 1 else 0), m, d))"

definition padded :: "nat \<Rightarrow> int \<Rightarrow> string" where
  "padded k n = pad_start k (CHR ''0'') (nat_text (nat n))"

definition toISOString :: "int \<Rightarrow> string" where
  "toISOString ms =
     (let (y, m, d) = civil_of_days (ms div 86400000); t = ms mod 86400000 in
      padded 4 y @ ''-'' @ padded 2 m @ ''-'' @ padded 2 d @ ''T'' @ padded 2 (t div 3600000) @ '':'' @
      padded 2 (t div 60000 mod 60) @ '':'' @ padded 2 (t div 1000 mod 60) @ ''.'' @ padded 3 (t mod 1000) @ ''Z'')"

section \<open>Reading\<close>

text \<open>
  \<open>Date.parse\<close> for the texts \<open>toISOString\<close> prints, \<open>YYYY-MM-DDTHH:MM:SS.mmmZ\<close>: the timestamps of the decision
  log and the block times of the explorer. Other texts are outside the model.
\<close>

definition days_of_civil :: "int \<Rightarrow> int \<Rightarrow> int \<Rightarrow> int" where
  "days_of_civil y m d =
     (let y' = (if m \<le> 2 then y - 1 else y); era = y' div 400; yoe = y' mod 400;
          mp = (if m > 2 then m - 3 else m + 9); doy = (153 * mp + 2) div 5 + d - 1 in
      era * 146097 + (yoe * 365 + yoe div 4 - yoe div 100 + doy) - 719468)"

definition digits_at :: "nat \<Rightarrow> nat \<Rightarrow> string \<Rightarrow> int option" where
  "digits_at from n s =
     (let t = take n (drop from s) in if length t = n \<and> list_all is_digit t then Some (int (digits_val t)) else None)"

definition iso_marks :: "(nat \<times> char) list" where
  "iso_marks = [(4, CHR ''-''), (7, CHR ''-''), (10, CHR ''T''), (13, CHR '':''), (16, CHR '':''), (19, CHR ''.''), (23, CHR ''Z'')]"

definition date_parse :: "string \<Rightarrow> int result" where
  "date_parse s =
     (if length s = 24 \<and> list_all (\<lambda>(i, c). s ! i = c) iso_marks then
        (case (digits_at 0 4 s, digits_at 5 2 s, digits_at 8 2 s, digits_at 11 2 s, digits_at 14 2 s, digits_at 17 2 s, digits_at 20 3 s) of
           (Some y, Some mo, Some d, Some h, Some mi, Some sec, Some ms) \<Rightarrow>
             if 1 \<le> mo \<and> mo \<le> 12 \<and> 1 \<le> d \<and> d \<le> 31 \<and> h < 24 \<and> mi < 60 \<and> sec < 60
             then Inr (days_of_civil y mo d * 86400000 + h * 3600000 + mi * 60000 + sec * 1000 + ms)
             else Inl (OutOfModel ''date'')
         | _ \<Rightarrow> Inl (OutOfModel ''date''))
      else Inl (OutOfModel ''date''))"

section \<open>The calendar\<close>

text \<open>The year of an era: the days of the year that are left are those of a year.\<close>

lemma year_of_era:
  fixes doe :: int
  assumes "0 \<le> doe" "doe < 146097"
  defines "yoe \<equiv> (doe - doe div 1460 + doe div 36524 - doe div 146096) div 365"
  shows "0 \<le> yoe \<and> yoe < 400 \<and> 0 \<le> doe - (365 * yoe + yoe div 4 - yoe div 100) \<and>
    doe - (365 * yoe + yoe div 4 - yoe div 100) \<le> 365"
proof (cases "doe = 146096")
  case True
  then show ?thesis by (simp add: yoe_def)
next
  case False
  define b r where "b = doe div 36524" and "r = doe mod 36524"
  have doe: "doe = 36524 * b + r" "0 \<le> r" "r < 36524" "0 \<le> b" "b \<le> 3" using assms False by (auto simp: b_def r_def)
  define a where "a = doe div 1460"
  define a' where "a' = a - 25 * b"
  have a: "1460 * a \<le> doe" "doe < 1460 * a + 1460"
    using div_mult_mod_eq [of doe 1460] pos_mod_bound [of 1460 doe] pos_mod_sign [of 1460 doe] unfolding a_def by linarith+
  then have a': "1460 * a' \<le> 24 * b + r" "24 * b + r < 1460 * a' + 1460" using doe by (simp_all add: a'_def)
  have y: "yoe = (doe - a + b) div 365" using assms False by (simp add: yoe_def a_def b_def)
  define q where "q = yoe - 100 * b"
  have "doe - a + b = (r - a') + (100 * b) * 365" using doe(1) by (simp add: a'_def)
  then have "yoe = 100 * b + (r - a') div 365" unfolding y by simp
  then have q: "q = (r - a') div 365" by (simp add: q_def)
  have q': "365 * q \<le> r - a'" "r - a' < 365 * q + 365" unfolding q by presburger+
  have "a' \<le> 25" "0 \<le> a'" "r - a' \<le> 36499" "0 \<le> r - a'" using a' doe by linarith+
  then have qr: "0 \<le> q" "q \<le> 99" using q' by linarith+
  have yq: "yoe = 100 * b + q" by (simp add: q_def)
  have "yoe = q + (25 * b) * 4" "yoe = q + b * 100" by (simp_all add: yq)
  then have d4: "yoe div 4 = 25 * b + q div 4" "yoe div 100 = b" using qr by simp_all
  define f where "f = q div 4"
  have f: "4 * f \<le> q" "q < 4 * f + 4" unfolding f_def by presburger+
  have e: "doe - (365 * yoe + yoe div 4 - yoe div 100) = r - (365 * q + f)"
    using doe(1) yq d4 by (simp add: f_def)
  have "f \<le> a'"
  proof (rule ccontr)
    assume "\<not> f \<le> a'"
    with f q' a' doe show False by linarith
  qed
  moreover have "a' \<le> f + 1"
  proof (rule ccontr)
    assume "\<not> a' \<le> f + 1"
    with f q' a' doe \<open>a' \<le> 25\<close> show False by linarith
  qed
  ultimately show ?thesis unfolding e using q' qr doe yq by linarith
qed

lemma month_of_year:
  fixes doy :: int
  assumes "0 \<le> doy" "doy \<le> 365"
  defines "mp \<equiv> (5 * doy + 2) div 153"
  shows "0 \<le> mp \<and> mp \<le> 11 \<and> 1 \<le> doy - (153 * mp + 2) div 5 + 1 \<and> doy - (153 * mp + 2) div 5 + 1 \<le> 31"
proof -
  have m: "153 * mp \<le> 5 * doy + 2" "5 * doy + 2 < 153 * mp + 153" unfolding mp_def by presburger+
  define k where "k = (153 * mp + 2) div 5"
  have k: "5 * k \<le> 153 * mp + 2" "153 * mp + 2 < 5 * k + 5" unfolding k_def by presburger+
  from m k assms(1,2) show ?thesis unfolding k_def [symmetric] by linarith
qed

text \<open>A date names its day.\<close>

lemma civil_round_trip:
  assumes "civil_of_days n = (y, m, d)"
  shows "days_of_civil y m d = n \<and> 1 \<le> m \<and> m \<le> 12 \<and> 1 \<le> d \<and> d \<le> 31"
proof -
  define z where "z = n + 719468"
  define era doe where "era = z div 146097" and "doe = z mod 146097"
  define yoe where "yoe = (doe - doe div 1460 + doe div 36524 - doe div 146096) div 365"
  define doy where "doy = doe - (365 * yoe + yoe div 4 - yoe div 100)"
  define mp where "mp = (5 * doy + 2) div 153"
  have doe: "0 \<le> doe" "doe < 146097" by (simp_all add: doe_def)
  from year_of_era [OF this] have yoe: "0 \<le> yoe" "yoe < 400" and doy: "0 \<le> doy" "doy \<le> 365"
    unfolding yoe_def [symmetric] doy_def [symmetric] by auto
  from month_of_year [OF doy] have mp: "0 \<le> mp" "mp \<le> 11" and dd: "1 \<le> doy - (153 * mp + 2) div 5 + 1" "doy - (153 * mp + 2) div 5 + 1 \<le> 31"
    unfolding mp_def [symmetric] by auto
  have m: "m = (if mp < 10 then mp + 3 else mp - 9)" and d: "d = doy - (153 * mp + 2) div 5 + 1"
    and y: "y = yoe + era * 400 + (if m \<le> 2 then 1 else 0)"
    using assms unfolding civil_of_days_def Let_def z_def [symmetric] era_def [symmetric] doe_def [symmetric]
      yoe_def [symmetric] doy_def [symmetric] mp_def [symmetric] by auto
  have m2: "m \<le> 2 \<longleftrightarrow> 10 \<le> mp" using mp by (simp add: m)
  have y': "(if m \<le> 2 then y - 1 else y) = yoe + era * 400" by (simp add: y)
  have mp': "(if 2 < m then m - 3 else m + 9) = mp" using m2 by (auto simp: m)
  have "(yoe + era * 400) div 400 = era" "(yoe + era * 400) mod 400 = yoe" using yoe by simp_all
  then have "days_of_civil y m d = era * 146097 + (yoe * 365 + yoe div 4 - yoe div 100 + doy) - 719468"
    unfolding days_of_civil_def Let_def y' mp' by (simp add: d)
  also have "\<dots> = era * 146097 + doe - 719468" by (simp add: doy_def)
  also have "\<dots> = n" using div_mult_mod_eq [of z 146097] by (simp add: era_def doe_def z_def)
  finally show ?thesis using mp dd by (auto simp: m d)
qed
section \<open>Round trip\<close>

lemma padded_facts:
  assumes "0 \<le> n" "n < 10 ^ k" "0 < k"
  shows "length (padded k n) = k \<and> list_all is_digit (padded k n) \<and> int (digits_val (padded k n)) = n"
proof -
  have "nat n < 10 ^ k" using assms by (simp add: nat_less_iff)
  then have "length (nat_text (nat n)) \<le> k" using nat_text_length assms(3) by blast
  then show ?thesis using assms(1) pad_start_digits [OF nat_text_digits]
    by (simp add: padded_def digits_val_pad_start) (simp add: pad_start_def)
qed

lemma padded_2: "0 \<le> n \<Longrightarrow> n < 100 \<Longrightarrow> length (padded 2 n) = 2 \<and> list_all is_digit (padded 2 n) \<and> int (digits_val (padded 2 n)) = n"
  using padded_facts [of n 2] by simp

text \<open>What is read at a place of a text made of pieces.\<close>

lemma digits_at_piece:
  assumes "length a = from" "length p = n" "list_all is_digit p"
  shows "digits_at from n (a @ p @ b) = Some (int (digits_val p))"
  using assms by (simp add: digits_at_def Let_def)

lemma iso_pieces:
  assumes l: "length y = 4" "length mo = 2" "length d = 2" "length h = 2" "length mi = 2" "length s = 2" "length ms = 3"
    and d: "list_all is_digit y" "list_all is_digit mo" "list_all is_digit d" "list_all is_digit h" "list_all is_digit mi"
      "list_all is_digit s" "list_all is_digit ms"
  defines "t \<equiv> y @ ''-'' @ mo @ ''-'' @ d @ ''T'' @ h @ '':'' @ mi @ '':'' @ s @ ''.'' @ ms @ ''Z''"
  shows "length t = 24" "list_all (\<lambda>(i, c). t ! i = c) iso_marks"
    "digits_at 0 4 t = Some (int (digits_val y))" "digits_at 5 2 t = Some (int (digits_val mo))"
    "digits_at 8 2 t = Some (int (digits_val d))" "digits_at 11 2 t = Some (int (digits_val h))"
    "digits_at 14 2 t = Some (int (digits_val mi))" "digits_at 17 2 t = Some (int (digits_val s))"
    "digits_at 20 3 t = Some (int (digits_val ms))"
proof -
  show "length t = 24" using l by (simp add: t_def)
  show "list_all (\<lambda>(i, c). t ! i = c) iso_marks" using l by (simp add: iso_marks_def t_def nth_append)
  show "digits_at 0 4 t = Some (int (digits_val y))"
    using digits_at_piece [of "[]" 0 y 4] l d by (simp add: t_def)
  show "digits_at 5 2 t = Some (int (digits_val mo))"
    using digits_at_piece [of "y @ ''-''" 5 mo 2] l d by (simp add: t_def)
  show "digits_at 8 2 t = Some (int (digits_val d))"
    using digits_at_piece [of "y @ ''-'' @ mo @ ''-''" 8 d 2] l d by (simp add: t_def)
  show "digits_at 11 2 t = Some (int (digits_val h))"
    using digits_at_piece [of "y @ ''-'' @ mo @ ''-'' @ d @ ''T''" 11 h 2] l d by (simp add: t_def)
  show "digits_at 14 2 t = Some (int (digits_val mi))"
    using digits_at_piece [of "y @ ''-'' @ mo @ ''-'' @ d @ ''T'' @ h @ '':''" 14 mi 2] l d by (simp add: t_def)
  show "digits_at 17 2 t = Some (int (digits_val s))"
    using digits_at_piece [of "y @ ''-'' @ mo @ ''-'' @ d @ ''T'' @ h @ '':'' @ mi @ '':''" 17 s 2] l d by (simp add: t_def)
  show "digits_at 20 3 t = Some (int (digits_val ms))"
    using digits_at_piece [of "y @ ''-'' @ mo @ ''-'' @ d @ ''T'' @ h @ '':'' @ mi @ '':'' @ s @ ''.''" 20 ms 3] l d
    by (simp add: t_def)
qed

lemma date_parse_pieces:
  assumes "length y = 4 \<and> list_all is_digit y \<and> int (digits_val y) = vy" "length mo = 2 \<and> list_all is_digit mo \<and> int (digits_val mo) = vmo"
    "length d = 2 \<and> list_all is_digit d \<and> int (digits_val d) = vd" "length h = 2 \<and> list_all is_digit h \<and> int (digits_val h) = vh"
    "length mi = 2 \<and> list_all is_digit mi \<and> int (digits_val mi) = vmi" "length s = 2 \<and> list_all is_digit s \<and> int (digits_val s) = vs"
    "length ms = 3 \<and> list_all is_digit ms \<and> int (digits_val ms) = vms"
    and "1 \<le> vmo \<and> vmo \<le> 12 \<and> 1 \<le> vd \<and> vd \<le> 31 \<and> vh < 24 \<and> vmi < 60 \<and> vs < 60"
  shows "date_parse (y @ ''-'' @ mo @ ''-'' @ d @ ''T'' @ h @ '':'' @ mi @ '':'' @ s @ ''.'' @ ms @ ''Z'') =
    Inr (days_of_civil vy vmo vd * 86400000 + vh * 3600000 + vmi * 60000 + vs * 1000 + vms)"
  using iso_pieces [of y mo d h mi s ms] assms by (simp add: date_parse_def)

text \<open>A time of day is the sum of its hours, minutes, seconds and milliseconds.\<close>

lemma time_parts:
  fixes t :: int
  assumes "0 \<le> t" "t < 86400000"
  shows "t div 3600000 * 3600000 + t div 60000 mod 60 * 60000 + t div 1000 mod 60 * 1000 + t mod 1000 = t"
    and "t div 3600000 < 24"
proof -
  define u v where "u = t div 1000" and "v = u div 60"
  have v: "t div 60000 = v" "t div 3600000 = v div 60"
    using zdiv_zmult2_eq [of 60 t 1000] zdiv_zmult2_eq [of 60 t 60000] zdiv_zmult2_eq [of 60 u 60] zdiv_zmult2_eq [of 3600 t 1000]
    by (simp_all add: u_def v_def)
  have "t = u * 1000 + t mod 1000" unfolding u_def by (rule div_mult_mod_eq [symmetric])
  moreover have "u = v * 60 + u mod 60" unfolding v_def by (rule div_mult_mod_eq [symmetric])
  moreover have "v = v div 60 * 60 + v mod 60" by (rule div_mult_mod_eq [symmetric])
  ultimately have "v div 60 * 3600000 + v mod 60 * 60000 + u mod 60 * 1000 + t mod 1000 = t" by linarith
  then show "t div 3600000 * 3600000 + t div 60000 mod 60 * 60000 + t div 1000 mod 60 * 1000 + t mod 1000 = t"
    unfolding v u_def [symmetric] .
  show "t div 3600000 < 24" using assms by (simp add: div_less_iff_less_mult)
qed

theorem date_round_trip:
  assumes "civil_of_days (ms div 86400000) = (y, m, d)" "0 \<le> y" "y \<le> 9999"
  shows "date_parse (toISOString ms) = Inr ms"
proof -
  define t where "t = ms mod 86400000"
  define h mi se f where "h = t div 3600000" and "mi = t div 60000 mod 60" and "se = t div 1000 mod 60" and "f = t mod 1000"
  note defs = h_def [symmetric] mi_def [symmetric] se_def [symmetric] f_def [symmetric]
  have t: "0 \<le> t" "t < 86400000" by (simp_all add: t_def)
  note parts = time_parts [OF t, unfolded defs]
  have pos: "0 \<le> h" "0 \<le> mi" "0 \<le> se" "0 \<le> f" "mi < 60" "se < 60" "f < 1000"
    using t(1) by (simp_all add: h_def mi_def se_def f_def pos_imp_zdiv_nonneg_iff)
  from civil_round_trip [OF assms(1)] have c: "days_of_civil y m d = ms div 86400000" "1 \<le> m" "m \<le> 12" "1 \<le> d" "d \<le> 31" by auto
  have iso: "toISOString ms = padded 4 y @ ''-'' @ padded 2 m @ ''-'' @ padded 2 d @ ''T'' @ padded 2 h @ '':'' @
      padded 2 mi @ '':'' @ padded 2 se @ ''.'' @ padded 3 f @ ''Z''"
    by (simp add: toISOString_def assms(1) t_def [symmetric] defs Let_def)
  have b: "m < 100" "d < 100" "0 \<le> m" "0 \<le> d" "h < 100" "mi < 100" "se < 100" "y < 10 ^ 4" "f < 10 ^ 3"
    using c(2-5) pos parts(2) assms(3) by simp_all
  have r: "1 \<le> m \<and> m \<le> 12 \<and> 1 \<le> d \<and> d \<le> 31 \<and> h < 24 \<and> mi < 60 \<and> se < 60"
    using c(2-5) pos(5,6) parts(2) by blast
  have k: "(0::nat) < 4" "(0::nat) < 3" by simp_all
  have "date_parse (toISOString ms) = Inr (days_of_civil y m d * 86400000 + h * 3600000 + mi * 60000 + se * 1000 + f)"
    unfolding iso
    by (rule date_parse_pieces [OF padded_facts [OF assms(2) b(8) k(1)] padded_2 [OF b(3,1)] padded_2 [OF b(4,2)]
      padded_2 [OF pos(1) b(5)] padded_2 [OF pos(2) b(6)] padded_2 [OF pos(3) b(7)] padded_facts [OF pos(4) b(9) k(2)] r])
  also have "\<dots> = Inr (ms div 86400000 * 86400000 + t)" using parts(1) c(1) by simp
  also have "ms div 86400000 * 86400000 + t = ms" unfolding t_def by (rule div_mult_mod_eq)
  finally show ?thesis .
qed

end
