(* ===== verification/Web_Market.thy ===== *)
theory Web_Market
  imports Strategy_Analysis Js_Dates
begin

text \<open>
  The market data the web server gives to its pages: the route for the price of STX with its cache
  (apps/web/src/app/api/stx-price/route.ts) and the route for the protocols of the ecosystem
  (apps/web/src/app/api/ecosystem/route.ts). Each is a state machine, since requests that arrive
  while a fetch is under way wait for it together.
\<close>

section \<open>The sources of the price\<close>

record price_quote =
  wq_usd :: js_num
  wq_change :: js_num
  wq_source :: string

definition FRESH_MS :: int where
  "FRESH_MS = 20000"

definition STALE_MAX_MS :: int where
  "STALE_MAX_MS = 60 * 60000"

definition gate_quote :: "js \<Rightarrow> stx_quote result" where
  "gate_quote j =
     js_try (js_try (js_item j 0) (\<lambda>t. number_at t [''last''])) (\<lambda>u.
     js_try (js_try (js_item j 0) (\<lambda>t. number_at t [''change_percentage''])) (\<lambda>c. Inr \<lparr> q_usd = u, q_change = c \<rparr>))"

definition bybit_quote :: "js \<Rightarrow> stx_quote result" where
  "bybit_quote j =
     js_try (js_try (js_path j [''result'', ''list'']) (\<lambda>l. js_item l 0)) (\<lambda>t.
     js_try (number_at t [''lastPrice'']) (\<lambda>u.
     js_try (number_at t [''price24hPcnt'']) (\<lambda>c. Inr \<lparr> q_usd = u, q_change = num_mul c (Fin 100) \<rparr>)))"

definition mexc_quote :: "js \<Rightarrow> stx_quote result" where
  "mexc_quote j =
     js_try (number_at j [''lastPrice'']) (\<lambda>u.
     js_try (number_at j [''priceChangePercent'']) (\<lambda>c. Inr \<lparr> q_usd = u, q_change = num_mul c (Fin 100) \<rparr>))"

definition PROVIDERS :: "(string \<times> string \<times> (js \<Rightarrow> stx_quote result)) list" where
  "PROVIDERS =
     [(''coingecko'',
       ''https://api.coingecko.com/api/v3/simple/price?ids=blockstack&vs_currencies=usd&include_24hr_change=true'',
       coingecko_quote),
      (''binance'', ''https://api.binance.com/api/v3/ticker/24hr?symbol=STXUSDT'', binance_quote),
      (''kraken'', ''https://api.kraken.com/0/public/Ticker?pair=STXUSD'', kraken_quote),
      (''coinbase'', ''https://api.exchange.coinbase.com/products/STX-USD/stats'', coinbase_quote),
      (''gate'', ''https://api.gateio.ws/api/v4/spot/tickers?currency_pair=STX_USDT'', gate_quote),
      (''bybit'', ''https://api.bybit.com/v5/market/tickers?category=spot&symbol=STXUSDT'', bybit_quote),
      (''mexc'', ''https://api.mexc.com/api/v3/ticker/24hr?symbol=STXUSDT'', mexc_quote)]"

definition valid_quote :: "stx_quote \<Rightarrow> bool" where
  "valid_quote q \<longleftrightarrow>
     is_finite_num (q_usd q) \<and> num_less (Fin 0) (q_usd q) \<and> num_less (q_usd q) (Fin 1000) \<and>
     is_finite_num (q_change q) \<and> num_less (num_abs (q_change q)) (Fin 100)"

definition ask_provider :: "'w services \<Rightarrow> string \<times> string \<times> (js \<Rightarrow> stx_quote result) \<Rightarrow> ('w, price_quote) io" where
  "ask_provider sv p =
     (case p of (name, url, read) \<Rightarrow>
        io_bind (getJson sv url) (\<lambda>j. io_bind (io_lift (read j)) (\<lambda>q.
          if \<not> valid_quote q then io_throw (JsError (name @ '': implausible quote''))
          else io_return \<lparr> wq_usd = q_usd q, wq_change = q_change q, wq_source = name \<rparr>)))"

definition fetchFresh :: "'w services \<Rightarrow> ('w, price_quote) io" where
  "fetchFresh sv =
     io_bind (promise_any sv (map (ask_provider sv) PROVIDERS)) (\<lambda>r.
       (case r of Some q \<Rightarrow> io_return q | None \<Rightarrow> io_throw (JsError ''All promises were rejected'')))"

section \<open>The price route\<close>

record price_cache =
  cached_quote :: price_quote
  cached_at :: int

record price_body =
  pb_usd :: js_num
  pb_change :: js_num
  pb_source :: string
  pb_fetchedAt :: string
  pb_ageSeconds :: int
  pb_stale :: bool

datatype price_answer =
    PriceOk price_body
  | PriceUnavailable

text \<open>\<open>Math.round(ms / 1000)\<close> of an integer.\<close>

definition seconds_of :: "int \<Rightarrow> int" where
  "seconds_of ms = (ms + 500) div 1000"

definition price_body_of :: "price_cache \<Rightarrow> int \<Rightarrow> bool \<Rightarrow> price_body" where
  "price_body_of c now stale =
     \<lparr> pb_usd = wq_usd (cached_quote c), pb_change = wq_change (cached_quote c), pb_source = wq_source (cached_quote c),
       pb_fetchedAt = toISOString (cached_at c), pb_ageSeconds = seconds_of (now - cached_at c), pb_stale = stale \<rparr>"

text \<open>
  The state of the module: the cache, and the requests that wait for the fetch under way, each with
  the time it arrived; \<open>inflight\<close> is set while there is one. The world and the clock are outside.
\<close>

record 'w price_server =
  ps_cache :: "price_cache option"
  ps_waiting :: "(nat \<times> int) list"
  ps_world :: 'w
  ps_clock :: int

definition price_started :: "'w \<Rightarrow> int \<Rightarrow> 'w price_server" where
  "price_started w now = \<lparr> ps_cache = None, ps_waiting = [], ps_world = w, ps_clock = now \<rparr>"

definition younger :: "int \<Rightarrow> price_cache option \<Rightarrow> int \<Rightarrow> bool" where
  "younger limit c now = (case c of Some x \<Rightarrow> now - cached_at x < limit | None \<Rightarrow> False)"

text \<open>A request arrives: it is answered from the cache, or it waits for the fetch.\<close>

definition price_get :: "nat \<Rightarrow> int \<Rightarrow> 'w price_server \<Rightarrow> (nat \<times> price_answer) list \<times> 'w price_server" where
  "price_get i now s =
     (if younger FRESH_MS (ps_cache s) now then
        ([(i, PriceOk (price_body_of (the (ps_cache s)) now False))], s\<lparr> ps_clock := now \<rparr>)
      else ([], s\<lparr> ps_waiting := ps_waiting s @ [(i, now)], ps_clock := now \<rparr>))"

definition stale_answer :: "price_cache option \<Rightarrow> int \<Rightarrow> price_answer" where
  "stale_answer c now = (if younger STALE_MAX_MS c now then PriceOk (price_body_of (the c) now True) else PriceUnavailable)"

text \<open>The fetch ends and the requests that waited for it go on, all at the time \<open>now\<close>.\<close>

definition price_settle ::
    "'w services \<Rightarrow> int \<Rightarrow> 'w price_server \<Rightarrow> (nat \<times> price_answer) list \<times> 'w price_server" where
  "price_settle sv now s =
     (case fetchFresh sv (ps_world s) of (r, w') \<Rightarrow>
       (let s' = s\<lparr> ps_waiting := [], ps_world := w', ps_clock := now \<rparr> in
        (case r of
           Inr q \<Rightarrow>
             (let c = \<lparr> cached_quote = q, cached_at = now \<rparr> in
              (map (\<lambda>(i, t). (i, PriceOk (price_body_of c now False))) (ps_waiting s), s'\<lparr> ps_cache := Some c \<rparr>))
         | Inl e \<Rightarrow> (map (\<lambda>(i, t). (i, stale_answer (ps_cache s) t)) (ps_waiting s), s'))))"

inductive price_step ::
    "'w services \<Rightarrow> 'w price_server \<Rightarrow> (nat \<times> price_answer) list \<Rightarrow> 'w price_server \<Rightarrow> bool" for sv where
  arrives: "ps_clock s \<le> now \<Longrightarrow> price_get i now s = (out, s') \<Longrightarrow> price_step sv s out s'"
| settles: "ps_clock s \<le> now \<Longrightarrow> ps_waiting s \<noteq> [] \<Longrightarrow> \<forall>e. fst (fetchFresh sv (ps_world s)) = Inl e \<longrightarrow> \<not> out_of_model e \<Longrightarrow>
    price_settle sv now s = (out, s') \<Longrightarrow> price_step sv s out s'"

inductive price_reachable :: "'w services \<Rightarrow> 'w price_server \<Rightarrow> bool" for sv where
  started: "price_reachable sv (price_started w now)"
| step: "price_reachable sv s \<Longrightarrow> price_step sv s out s' \<Longrightarrow> price_reachable sv s'"

section \<open>Prices are readings\<close>

text \<open>Promises that settle in their order: the first fulfilled one of the list wins.\<close>

lemma promise_any_in_order:
  assumes "\<And>w. fst (sv_settled sv w) = []"
  shows "fst (promise_any sv ms w) = first_fulfilled (fst (io_all ms w))"
proof -
  have "map (\<lambda>i. rs ! i) (settle_order (length rs) []) = rs" for rs :: "'b result list"
    by (simp add: settle_order_def map_nth)
  with assms show ?thesis by (simp add: promise_any_def case_prod_beta)
qed

definition read_from :: "'w services \<Rightarrow> price_quote \<Rightarrow> bool" where
  "read_from sv q \<longleftrightarrow>
     (\<exists>p \<in> set PROVIDERS. \<exists>u w' status body x y. fst p = wq_source q \<and>
        sv_fetch sv (fst (snd p)) u = (Inr (True, status, body), w') \<and>
        snd (snd p) body = Inr \<lparr> q_usd = Fin x, q_change = Fin y \<rparr> \<and>
        wq_usd q = Fin x \<and> wq_change q = Fin y \<and> 0 < x \<and> x < 1000 \<and> \<bar>y\<bar> < 100)"

lemma ask_provider_read:
  assumes "fst (ask_provider sv p w) = Inr q" "p \<in> set PROVIDERS"
  shows "read_from sv q"
proof -
  obtain name url rd where p: "p = (name, url, rd)" by (cases p)
  from assms(1) obtain status body w' x where f: "sv_fetch sv url w = (Inr (True, status, body), w')" "rd body = Inr x"
      "valid_quote x" "q = \<lparr> wq_usd = q_usd x, wq_change = q_change x, wq_source = name \<rparr>"
    by (auto simp: p ask_provider_def getJson_def io_defs split: prod.splits sum.splits if_splits)
  from f(3) obtain a b where "x = \<lparr> q_usd = Fin a, q_change = Fin b \<rparr>" "0 < a" "a < 1000" "\<bar>b\<bar> < 100"
    by (cases x; cases "q_usd x"; cases "q_change x") (auto simp: valid_quote_def)
  with f assms(2) p show ?thesis unfolding read_from_def by (intro bexI [of _ p] exI conjI) auto
qed

lemma fetchFresh_read:
  assumes "fst (fetchFresh sv w) = Inr q"
  shows "read_from sv q"
proof -
  have "fst (promise_any sv (map (ask_provider sv) PROVIDERS) w) = Inr (Some q)"
    using assms by (auto simp: fetchFresh_def bind_Inr split: option.splits)
  from promise_any_result [OF this] have "Inr q \<in> set (fst (io_all (map (ask_provider sv) PROVIDERS) w))" by simp
  from io_all_mem [OF this] obtain p u where "p \<in> set PROVIDERS" "fst (ask_provider sv p u) = Inr q" by auto
  then show ?thesis by (intro ask_provider_read)
qed

definition price_inv :: "'w services \<Rightarrow> 'w price_server \<Rightarrow> bool" where
  "price_inv sv s \<longleftrightarrow>
     (\<forall>c. ps_cache s = Some c \<longrightarrow> read_from sv (cached_quote c) \<and> cached_at c \<le> ps_clock s \<and>
        (\<forall>(i, t) \<in> set (ps_waiting s). cached_at c \<le> t)) \<and>
     (\<forall>(i, t) \<in> set (ps_waiting s). t \<le> ps_clock s)"

lemma price_step_inv:
  assumes "price_inv sv s" "price_step sv s out s'"
  shows "price_inv sv s'"
  using assms(2,1)
proof cases
  case (arrives now i)
  with assms(1) show ?thesis by (fastforce simp: price_get_def price_inv_def split: if_splits)
next
  case (settles now)
  obtain r w' where f: "fetchFresh sv (ps_world s) = (r, w')" by fastforce
  show ?thesis
  proof (cases r)
    case (Inl e)
    with settles f assms(1) show ?thesis by (fastforce simp: price_settle_def price_inv_def Let_def)
  next
    case (Inr q)
    then have "read_from sv q" using f fetchFresh_read [of sv "ps_world s" q] by simp
    with Inr settles f show ?thesis by (auto simp: price_settle_def price_inv_def Let_def)
  qed
qed

lemma price_reachable_inv: "price_reachable sv s \<Longrightarrow> price_inv sv s"
proof (induction rule: price_reachable.induct)
  case (started w now)
  then show ?case by (simp add: price_started_def price_inv_def)
qed (rule price_step_inv)

lemma seconds_bounds: "0 \<le> d \<Longrightarrow> d < 1000 * n \<Longrightarrow> 0 \<le> seconds_of d \<and> seconds_of d \<le> n"
proof -
  assume d: "0 \<le> d" "d < 1000 * n"
  then have "(d + 500) div 1000 \<le> (499 + 1000 * n) div 1000" by (intro zdiv_mono1) simp_all
  also have "\<dots> = n" by (simp add: div_mult_self2)
  finally show ?thesis using d by (simp add: seconds_of_def pos_imp_zdiv_nonneg_iff)
qed

definition answer_ok :: "'w services \<Rightarrow> 'w price_server \<Rightarrow> price_body \<Rightarrow> bool" where
  "answer_ok sv s b \<longleftrightarrow>
     (\<exists>q. read_from sv q \<and> pb_usd b = wq_usd q \<and> pb_change b = wq_change q \<and> pb_source b = wq_source q) \<and>
     0 \<le> pb_ageSeconds b \<and>
     (if pb_stale b then pb_ageSeconds b \<le> 3600 \<and> (\<exists>e. fst (fetchFresh sv (ps_world s)) = Inl e)
      else pb_ageSeconds b \<le> 20)"

lemma price_step_answers:
  assumes "price_inv sv s" "price_step sv s out s'" "(i, PriceOk b) \<in> set out"
  shows "answer_ok sv s b"
  using assms(2)
proof cases
  case (arrives now j)
  then obtain c where c: "ps_cache s = Some c" "now - cached_at c < 20000" "b = price_body_of c now False"
    using assms(3) by (auto simp: price_get_def younger_def FRESH_MS_def split: if_splits option.splits)
  with assms(1) arrives(1) have "read_from sv (cached_quote c)" "0 \<le> now - cached_at c" by (auto simp: price_inv_def)
  with c seconds_bounds [of "now - cached_at c" 20] show ?thesis by (auto simp: answer_ok_def price_body_of_def)
next
  case (settles now)
  obtain r w' where f: "fetchFresh sv (ps_world s) = (r, w')" by fastforce
  show ?thesis
  proof (cases r)
    case (Inl e)
    then obtain t where t: "(i, t) \<in> set (ps_waiting s)" "stale_answer (ps_cache s) t = PriceOk b"
      using settles(4) f assms(3) by (auto simp: price_settle_def Let_def)
    then obtain c where c: "ps_cache s = Some c" "t - cached_at c < 3600000" "b = price_body_of c t True"
      by (auto simp: stale_answer_def younger_def STALE_MAX_MS_def split: if_splits option.splits)
    with assms(1) t(1) have "read_from sv (cached_quote c)" "0 \<le> t - cached_at c" by (fastforce simp: price_inv_def)+
    with c f Inl seconds_bounds [of "t - cached_at c" 3600] show ?thesis by (auto simp: answer_ok_def price_body_of_def)
  next
    case (Inr q)
    then have "b = price_body_of \<lparr> cached_quote = q, cached_at = now \<rparr> now False"
      using settles(4) f assms(3) by (auto simp: price_settle_def Let_def)
    with f Inr fetchFresh_read [of sv "ps_world s" q] show ?thesis
      by (auto simp: answer_ok_def price_body_of_def seconds_of_def)
  qed
qed

end
