(* ===== verification/Web_Catalogue.thy ===== *)
theory Web_Catalogue
  imports Ecosystem_Protocols
begin

text \<open>
  The web application's own copy of the protocol catalogue (apps/web/src/lib/ecosystemProtocols.ts), and
  the check that it is the agent's catalogue entry by entry.
\<close>

definition web_alex_protocol :: ecosystem_protocol where
  "web_alex_protocol =
     \<lparr> ep_id = ''alex'', ep_name = ''ALEX'', ep_category = DexAmm,
       ep_website = ''https://alexlab.co'',
       ep_description =
         ''ALEX is an automated market maker (AMM) DEX on Stacks, providing swap pools and '' @
         ''liquidity provisioning for STX, sBTC, and other Stacks-native assets. Liquidity '' @
         ''providers earn trading fees in exchange for taking on impermanent loss risk.'',
       ep_mainnetContract = ''SP3K8BC0PPEVCV7NZ6QSRWPQ2JE9E5B6N3PA0KBR9.amm-swap-pool-v1-1'',
       ep_plainSummary =
         ''A digital currency exchange where you can trade one Stacks token for another '' @
         ''instantly, without a bank or broker in the middle.'',
       ep_howItWorks =
         [''Other users have already deposited pairs of tokens (like STX and sBTC) into a '' @
            ''shared pool.'',
          ''When you want to swap, the pool'' @ [CHR 0x27] @
            ''s software automatically sets a price and trades with you directly.'',
          ''If you deposit your own tokens into a pool instead of swapping, you earn a small '' @
            ''fee from every trade that uses your pool.''],
       ep_risks =
         [''Prices can move against you between when you start a trade and when it confirms.'',
          ''If you supply tokens to a pool, the value of what you get back can be worth less '' @
            ''than what you put in if prices shift a lot (this is called impermanent loss).'',
          ''Like any software, the contract could contain bugs '' @ emdash @
            '' only use funds you can afford to risk.''],
       ep_defiLlamaSlug = Some ''alex'' \<rparr>"

definition web_zest_protocol :: ecosystem_protocol where
  "web_zest_protocol =
     \<lparr> ep_id = ''zest'', ep_name = ''Zest Protocol'', ep_category = Lending,
       ep_website = ''https://www.zestprotocol.com'',
       ep_description =
         ''Zest Protocol is a Bitcoin-focused lending market on Stacks where users supply '' @
         ''assets like sBTC and STX to earn yield, or borrow against their holdings. Live '' @
         ''since March 2024, it has processed over $100M in peak TVL.'',
       ep_mainnetContract = ''SP1A27KFY4XERQCCRCARCYD1CC5N7M6688BSYADJ7.v0-4-market'',
       ep_plainSummary =
         ''A place to either lend out your crypto to earn interest, or borrow crypto by '' @
         ''putting up other crypto as collateral '' @ emdash @
         '' similar to a savings account or a pawn shop, run entirely by software.'',
       ep_howItWorks =
         [''Lenders deposit sBTC or STX into a shared pool and earn interest paid by borrowers.'',
          ''Borrowers lock up collateral worth more than what they want to borrow, then receive '' @
            ''the loan instantly.'',
          ''If a borrower'' @ [CHR 0x27] @
            ''s collateral value falls too close to their loan amount, the software can '' @
            ''automatically sell some of it to keep lenders protected.''],
       ep_risks =
         [''If you borrow, a sharp price drop in your collateral can trigger an automatic, '' @
            ''forced sale (liquidation) at a loss.'',
          ''Interest rates change automatically based on supply and demand and are not fixed.'',
          ''Like any software, the contract could contain bugs '' @ emdash @
            '' only use funds you can afford to risk.''],
       ep_defiLlamaSlug = Some ''zest-v2'' \<rparr>"

definition web_arkadiko_protocol :: ecosystem_protocol where
  "web_arkadiko_protocol =
     \<lparr> ep_id = ''arkadiko'', ep_name = ''Arkadiko'', ep_category = CdpStablecoin,
       ep_website = ''https://arkadiko.finance'',
       ep_description =
         ''Arkadiko is a collateralized-debt-position (CDP) protocol on Stacks: users lock STX '' @
         ''or other approved collateral into a vault to mint the USDA stablecoin, similar in '' @
         ''design to MakerDAO. '' @ quote @ ''Freddie'' @ quote @ '' is the protocol'' @ [CHR 0x27] @
         ''s internal name for its vault manager contract.'',
       ep_mainnetContract = ''SP2C2YFP12AJZB4MABJBAJ55XECVS7E4PMMZ89YZR.arkadiko-freddie-v1-1'',
       ep_plainSummary =
         ''Lets you lock up STX as collateral and, in return, create ('' @ quote @ ''mint'' @ quote @
         '') USDA, a stablecoin designed to track $1 '' @ emdash @ '' without selling your STX.'',
       ep_howItWorks =
         [''You deposit STX into your own personal vault on the protocol.'',
          ''The software lets you mint USDA stablecoins worth less than your deposited STX '' @
            ''(extra collateral is required as a safety cushion).'',
          ''You repay the USDA whenever you want to unlock and withdraw your original STX.''],
       ep_risks =
         [''If the value of your STX collateral falls too far, your vault can be automatically '' @
            ''liquidated (sold off) to repay the debt.'',
          ''A stablecoin'' @ [CHR 0x27] @ ''s peg to $1 is not guaranteed '' @ emdash @
            '' its market price can still drift, especially during market stress.'',
          ''Like any software, the contract could contain bugs '' @ emdash @
            '' only use funds you can afford to risk.''],
       ep_defiLlamaSlug = Some ''arkadiko'' \<rparr>"

definition web_stackingdao_protocol :: ecosystem_protocol where
  "web_stackingdao_protocol =
     \<lparr> ep_id = ''stackingdao'', ep_name = ''StackingDAO'', ep_category = LiquidStaking,
       ep_website = ''https://www.stackingdao.com'',
       ep_description =
         ''StackingDAO offers liquid staking for STX: users deposit STX and receive stSTX, a '' @
         ''transferable token representing their staked position and accrued Stacking (PoX) '' @
         ''rewards, usable elsewhere in Stacks DeFi while the underlying STX remains staked.'',
       ep_mainnetContract = ''SP4SZE494VC2YC5JYG7AYFQ44F5Q4PYV7DVMDPBG.stacking-dao-core-v6'',
       ep_plainSummary =
         ''Lets you earn Bitcoin rewards on your STX (through the Stacks network'' @ [CHR 0x27] @
         ''s built-in '' @ quote @ ''Stacking'' @ quote @
         '' reward program) without locking it up or managing the process yourself.'',
       ep_howItWorks =
         [''You deposit STX and immediately receive stSTX, a token representing your deposit '' @
            ''plus its future rewards.'',
          ''The protocol pools everyone'' @ [CHR 0x27] @
            ''s STX together and handles the Stacking process on your behalf, earning Bitcoin '' @ ''rewards.'',
          ''You can hold, trade, or use stSTX elsewhere in Stacks DeFi at any time, and later '' @
            ''exchange it back for the underlying STX plus rewards.''],
       ep_risks =
         [''stSTX'' @ [CHR 0x27] @
            ''s market price can trade slightly above or below the value of the underlying STX it '' @
            ''represents.'',
          ''You are trusting the protocol'' @ [CHR 0x27] @
            ''s software to correctly manage pooled funds and distribute rewards.'',
          ''Like any software, the contract could contain bugs '' @ emdash @
            '' only use funds you can afford to risk.''],
       ep_defiLlamaSlug = Some ''stackingdao'' \<rparr>"

definition web_bitflow_protocol :: ecosystem_protocol where
  "web_bitflow_protocol =
     \<lparr> ep_id = ''bitflow'', ep_name = ''Bitflow'', ep_category = DexAmm,
       ep_website = ''https://www.bitflow.finance'',
       ep_description =
         ''Bitflow is a decentralized exchange on Stacks specializing in efficient '' @
         ''stable-asset swaps (StableSwap pools) for Bitcoin-pegged and stablecoin pairs, '' @
         ''alongside standard AMM pools, aiming to give Bitcoiners deep, low-slippage '' @ ''liquidity.'',
       ep_mainnetContract = ''SPQC38PW542EQJ5M11CR25P7BS1CA6QT4TBXGB3M.stableswap-stx-ststx-v-1-2'',
       ep_plainSummary =
         ''An exchange focused on swapping Bitcoin-related tokens and stablecoins for each '' @
         ''other with very little price slippage.'',
       ep_howItWorks =
         [''Liquidity providers deposit pairs of similar-value assets (like two different '' @
            ''BTC-pegged tokens) into a shared pool.'',
          ''Its stableswap pricing formula is tuned specifically for assets that should trade '' @
            ''close to 1:1, so swaps between them cost less than on a general-purpose exchange.'',
          ''Traders swap through these pools directly; liquidity providers earn a share of '' @
            ''trading fees in return.''],
       ep_risks =
         [''Even '' @ quote @ ''stable'' @ quote @
            '' pairs can temporarily de-peg from each other during market stress, causing losses '' @
            ''for liquidity providers.'',
          ''Prices can move against you between when you start a trade and when it confirms.'',
          ''Like any software, the contract could contain bugs '' @ emdash @
            '' only use funds you can afford to risk.''],
       ep_defiLlamaSlug = Some ''bitflow'' \<rparr>"

definition web_velar_protocol :: ecosystem_protocol where
  "web_velar_protocol =
     \<lparr> ep_id = ''velar'', ep_name = ''Velar'', ep_category = DexAmm,
       ep_website = ''https://velar.com'',
       ep_description =
         ''Velar is an automated market maker DEX on Stacks offering standard token-swap pools '' @
         ''(a Uniswap-v2-style constant-product design), plus a separate perpetual futures '' @
         ''product for leveraged trading.'',
       ep_mainnetContract = ''SP1Y5YSTAHZ88XYK1VPDH24GY0HPX5J4JECTMY4A1.univ2-core'',
       ep_plainSummary =
         ''A digital currency exchange where you can trade Stacks tokens for each other '' @
         ''instantly, similar to ALEX or Bitflow.'',
       ep_howItWorks =
         [''Other users have already deposited pairs of tokens into a shared pool.'',
          ''When you want to swap, the pool'' @ [CHR 0x27] @
            ''s pricing formula automatically sets a rate and trades with you directly.'',
          ''If you deposit your own tokens into a pool instead of swapping, you earn a small '' @
            ''fee from every trade that uses your pool.''],
       ep_risks =
         [''Prices can move against you between when you start a trade and when it confirms.'',
          ''If you supply tokens to a pool, the value of what you get back can be worth less '' @
            ''than what you put in if prices shift a lot (impermanent loss).'',
          ''Like any software, the contract could contain bugs '' @ emdash @
            '' only use funds you can afford to risk.''],
       ep_defiLlamaSlug = Some ''velar-amm'' \<rparr>"

definition web_granite_protocol :: ecosystem_protocol where
  "web_granite_protocol =
     \<lparr> ep_id = ''granite'', ep_name = ''Granite'', ep_category = Lending,
       ep_website = ''https://granite.world'',
       ep_description =
         ''Granite is a Bitcoin liquidity protocol on Stacks where borrowers take stablecoin '' @
         ''loans against sBTC collateral, and liquidity providers earn yield supplying the '' @
         ''stablecoins that get lent out. It is designed with isolated pools and without '' @
         ''rehypothecating (re-lending) user collateral.'',
       ep_mainnetContract = ''SP3M2BYF7RGF8WKW5FVDNJ6WR8D7AR9BHDXAKPXZE.state-v1'',
       ep_plainSummary =
         ''Lets you put up sBTC (Bitcoin on Stacks) as collateral to borrow stablecoins, or '' @
         ''lend out your stablecoins to earn interest from those borrowers.'',
       ep_howItWorks =
         [''Lenders deposit stablecoins into a pool and earn interest paid by borrowers.'',
          ''Borrowers lock up sBTC worth more than what they want to borrow, then receive the '' @
            ''stablecoin loan instantly.'',
          ''Your deposited sBTC collateral is held, not re-lent elsewhere '' @ emdash @
            '' it sits there until you repay or it needs to cover a liquidation.''],
       ep_risks =
         [''If you borrow, a sharp drop in sBTC'' @ [CHR 0x27] @
            ''s price can trigger an automatic, forced sale (liquidation) of your collateral at a '' @ ''loss.'',
          ''Interest rates change automatically based on supply and demand and are not fixed.'',
          ''Like any software, the contract could contain bugs '' @ emdash @
            '' only use funds you can afford to risk.''],
       ep_defiLlamaSlug = Some ''granite'' \<rparr>"

definition web_hermetica_protocol :: ecosystem_protocol where
  "web_hermetica_protocol =
     \<lparr> ep_id = ''hermetica'', ep_name = ''Hermetica (USDh)'', ep_category = SyntheticDollar,
       ep_website = ''https://hermetica.fi'',
       ep_description =
         ''Hermetica issues USDh, a synthetic dollar on Stacks backed by Bitcoin-denominated '' @
         ''assets combined with an offsetting short position (a '' @ quote @ ''basis trade'' @ quote @
         ''), rather than by holding cash or bonds directly. Depositors who stake USDh into '' @
         ''sUSDh earn yield generated by that basis trade.'',
       ep_mainnetContract = ''SPN5AKG35QZSK2M8GAMR4AFX45659RJHDW353HSG.usdh-token-v1'',
       ep_plainSummary =
         ''A stablecoin backed by Bitcoin, using a hedging strategy behind the scenes to try '' @
         ''to keep its price steady at about $1 '' @ emdash @ '' you can also stake it to earn yield.'',
       ep_howItWorks =
         [''You deposit a Bitcoin-pegged asset and receive USDh, a token designed to hold a '' @
            ''steady $1 value.'',
          ''Behind the scenes, the protocol combines your Bitcoin exposure with an offsetting '' @
            ''short position, so the combined value is meant to stay stable even if Bitcoin'' @ [CHR 0x27] @
            ''s price moves.'',
          ''If you stake your USDh as sUSDh, you earn yield generated by that hedging strategy '' @
            ''over time.''],
       ep_risks =
         [''The hedging strategy itself carries risk '' @ emdash @
            '' in extreme or unusual market conditions it may not perfectly offset Bitcoin'' @ [CHR 0x27] @
            ''s price moves, which could affect the $1 peg.'',
          ''Yield from staking is not guaranteed and can vary with market conditions.'',
          ''Like any software, the contract could contain bugs '' @ emdash @
            '' only use funds you can afford to risk.''],
       ep_defiLlamaSlug = Some ''hermetica-usdh'' \<rparr>"

definition web_lisa_protocol :: ecosystem_protocol where
  "web_lisa_protocol =
     \<lparr> ep_id = ''lisa'', ep_name = ''LISA'', ep_category = LiquidStaking,
       ep_website = ''https://www.lisalab.io'',
       ep_description =
         ''LISA ('' @ quote @ ''Liquid Staking for All'' @ quote @
         '') is a liquid staking protocol on Stacks, built in partnership with Ryder, Xverse, '' @
         ''and ALEX. Its aBTC product lets users stake a Bitcoin-pegged asset and receive '' @
         ''LiaBTC, a transferable token representing the staked position, so the underlying '' @
         ''stays productive while remaining usable elsewhere in DeFi.'',
       ep_mainnetContract = ''SP673Z4BPB4R73359K9HE55F2X91V5BJTN5SXZ5T.liabtc-mint-endpoint'',
       ep_plainSummary =
         ''Lets you earn rewards on a Bitcoin-pegged token without locking it away or managing '' @
         ''the staking process yourself '' @ emdash @ '' you get a tradeable token back immediately.'',
       ep_howItWorks =
         [''You deposit a supported Bitcoin-pegged asset and immediately receive LiaBTC, a '' @
            ''token representing your deposit plus its future rewards.'',
          ''The protocol pools deposits together and handles the staking process on your behalf.'',
          ''You can hold, trade, or use LiaBTC elsewhere in Stacks DeFi at any time, and later '' @
            ''exchange it back for the underlying asset plus rewards.''],
       ep_risks =
         [''LiaBTC'' @ [CHR 0x27] @
            ''s market price can trade slightly above or below the value of the underlying asset '' @
            ''it represents.'',
          ''You are trusting the protocol'' @ [CHR 0x27] @
            ''s software and its partners to correctly manage pooled funds and distribute rewards.'',
          ''Like any software, the contract could contain bugs '' @ emdash @
            '' only use funds you can afford to risk.''],
       ep_defiLlamaSlug = Some ''lisa'' \<rparr>"


definition WEB_ECOSYSTEM_PROTOCOLS :: "ecosystem_protocol list" where
  "WEB_ECOSYSTEM_PROTOCOLS =
     [web_alex_protocol,
      web_zest_protocol,
      web_arkadiko_protocol,
      web_stackingdao_protocol,
      web_bitflow_protocol,
      web_velar_protocol,
      web_granite_protocol,
      web_hermetica_protocol,
      web_lisa_protocol]"

definition web_getProtocol :: "string \<Rightarrow> ecosystem_protocol option" where
  "web_getProtocol id' = find (\<lambda>p. ep_id p = id') WEB_ECOSYSTEM_PROTOCOLS"

section \<open>The copy is exact\<close>

lemma web_alex_protocol_same: "web_alex_protocol = alex_protocol"
  by (simp add: web_alex_protocol_def alex_protocol_def)

lemma web_zest_protocol_same: "web_zest_protocol = zest_protocol"
  by (simp add: web_zest_protocol_def zest_protocol_def)

lemma web_arkadiko_protocol_same: "web_arkadiko_protocol = arkadiko_protocol"
  by (simp add: web_arkadiko_protocol_def arkadiko_protocol_def)

lemma web_stackingdao_protocol_same: "web_stackingdao_protocol = stackingdao_protocol"
  by (simp add: web_stackingdao_protocol_def stackingdao_protocol_def)

lemma web_bitflow_protocol_same: "web_bitflow_protocol = bitflow_protocol"
  by (simp add: web_bitflow_protocol_def bitflow_protocol_def)

lemma web_velar_protocol_same: "web_velar_protocol = velar_protocol"
  by (simp add: web_velar_protocol_def velar_protocol_def)

lemma web_granite_protocol_same: "web_granite_protocol = granite_protocol"
  by (simp add: web_granite_protocol_def granite_protocol_def)

lemma web_hermetica_protocol_same: "web_hermetica_protocol = hermetica_protocol"
  by (simp add: web_hermetica_protocol_def hermetica_protocol_def)

lemma web_lisa_protocol_same: "web_lisa_protocol = lisa_protocol"
  by (simp add: web_lisa_protocol_def lisa_protocol_def)

lemmas web_entries_same =
  web_alex_protocol_same web_zest_protocol_same web_arkadiko_protocol_same web_stackingdao_protocol_same web_bitflow_protocol_same web_velar_protocol_same web_granite_protocol_same web_hermetica_protocol_same web_lisa_protocol_same

lemma web_catalogue_same: "WEB_ECOSYSTEM_PROTOCOLS = ECOSYSTEM_PROTOCOLS"
  by (simp add: WEB_ECOSYSTEM_PROTOCOLS_def ECOSYSTEM_PROTOCOLS_def web_entries_same)

end
