(* ===== verification/Web_Ecosystem.thy ===== *)
theory Web_Ecosystem
  imports Web_Market Web_Catalogue
begin

text \<open>
  The ecosystem route of the web server (apps/web/src/app/api/ecosystem/route.ts): per protocol, whether
  its contract is deployed and its total value locked, each with the time of the last good reading. A
  failed check keeps the last reading, and requests that need a refresh wait for one together.
\<close>

section \<open>The two checks\<close>

definition ECO_FRESH_MS :: int where
  "ECO_FRESH_MS = 5 * 60000"

definition ask_contract_host :: "'w services \<Rightarrow> string \<Rightarrow> string \<Rightarrow> string \<Rightarrow> ('w, contract_verification) io" where
  "ask_contract_host sv checkedAt contract host =
     io_bind (sv_fetch sv (host @ ''/extended/v1/contract/'' @ contract)) (\<lambda>(ok, status, body).
       if status = 404 then
         io_return \<lparr> cv_exists = False, cv_txId = JUndef, cv_blockHeight = JUndef, cv_checkedAt = checkedAt \<rparr>
       else if \<not> ok then io_throw (JsError (''HTTP '' @ int_text status))
       else
         io_bind (io_lift (js_get body ''tx_id'')) (\<lambda>tx.
         io_bind (io_lift (js_get body ''block_height'')) (\<lambda>bh.
         io_return \<lparr> cv_exists = True, cv_txId = tx, cv_blockHeight = bh, cv_checkedAt = checkedAt \<rparr>)))"

definition HIRO_HOSTS :: "string list" where
  "HIRO_HOSTS = [''https://api.hiro.so'', ''https://api.mainnet.hiro.so'']"

definition verifyContract :: "'w services \<Rightarrow> string \<Rightarrow> ('w, contract_verification) io" where
  "verifyContract sv contract =
     io_bind (io_of (sv_isoNow sv)) (\<lambda>checkedAt.
     io_bind (promise_any sv (map (ask_contract_host sv checkedAt contract) HIRO_HOSTS)) (\<lambda>r.
       (case r of Some v \<Rightarrow> io_return v | None \<Rightarrow> io_throw (JsError ''All promises were rejected''))))"

definition fetchTvl :: "'w services \<Rightarrow> string \<Rightarrow> ('w, rat) io" where
  "fetchTvl sv slug =
     io_bind (sv_fetchText sv (''https://api.llama.fi/tvl/'' @ encodeURIComponent slug)) (\<lambda>(ok, status, text).
       if \<not> ok then io_throw (JsError (''HTTP '' @ int_text status))
       else io_bind (io_lift (num_of_text text)) (\<lambda>n.
         (case n of Fin q \<Rightarrow> if q < 0 then io_throw (JsError ''bad TVL'') else io_return q
          | _ \<Rightarrow> io_throw (JsError ''bad TVL''))))"

section \<open>The cache\<close>

record eco_entry =
  en_verification :: "contract_verification option"
  en_tvlUsd :: "rat option"
  en_verifiedAt :: int
  en_tvlAt :: int

text \<open>The entry after a refresh, from the one before it and the outcomes of the two checks.\<close>

definition merged_entry ::
    "eco_entry option \<Rightarrow> contract_verification option \<Rightarrow> rat option option \<Rightarrow> int \<Rightarrow> eco_entry" where
  "merged_entry prev v t now =
     \<lparr> en_verification = (case v of Some x \<Rightarrow> Some x | None \<Rightarrow> Option.bind prev en_verification),
       en_tvlUsd = (case t of Some x \<Rightarrow> x | None \<Rightarrow> Option.bind prev en_tvlUsd),
       en_verifiedAt = (if v \<noteq> None then now else case prev of Some e \<Rightarrow> en_verifiedAt e | None \<Rightarrow> 0),
       en_tvlAt = (if t \<noteq> None then now else case prev of Some e \<Rightarrow> en_tvlAt e | None \<Rightarrow> 0) \<rparr>"

definition tvl_check :: "'w services \<Rightarrow> ecosystem_protocol \<Rightarrow> ('w, rat option) io" where
  "tvl_check sv p =
     (case ep_defiLlamaSlug p of
        Some slug \<Rightarrow> if slug = [] then io_return None else io_bind (fetchTvl sv slug) (\<lambda>n. io_return (Some n))
      | None \<Rightarrow> io_return None)"

definition refresh_entry :: "'w services \<Rightarrow> ecosystem_protocol \<Rightarrow> eco_entry option \<Rightarrow> int \<Rightarrow> ('w, eco_entry) io" where
  "refresh_entry sv p prev now =
     io_bind (settled (verifyContract sv (ep_mainnetContract p))) (\<lambda>v.
     io_bind (settled (tvl_check sv p)) (\<lambda>t. io_return (merged_entry prev v t now)))"

text \<open>
  \<open>e.verifiedAt || 0\<close> is \<open>e.verifiedAt\<close>, so the age counted is that of the older of the two readings.
\<close>

definition needsRefresh :: "(string \<Rightarrow> eco_entry option) \<Rightarrow> int \<Rightarrow> bool" where
  "needsRefresh cache now \<longleftrightarrow>
     list_ex (\<lambda>p. case cache (ep_id p) of None \<Rightarrow> True
       | Some e \<Rightarrow> ECO_FRESH_MS < now - min (en_verifiedAt e) (en_tvlAt e)) WEB_ECOSYSTEM_PROTOCOLS"

section \<open>The answer\<close>

record eco_row =
  er_protocol :: ecosystem_protocol
  er_exists :: bool
  er_txId :: js
  er_blockHeight :: js
  er_checkedAt :: string
  er_unreachable :: bool
  er_stale :: bool
  er_tvlUsd :: "rat option"

definition eco_row_of :: "(string \<Rightarrow> eco_entry option) \<Rightarrow> int \<Rightarrow> ecosystem_protocol \<Rightarrow> eco_row" where
  "eco_row_of cache now p =
     (let e = cache (ep_id p);
          fresh = (case e of Some x \<Rightarrow> 0 < en_verifiedAt x \<and> now - en_verifiedAt x < ECO_FRESH_MS * 2 | None \<Rightarrow> False);
          tvl = Option.bind e en_tvlUsd in
      (case Option.bind e en_verification of
         Some v \<Rightarrow> \<lparr> er_protocol = p, er_exists = cv_exists v, er_txId = cv_txId v, er_blockHeight = cv_blockHeight v,
                    er_checkedAt = cv_checkedAt v, er_unreachable = False, er_stale = (\<not> fresh), er_tvlUsd = tvl \<rparr>
       | None \<Rightarrow> \<lparr> er_protocol = p, er_exists = False, er_txId = JUndef, er_blockHeight = JUndef,
                    er_checkedAt = toISOString now, er_unreachable = True, er_stale = False, er_tvlUsd = tvl \<rparr>))"

definition eco_rows :: "(string \<Rightarrow> eco_entry option) \<Rightarrow> int \<Rightarrow> eco_row list" where
  "eco_rows cache now = map (eco_row_of cache now) WEB_ECOSYSTEM_PROTOCOLS"

section \<open>The route\<close>

text \<open>
  \<open>es_pending\<close> holds the protocols the refresh under way has not finished, \<open>es_waiting\<close> the requests
  that wait for it; each protocol finishes at its own time. A refresh is never rejected: an error of
  its computation is outside the model, and it then stays pending.
\<close>

record 'w eco_server =
  es_cache :: "string \<Rightarrow> eco_entry option"
  es_inflight :: bool
  es_pending :: "ecosystem_protocol list"
  es_waiting :: "nat list"
  es_world :: 'w
  es_clock :: int

definition eco_started :: "'w \<Rightarrow> int \<Rightarrow> 'w eco_server" where
  "eco_started w now =
     \<lparr> es_cache = Map.empty, es_inflight = False, es_pending = [], es_waiting = [], es_world = w, es_clock = now \<rparr>"

definition eco_get :: "nat \<Rightarrow> int \<Rightarrow> 'w eco_server \<Rightarrow> (nat \<times> eco_row list) list \<times> 'w eco_server" where
  "eco_get i now s =
     (if needsRefresh (es_cache s) now then
        ([], (if es_inflight s then s else s\<lparr> es_inflight := True, es_pending := WEB_ECOSYSTEM_PROTOCOLS \<rparr>)
               \<lparr> es_waiting := es_waiting s @ [i], es_clock := now \<rparr>)
      else ([(i, eco_rows (es_cache s) now)], s\<lparr> es_clock := now \<rparr>))"

definition eco_complete :: "'w services \<Rightarrow> ecosystem_protocol \<Rightarrow> int \<Rightarrow> 'w eco_server \<Rightarrow> 'w eco_server" where
  "eco_complete sv p now s =
     (case refresh_entry sv p (es_cache s (ep_id p)) now (es_world s) of
        (Inr e, w') \<Rightarrow> s\<lparr> es_cache := (es_cache s)(ep_id p \<mapsto> e), es_pending := remove1 p (es_pending s),
                        es_world := w', es_clock := now \<rparr>
      | (Inl err, w') \<Rightarrow> s)"

definition eco_finish :: "int \<Rightarrow> 'w eco_server \<Rightarrow> (nat \<times> eco_row list) list \<times> 'w eco_server" where
  "eco_finish now s =
     (map (\<lambda>i. (i, eco_rows (es_cache s) now)) (es_waiting s), s\<lparr> es_inflight := False, es_waiting := [], es_clock := now \<rparr>)"

inductive eco_step ::
    "'w services \<Rightarrow> 'w eco_server \<Rightarrow> (nat \<times> eco_row list) list \<Rightarrow> 'w eco_server \<Rightarrow> bool" for sv where
  arrives: "es_clock s \<le> now \<Longrightarrow> eco_get i now s = (out, s') \<Longrightarrow> eco_step sv s out s'"
| completes: "es_clock s \<le> now \<Longrightarrow> p \<in> set (es_pending s) \<Longrightarrow> eco_step sv s [] (eco_complete sv p now s)"
| finishes: "es_clock s \<le> now \<Longrightarrow> es_inflight s \<Longrightarrow> es_pending s = [] \<Longrightarrow> eco_finish now s = (out, s') \<Longrightarrow> eco_step sv s out s'"

inductive eco_reachable :: "'w services \<Rightarrow> 'w eco_server \<Rightarrow> bool" for sv where
  started: "eco_reachable sv (eco_started w now)"
| step: "eco_reachable sv s \<Longrightarrow> eco_step sv s out s' \<Longrightarrow> eco_reachable sv s'"

section \<open>What is shown was read\<close>

definition contract_answered :: "'w services \<Rightarrow> string \<Rightarrow> contract_verification \<Rightarrow> bool" where
  "contract_answered sv contract v \<longleftrightarrow>
     (\<exists>host \<in> set HIRO_HOSTS. \<exists>u u' ok status body.
        sv_fetch sv (host @ ''/extended/v1/contract/'' @ contract) u = (Inr (ok, status, body), u') \<and>
        (if cv_exists v then ok \<and> status \<noteq> 404 \<and> js_get body ''tx_id'' = Inr (cv_txId v) \<and>
              js_get body ''block_height'' = Inr (cv_blockHeight v)
         else status = 404))"

definition tvl_answered :: "'w services \<Rightarrow> ecosystem_protocol \<Rightarrow> rat \<Rightarrow> bool" where
  "tvl_answered sv p n \<longleftrightarrow>
     0 \<le> n \<and> (\<exists>slug u u' status text. ep_defiLlamaSlug p = Some slug \<and> num_of_text text = Inr (Fin n) \<and>
        sv_fetchText sv (''https://api.llama.fi/tvl/'' @ encodeURIComponent slug) u = (Inr (True, status, text), u'))"

lemma ask_contract_answer:
  assumes "fst (ask_contract_host sv t contract host w) = Inr v" "host \<in> set HIRO_HOSTS"
  shows "contract_answered sv contract v"
proof -
  obtain r u where f: "sv_fetch sv (host @ ''/extended/v1/contract/'' @ contract) w = (r, u)" by fastforce
  with assms(1) obtain ok status body where "r = Inr (ok, status, body)"
    by (cases r) (auto simp: ask_contract_host_def bind_Inr)
  show ?thesis
  proof (cases "status = 404")
    case True
    with assms(1) f \<open>r = _\<close> have "\<not> cv_exists v" by (auto simp: ask_contract_host_def bind_Inr)
    with True f \<open>r = _\<close> assms(2) show ?thesis unfolding contract_answered_def by (intro bexI [of _ host] exI conjI) auto
  next
    case False
    with assms(1) f \<open>r = _\<close> have "ok" "cv_exists v" "js_get body ''tx_id'' = Inr (cv_txId v)"
        "js_get body ''block_height'' = Inr (cv_blockHeight v)"
      by (cases "js_get body ''tx_id''"; cases "js_get body ''block_height''",
          auto simp: ask_contract_host_def bind_Inr split: if_splits)+
    with False f \<open>r = _\<close> assms(2) show ?thesis unfolding contract_answered_def by (intro bexI [of _ host] exI conjI) auto
  qed
qed

lemma verifyContract_answer:
  assumes "fst (verifyContract sv contract w) = Inr v"
  shows "contract_answered sv contract v"
proof -
  from assms obtain t u where "fst (promise_any sv (map (ask_contract_host sv t contract) HIRO_HOSTS) u) = Inr (Some v)"
    by (auto simp: verifyContract_def bind_Inr split: option.splits)
  from promise_any_result [OF this]
  have "Inr v \<in> set (fst (io_all (map (ask_contract_host sv t contract) HIRO_HOSTS) u))" by simp
  from io_all_mem [OF this] show ?thesis using ask_contract_answer by fastforce
qed

lemma fetchTvl_answer:
  assumes "fst (fetchTvl sv slug w) = Inr n" "ep_defiLlamaSlug p = Some slug"
  shows "tvl_answered sv p n"
proof -
  obtain r u where f: "sv_fetchText sv (''https://api.llama.fi/tvl/'' @ encodeURIComponent slug) w = (r, u)" by fastforce
  with assms(1) obtain status body where r: "r = Inr (True, status, body)"
    by (cases r) (auto simp: fetchTvl_def bind_Inr split: if_splits)
  with assms(1) f have "num_of_text body = Inr (Fin n)" "0 \<le> n"
    by (cases "num_of_text body"; cases "projr (num_of_text body)", auto simp: fetchTvl_def bind_Inr split: if_splits)+
  with f r assms(2) show ?thesis by (auto simp: tvl_answered_def)
qed

definition entry_ok :: "'w services \<Rightarrow> ecosystem_protocol \<Rightarrow> eco_entry \<Rightarrow> bool" where
  "entry_ok sv p e \<longleftrightarrow>
     (\<forall>v. en_verification e = Some v \<longrightarrow> contract_answered sv (ep_mainnetContract p) v) \<and>
     (\<forall>n. en_tvlUsd e = Some n \<longrightarrow> tvl_answered sv p n)"

lemma settled_Inr: "fst (settled m w) = Inr r \<Longrightarrow> (case r of Some x \<Rightarrow> fst (m w) = Inr x | None \<Rightarrow> \<exists>e. fst (m w) = Inl e)"
  by (auto simp: settled_def catch_Inr bind_Inr bind_Inl)

lemma refresh_entry_result:
  assumes "fst (refresh_entry sv p prev now w) = Inr e"
  shows "\<exists>v t u. fst (settled (verifyContract sv (ep_mainnetContract p)) w) = Inr v \<and>
    fst (settled (tvl_check sv p) u) = Inr t \<and> e = merged_entry prev v t now"
  using assms unfolding refresh_entry_def bind_Inr by auto

lemma refresh_entry_ok:
  assumes "fst (refresh_entry sv p prev now w) = Inr e" "\<And>x. prev = Some x \<Longrightarrow> entry_ok sv p x"
  shows "entry_ok sv p e"
proof -
  from refresh_entry_result [OF assms(1)] obtain v t u
    where v: "fst (settled (verifyContract sv (ep_mainnetContract p)) w) = Inr v"
      and t: "fst (settled (tvl_check sv p) u) = Inr t" and e: "e = merged_entry prev v t now" by blast
  have "contract_answered sv (ep_mainnetContract p) x" if "v = Some x" for x
    using settled_Inr [OF v] that verifyContract_answer by fastforce
  moreover have "tvl_answered sv p n" if "t = Some (Some n)" for n
    using settled_Inr [OF t] that fetchTvl_answer
    by (auto simp: tvl_check_def bind_Inr split: option.splits if_splits)
  ultimately show ?thesis
    using assms(2) by (auto simp: e entry_ok_def merged_entry_def bind_eq_Some_conv split: option.splits)
qed

lemma web_ids_distinct: "distinct (map ep_id WEB_ECOSYSTEM_PROTOCOLS)"
  unfolding web_catalogue_same by (rule protocol_ids_distinct)

definition eco_inv :: "'w services \<Rightarrow> 'w eco_server \<Rightarrow> bool" where
  "eco_inv sv s \<longleftrightarrow>
     set (es_pending s) \<subseteq> set WEB_ECOSYSTEM_PROTOCOLS \<and>
     (\<forall>p \<in> set WEB_ECOSYSTEM_PROTOCOLS. \<forall>e. es_cache s (ep_id p) = Some e \<longrightarrow> entry_ok sv p e)"

lemma eco_complete_inv:
  assumes "eco_inv sv s" "p \<in> set (es_pending s)"
  shows "eco_inv sv (eco_complete sv p now s)"
proof -
  obtain r w' where r: "refresh_entry sv p (es_cache s (ep_id p)) now (es_world s) = (r, w')" by fastforce
  show ?thesis
  proof (cases r)
    case (Inl x)
    with r assms show ?thesis by (simp add: eco_complete_def)
  next
    case (Inr e)
    have p: "p \<in> set WEB_ECOSYSTEM_PROTOCOLS" using assms by (auto simp: eco_inv_def)
    then have "entry_ok sv p e"
      using refresh_entry_ok [of sv p "es_cache s (ep_id p)" now "es_world s" e] r Inr assms(1) by (auto simp: eco_inv_def)
    moreover have "q = p" if "q \<in> set WEB_ECOSYSTEM_PROTOCOLS" "ep_id q = ep_id p" for q
      using that p web_ids_distinct by (auto simp: distinct_map dest: inj_onD)
    ultimately show ?thesis
      using assms r Inr by (auto simp: eco_inv_def eco_complete_def dest: notin_set_remove1 in_set_remove1 set_remove1_subset [THEN subsetD])
  qed
qed

lemma eco_step_inv: "eco_step sv s out s' \<Longrightarrow> eco_inv sv s \<Longrightarrow> eco_inv sv s'"
proof (induction rule: eco_step.induct)
  case (arrives s now i out s')
  then show ?case by (auto simp: eco_get_def eco_inv_def split: if_splits)
next
  case (completes s now p)
  then show ?case by (simp add: eco_complete_inv)
next
  case (finishes s now out s')
  then show ?case by (auto simp: eco_finish_def eco_inv_def)
qed

lemma eco_reachable_inv: "eco_reachable sv s \<Longrightarrow> eco_inv sv s"
proof (induction rule: eco_reachable.induct)
  case (started w now)
  then show ?case by (simp add: eco_started_def eco_inv_def)
qed (rule eco_step_inv)

definition row_ok :: "'w services \<Rightarrow> eco_row \<Rightarrow> bool" where
  "row_ok sv r \<longleftrightarrow>
     (er_unreachable r \<and> \<not> er_exists r \<or>
      (\<exists>v. contract_answered sv (ep_mainnetContract (er_protocol r)) v \<and> er_exists r = cv_exists v \<and> er_txId r = cv_txId v \<and>
         er_blockHeight r = cv_blockHeight v)) \<and>
     (\<forall>n. er_tvlUsd r = Some n \<longrightarrow> tvl_answered sv (er_protocol r) n)"

lemma rows_ok:
  assumes "eco_inv sv s"
  shows "list_all (row_ok sv) (eco_rows (es_cache s) now)"
  using assms
  by (fastforce simp: list_all_iff eco_rows_def eco_row_of_def row_ok_def eco_inv_def entry_ok_def Let_def
      bind_eq_Some_conv split: option.splits)

lemma eco_step_rows:
  assumes "eco_inv sv s" "eco_step sv s out s'" "(i, rows) \<in> set out"
  shows "list_all (row_ok sv) rows \<and> map er_protocol rows = ECOSYSTEM_PROTOCOLS"
proof -
  have "\<exists>now. rows = eco_rows (es_cache s) now"
    using assms(2,3) by cases (auto simp: eco_get_def eco_finish_def split: if_splits)
  moreover have "er_protocol (eco_row_of c now p) = p" for c now p
    by (simp add: eco_row_of_def Let_def split: option.split)
  ultimately show ?thesis
    using rows_ok [OF assms(1)] by (auto simp: eco_rows_def comp_def web_catalogue_same)
qed

text \<open>A refresh under way can always be completed, so the requests that wait for it are answered.\<close>

lemma eco_complete_pending:
  assumes "fst (refresh_entry sv p (es_cache s (ep_id p)) now (es_world s)) = Inr e"
  shows "es_pending (eco_complete sv p now s) = remove1 p (es_pending s)"
    "es_inflight (eco_complete sv p now s) = es_inflight s" "es_waiting (eco_complete sv p now s) = es_waiting s"
  using assms by (auto simp: eco_complete_def split: prod.splits)

lemma refresh_completes:
  assumes total: "\<And>p prev now w. \<exists>e. fst (refresh_entry sv p prev now w) = Inr e"
  shows "eco_reachable sv s \<Longrightarrow>
    \<exists>s'. eco_reachable sv s' \<and> es_pending s' = [] \<and> es_inflight s' = es_inflight s \<and> es_waiting s' = es_waiting s"
proof (induction "length (es_pending s)" arbitrary: s)
  case 0
  then show ?case by auto
next
  case (Suc n)
  then obtain p ps where p: "es_pending s = p # ps" by (cases "es_pending s") auto
  let ?s = "eco_complete sv p (es_clock s) s"
  obtain e where "fst (refresh_entry sv p (es_cache s (ep_id p)) (es_clock s) (es_world s)) = Inr e" using total by blast
  note after = eco_complete_pending [OF this]
  have "eco_reachable sv ?s" by (rule eco_reachable.step [OF Suc.prems], rule completes) (simp_all add: p)
  moreover have "n = length (es_pending ?s)" using Suc.hyps(2) after p by simp
  ultimately show ?case using Suc.hyps(1) [of ?s] after by simp
qed

text \<open>A check that fails keeps the last reading and its time.\<close>

lemma failed_checks_keep:
  "merged_entry (Some e) None None now = e"
  "en_verification (merged_entry (Some e) None t now) = en_verification e"
  "en_tvlUsd (merged_entry (Some e) v None now) = en_tvlUsd e"
  by (simp_all add: merged_entry_def)

text \<open>
  The readings are cached for five minutes only when both checks of every protocol have succeeded once:
  with a total value that never loaded, every request refreshes all the protocols.
\<close>

lemma tvl_never_loaded:
  assumes "p \<in> set WEB_ECOSYSTEM_PROTOCOLS" "cache (ep_id p) = Some e" "en_tvlAt e = 0" "ECO_FRESH_MS < now"
  shows "needsRefresh cache now"
  using assms by (force simp: needsRefresh_def list_ex_iff)

text \<open>
  A reading kept after a failed check is not marked stale before ten minutes have passed.
\<close>

lemma kept_reading_unmarked:
  assumes "cache (ep_id p) = Some (merged_entry (Some e) None t now)" "en_verification e = Some v"
    and "0 < en_verifiedAt e" "now - en_verifiedAt e < 2 * ECO_FRESH_MS"
  shows "\<not> er_stale (eco_row_of cache now p)"
  using assms by (simp add: eco_row_of_def merged_entry_def Let_def)

end
