(* ===== verification/Agent_Server.thy ===== *)
theory Agent_Server
  imports Pool_Analysis Strategy_Analysis Chat_Handler Pipeline
begin

text \<open>
  The HTTP interface of the agent (agent/src/server.ts): one operation per route, over the state of the
  process. The body of an answer is the value that is serialised; \<open>serializeBigints\<close> turns the
  amounts in it into texts.
\<close>

section \<open>Requests and answers\<close>

text \<open>The text of a vault id is the path parameter, that of an asset the query parameter, if given.\<close>

datatype http_request =
    GetHealth
  | GetProtocolContext
  | GetVault string "string option"
  | PostRecommendation string "string option"
  | PostPoolAnalysis string "string option"
  | PostExecute string "string option"
  | GetVaultDecisions string
  | GetDecisions
  | GetEcosystemStrategies
  | GetStxPrice
  | PostAnalyzeStrategy string
  | PostChat js

record ecosystem_status =
  st_protocol :: ecosystem_protocol
  st_verification :: contract_verification
  st_tvlUsd :: "rat option"

datatype http_body =
    ErrorBody string
  | HealthBody network_name bool string
  | ContextBody protocol_context
  | VaultBody vault_snapshot
  | RecommendationBody recommendation decision_record
  | AnalysisBody pool_analysis
  | RecordBody decision_record
  | DecisionsBody "(decision_record \<times> bool option) list"
  | EcosystemBody "ecosystem_status list"
  | PriceBody stx_market_data
  | ExplanationBody "(string \<times> js) list"
  | EventStream "sink_call list"

type_synonym http_response = "int \<times> http_body"

definition asset_required :: string where
  "asset_required = ''Query param '' @ quote @ ''asset'' @ quote @ '' must be '' @ quote @ ''STX'' @ quote @ '' or '' @
     quote @ ''SBTC'' @ quote @ ''.''"

text \<open>\<open>toUpperCase\<close> on letters below 128; no other character below 256 becomes one of the letters compared.\<close>

definition upper :: "char \<Rightarrow> char" where
  "upper c = (let n = of_char c :: nat in if 97 \<le> n \<and> n \<le> 122 then char_of (n - 32) else c)"

definition parseAsset :: "string option \<Rightarrow> asset option" where
  "parseAsset q =
     (let raw = map upper (case q of Some t \<Rightarrow> t | None \<Rightarrow> []) in
      if raw \<noteq> ''STX'' \<and> raw \<noteq> ''SBTC'' then None else Some raw)"

text \<open>
  \<open>Number(req.params.vaultId)\<close>; what is no integer is refused by \<open>Cl.uint\<close> of the SDK, and is left out.
\<close>

definition vault_number :: "string \<Rightarrow> int result" where
  "vault_number t =
     js_try (num_of_text t) (\<lambda>n.
       (case n of Fin q \<Rightarrow> if of_int \<lfloor>q\<rfloor> = q then Inr \<lfloor>q\<rfloor> else Inl (OutOfModel ''vault id'')
        | _ \<Rightarrow> Inl (OutOfModel ''vault id'')))"

section \<open>Answers\<close>

definition bad_gateway :: "js_error \<Rightarrow> ('w, http_response) io" where
  "bad_gateway e = io_return (502, ErrorBody (err_text e))"

definition health :: "agent_config \<Rightarrow> http_response" where
  "health cfg =
     (200, HealthBody (cf_network cfg) (truthy_text (cf_executorPrivateKey cfg))
       (if cf_network cfg = ''mainnet'' then ''GATED_BY_CHAIN'' else ''DISABLED_ON_TESTNET''))"

definition with_asset :: "string option \<Rightarrow> (asset \<Rightarrow> ('w, http_response) io) \<Rightarrow> ('w, http_response) io" where
  "with_asset q f = (case parseAsset q of None \<Rightarrow> io_return (400, ErrorBody asset_required) | Some a \<Rightarrow> f a)"

definition get_vault_route :: "'w services \<Rightarrow> agent_config \<Rightarrow> string \<Rightarrow> asset \<Rightarrow> ('w host, http_response) io" where
  "get_vault_route sv cfg vid asset =
     io_catch
       (io_bind (io_lift (vault_number vid)) (\<lambda>n.
        io_bind (outside (getVaultSnapshot sv cfg n asset None)) (\<lambda>vault.
          io_return (case vault of None \<Rightarrow> (404, ErrorBody ''Vault not found on-chain'') | Some v \<Rightarrow> (200, VaultBody v)))))
       bad_gateway"

definition recommendation_route :: "'w services \<Rightarrow> agent_config \<Rightarrow> string \<Rightarrow> asset \<Rightarrow> ('w host, http_response) io" where
  "recommendation_route sv cfg vid asset =
     io_catch
       (io_bind (io_lift (vault_number vid)) (\<lambda>n.
        io_bind (runRecommendation sv cfg n asset) (\<lambda>(r, record). io_return (200, RecommendationBody r record))))
       bad_gateway"

definition pool_analysis_route :: "'w services \<Rightarrow> agent_config \<Rightarrow> string \<Rightarrow> asset \<Rightarrow> ('w host, http_response) io" where
  "pool_analysis_route sv cfg vid asset =
     io_catch
       (io_bind (outside (getProtocolContext sv cfg)) (\<lambda>ctx.
        io_bind (io_lift (vault_number vid)) (\<lambda>n.
        io_bind (outside (getVaultSnapshot sv cfg n asset (Some ctx))) (\<lambda>vault.
          (case vault of
             None \<Rightarrow> io_return (404, ErrorBody ''Vault not found on-chain'')
           | Some v \<Rightarrow> io_bind (outside (analyzePoolAgainstEcosystem sv v ctx (cf_network cfg) ECOSYSTEM_PROTOCOLS)) (\<lambda>r.
               io_return (200, AnalysisBody r)))))))
       bad_gateway"

definition execute_route :: "'w services \<Rightarrow> agent_config \<Rightarrow> string \<Rightarrow> asset \<Rightarrow> ('w host, http_response) io" where
  "execute_route sv cfg vid asset =
     io_catch
       (io_bind (io_lift (vault_number vid)) (\<lambda>n.
        io_bind (executeValidatedIntent sv cfg n asset) (\<lambda>record. io_return (200, RecordBody record))))
       bad_gateway"

text \<open>Whether the deadline of each record's intent has passed; unknown when the tip cannot be read.\<close>

definition expired_at :: "int option \<Rightarrow> decision_record \<Rightarrow> bool option" where
  "expired_at tip r =
     (case (tip, dr_intent r) of (Some t, Some i) \<Rightarrow> Some (ei_deadline i < t) | _ \<Rightarrow> None)"

definition withExpiry ::
    "'w services \<Rightarrow> agent_config \<Rightarrow> decision_record list \<Rightarrow> ('w host, (decision_record \<times> bool option) list) io" where
  "withExpiry sv cfg records =
     io_bind (io_catch (io_bind (outside (getProtocolContext sv cfg)) (\<lambda>c. io_return (Some (pc_blockHeight c))))
                (\<lambda>_. io_return None)) (\<lambda>tip.
     io_return (map (\<lambda>r. (r, expired_at tip r)) records))"

definition decisions_route :: "'w services \<Rightarrow> agent_config \<Rightarrow> int option \<Rightarrow> ('w host, http_response) io" where
  "decisions_route sv cfg vid =
     io_bind (listDecisions cfg vid) (\<lambda>rs. io_bind (withExpiry sv cfg rs) (\<lambda>xs. io_return (200, DecisionsBody xs)))"

definition ecosystem_status_of :: "'w services \<Rightarrow> ecosystem_protocol \<Rightarrow> ('w, ecosystem_status) io" where
  "ecosystem_status_of sv p =
     io_bind (verifyProtocolContract sv (ep_mainnetContract p)) (\<lambda>v.
     io_bind (case ep_defiLlamaSlug p of Some slug \<Rightarrow> if slug = [] then io_return None else getProtocolTvl sv slug
              | None \<Rightarrow> io_return None) (\<lambda>t.
     io_return \<lparr> st_protocol = p, st_verification = v, st_tvlUsd = t \<rparr>))"

definition ecosystem_route :: "'w services \<Rightarrow> ('w host, http_response) io" where
  "ecosystem_route sv =
     io_catch (io_bind (outside (io_map (ecosystem_status_of sv) ECOSYSTEM_PROTOCOLS)) (\<lambda>rs. io_return (200, EcosystemBody rs)))
       bad_gateway"

definition price_route :: "'w services \<Rightarrow> ('w host, http_response) io" where
  "price_route sv = io_catch (io_bind (outside (getStxPrice sv)) (\<lambda>p. io_return (200, PriceBody p))) bad_gateway"

definition analyze_route :: "'w services \<Rightarrow> agent_config \<Rightarrow> string \<Rightarrow> ('w host, http_response) io" where
  "analyze_route sv cfg pid =
     (case getProtocol pid of
        None \<Rightarrow> io_return (404, ErrorBody ''Unknown protocol id'')
      | Some p \<Rightarrow>
          io_catch (io_bind (outside (analyzeProtocol sv cfg p)) (\<lambda>r. io_return (200, ExplanationBody r))) bad_gateway)"

definition chat_route :: "'w services \<Rightarrow> agent_config \<Rightarrow> js \<Rightarrow> ('w host, http_response) io" where
  "chat_route sv cfg body =
     io_bind (io_lift (read_body body)) (\<lambda>r.
       (case r of
          Inl e \<Rightarrow> io_return (400, ErrorBody e)
        | Inr (messages, vaultId, asset) \<Rightarrow>
            io_bind (outside (streamChat sv cfg messages vaultId asset)) (\<lambda>calls. io_return (200, EventStream calls))))"

section \<open>The server\<close>

fun serve :: "'w services \<Rightarrow> agent_config \<Rightarrow> http_request \<Rightarrow> ('w host, http_response) io" where
  "serve sv cfg GetHealth = io_return (health cfg)"
| "serve sv cfg GetProtocolContext =
     io_catch (io_bind (outside (getProtocolContext sv cfg)) (\<lambda>c. io_return (200, ContextBody c))) bad_gateway"
| "serve sv cfg (GetVault vid q) = with_asset q (get_vault_route sv cfg vid)"
| "serve sv cfg (PostRecommendation vid q) = with_asset q (recommendation_route sv cfg vid)"
| "serve sv cfg (PostPoolAnalysis vid q) = with_asset q (pool_analysis_route sv cfg vid)"
| "serve sv cfg (PostExecute vid q) = with_asset q (execute_route sv cfg vid)"
| "serve sv cfg (GetVaultDecisions vid) =
     io_bind (io_lift (vault_number vid)) (\<lambda>n. decisions_route sv cfg (Some n))"
| "serve sv cfg GetDecisions = decisions_route sv cfg None"
| "serve sv cfg GetEcosystemStrategies = ecosystem_route sv"
| "serve sv cfg GetStxPrice = price_route sv"
| "serve sv cfg (PostAnalyzeStrategy pid) = analyze_route sv cfg pid"
| "serve sv cfg (PostChat body) = chat_route sv cfg body"

text \<open>The requests of a session, one after the other; the process goes on after an error.\<close>

fun serve_all :: "'w services \<Rightarrow> agent_config \<Rightarrow> http_request list \<Rightarrow> 'w host \<Rightarrow> http_response result list \<times> 'w host" where
  "serve_all sv cfg [] h = ([], h)"
| "serve_all sv cfg (q # qs) h =
     (case serve sv cfg q h of (r, h1) \<Rightarrow> (case serve_all sv cfg qs h1 of (rs, h2) \<Rightarrow> (r # rs, h2)))"

section \<open>What a request can do\<close>

lemma bad_gateway_keeps [io_frame]: "io_keeps f (bad_gateway e)"
  unfolding bad_gateway_def by (rule io_frame)

lemma listDecisions_keeps [io_frame]: "io_keeps f (listDecisions cfg vid)"
  by (simp add: io_keeps_def listDecisions_def Let_def split: sum.split)

lemma with_asset_keeps [io_frame]: "(\<And>a. io_keeps f (g a)) \<Longrightarrow> io_keeps f (with_asset q g)"
  by (auto simp: with_asset_def intro: io_frame split: option.split)

lemmas route_defs = get_vault_route_def recommendation_route_def pool_analysis_route_def execute_route_def withExpiry_def
  decisions_route_def ecosystem_route_def price_route_def analyze_route_def chat_route_def

lemma reading_keeps_effects:
  "io_keeps hs_effects (get_vault_route sv cfg vid a)" "io_keeps hs_effects (recommendation_route sv cfg vid a)"
  "io_keeps hs_effects (pool_analysis_route sv cfg vid a)" "io_keeps hs_effects (withExpiry sv cfg rs)"
  "io_keeps hs_effects (ecosystem_route sv)" "io_keeps hs_effects (price_route sv)"
  "io_keeps hs_effects (analyze_route sv cfg pid)" "io_keeps hs_effects (chat_route sv cfg body)"
  unfolding route_defs by (auto intro!: io_frame split: option.split sum.split prod.split)

lemma decisions_keeps_effects: "io_keeps hs_effects (decisions_route sv cfg vid)"
  unfolding decisions_route_def by (intro io_frame reading_keeps_effects)

lemma serve_keeps_effects:
  assumes "cf_network cfg \<noteq> ''mainnet'' \<or> (\<forall>vid q. r \<noteq> PostExecute vid q)"
  shows "io_keeps hs_effects (serve sv cfg r)"
proof (cases r)
  case (PostExecute vid q)
  with assms have "io_keeps hs_effects (executeValidatedIntent sv cfg n a)" for n a
    by (intro execute_off_mainnet) simp
  with PostExecute show ?thesis
    by (auto simp: execute_route_def intro!: io_frame split: prod.split)
qed (auto intro!: io_frame reading_keeps_effects decisions_keeps_effects)

lemma serve_all_keeps_effects:
  assumes "cf_network cfg \<noteq> ''mainnet'' \<or> (\<forall>vid q. PostExecute vid q \<notin> set qs)"
  shows "hs_effects (snd (serve_all sv cfg qs h)) = hs_effects h"
  using assms
proof (induction qs arbitrary: h)
  case (Cons q qs)
  have "io_keeps hs_effects (serve sv cfg q)" using Cons.prems by (intro serve_keeps_effects) auto
  then have "hs_effects (snd (serve sv cfg q h)) = hs_effects h" by (simp add: io_keeps_def)
  then show ?case using Cons.IH Cons.prems by (auto simp: case_prod_beta)
qed simp

text \<open>
  The route of the decisions has no \<open>try\<close>: without the deployer's address the list of the records
  raises, and the rejection of the handler is not handled.
\<close>

lemma decisions_unhandled:
  assumes "cf_deployerAddress cfg = []"
  shows "\<exists>m. serve sv cfg GetDecisions h = (Inl (JsError m), h)"
  using contractId_unset [OF assms, of "''sovereignty-vault''"]
  by (auto simp: decisions_route_def io_bind_def listDecisions_def)

end
