(* ===== verification/Web_Agent.thy ===== *)
theory Web_Agent
  imports Agent_Server Web_Chat Web_Config
begin

text \<open>
  The agent inside the web server: how its configuration is filled from the web application's settings
  and the agent's own file (apps/web/src/lib/server/agentCore.ts), the routes that run its operations
  (apps/web/src/app/api/), and the calls of the pages to them (apps/web/src/lib/agent.ts, ecosystem.ts).
\<close>

section \<open>The file of the agent's environment\<close>

definition is_env_char :: "char \<Rightarrow> bool" where
  "is_env_char c \<longleftrightarrow> is_digit c \<or> c = CHR ''_'' \<or> (let n = of_char c :: nat in 65 \<le> n \<and> n \<le> 90)"

definition is_quote_mark :: "char \<Rightarrow> bool" where
  "is_quote_mark c \<longleftrightarrow> c = CHR 0x22 \<or> c = CHR 0x27"

definition strip_quotes :: "string \<Rightarrow> string" where
  "strip_quotes v =
     (let s = (if v \<noteq> [] \<and> is_quote_mark (hd v) then tl v else v) in
      if s \<noteq> [] \<and> is_quote_mark (last s) then butlast s else s)"

text \<open>A line \<open>KEY = value\<close>; \<open>.\<close> matches no carriage return.\<close>

definition env_line :: "string \<Rightarrow> (string \<times> string) option" where
  "env_line l =
     (let r = dropWhile is_space l; key = takeWhile is_env_char r;
          rest = dropWhile is_space (dropWhile is_env_char r); v = trim (tl rest) in
      if key = [] \<or> rest = [] \<or> hd rest \<noteq> CHR ''='' \<or> CHR 0x0D \<in> set v then None
      else Some (key, strip_quotes v))"

definition readEnvFile :: "string option \<Rightarrow> process_env" where
  "readEnvFile file =
     (case file of
        None \<Rightarrow> Map.empty
      | Some text' \<Rightarrow> map_of (rev (List.map_filter env_line (split_lines text'))))"

section \<open>The configuration of the core\<close>

definition fill :: "string \<Rightarrow> string option \<Rightarrow> process_env \<Rightarrow> process_env" where
  "fill key value env = (if truthy_text value \<and> \<not> truthy_text (env key) then env(key := value) else env)"

definition executor_address_env :: "'w services \<Rightarrow> process_env \<Rightarrow> process_env \<Rightarrow> process_env" where
  "executor_address_env sv agentEnv env =
     (if truthy_text (env ''EXECUTOR_ADDRESS'') then env
      else if truthy_text (agentEnv ''EXECUTOR_ADDRESS'') then env(''EXECUTOR_ADDRESS'' := agentEnv ''EXECUTOR_ADDRESS'')
      else if truthy_text (agentEnv ''EXECUTOR_PRIVATE_KEY'') then
        (case sv_addressOfKey sv (the (agentEnv ''EXECUTOR_PRIVATE_KEY''))
                (if env ''NEXT_PUBLIC_NETWORK'' = Some ''mainnet'' then ''mainnet'' else ''testnet'') of
           Inr a \<Rightarrow> env(''EXECUTOR_ADDRESS'' \<mapsto> a)
         | Inl e \<Rightarrow> env)
      else env)"

text \<open>\<open>agentDir\<close> and \<open>tmp\<close> are the paths of the agent's directory and of temporary files.\<close>

definition core_env :: "'w services \<Rightarrow> string \<Rightarrow> string \<Rightarrow> process_env \<Rightarrow> process_env \<Rightarrow> process_env" where
  "core_env sv agentDir tmp agentEnv env =
     executor_address_env sv agentEnv
       ((fill ''AGENT_DATA_DIR''
           (Some (if truthy_text (env ''VERCEL'') \<or> truthy_text (env ''AWS_LAMBDA_FUNCTION_NAME'')
                  then tmp @ ''/sovereignty-agent'' else agentDir @ ''/data'')) \<circ>
         fill ''INTENT_DEADLINE_WINDOW_BLOCKS'' (agentEnv ''INTENT_DEADLINE_WINDOW_BLOCKS'') \<circ>
         fill ''ANTHROPIC_API_KEY'' (agentEnv ''ANTHROPIC_API_KEY'') \<circ>
         fill ''SBTC_CONTRACT_NAME'' (env ''NEXT_PUBLIC_SBTC_CONTRACT_NAME'') \<circ>
         fill ''SBTC_CONTRACT_ADDRESS'' (env ''NEXT_PUBLIC_SBTC_CONTRACT_ADDRESS'') \<circ>
         fill ''DEPLOYER_ADDRESS'' (env ''NEXT_PUBLIC_DEPLOYER_ADDRESS'') \<circ>
         fill ''STACKS_API_URL'' (env ''NEXT_PUBLIC_STACKS_API_URL'') \<circ>
         fill ''NETWORK'' (env ''NEXT_PUBLIC_NETWORK'')) env)"

definition init_core :: "'w services \<Rightarrow> string \<Rightarrow> string \<Rightarrow> string option \<Rightarrow> process_env \<Rightarrow> agent_config result" where
  "init_core sv agentDir tmp file env = load_config (core_env sv agentDir tmp (readEnvFile file) env)"

text \<open>The core is loaded once; a failed start is not kept, so the next request tries again.\<close>

definition agentCore :: "agent_config result \<Rightarrow> agent_config option \<Rightarrow> agent_config result \<times> agent_config option" where
  "agentCore start loaded =
     (case loaded of
        Some c \<Rightarrow> (Inr c, loaded)
      | None \<Rightarrow> (case start of Inr c \<Rightarrow> (Inr c, Some c) | Inl e \<Rightarrow> (Inl e, None)))"

section \<open>The routes\<close>

datatype web_request =
    WebRecommendation string "string option"
  | WebPoolAnalysis string "string option"
  | WebVaultDecisions string
  | WebDecisions
  | WebAnalyze string

definition web_vault_id :: "string \<Rightarrow> int option result" where
  "web_vault_id t =
     js_try (num_of_text t) (\<lambda>n.
       Inr (case n of Fin q \<Rightarrow> if of_int \<lfloor>q\<rfloor> = q \<and> 0 < q then Some \<lfloor>q\<rfloor> else None | _ \<Rightarrow> None))"

definition invalid_vault :: http_response where
  "invalid_vault = (400, ErrorBody ''Invalid vault id.'')"

definition web_gateway :: "js_error \<Rightarrow> ('w, http_response) io" where
  "web_gateway e = io_return (502, ErrorBody (err_message e))"

definition with_vault :: "string \<Rightarrow> (int \<Rightarrow> ('w, http_response) io) \<Rightarrow> ('w, http_response) io" where
  "with_vault t f =
     io_bind (io_lift (web_vault_id t)) (\<lambda>v. case v of None \<Rightarrow> io_return invalid_vault | Some n \<Rightarrow> f n)"

definition not_found_text :: string where
  "not_found_text = ''not found on-chain''"

definition web_recommendation ::
    "'w services \<Rightarrow> agent_config result \<Rightarrow> int \<Rightarrow> asset \<Rightarrow> ('w host, http_response) io" where
  "web_recommendation sv core vaultId asset =
     io_catch
       (io_bind (io_lift core) (\<lambda>cfg.
        io_bind (runRecommendation sv cfg vaultId asset) (\<lambda>(r, record). io_return (200, RecommendationBody r record))))
       (\<lambda>e. io_return (if str_includes (err_message e) not_found_text then 404 else 502, ErrorBody (err_message e)))"

definition web_pool_analysis ::
    "'w services \<Rightarrow> process_env \<Rightarrow> agent_config result \<Rightarrow> int \<Rightarrow> asset \<Rightarrow> ('w host, http_response) io" where
  "web_pool_analysis sv env core vaultId asset =
     io_catch
       (io_bind (io_lift core) (\<lambda>cfg.
        io_bind (outside (getProtocolContext sv cfg)) (\<lambda>chain.
        io_bind (outside (getVaultSnapshot sv cfg vaultId asset (Some chain))) (\<lambda>vault.
          (case vault of
             None \<Rightarrow> io_return (404, ErrorBody (''Vault '' @ int_text vaultId @ '' not found on-chain.''))
           | Some v \<Rightarrow>
               io_bind (outside (analyzePoolAgainstEcosystem sv v chain
                          (if env ''NEXT_PUBLIC_NETWORK'' = Some ''mainnet'' then ''mainnet'' else ''testnet'') ECOSYSTEM_PROTOCOLS))
                 (\<lambda>r. io_return (200, AnalysisBody r)))))))
       web_gateway"

definition web_decisions :: "'w services \<Rightarrow> agent_config result \<Rightarrow> int option \<Rightarrow> ('w host, http_response) io" where
  "web_decisions sv core vaultId =
     io_catch
       (io_bind (io_lift core) (\<lambda>cfg.
        io_bind (listDecisions cfg vaultId) (\<lambda>rs.
        io_bind (withExpiry sv cfg rs) (\<lambda>xs. io_return (200, DecisionsBody xs)))))
       web_gateway"

definition web_analyze :: "'w services \<Rightarrow> agent_config result \<Rightarrow> string \<Rightarrow> ('w host, http_response) io" where
  "web_analyze sv core pid =
     io_catch
       (io_bind (io_lift core) (\<lambda>cfg.
        (case getProtocol pid of
           None \<Rightarrow> io_return (404, ErrorBody ''Unknown protocol id'')
         | Some p \<Rightarrow> io_bind (outside (analyzeProtocol sv cfg p)) (\<lambda>r. io_return (200, ExplanationBody r)))))
       web_gateway"

fun web_serve ::
    "'w services \<Rightarrow> process_env \<Rightarrow> agent_config result \<Rightarrow> web_request \<Rightarrow> ('w host, http_response) io" where
  "web_serve sv env core (WebRecommendation t q) = with_vault t (\<lambda>n. with_asset q (web_recommendation sv core n))"
| "web_serve sv env core (WebPoolAnalysis t q) = with_vault t (\<lambda>n. with_asset q (web_pool_analysis sv env core n))"
| "web_serve sv env core (WebVaultDecisions t) = with_vault t (\<lambda>n. web_decisions sv core (Some n))"
| "web_serve sv env core WebDecisions = web_decisions sv core None"
| "web_serve sv env core (WebAnalyze pid) = web_analyze sv core pid"

fun web_serve_all ::
    "'w services \<Rightarrow> process_env \<Rightarrow> agent_config result \<Rightarrow> web_request list \<Rightarrow> 'w host \<Rightarrow> http_response result list \<times> 'w host" where
  "web_serve_all sv env core [] h = ([], h)"
| "web_serve_all sv env core (q # qs) h =
     (case web_serve sv env core q h of (r, h1) \<Rightarrow>
      (case web_serve_all sv env core qs h1 of (rs, h2) \<Rightarrow> (r # rs, h2)))"

section \<open>The calls of the pages\<close>

text \<open>
  A response as the browser sees it: whether it is ok, its status, and its body if it is JSON. The error
  text of the server is shown when there is one.
\<close>

definition error_text :: "js \<Rightarrow> string result" where
  "error_text body =
     (case optional_field body ''error'' of
        JStr t \<Rightarrow> Inr t
      | v \<Rightarrow> if truthy v then Inl (OutOfModel ''error text'') else Inr [])"

definition failed_response :: "string \<Rightarrow> int \<Rightarrow> js \<Rightarrow> 'a result" where
  "failed_response prefix status body =
     js_try (error_text body) (\<lambda>t. Inl (JsError (if t \<noteq> [] then t else prefix @ int_text status)))"

definition json_or_null :: "js result \<Rightarrow> js" where
  "json_or_null r = (case r of Inr v \<Rightarrow> v | Inl e \<Rightarrow> JNull)"

definition agentFetch :: "bool \<times> int \<times> js result \<Rightarrow> js result" where
  "agentFetch res =
     (case res of (ok, status, json) \<Rightarrow>
        if \<not> ok then failed_response ''AI agent returned HTTP '' status (json_or_null json) else Inr (json_or_null json))"

definition listEcosystemProtocols :: "bool \<times> int \<times> js result \<Rightarrow> js list result" where
  "listEcosystemProtocols res =
     (case res of (ok, status, json) \<Rightarrow>
        (case (ok, json_or_null json) of
           (True, JArr xs) \<Rightarrow> Inr xs
         | (_, body) \<Rightarrow> failed_response ''Ecosystem data returned HTTP '' status body))"

fun is_number :: "js \<Rightarrow> bool" where
  "is_number (JNum n) = True"
| "is_number (JFrac q) = True"
| "is_number _ = False"

definition getStxMarketData :: "bool \<times> int \<times> js result \<Rightarrow> js result" where
  "getStxMarketData res =
     (case res of (ok, status, json) \<Rightarrow>
        (let body = json_or_null json in
         if \<not> ok \<or> \<not> truthy body \<or> \<not> is_number (optional_field body ''usd'')
         then failed_response ''STX price returned HTTP '' status body else Inr body))"

section \<open>What the web server can do\<close>

lemma web_gateway_keeps [io_frame]: "io_keeps f (web_gateway e)"
  unfolding web_gateway_def by (rule io_frame)

lemma with_vault_keeps [io_frame]: "(\<And>n. io_keeps f (g n)) \<Longrightarrow> io_keeps f (with_vault t g)"
  unfolding with_vault_def by (auto intro!: io_frame split: option.split)

lemma web_serve_keeps_effects: "io_keeps hs_effects (web_serve sv env core q)"
  by (cases q)
    (auto simp: web_recommendation_def web_pool_analysis_def web_decisions_def web_analyze_def
      intro!: io_frame reading_keeps_effects split: option.split prod.split)

lemma web_serve_all_keeps_effects: "hs_effects (snd (web_serve_all sv env core qs h)) = hs_effects h"
proof (induction qs arbitrary: h)
  case (Cons q qs)
  have "hs_effects (snd (web_serve sv env core q h)) = hs_effects h"
    using web_serve_keeps_effects [of sv env core q] by (simp add: io_keeps_def)
  then show ?case using Cons.IH by (simp add: case_prod_beta)
qed simp

text \<open>The executor's key of the agent's file is used for its address only.\<close>

lemma fill_other: "k \<noteq> key \<Longrightarrow> fill key v env k = env k"
  by (simp add: fill_def)

lemma executor_address_other: "k \<noteq> ''EXECUTOR_ADDRESS'' \<Longrightarrow> executor_address_env sv a env k = env k"
  by (simp add: executor_address_env_def split: sum.split)

lemma key_not_placed: "core_env sv agentDir tmp agentEnv env ''EXECUTOR_PRIVATE_KEY'' = env ''EXECUTOR_PRIVATE_KEY''"
  by (simp add: core_env_def executor_address_other fill_other)

text \<open>The core speaks of the contracts the web application speaks of.\<close>

lemma core_deployer:
  assumes "\<not> truthy_text (env ''DEPLOYER_ADDRESS'')" "env ''NEXT_PUBLIC_DEPLOYER_ADDRESS'' = Some d" "d \<noteq> []"
    and "init_core sv agentDir tmp file env = Inr cfg"
  shows "cf_deployerAddress cfg = d"
proof -
  have "core_env sv agentDir tmp (readEnvFile file) env ''DEPLOYER_ADDRESS'' = Some d"
    using assms(1-3) by (simp add: core_env_def executor_address_other fill_other) (simp add: fill_def)
  then show ?thesis using assms(3,4) by (auto simp: init_core_def load_config_def js_try_Inr_iff env_or_def)
qed

lemma core_keeps: "snd (agentCore start loaded) = (case fst (agentCore start loaded) of Inr c \<Rightarrow> Some c | Inl e \<Rightarrow> None)"
  by (auto simp: agentCore_def split: option.split sum.split)

end
