(* ===== verification/Web_Activity.thy ===== *)
theory Web_Activity
  imports Web_Hooks Pool_Ranking
begin

text \<open>
  The on-chain activity of treasuries (apps/web/src/lib/activity.ts): the pages of the vault contract's
  event log are read from the explorer, the events a viewer may see are kept, and their order is that of
  the chain.
\<close>

section \<open>Events\<close>

type_synonym event_data = "(string \<times> js) list"

record vault_event =
  ve_txId :: string
  ve_eventIndex :: int
  ve_kind :: string
  ve_vaultId :: int
  ve_data :: event_data
  ve_time :: js
  ve_blockHeight :: "int option"

text \<open>\<open>String(v)\<close>.\<close>

fun js_text :: "js \<Rightarrow> string result" where
  "js_text (JStr s) = Inr s"
| "js_text (JNum n) = Inr (int_text n)"
| "js_text (JFrac q) = Inr (rat_text q)"
| "js_text (JBool b) = Inr (if b then ''true'' else ''false'')"
| "js_text JNull = Inr ''null''"
| "js_text JUndef = Inr ''undefined''"
| "js_text (JObj fs) = Inr ''[object Object]''"
| "js_text (JArr xs) = Inl (OutOfModel ''array to text'')"

definition nullish :: "js \<Rightarrow> bool" where
  "nullish v \<longleftrightarrow> v = JNull \<or> v = JUndef"

text \<open>\<open>v?.k\<close>.\<close>

definition optional_get :: "js \<Rightarrow> string \<Rightarrow> js" where
  "optional_get v k = (case js_get v k of Inr x \<Rightarrow> x | Inl e \<Rightarrow> JUndef)"

definition flatten_field :: "string \<times> js \<Rightarrow> event_data result" where
  "flatten_field kv =
     (case kv of (k, v) \<Rightarrow>
       (let inner = optional_get v ''value'' in
        (case inner of
           JBool b \<Rightarrow> Inr [(k, JBool b)]
         | JObj _ \<Rightarrow>
             (let x = optional_get inner ''value'' in
              js_try (if nullish x then Inr [] else js_text x) (\<lambda>t. Inr [(k, JStr t)]))
         | JArr _ \<Rightarrow> Inr [(k, JStr [])]
         | JUndef \<Rightarrow> Inr []
         | x \<Rightarrow> js_try (js_text x) (\<lambda>t. Inr [(k, JStr t)]))))"

definition flatten :: "js \<Rightarrow> event_data result" where
  "flatten json =
     (let fields = optional_get json ''value'' in
      (case fields of
         JObj fs \<Rightarrow> js_try (map_result flatten_field fs) (\<lambda>ds. Inr (concat ds))
       | JArr _ \<Rightarrow> Inl (OutOfModel ''entries of an array'')
       | JStr _ \<Rightarrow> Inl (OutOfModel ''entries of a text'')
       | _ \<Rightarrow> Inr []))"

text \<open>The data of a log entry; \<open>None\<close> when the entry is skipped.\<close>

definition event_data_of :: "'w web \<Rightarrow> js \<Rightarrow> event_data option result" where
  "event_data_of sv ev =
     js_try (js_get ev ''event_type'') (\<lambda>ty.
     js_try (js_get ev ''contract_log'') (\<lambda>cl.
       if ty \<noteq> JStr ''smart_contract_log'' \<or> \<not> truthy cl then Inr None
       else
         (case js_try (js_try (js_path cl [''value'', ''hex'']) as_string) (\<lambda>hex. js_try (wb_decodeCV sv hex) flatten) of
            Inr d \<Rightarrow> Inr (Some d)
          | Inl e \<Rightarrow> if out_of_model e then Inl e else Inr None)))"

definition text_field :: "event_data \<Rightarrow> string \<Rightarrow> string option" where
  "text_field d k = (case map_of d k of Some (JStr t) \<Rightarrow> Some t | _ \<Rightarrow> None)"

definition event_of :: "js \<Rightarrow> int \<Rightarrow> string \<Rightarrow> event_data \<Rightarrow> vault_event result" where
  "event_of ev vaultId kind d =
     js_try (js_try (js_get ev ''tx_id'') as_string) (\<lambda>tx.
     js_try (js_try (js_get ev ''event_index'') as_number) (\<lambda>i.
     Inr \<lparr> ve_txId = tx, ve_eventIndex = i, ve_kind = kind, ve_vaultId = vaultId,
           ve_data = filter (\<lambda>(k, v). k \<noteq> ''event'') d, ve_time = JUndef, ve_blockHeight = None \<rparr>))"

section \<open>Which events are kept\<close>

definition keep_for_vault :: "'w web \<Rightarrow> int \<Rightarrow> js \<Rightarrow> vault_event list result" where
  "keep_for_vault sv vaultId ev =
     js_try (event_data_of sv ev) (\<lambda>r.
       (case r of
          None \<Rightarrow> Inr []
        | Some d \<Rightarrow>
            if text_field d ''vault-id'' \<noteq> Some (int_text vaultId) then Inr []
            else (case text_field d ''event'' of
                    None \<Rightarrow> Inr []
                  | Some kind \<Rightarrow> js_try (event_of ev vaultId kind d) (\<lambda>e. Inr [e]))))"

definition is_mine :: "string \<Rightarrow> event_data \<Rightarrow> bool" where
  "is_mine viewer d \<longleftrightarrow>
     map_of d ''depositor'' = Some (JStr viewer) \<or> map_of d ''holder'' = Some (JStr viewer) \<or>
     map_of d ''owner'' = Some (JStr viewer)"

definition keep_recent ::
    "'w web \<Rightarrow> int list \<Rightarrow> int list \<Rightarrow> string \<Rightarrow> js \<Rightarrow> vault_event list result" where
  "keep_recent sv vaultIds ownedIds viewer ev =
     js_try (event_data_of sv ev) (\<lambda>r.
       (case r of
          None \<Rightarrow> Inr []
        | Some d \<Rightarrow>
            (case (text_field d ''vault-id'', text_field d ''event'') of
               (Some vid, Some kind) \<Rightarrow>
                 if vid \<notin> int_text ` set vaultIds then Inr []
                 else if vid \<notin> int_text ` set ownedIds \<and> \<not> is_mine viewer d then Inr []
                 else js_try (number_of_string vid) (\<lambda>n. js_try (event_of ev n kind d) (\<lambda>e. Inr [e]))
             | _ \<Rightarrow> Inr [])))"

section \<open>Reading the log\<close>

definition PAGE :: nat where
  "PAGE = 50"

definition rows_of :: "js \<Rightarrow> js list result" where
  "rows_of body =
     js_try (js_get body ''results'') (\<lambda>r.
       (case r of JArr xs \<Rightarrow> Inr xs | _ \<Rightarrow> Inl (TypeError ''body.results is not iterable'')))"

definition events_url :: "'w web \<Rightarrow> string \<Rightarrow> nat \<Rightarrow> string" where
  "events_url sv contract page =
     STACKS_API_URL sv @ ''/extended/v1/contract/'' @ contract @ ''/events?limit='' @ nat_text PAGE @ ''&offset='' @ nat_text (page * PAGE)"

text \<open>The pages from \<open>page\<close> on, at most \<open>n\<close> of them; a page that is not full is the last.\<close>

fun read_events ::
    "'w web \<Rightarrow> string \<Rightarrow> (js \<Rightarrow> vault_event list result) \<Rightarrow> nat \<Rightarrow> nat \<Rightarrow> ('w, vault_event list) io" where
  "read_events sv contract keep 0 page = io_return []"
| "read_events sv contract keep (Suc n) page =
     io_bind (wb_fetch sv (events_url sv contract page)) (\<lambda>(ok, status, body).
       if \<not> ok then io_throw (JsError (''Stacks API contract events returned HTTP '' @ int_text status))
       else
         io_bind (io_lift (rows_of body)) (\<lambda>rows.
         io_bind (io_lift (map_result keep rows)) (\<lambda>ess.
           if length rows < PAGE then io_return (concat ess)
           else io_bind (read_events sv contract keep n (Suc page)) (\<lambda>es. io_return (concat ess @ es)))))"

section \<open>Times and order\<close>

type_synonym tx_meta = "js \<times> int option"

definition height_of :: "js \<Rightarrow> int option result" where
  "height_of v = (if nullish v then Inr None else js_try (as_number v) (\<lambda>n. Inr (Some n)))"

definition read_tx_meta :: "'w web \<Rightarrow> string \<Rightarrow> ('w, (string \<times> tx_meta) list) io" where
  "read_tx_meta sv tx =
     io_catch
       (io_bind (wb_fetch sv (STACKS_API_URL sv @ ''/extended/v1/tx/'' @ tx)) (\<lambda>(ok, status, t).
          if \<not> ok then io_return []
          else
            io_bind (io_lift (js_get t ''burn_block_time_iso'')) (\<lambda>time.
            io_bind (io_lift (js_try (js_get t ''block_height'') height_of)) (\<lambda>h. io_return [(tx, time, h)]))))
       (\<lambda>_. io_return [])"

definition with_meta :: "(string \<times> tx_meta) list \<Rightarrow> vault_event \<Rightarrow> vault_event" where
  "with_meta meta e =
     (case map_of meta (ve_txId e) of
        None \<Rightarrow> e\<lparr> ve_time := JUndef, ve_blockHeight := None \<rparr>
      | Some (t, h) \<Rightarrow> e\<lparr> ve_time := t, ve_blockHeight := h \<rparr>)"

definition height_or_0 :: "vault_event \<Rightarrow> int" where
  "height_or_0 e = (case ve_blockHeight e of Some h \<Rightarrow> h | None \<Rightarrow> 0)"

definition newest_first :: "vault_event \<Rightarrow> vault_event \<Rightarrow> js_num" where
  "newest_first a b =
     (let d = height_or_0 b - height_or_0 a in
      Fin (of_int (if d \<noteq> 0 then d else ve_eventIndex b - ve_eventIndex a)))"

definition attach_times :: "'w web \<Rightarrow> nat \<Rightarrow> vault_event list \<Rightarrow> ('w, vault_event list) io" where
  "attach_times sv n es =
     io_bind (io_map (read_tx_meta sv) (take n (first_occurrences (map ve_txId es)))) (\<lambda>ms.
     io_return (js_sort newest_first (map (with_meta (concat ms)) es)))"

definition getVaultEvents :: "'w web \<Rightarrow> int \<Rightarrow> nat \<Rightarrow> ('w, vault_event list) io" where
  "getVaultEvents sv vaultId maxPages =
     io_bind (io_lift (web_contractId sv ''sovereignty-vault'')) (\<lambda>contract.
     io_bind (read_events sv contract (keep_for_vault sv vaultId) maxPages 0) (attach_times sv 60))"

definition getRecentActivity ::
    "'w web \<Rightarrow> int list \<Rightarrow> int list \<Rightarrow> string \<Rightarrow> nat \<Rightarrow> nat \<Rightarrow> ('w, vault_event list) io" where
  "getRecentActivity sv vaultIds ownedIds viewer maxPages limit =
     io_bind (io_lift (web_contractId sv ''sovereignty-vault'')) (\<lambda>contract.
     io_bind (read_events sv contract (keep_recent sv vaultIds ownedIds viewer) maxPages 0) (\<lambda>events.
     io_bind (attach_times sv 20 (take (limit * 2) events)) (\<lambda>es. io_return (take limit es))))"

section \<open>What is shown\<close>

definition event_key :: "vault_event \<Rightarrow> int \<times> int" where
  "event_key e = (- height_or_0 e, - ve_eventIndex e)"

lemma newest_first_key: "num_less (Fin 0) (newest_first a b) \<longleftrightarrow> event_key b < event_key a"
  by (auto simp: newest_first_def event_key_def less_prod_def Let_def)

lemma newest_first_sorts: "js_sort newest_first es = sort_key event_key es"
  by (rule js_sort_key) (rule newest_first_key)

lemma with_meta_same [simp]:
  "ve_txId (with_meta m e) = ve_txId e" "ve_eventIndex (with_meta m e) = ve_eventIndex e"
  "ve_kind (with_meta m e) = ve_kind e" "ve_vaultId (with_meta m e) = ve_vaultId e" "ve_data (with_meta m e) = ve_data e"
  by (simp_all add: with_meta_def split: option.split prod.split)

lemma attach_times_result:
  assumes "fst (attach_times sv n es w) = Inr r"
  shows "\<exists>m. r = sort_key event_key (map (with_meta m) es)"
  using assms by (auto simp: attach_times_def bind_Inr newest_first_sorts)

lemma map_result_set: "map_result f xs = Inr ys \<Longrightarrow> set ys \<subseteq> {y. \<exists>x. f x = Inr y}"
  by (induction xs arbitrary: ys) (auto simp: js_try_Inr_iff)

lemma read_events_kept:
  assumes "fst (read_events sv contract keep n page w) = Inr es" "e \<in> set es"
  shows "\<exists>row kept. keep row = Inr kept \<and> e \<in> set kept"
  using assms
proof (induction n arbitrary: page w es)
  case (Suc n)
  obtain r u where f: "wb_fetch sv (events_url sv contract page) w = (r, u)" by fastforce
  with Suc.prems(1) obtain ok status body where r: "r = Inr (ok, status, body)"
    by (cases r) (auto simp: bind_Inr)
  with Suc.prems(1) f obtain rows ess where rows: "ok" "map_result keep rows = Inr ess"
    and es: "es = concat ess \<or> (\<exists>es' u'. fst (read_events sv contract keep n (Suc page) u') = Inr es' \<and> es = concat ess @ es')"
    by (cases "rows_of body"; cases "map_result keep (projr (rows_of body))") (auto simp: bind_Inr split: if_splits)
  from rows(2) have rows: "set ess \<subseteq> {k. \<exists>row. keep row = Inr k}" by (rule map_result_set)
  from es show ?case
  proof
    assume "es = concat ess"
    then obtain ys where "ys \<in> set ess" "e \<in> set ys" using Suc.prems(2) by auto
    with rows show ?case by blast
  next
    assume "\<exists>es' u'. fst (read_events sv contract keep n (Suc page) u') = Inr es' \<and> es = concat ess @ es'"
    then obtain es' u' where rest: "fst (read_events sv contract keep n (Suc page) u') = Inr es'" "es = concat ess @ es'" by blast
    from rest(2) Suc.prems(2) consider ys where "ys \<in> set ess" "e \<in> set ys" | "e \<in> set es'" by auto
    then show ?case using rows Suc.IH [OF rest(1)] by cases blast+
  qed
qed simp

lemma map_of_rest: "k \<noteq> k' \<Longrightarrow> map_of (filter (\<lambda>(k, v). k \<noteq> k') d) k = map_of d k"
  by (induction d) auto

lemma keep_for_vault_kept:
  assumes "keep_for_vault sv vaultId row = Inr kept" "e \<in> set kept"
  shows "ve_vaultId e = vaultId \<and> text_field (ve_data e) ''vault-id'' = Some (int_text vaultId)"
proof -
  from assms(1) obtain x where x: "event_data_of sv row = Inr x" by (auto simp: keep_for_vault_def js_try_Inr_iff)
  with assms obtain d where "x = Some d" by (cases x) (auto simp: keep_for_vault_def)
  with x assms obtain kind where d: "text_field d ''vault-id'' = Some (int_text vaultId)" "event_of row vaultId kind d = Inr e"
    by (cases "text_field d ''event''") (auto simp: keep_for_vault_def js_try_Inr_iff split: if_splits)
  then show ?thesis by (auto simp: event_of_def js_try_Inr_iff text_field_def map_of_rest)
qed

lemma keep_recent_kept:
  assumes "keep_recent sv vaultIds ownedIds viewer row = Inr kept" "e \<in> set kept" "list_all safe_int vaultIds"
  shows "ve_vaultId e \<in> set vaultIds \<and> (ve_vaultId e \<in> set ownedIds \<or> is_mine viewer (ve_data e))"
proof -
  from assms(1) obtain x where x: "event_data_of sv row = Inr x" by (auto simp: keep_recent_def js_try_Inr_iff)
  with assms(1,2) obtain d where "x = Some d" by (cases x) (auto simp: keep_recent_def)
  with x assms(1,2) obtain vid kind where tf: "text_field d ''vault-id'' = Some vid" "text_field d ''event'' = Some kind"
    by (cases "text_field d ''vault-id''"; cases "text_field d ''event''") (auto simp: keep_recent_def)
  with x \<open>x = Some d\<close> assms(1,2) have d12: "vid \<in> int_text ` set vaultIds" "vid \<in> int_text ` set ownedIds \<or> is_mine viewer d"
    by (simp_all add: keep_recent_def split: if_splits)
  with x \<open>x = Some d\<close> tf assms(1,2) obtain n where "number_of_string vid = Inr n" "event_of row n kind d = Inr e"
    by (cases "number_of_string vid") (auto simp: keep_recent_def js_try_Inr_iff simp del: number_of_int_text split: if_splits)
  note d = d12 this
  from d(1) obtain v where v: "v \<in> set vaultIds" "vid = int_text v" by blast
  with assms(3) have "n = v" using d(3) by (auto simp: number_of_int_text list_all_iff js_Number_safe)
  moreover have "ve_vaultId e = n" "ve_data e = filter (\<lambda>(k, v). k \<noteq> ''event'') d"
    using d(4) by (auto simp: event_of_def js_try_Inr_iff)
  ultimately show ?thesis using d(2) v by (auto simp: is_mine_def map_of_rest)
qed

lemma recent_activity:
  assumes "fst (getRecentActivity sv vaultIds ownedIds viewer maxPages limit w) = Inr es" "list_all safe_int vaultIds"
  shows "length es \<le> limit \<and> sorted (map event_key es) \<and>
    (\<forall>e \<in> set es. ve_vaultId e \<in> set vaultIds \<and> (ve_vaultId e \<in> set ownedIds \<or> is_mine viewer (ve_data e)))"
proof -
  from assms(1) obtain contract events w1 r w2 where
      ev: "fst (read_events sv contract (keep_recent sv vaultIds ownedIds viewer) maxPages 0 w1) = Inr events"
      and r: "fst (attach_times sv 20 (take (limit * 2) events) w2) = Inr r" "es = take limit r"
    by (cases "web_contractId sv ''sovereignty-vault''") (auto simp: getRecentActivity_def bind_Inr)
  from attach_times_result [OF r(1)] obtain m where m: "r = sort_key event_key (map (with_meta m) (take (limit * 2) events))" by blast
  have "ve_vaultId e \<in> set vaultIds \<and> (ve_vaultId e \<in> set ownedIds \<or> is_mine viewer (ve_data e))" if "e \<in> set events" for e
    using read_events_kept [OF ev that] keep_recent_kept [OF _ _ assms(2)] by blast
  moreover have "set es \<subseteq> with_meta m ` set events"
    using set_take_subset [of limit r] set_take_subset [of "limit * 2" events] by (auto simp: r(2) m)
  moreover have "sorted (map event_key es)" by (simp add: r(2) m take_map [symmetric] sorted_wrt_take)
  ultimately show ?thesis by (fastforce simp: r(2))
qed

lemma vault_events:
  assumes "fst (getVaultEvents sv vaultId maxPages w) = Inr es"
  shows "sorted (map event_key es) \<and> (\<forall>e \<in> set es. ve_vaultId e = vaultId)"
proof -
  from assms obtain contract events w1 w2 where
      ev: "fst (read_events sv contract (keep_for_vault sv vaultId) maxPages 0 w1) = Inr events"
      and r: "fst (attach_times sv 60 events w2) = Inr es"
    by (cases "web_contractId sv ''sovereignty-vault''") (auto simp: getVaultEvents_def bind_Inr)
  from attach_times_result [OF r] obtain m where "es = sort_key event_key (map (with_meta m) events)" by blast
  then show ?thesis using read_events_kept [OF ev] keep_for_vault_kept [of sv vaultId] by fastforce
qed

end
