(* ===== verification/Sbtc_Balance.thy ===== *)
theory Sbtc_Balance
  imports Web_Reader
begin

text \<open>
  The sBTC balance the agent's client of the Stacks API reads from the token contract
  (agent/src/data/stacksClient.ts), beside the web application's own reading of it.
\<close>

definition getSbtcBalance :: "'w services \<Rightarrow> agent_config \<Rightarrow> string \<Rightarrow> ('w, int) io" where
  "getSbtcBalance sv cfg address =
     io_bind (callReadOnly sv cfg (cf_sbtcContract cfg) (cf_sbtcContractName cfg) ''get-balance'' [ClPrincipal address] address) (\<lambda>json.
     io_lift (js_try (js_get json ''success'') (\<lambda>ok.
       if ok = JBool False then Inl (JsError (''get-balance failed: '' @ json_text json))
       else js_try (js_path json [''value'', ''value'']) to_bigint)))"

text \<open>A balance is what the token contract answered; a refusal and a failed read never become a balance.\<close>

lemma getSbtcBalance_answer:
  assumes "callReadOnly sv cfg (cf_sbtcContract cfg) (cf_sbtcContractName cfg) ''get-balance'' [ClPrincipal address] address w =
    (Inr (response_json True (uint_json n)), w')"
  shows "getSbtcBalance sv cfg address w = (Inr (int n), w')"
  using assms by (simp add: getSbtcBalance_def io_bind_def io_lift_def json_defs)

lemma getSbtcBalance_refused:
  assumes "callReadOnly sv cfg (cf_sbtcContract cfg) (cf_sbtcContractName cfg) ''get-balance'' [ClPrincipal address] address w =
    (Inr (response_json False v), w')"
  shows "\<exists>m. getSbtcBalance sv cfg address w = (Inl (JsError m), w')"
  using assms by (simp add: getSbtcBalance_def io_bind_def io_lift_def json_defs)

lemma getSbtcBalance_failed:
  assumes "callReadOnly sv cfg (cf_sbtcContract cfg) (cf_sbtcContractName cfg) ''get-balance'' [ClPrincipal address] address w = (Inl e, w')"
  shows "getSbtcBalance sv cfg address w = (Inl e, w')"
  using assms by (simp add: getSbtcBalance_def io_bind_def)

end
