(* ===== verification/Web_Explorer.thy ===== *)
theory Web_Explorer
  imports Web_Ecosystem Pool_Ranking
begin

text \<open>
  The explorer of the ecosystem's protocols: its polling with backoff, its filters and its order
  (apps/web/src/components/ecosystem/StrategyExplorer.tsx), the figures above the list (EcosystemStats.tsx), the
  categories (apps/web/src/lib/ecosystemCategories.ts), the drawer with the analysis of one protocol
  (StrategyAnalysisDrawer.tsx) and the ticker of the price (components/StxPriceTicker.tsx).
\<close>

section \<open>Categories\<close>

datatype category_tone = ToneAccent | ToneEnforce | ToneSuccess | ToneWarning | ToneNeutral

record category_info =
  ci_label :: string
  ci_blurb :: string
  ci_tone :: category_tone

definition CATEGORY_INFO :: "(string \<times> category_info) list" where
  "CATEGORY_INFO =
     [(''DEX / AMM'', \<lparr> ci_label = ''Token Exchange'',
         ci_blurb = ''Trade one crypto token for another, instantly, without a bank or broker.'', ci_tone = ToneAccent \<rparr>),
      (''Lending'', \<lparr> ci_label = ''Lending & Borrowing'',
         ci_blurb = ''Earn interest by lending your crypto, or borrow crypto by putting up other crypto as collateral.'',
         ci_tone = ToneEnforce \<rparr>),
      (''CDP / Stablecoin'', \<lparr> ci_label = ''Stablecoin Vault'',
         ci_blurb = ''Lock up crypto to create a stablecoin '' @ emdash @ '' a token designed to always be worth about $1.'',
         ci_tone = ToneWarning \<rparr>),
      (''Liquid Staking'', \<lparr> ci_label = ''Earn Staking Rewards'',
         ci_blurb = ''Earn rewards on your crypto without having to lock it away or manage the process yourself.'',
         ci_tone = ToneSuccess \<rparr>),
      (''Synthetic Dollar'', \<lparr> ci_label = ''Bitcoin-Backed Stablecoin'',
         ci_blurb = ''A stablecoin backed by Bitcoin and a hedging strategy, instead of cash reserves.'', ci_tone = ToneNeutral \<rparr>)]"

definition categoryInfo :: "string \<Rightarrow> category_info" where
  "categoryInfo category =
     (case map_of CATEGORY_INFO category of
        Some i \<Rightarrow> i
      | None \<Rightarrow> \<lparr> ci_label = category, ci_blurb = [], ci_tone = ToneNeutral \<rparr>)"

definition allCategories :: "string list" where
  "allCategories = map fst CATEGORY_INFO"

section \<open>Polling\<close>

text \<open>
  The list is loaded when the page opens and again after a delay: a minute after a success, with a backoff
  after a failure. \<open>ex_timer\<close> is the delay that has been set.
\<close>

record explorer =
  ex_protocols :: "eco_row list option"
  ex_error :: "string option"
  ex_failures :: nat
  ex_timer :: "int option"
  ex_loading :: bool
  ex_cancelled :: bool

definition explorer_opened :: explorer where
  "explorer_opened =
     \<lparr> ex_protocols = None, ex_error = None, ex_failures = 0, ex_timer = None, ex_loading = True, ex_cancelled = False \<rparr>"

definition retry_delay :: "nat \<Rightarrow> int" where
  "retry_delay failures = min 30000 (3000 * 2 ^ (failures - 1))"

definition explorer_answer :: "eco_row list result \<Rightarrow> explorer \<Rightarrow> explorer" where
  "explorer_answer r x =
     (if ex_cancelled x then x\<lparr> ex_loading := False \<rparr>
      else case r of
        Inr rows \<Rightarrow>
          x\<lparr> ex_failures := 0, ex_protocols := Some rows, ex_error := None, ex_timer := Some 60000, ex_loading := False \<rparr>
      | Inl e \<Rightarrow>
          x\<lparr> ex_failures := Suc (ex_failures x), ex_error := Some (err_message e),
             ex_timer := Some (retry_delay (Suc (ex_failures x))), ex_loading := False \<rparr>)"

definition explorer_fire :: "explorer \<Rightarrow> explorer" where
  "explorer_fire x = (if ex_timer x = None then x else x\<lparr> ex_timer := None, ex_loading := True \<rparr>)"

definition explorer_closed :: "explorer \<Rightarrow> explorer" where
  "explorer_closed x = x\<lparr> ex_cancelled := True, ex_timer := None \<rparr>"

inductive explorer_reachable :: "explorer \<Rightarrow> bool" where
  opened: "explorer_reachable explorer_opened"
| answered: "explorer_reachable x \<Longrightarrow> ex_loading x \<Longrightarrow> explorer_reachable (explorer_answer r x)"
| fired: "explorer_reachable x \<Longrightarrow> explorer_reachable (explorer_fire x)"
| closed: "explorer_reachable x \<Longrightarrow> explorer_reachable (explorer_closed x)"

text \<open>Which of the messages is shown.\<close>

datatype explorer_view = ViewUnreachable string | ViewLoading | ViewNone | ViewNoMatch | ViewRows "eco_row list"

section \<open>Filters and order\<close>

datatype explorer_sort = ByTvl | ByTitle

definition row_category :: "eco_row \<Rightarrow> string" where
  "row_category r = category_text (ep_category (er_protocol r))"

definition row_matches :: "string \<Rightarrow> eco_row \<Rightarrow> bool" where
  "row_matches q r \<longleftrightarrow>
     q = [] \<or> str_includes (map lower_latin (ep_name (er_protocol r))) q \<or>
     str_includes (map lower_latin (ep_plainSummary (er_protocol r))) q \<or>
     str_includes (map lower_latin (ci_label (categoryInfo (row_category r)))) q"

definition row_tvl :: "eco_row \<Rightarrow> rat" where
  "row_tvl r = (case er_tvlUsd r of Some t \<Rightarrow> t | None \<Rightarrow> - 1)"

definition compare_rows :: "(string \<Rightarrow> string \<Rightarrow> int) \<Rightarrow> explorer_sort \<Rightarrow> eco_row \<Rightarrow> eco_row \<Rightarrow> js_num" where
  "compare_rows localeCompare s a b =
     (case s of
        ByTitle \<Rightarrow> Fin (rat_of_int (localeCompare (ep_name (er_protocol a)) (ep_name (er_protocol b))))
      | ByTvl \<Rightarrow> num_sub (Fin (row_tvl b)) (Fin (row_tvl a)))"

definition admits_row :: "string \<Rightarrow> string option \<Rightarrow> eco_row \<Rightarrow> bool" where
  "admits_row query category r \<longleftrightarrow>
     (truthy_text category \<longrightarrow> Some (row_category r) = category) \<and> row_matches (map lower_latin (trim query)) r"

definition explorer_rows ::
    "(string \<Rightarrow> string \<Rightarrow> int) \<Rightarrow> explorer_sort \<Rightarrow> string \<Rightarrow> string option \<Rightarrow> eco_row list \<Rightarrow> eco_row list" where
  "explorer_rows localeCompare s query category rows =
     js_sort (compare_rows localeCompare s) (filter (admits_row query category) rows)"

definition category_count :: "eco_row list \<Rightarrow> string \<Rightarrow> nat" where
  "category_count rows c = length (filter (\<lambda>r. row_category r = c) rows)"

text \<open>The buttons of the categories that occur, each with its count.\<close>

definition filter_pills :: "eco_row list \<Rightarrow> (string \<times> nat) list" where
  "filter_pills rows = map (\<lambda>c. (c, category_count rows c)) (filter (\<lambda>c. category_count rows c \<noteq> 0) allCategories)"

definition explorer_view ::
    "(string \<Rightarrow> string \<Rightarrow> int) \<Rightarrow> explorer_sort \<Rightarrow> string \<Rightarrow> string option \<Rightarrow> explorer \<Rightarrow> explorer_view" where
  "explorer_view localeCompare s query category x =
     (case ex_protocols x of
        None \<Rightarrow> (case ex_error x of Some e \<Rightarrow> if e = [] then ViewLoading else ViewUnreachable e | None \<Rightarrow> ViewLoading)
      | Some rows \<Rightarrow>
          if rows = [] then ViewNone
          else let shown = explorer_rows localeCompare s query category rows in
            if shown = [] then ViewNoMatch else ViewRows shown)"

section \<open>The figures above the list\<close>

record eco_stats =
  es_tracked :: nat
  es_verified :: nat
  es_categories :: nat
  es_reporting :: nat
  es_combined :: js_num

definition ecosystem_stats :: "eco_row list \<Rightarrow> eco_stats" where
  "ecosystem_stats rows =
     (let known = List.map_filter er_tvlUsd rows in
      \<lparr> es_tracked = length rows, es_verified = length (filter er_exists rows),
        es_categories = card (set (map row_category rows)), es_reporting = length known,
        es_combined = foldl (\<lambda>sum t. num_add sum (Fin t)) (Fin 0) known \<rparr>)"

section \<open>The drawer and the ticker\<close>

text \<open>
  The drawer asks the agent for the analysis of the protocol it is opened on. There is no cancellation: an
  answer is shown whichever protocol it is for.
\<close>

record drawer =
  dw_protocol :: "string option"
  dw_analysis :: "(string \<times> js) option"
  dw_loading :: bool
  dw_error :: bool

definition drawer_open :: "string \<Rightarrow> drawer \<Rightarrow> drawer" where
  "drawer_open i d = \<lparr> dw_protocol = Some i, dw_analysis = None, dw_loading = True, dw_error = False \<rparr>"

definition drawer_close :: "drawer \<Rightarrow> drawer" where
  "drawer_close d = d\<lparr> dw_protocol := None \<rparr>"

definition drawer_answer :: "string \<Rightarrow> js result \<Rightarrow> drawer \<Rightarrow> drawer" where
  "drawer_answer i r d =
     (case r of
        Inr a \<Rightarrow> d\<lparr> dw_analysis := Some (i, a), dw_loading := False \<rparr>
      | Inl e \<Rightarrow> d\<lparr> dw_error := True, dw_loading := False \<rparr>)"

text \<open>The badge of a row: a check that did not get through is not a missing contract.\<close>

definition verification_badge :: "eco_row \<Rightarrow> string" where
  "verification_badge r =
     (if er_exists r then ''Verified & active'' else if er_unreachable r then ''Checking...'' else ''Not found on-chain'')"

text \<open>\<open>undefined\<close> until the answer, \<open>null\<close> after a failure: then nothing is shown.\<close>

definition ticker_answer :: "bool \<Rightarrow> js result \<Rightarrow> js option option \<Rightarrow> js option option" where
  "ticker_answer cancelled r t = (if cancelled then t else Some (case r of Inr d \<Rightarrow> Some d | Inl e \<Rightarrow> None))"

section \<open>Loaded data is never cleared\<close>

lemma explorer_keeps_data:
  "ex_protocols x \<noteq> None \<Longrightarrow>
   ex_protocols (explorer_answer r x) \<noteq> None \<and> ex_protocols (explorer_fire x) = ex_protocols x \<and>
   ex_protocols (explorer_closed x) = ex_protocols x"
  by (auto simp: explorer_answer_def explorer_fire_def explorer_closed_def split: sum.split)

lemma failure_keeps_rows: "ex_protocols (explorer_answer (Inl e) x) = ex_protocols x"
  by (simp add: explorer_answer_def)

text \<open>An error is only ever shown while nothing has been loaded.\<close>

lemma error_only_before_data:
  "explorer_view localeCompare s query category x = ViewUnreachable e \<Longrightarrow> ex_protocols x = None \<and> ex_error x = Some e"
  by (auto simp: explorer_view_def Let_def split: option.splits if_splits)

text \<open>An open page always has a request or a timer under way, with a delay between three seconds and a minute.\<close>

lemma retry_delay_bounds: "3000 \<le> retry_delay n \<and> retry_delay n \<le> 30000"
proof -
  have "(1::int) \<le> 2 ^ (n - 1)" by simp
  then show ?thesis by (auto simp: retry_delay_def min_def)
qed

lemma retry_delay_grows: "m \<le> n \<Longrightarrow> retry_delay m \<le> retry_delay n"
  unfolding retry_delay_def by (intro min.mono mult_left_mono power_increasing) auto

theorem explorer_keeps_polling:
  "explorer_reachable x \<Longrightarrow>
   ex_cancelled x \<or> (ex_loading x \<and> ex_timer x = None) \<or>
   (\<not> ex_loading x \<and> (\<exists>t. ex_timer x = Some t \<and> 3000 \<le> t \<and> t \<le> 60000))"
proof (induction rule: explorer_reachable.induct)
  case (answered x r)
  then show ?case using retry_delay_bounds [of "Suc (ex_failures x)"]
    by (cases r) (auto simp: explorer_answer_def)
qed (auto simp: explorer_opened_def explorer_fire_def explorer_closed_def)

lemma closed_page_ignores_answers: "ex_cancelled x \<Longrightarrow> ex_protocols (explorer_answer r x) = ex_protocols x \<and> ex_timer (explorer_answer r x) = ex_timer x"
  by (simp add: explorer_answer_def)

section \<open>The list\<close>

lemma explorer_rows_set: "set (explorer_rows localeCompare s query category rows) = {r \<in> set rows. admits_row query category r}"
proof -
  have "set (js_insert cmp x ys) = insert x (set ys)" for cmp and x :: eco_row and ys by (induction ys) auto
  then have "set (js_sort cmp xs) = set xs" for cmp and xs :: "eco_row list"
    unfolding js_sort_def by (induction xs) auto
  then show ?thesis by (auto simp: explorer_rows_def)
qed

text \<open>The button of a category shows as many rows as it counts; the buttons together count every row.\<close>

lemma js_sort_length: "length (js_sort cmp xs) = length xs"
proof -
  have "length (js_insert cmp x ys) = Suc (length ys)" for x ys by (induction ys) auto
  then show ?thesis unfolding js_sort_def by (induction xs) auto
qed

lemma category_known: "category_text c \<in> set allCategories"
  by (cases c) (simp_all add: allCategories_def CATEGORY_INFO_def)

lemma pill_counts:
  assumes "(c, n) \<in> set (filter_pills rows)"
  shows "length (explorer_rows localeCompare s [] (Some c) rows) = n"
proof -
  from assms have c: "n = category_count rows c" "c \<in> set allCategories" by (auto simp: filter_pills_def)
  then have "c \<noteq> []" by (auto simp: allCategories_def CATEGORY_INFO_def)
  then have "admits_row [] (Some c) = (\<lambda>r. row_category r = c)"
    by (auto simp: admits_row_def row_matches_def trim_def truthy_text_def)
  then show ?thesis by (simp add: explorer_rows_def js_sort_length category_count_def c(1))
qed

lemma pills_cover: "r \<in> set rows \<Longrightarrow> row_category r \<in> fst ` set (filter_pills rows)"
proof -
  assume r: "r \<in> set rows"
  have "row_category r \<in> set allCategories" using category_known by (simp add: row_category_def)
  moreover have "category_count rows (row_category r) \<noteq> 0" using r by (auto simp: category_count_def filter_empty_conv)
  ultimately show ?thesis by (auto simp: filter_pills_def image_image)
qed

text \<open>The default order: the highest value first, unknown values last.\<close>

lemma explorer_rows_by_tvl:
  assumes "\<And>r. r \<in> set rows \<Longrightarrow> on_grid (row_tvl r)"
  shows "explorer_rows localeCompare ByTvl query category rows = sort_key (\<lambda>r. - row_tvl r) (filter (admits_row query category) rows)"
  unfolding explorer_rows_def
  by (rule js_sort_key) (use num_sub_sign assms in \<open>auto simp: compare_rows_def\<close>)

section \<open>The drawer\<close>

text \<open>
  Opening a second protocol before the first answer has come shows the first one's analysis under the second,
  and ends its loading.
\<close>

lemma drawer_shows_late_answer:
  "drawer_answer ''a'' (Inr x) (drawer_open ''b'' (drawer_open ''a'' d)) =
     \<lparr> dw_protocol = Some ''b'', dw_analysis = Some (''a'', x), dw_loading = False, dw_error = False \<rparr>"
  by (simp add: drawer_answer_def drawer_open_def)

lemma badge_missing: "verification_badge r = ''Not found on-chain'' \<longleftrightarrow> \<not> er_exists r \<and> \<not> er_unreachable r"
  by (simp add: verification_badge_def)

lemma stats_bounds:
  "es_verified (ecosystem_stats rows) \<le> es_tracked (ecosystem_stats rows)"
  "es_categories (ecosystem_stats rows) \<le> es_tracked (ecosystem_stats rows)"
  by (simp_all add: ecosystem_stats_def Let_def) (metis card_length length_map set_map)

end
