(* ===== verification/Web_Page_Effects.thy ===== *)
theory Web_Page_Effects
  imports Web_Vault_Pages
begin

text \<open>
  What runs on the deposit and redeem pages between the user's actions: the effect that asks the contract
  for a preview 300 ms after the form last changed and drops the answers of earlier forms, the reads when
  the page opens, and what is shown once a transaction is confirmed.
\<close>

section \<open>The preview\<close>

text \<open>
  The dependencies of the effect; its runs are numbered. The timer of a run and the answer to its request
  count only while no later run has cancelled them.
\<close>

record preview_target =
  pt_viewer :: "string option"
  pt_vaultId :: int
  pt_asset :: asset
  pt_amount :: "int option"
  pt_total :: int
  pt_supply :: int

record preview_hook =
  ph_target :: preview_target
  ph_run :: nat
  ph_asked :: bool
  ph_preview :: preview

definition wants_preview :: "preview_target \<Rightarrow> bool" where
  "wants_preview t \<longleftrightarrow> truthy_text (pt_viewer t) \<and> (case pt_amount t of Some n \<Rightarrow> 0 < n | None \<Rightarrow> False)"

definition preview_effect :: "preview_target \<Rightarrow> preview_hook \<Rightarrow> preview_hook" where
  "preview_effect t h =
     \<lparr> ph_target = t, ph_run = Suc (ph_run h), ph_asked = False,
       ph_preview = (if wants_preview t then PreviewLoading else PreviewIdle) \<rparr>"

definition preview_opened :: "preview_target \<Rightarrow> preview_hook" where
  "preview_opened t = preview_effect t \<lparr> ph_target = t, ph_run = 0, ph_asked = False, ph_preview = PreviewIdle \<rparr>"

text \<open>The timer of run \<open>r\<close> fires: the request is sent unless the run was cancelled.\<close>

definition preview_timer :: "nat \<Rightarrow> preview_hook \<Rightarrow> preview_hook" where
  "preview_timer r h = (if r = ph_run h \<and> wants_preview (ph_target h) then h\<lparr> ph_asked := True \<rparr> else h)"

definition preview_answer :: "nat \<Rightarrow> (int + int) result \<Rightarrow> preview_hook \<Rightarrow> preview_hook" where
  "preview_answer r a h = (if r = ph_run h then h\<lparr> ph_preview := preview_shown a \<rparr> else h)"

text \<open>
  Reachable states of the hook; \<open>R t a\<close> says that \<open>a\<close> is an answer to the request for \<open>t\<close>. A request
  that was sent for an earlier run may be answered at any time.
\<close>

inductive preview_reachable :: "(preview_target \<Rightarrow> (int + int) result \<Rightarrow> bool) \<Rightarrow> preview_hook \<Rightarrow> bool" for R where
  opened: "preview_reachable R (preview_opened t)"
| changed: "preview_reachable R h \<Longrightarrow> preview_reachable R (preview_effect t h)"
| fired: "preview_reachable R h \<Longrightarrow> r \<le> ph_run h \<Longrightarrow> preview_reachable R (preview_timer r h)"
| answered: "preview_reachable R h \<Longrightarrow> ph_asked h \<Longrightarrow> R (ph_target h) a \<Longrightarrow> preview_reachable R (preview_answer (ph_run h) a h)"
| late: "preview_reachable R h \<Longrightarrow> r < ph_run h \<Longrightarrow> preview_reachable R (preview_answer r a h)"

lemma preview_asked_wanted: "preview_reachable R h \<Longrightarrow> ph_asked h \<Longrightarrow> wants_preview (ph_target h)"
  by (induction rule: preview_reachable.induct)
    (auto simp: preview_opened_def preview_effect_def preview_timer_def preview_answer_def split: if_splits)

text \<open>
  A preview on the screen is the contract's answer for the form on the screen: the same viewer, vault,
  asset, amount and pool.
\<close>

lemma preview_current:
  "preview_reachable R h \<Longrightarrow>
   ph_preview h = (if wants_preview (ph_target h) then PreviewLoading else PreviewIdle) \<or>
   (wants_preview (ph_target h) \<and> (\<exists>a. R (ph_target h) a \<and> ph_preview h = preview_shown a))"
proof (induction rule: preview_reachable.induct)
  case (answered h a)
  then show ?case using preview_asked_wanted [OF answered(1,2)] by (auto simp: preview_answer_def)
qed (auto simp: preview_opened_def preview_effect_def preview_timer_def preview_answer_def)

lemma preview_shown_ok: "preview_shown a = PreviewOk n \<longleftrightarrow> a = Inr (Inr n)"
proof (cases a)
  case (Inr b)
  then show ?thesis by (cases b) simp_all
qed simp

lemma preview_ok_current:
  assumes "preview_reachable R h" "ph_preview h = PreviewOk n"
  shows "R (ph_target h) (Inr (Inr n)) \<and> wants_preview (ph_target h)"
  using preview_current [OF assms(1)]
proof
  assume "ph_preview h = (if wants_preview (ph_target h) then PreviewLoading else PreviewIdle)"
  with assms(2) show ?thesis by (simp split: if_splits)
next
  assume h: "wants_preview (ph_target h) \<and> (\<exists>a. R (ph_target h) a \<and> ph_preview h = preview_shown a)"
  then obtain a where "R (ph_target h) a" "preview_shown a = PreviewOk n" using assms(2) by metis
  with h show ?thesis by (simp add: preview_shown_ok)
qed

text \<open>The target of the two pages.\<close>

definition deposit_target :: "string option \<Rightarrow> int \<Rightarrow> vault_overview \<Rightarrow> deposit_page \<Rightarrow> preview_target" where
  "deposit_target viewer vaultId ov d =
     \<lparr> pt_viewer = viewer, pt_vaultId = vaultId, pt_asset = dp_asset d, pt_amount = deposit_amount d,
       pt_total = (case vo_pools ov (dp_asset d) of Some p \<Rightarrow> ap_total p | None \<Rightarrow> 0),
       pt_supply = (case vo_pools ov (dp_asset d) of Some p \<Rightarrow> ap_supply p | None \<Rightarrow> 0) \<rparr>"

definition redeem_target :: "string option \<Rightarrow> int \<Rightarrow> vault_overview \<Rightarrow> redeem_page \<Rightarrow> preview_target" where
  "redeem_target viewer vaultId ov r =
     \<lparr> pt_viewer = viewer, pt_vaultId = vaultId, pt_asset = rp_asset r, pt_amount = redeem_shares r,
       pt_total = (case vo_pools ov (rp_asset r) of Some p \<Rightarrow> ap_total p | None \<Rightarrow> 0),
       pt_supply = (case vo_pools ov (rp_asset r) of Some p \<Rightarrow> ap_supply p | None \<Rightarrow> 0) \<rparr>"

definition ask_deposit_preview :: "'w web \<Rightarrow> preview_target \<Rightarrow> ('w, int + int) io" where
  "ask_deposit_preview sv t = previewDeposit sv (pt_vaultId t) (pt_asset t) (the (pt_amount t)) (the (pt_viewer t))"

definition ask_redeem_preview :: "'w web \<Rightarrow> preview_target \<Rightarrow> ('w, int + int) io" where
  "ask_redeem_preview sv t = previewRedeem sv (pt_vaultId t) (pt_asset t) (the (pt_amount t)) (the (pt_viewer t))"

section \<open>Opening the deposit page\<close>

text \<open>A read that fails leaves its flag unknown, and an unknown flag blocks nothing.\<close>

definition load_deposit_flags :: "'w web \<Rightarrow> deposit_page \<Rightarrow> ('w, deposit_page) io" where
  "load_deposit_flags sv d =
     io_bind (io_catch (io_bind (isProtocolPaused sv) (\<lambda>p. io_return (Some p))) (\<lambda>_. io_return None)) (\<lambda>paused.
     io_bind (io_catch (io_bind (getProtocolLimits sv) (\<lambda>l. io_return (Some (pl_approvedSbtcAsset l \<noteq> None))))
                (\<lambda>_. io_return None)) (\<lambda>approved.
     io_return (d\<lparr> dp_protocolPaused := paused, dp_sbtcApproved := approved \<rparr>)))"

definition deposit_opened :: "vault_overview \<Rightarrow> deposit_page" where
  "deposit_opened ov =
     \<lparr> dp_asset = hd (vaultAssets ov), dp_amountText = [], dp_preview = PreviewIdle, dp_protocolPaused = None,
       dp_sbtcApproved = None, dp_tx = reset_transaction \<rparr>"

definition choose_deposit_asset :: "asset \<Rightarrow> deposit_page \<Rightarrow> deposit_page" where
  "choose_deposit_asset a d = d\<lparr> dp_asset := a, dp_amountText := [] \<rparr>"

definition redeem_opened :: "vault_overview \<Rightarrow> redeem_page" where
  "redeem_opened ov =
     \<lparr> rp_asset = hd (vaultAssets ov), rp_sharesText = [], rp_preview = PreviewIdle, rp_tx = reset_transaction \<rparr>"

definition choose_redeem_asset :: "asset \<Rightarrow> redeem_page \<Rightarrow> redeem_page" where
  "choose_redeem_asset a r = r\<lparr> rp_asset := a, rp_sharesText := [] \<rparr>"

section \<open>After the transaction\<close>

text \<open>\<open>BigInt(cvToJSON(res.resultCV).value.value)\<close>, or 0 without a result.\<close>

definition result_amount :: "tx_result \<Rightarrow> int result" where
  "result_amount res =
     (case tr_resultCV res of
        Some cv \<Rightarrow> js_try (js_path cv [''value'', ''value'']) to_bigint
      | None \<Rightarrow> Inr 0)"

record confirmed_deposit =
  cd_asset :: asset
  cd_amount :: int
  cd_shares :: int

record confirmed_redemption =
  cr_asset :: asset
  cr_shares :: int
  cr_received :: int

text \<open>
  What \<open>submit\<close> does after \<open>tx.run\<close>: the asset and the amount are those of the page when the button was
  pressed, the text that is cleared is the one on the page now.
\<close>

definition deposit_done :: "tx_result option \<Rightarrow> deposit_page \<Rightarrow> deposit_page \<Rightarrow> (confirmed_deposit option \<times> deposit_page) result" where
  "deposit_done res pressed d =
     (case (res, deposit_amount pressed) of
        (Some r, Some n) \<Rightarrow>
          js_try (result_amount r) (\<lambda>minted.
          Inr (Some \<lparr> cd_asset = dp_asset pressed, cd_amount = n, cd_shares = minted \<rparr>, d\<lparr> dp_amountText := [] \<rparr>))
      | _ \<Rightarrow> Inr (None, d))"

definition redeem_done :: "tx_result option \<Rightarrow> redeem_page \<Rightarrow> redeem_page \<Rightarrow> (confirmed_redemption option \<times> redeem_page) result" where
  "redeem_done res pressed r =
     (case (res, redeem_shares pressed) of
        (Some t, Some n) \<Rightarrow>
          js_try (result_amount t) (\<lambda>received.
          Inr (Some \<lparr> cr_asset = rp_asset pressed, cr_shares = n, cr_received = received \<rparr>, r\<lparr> rp_sharesText := [] \<rparr>))
      | _ \<Rightarrow> Inr (None, r))"

text \<open>What is reported as minted or received is the contract's own return value.\<close>

lemma result_amount_answer:
  assumes "tr_resultCV res = Some (response_json True (uint_json n))"
  shows "result_amount res = Inr (int n)"
  using assms by (simp add: result_amount_def json_defs)

lemma deposit_done_reports:
  assumes "tr_resultCV res = Some (response_json True (uint_json n))" "deposit_amount pressed = Some m"
  shows "deposit_done (Some res) pressed d =
    Inr (Some \<lparr> cd_asset = dp_asset pressed, cd_amount = m, cd_shares = int n \<rparr>, d\<lparr> dp_amountText := [] \<rparr>)"
  using result_amount_answer [OF assms(1)] assms(2) by (simp add: deposit_done_def)

lemma redeem_done_reports:
  assumes "tr_resultCV res = Some (response_json True (uint_json n))" "redeem_shares pressed = Some m"
  shows "redeem_done (Some res) pressed r =
    Inr (Some \<lparr> cr_asset = rp_asset pressed, cr_shares = m, cr_received = int n \<rparr>, r\<lparr> rp_sharesText := [] \<rparr>)"
  using result_amount_answer [OF assms(1)] assms(2) by (simp add: redeem_done_def)

text \<open>
  With the answers of the chain, a preview on the deposit page is what the contract would mint for the
  form shown: the hypothesis the property of the page rests on.
\<close>

lemma deposit_preview_is_contracts:
  assumes h: "preview_reachable (\<lambda>t a. \<exists>w w'. ask_deposit_preview sv t w = (a, w')) h" "ph_target h = deposit_target (Some viewer) (int vid) ov d"
    and n: "ph_preview h = PreviewOk n" and m: "deposit_amount d = Some m"
    and chain: "\<And>w. fst (previewDeposit sv (int vid) (dp_asset d) m viewer w) = preview_value r"
  shows "PreviewOk n = preview_shown (preview_value r)"
proof -
  from preview_ok_current [OF h(1) n] obtain w w' where
    "ask_deposit_preview sv (ph_target h) w = (Inr (Inr n), w')" by blast
  then have "fst (previewDeposit sv (int vid) (dp_asset d) m viewer w) = Inr (Inr n)"
    by (simp add: ask_deposit_preview_def h(2) deposit_target_def m)
  with chain [of w] show ?thesis by (metis preview_shown.simps(1))
qed

end
