(* ===== verification/Web_Docs.thy ===== *)
theory Web_Docs
  imports Strategy_Analysis Web_Chat "HOL-Library.Multiset"
begin

text \<open>
  The documentation pages: the registry, the structure of a document and the search index
  (apps/web/src/lib/docs.ts), the links and heading anchors of a rendered page
  (components/docs/Markdown.tsx) and the search dialog (components/docs/SearchDialog.tsx).
\<close>

section \<open>The registry\<close>

record doc_meta =
  dm_slug :: string
  dm_title :: string
  dm_group :: string
  dm_summary :: string
  dm_file :: string

definition DOC_GROUPS :: "string list" where
  "DOC_GROUPS = [''Start here'', ''Protocol'', ''AI and strategies'', ''Operate'', ''Roadmap'']"

definition DOCS :: "doc_meta list" where
  "DOCS =
    [\<lparr> dm_slug = ''user-guide'', dm_title = ''User Guide'', dm_group = ''Start here'',
       dm_summary = ''Connect, create a treasury, deposit, get AI recommendations, redeem. The full UI flow, step by step.'',
       dm_file = ''user-guide.md'' \<rparr>,
     \<lparr> dm_slug = ''vault-architecture'', dm_title = ''Vault Architecture'', dm_group = ''Protocol'',
       dm_summary = ''Multi-vault model, receipt shares, share pricing, the testnet execution gate, and the security review.'',
       dm_file = ''vault-architecture.md'' \<rparr>,
     \<lparr> dm_slug = ''architecture'', dm_title = ''Architecture'', dm_group = ''Protocol'',
       dm_summary = ''Layers, the contract dependency graph, and why the vault can never call an arbitrary contract.'',
       dm_file = ''architecture.md'' \<rparr>,
     \<lparr> dm_slug = ''contracts'', dm_title = ''Smart Contracts'', dm_group = ''Protocol'',
       dm_summary = ''Every contract, its public interface, error-code ranges and key invariants.'',
       dm_file = ''contracts.md'' \<rparr>,
     \<lparr> dm_slug = ''security-model'', dm_title = ''Security Model'', dm_group = ''Protocol'',
       dm_summary = ''Threat model, and what the admin, the AI executor and vault owners can never do.'',
       dm_file = ''security-model.md'' \<rparr>,
     \<lparr> dm_slug = ''ai-agent'', dm_title = ''AI Agent'', dm_group = ''AI and strategies'',
       dm_summary = ''How recommendations and intents are produced from real data, and how they are validated.'',
       dm_file = ''ai-agent.md'' \<rparr>,
     \<lparr> dm_slug = ''strategies'', dm_title = ''Strategies'', dm_group = ''AI and strategies'',
       dm_summary = ''What a strategy is, why none is registered on Testnet, and how a real one is added.'',
       dm_file = ''strategies.md'' \<rparr>,
     \<lparr> dm_slug = ''testnet'', dm_title = ''Testnet'', dm_group = ''Operate'',
       dm_summary = ''Real testnet assets, the verified sBTC contract, faucets and tooling.'',
       dm_file = ''testnet.md'' \<rparr>,
     \<lparr> dm_slug = ''deployment'', dm_title = ''Deployment'', dm_group = ''Operate'',
       dm_summary = ''Live contract addresses, real transaction ids, the acceptance run, and how to redeploy.'',
       dm_file = ''deployment.md'' \<rparr>,
     \<lparr> dm_slug = ''future-roadmap'', dm_title = ''Future Roadmap'', dm_group = ''Roadmap'',
       dm_summary = ''Out-of-scope modules and the extension points prepared for them.'',
       dm_file = ''future-roadmap.md'' \<rparr>]"

definition getDocMeta :: "string \<Rightarrow> doc_meta option" where
  "getDocMeta slug = find (\<lambda>d. dm_slug d = slug) DOCS"

text \<open>\<open>findIndex\<close>, -1 without a match.\<close>

fun doc_index :: "(doc_meta \<Rightarrow> bool) \<Rightarrow> doc_meta list \<Rightarrow> int" where
  "doc_index p [] = - 1"
| "doc_index p (d # ds) = (if p d then 0 else let i = doc_index p ds in if i = - 1 then - 1 else i + 1)"

definition docNeighbours :: "string \<Rightarrow> doc_meta option \<times> doc_meta option" where
  "docNeighbours slug =
     (let i = doc_index (\<lambda>d. dm_slug d = slug) DOCS in
      (if 0 < i then Some (DOCS ! nat (i - 1)) else None,
       if 0 \<le> i \<and> i < int (length DOCS) - 1 then Some (DOCS ! nat (i + 1)) else None))"

definition docGroups :: "(string \<times> doc_meta list) list" where
  "docGroups =
     filter (\<lambda>g. snd g \<noteq> []) (map (\<lambda>group. (group, filter (\<lambda>d. dm_group d = group) DOCS)) DOC_GROUPS)"

text \<open>\<open>readDocSource\<close>: the file system is a parameter, the cache is kept across the calls of the server.\<close>

type_synonym doc_cache = "string \<rightharpoonup> string"

definition missing_doc :: "doc_meta \<Rightarrow> string" where
  "missing_doc meta =
     ''# '' @ dm_title meta @ [CHR 0x0A, CHR 0x0A] @ ''This documentation file could not be found (`docs/'' @ dm_file meta @ ''`).''"

definition readDocSource :: "bool \<Rightarrow> (string \<Rightarrow> string option) \<Rightarrow> doc_meta \<Rightarrow> doc_cache \<Rightarrow> string \<times> doc_cache" where
  "readDocSource production readFile meta cache =
     (case cache (dm_file meta) of
        Some hit \<Rightarrow>
          if production then (hit, cache)
          else let t = (case readFile (dm_file meta) of Some t \<Rightarrow> t | None \<Rightarrow> missing_doc meta) in (t, cache(dm_file meta \<mapsto> t))
      | None \<Rightarrow>
          let t = (case readFile (dm_file meta) of Some t \<Rightarrow> t | None \<Rightarrow> missing_doc meta) in (t, cache(dm_file meta \<mapsto> t)))"

section \<open>Plain text and slugs\<close>

definition image_rx :: rx where
  "image_rx =
     RSeq (RChar (\<lambda>c. c = CHR ''!'')) (RSeq (RChar (\<lambda>c. c = CHR ''['')) (RSeq (RStar (RChar (\<lambda>c. c \<noteq> CHR '']'')))
      (RSeq (RChar (\<lambda>c. c = CHR '']'')) (RSeq (RChar (\<lambda>c. c = CHR ''('')) (RSeq (RStar (RChar (\<lambda>c. c \<noteq> CHR '')'')))
       (RChar (\<lambda>c. c = CHR '')'')))))))"

definition link_rx :: rx where
  "link_rx =
     RSeq (RChar (\<lambda>c. c = CHR ''['')) (RSeq (rx_plus (RChar (\<lambda>c. c \<noteq> CHR '']'')))
      (RSeq (RChar (\<lambda>c. c = CHR '']'')) (RSeq (RChar (\<lambda>c. c = CHR ''('')) (RSeq (RStar (RChar (\<lambda>c. c \<noteq> CHR '')'')))
       (RChar (\<lambda>c. c = CHR '')''))))))"

definition tag_rx :: rx where
  "tag_rx = RSeq (RChar (\<lambda>c. c = CHR ''<'')) (RSeq (rx_plus (RChar (\<lambda>c. c \<noteq> CHR ''>''))) (RChar (\<lambda>c. c = CHR ''>'')))"

definition is_markup :: "char \<Rightarrow> bool" where
  "is_markup c \<longleftrightarrow> c \<in> set ''`*_~''"

text \<open>The first group of a link is what stands before the first closing bracket.\<close>

definition plainText :: "string \<Rightarrow> string" where
  "plainText md =
     trim (replace_runs is_space '' '' False
       (rx_replace_all tag_rx (\<lambda>_. [])
         (filter (\<lambda>c. \<not> is_markup c)
           (rx_replace_all link_rx (\<lambda>m. takeWhile (\<lambda>c. c \<noteq> CHR '']'') (tl m))
             (rx_replace_all image_rx (\<lambda>_. []) md)))))"

definition is_slug_char :: "char \<Rightarrow> bool" where
  "is_slug_char c \<longleftrightarrow> is_digit c \<or> (let n = of_char c :: nat in 97 \<le> n \<and> n \<le> 122)"

definition slugify :: "string \<Rightarrow> string" where
  "slugify text =
     (let s = replace_runs (\<lambda>c. c = CHR ''-'') ''-'' False
                (replace_runs is_space ''-'' False
                  (trim (filter (\<lambda>c. is_slug_char c \<or> is_space c \<or> c = CHR ''-'') (map lower_latin (plainText text))))) in
      if s = [] then ''section'' else s)"

section \<open>The structure of a document\<close>

record doc_heading =
  hd_level :: nat
  hd_text :: string
  hd_id :: string

definition is_fence :: "string \<Rightarrow> bool" where
  "is_fence line \<longleftrightarrow> starts_with (dropWhile is_space line) ''```''"

text \<open>A dot matches no line terminator; \<open>(.+?)\s*$\<close> takes the shortest text that leaves only white space.\<close>

definition is_dot :: "char \<Rightarrow> bool" where
  "is_dot c \<longleftrightarrow> c \<noteq> CHR 0x0A \<and> c \<noteq> CHR 0x0D"

definition lazy_text :: "string \<Rightarrow> string option" where
  "lazy_text s =
     map_option (\<lambda>n. take n s)
       (find (\<lambda>n. list_all is_dot (take n s) \<and> list_all is_space (drop n s)) [1..<Suc (length s)])"

text \<open>\<open>\s+(.+?)\s*$\<close>: the greedy white space gives back a character at a time.\<close>

definition spaced_text :: "string \<Rightarrow> string option" where
  "spaced_text s =
     (case List.map_filter (\<lambda>k. lazy_text (drop k s)) (rev [1..<Suc (length (takeWhile is_space s))]) of
        t # _ \<Rightarrow> Some t
      | [] \<Rightarrow> None)"

definition h1_text :: "string \<Rightarrow> string option" where
  "h1_text line = (if starts_with line ''#'' then spaced_text (drop 1 line) else None)"

text \<open>\<open>#{2,3}\<close> takes three if it can and gives one back if what follows fails.\<close>

definition hashes :: "string \<Rightarrow> nat list" where
  "hashes line = filter (\<lambda>n. starts_with line (replicate n (CHR ''#''))) [3, 2]"

definition heading_text :: "string \<Rightarrow> (nat \<times> string) option" where
  "heading_text line =
     (case List.map_filter (\<lambda>n. map_option (Pair n) (spaced_text (drop n line))) (hashes line) of
        t # _ \<Rightarrow> Some t
      | [] \<Rightarrow> None)"

record doc_scan =
  ds_fence :: bool
  ds_title :: "string option"
  ds_body :: "string list"
  ds_headings :: "doc_heading list"
  ds_used :: "string \<rightharpoonup> nat"

definition numbered :: "string \<Rightarrow> nat \<Rightarrow> string" where
  "numbered slug n = (if 0 < n then slug @ ''-'' @ nat_text n else slug)"

definition scan_line :: "doc_scan \<Rightarrow> string \<Rightarrow> doc_scan" where
  "scan_line st line =
     (let fence = (if is_fence line then \<not> ds_fence st else ds_fence st);
          st = st\<lparr> ds_fence := fence \<rparr>;
          push = (\<lambda>st. st\<lparr> ds_body := ds_body st @ [line] \<rparr>) in
      if fence then push st
      else case (h1_text line, ds_title st) of
        (Some t, None) \<Rightarrow> st\<lparr> ds_title := Some (plainText t) \<rparr>
      | _ \<Rightarrow>
        (case heading_text line of
           Some (level, raw) \<Rightarrow>
             let text = plainText raw; slug = slugify text; n = (case ds_used st slug of Some n \<Rightarrow> n | None \<Rightarrow> 0) in
             push (st\<lparr> ds_used := (ds_used st)(slug \<mapsto> n + 1),
                       ds_headings := ds_headings st @ [\<lparr> hd_level = level, hd_text = text, hd_id = numbered slug n \<rparr>] \<rparr>)
         | None \<Rightarrow> push st))"

definition scan_start :: doc_scan where
  "scan_start = \<lparr> ds_fence = False, ds_title = None, ds_body = [], ds_headings = [], ds_used = Map.empty \<rparr>"

record parsed_doc =
  pd_title :: "string option"
  pd_body :: string
  pd_headings :: "doc_heading list"

definition parseDoc :: "string \<Rightarrow> parsed_doc" where
  "parseDoc source =
     (let st = foldl scan_line scan_start (split_lines source) in
      \<lparr> pd_title = ds_title st, pd_body = join [CHR 0x0A] (ds_body st), pd_headings = ds_headings st \<rparr>)"

text \<open>\<open>Math.round\<close> rounds a half up; plain text has single spaces only.\<close>

definition readingMinutes :: "string \<Rightarrow> nat" where
  "readingMinutes md = max 1 ((length (split_on (CHR '' '') (plainText md)) + 100) div 200)"

section \<open>The search index\<close>

record search_entry =
  se_slug :: string
  se_docTitle :: string
  se_group :: string
  se_heading :: "string option"
  se_anchor :: "string option"
  se_text :: string

record section_scan =
  ss_fence :: bool
  ss_hi :: int
  ss_buf :: "string list"
  ss_entries :: "search_entry list"

text \<open>A heading line for the index: only the white space after the marks is required.\<close>

definition index_heading :: "string \<Rightarrow> bool" where
  "index_heading line \<longleftrightarrow> (\<exists>n \<in> set (hashes line). case drop n line of c # _ \<Rightarrow> is_space c | [] \<Rightarrow> False)"

text \<open>\<open>headings[hi].text\<close> throws when the line was no heading to \<open>parseDoc\<close>.\<close>

definition flush_section :: "doc_meta \<Rightarrow> doc_heading list \<Rightarrow> section_scan \<Rightarrow> section_scan result" where
  "flush_section meta headings st =
     (if 0 \<le> ss_hi st then
        (if nat (ss_hi st) < length headings then
           let h = headings ! nat (ss_hi st) in
           Inr (st\<lparr> ss_buf := [], ss_entries := ss_entries st @
             [\<lparr> se_slug = dm_slug meta, se_docTitle = dm_title meta, se_group = dm_group meta,
                se_heading = Some (hd_text h), se_anchor = Some (hd_id h),
                se_text = take 600 (plainText (join '' '' (ss_buf st))) \<rparr>] \<rparr>)
         else Inl (TypeError ''Cannot read properties of undefined (reading 'text')''))
      else Inr (st\<lparr> ss_buf := [] \<rparr>))"

fun index_lines :: "doc_meta \<Rightarrow> doc_heading list \<Rightarrow> string list \<Rightarrow> section_scan \<Rightarrow> section_scan result" where
  "index_lines meta headings [] st = flush_section meta headings st"
| "index_lines meta headings (line # lines) st =
     (let fence = (if is_fence line then \<not> ss_fence st else ss_fence st); st = st\<lparr> ss_fence := fence \<rparr> in
      if \<not> fence \<and> index_heading line then
        js_try (flush_section meta headings st) (\<lambda>st. index_lines meta headings lines (st\<lparr> ss_hi := ss_hi st + 1 \<rparr>))
      else index_lines meta headings lines (st\<lparr> ss_buf := ss_buf st @ [line] \<rparr>))"

definition doc_entry :: "doc_meta \<Rightarrow> search_entry" where
  "doc_entry meta =
     \<lparr> se_slug = dm_slug meta, se_docTitle = dm_title meta, se_group = dm_group meta, se_heading = None,
       se_anchor = None, se_text = dm_summary meta \<rparr>"

definition index_document :: "doc_meta \<Rightarrow> string \<Rightarrow> search_entry list result" where
  "index_document meta source =
     (let d = parseDoc source in
      js_try (index_lines meta (pd_headings d) (split_lines (pd_body d))
               \<lparr> ss_fence = False, ss_hi = - 1, ss_buf = [], ss_entries = [doc_entry meta] \<rparr>) (\<lambda>st.
      Inr (ss_entries st)))"

fun index_documents :: "bool \<Rightarrow> (string \<Rightarrow> string option) \<Rightarrow> doc_meta list \<Rightarrow> doc_cache \<Rightarrow> search_entry list result \<times> doc_cache" where
  "index_documents production readFile [] cache = (Inr [], cache)"
| "index_documents production readFile (meta # metas) cache =
     (let (source, cache) = readDocSource production readFile meta cache in
      case index_document meta source of
        Inl e \<Rightarrow> (Inl e, cache)
      | Inr es \<Rightarrow>
          (case index_documents production readFile metas cache of
             (Inl e, cache) \<Rightarrow> (Inl e, cache)
           | (Inr rest, cache) \<Rightarrow> (Inr (es @ rest), cache)))"

definition buildSearchIndex :: "bool \<Rightarrow> (string \<Rightarrow> string option) \<Rightarrow> doc_cache \<Rightarrow> search_entry list result \<times> doc_cache" where
  "buildSearchIndex production readFile = index_documents production readFile DOCS"

section \<open>The rendered page\<close>

text \<open>
  \<open>nextId\<close>: a cursor into the headings finds the next one of the level, or the fallback of the rendered
  text if there is none. The renderer calls it once per heading of the page, in order.
\<close>

definition next_id :: "doc_heading list \<Rightarrow> nat \<Rightarrow> string \<Rightarrow> string \<times> doc_heading list" where
  "next_id hs level fallback =
     (case dropWhile (\<lambda>h. hd_level h \<noteq> level) hs of
        h # rest \<Rightarrow> (hd_id h, rest)
      | [] \<Rightarrow> (fallback, hs))"

definition fallback_id :: "string \<Rightarrow> string" where
  "fallback_id t = replace_runs (\<lambda>c. \<not> is_slug_char c) ''-'' False (map lower_latin t)"

fun rendered_ids :: "doc_heading list \<Rightarrow> (nat \<times> string) list \<Rightarrow> string list" where
  "rendered_ids hs [] = []"
| "rendered_ids hs ((level, t) # rest) =
     (case next_id hs level (fallback_id t) of (i, hs') \<Rightarrow> i # rendered_ids hs' rest)"

text \<open>\<open>resolveHref\<close>: the target and whether it is external.\<close>

definition is_href_char :: "char \<Rightarrow> bool" where
  "is_href_char c \<longleftrightarrow> is_slug_char c \<or> c = CHR ''-''"

definition href_prefix :: "string \<Rightarrow> string" where
  "href_prefix href =
     (if starts_with href ''./'' then drop 2 href
      else if starts_with href ''docs/'' then drop 5 href
      else if starts_with href ''../docs/'' then drop 8 href
      else href)"

definition doc_link :: "string \<Rightarrow> (string \<times> string) option" where
  "doc_link href =
     (let r = href_prefix href; name = takeWhile is_href_char r; rest = dropWhile is_href_char r; frag = drop 3 rest in
      if name \<noteq> [] \<and> starts_with rest ''.md'' \<and> (frag = [] \<or> hd frag = CHR ''#'' \<and> list_all is_dot frag)
      then Some (name, frag) else None)"

definition resolveHref :: "string option \<Rightarrow> string \<times> bool" where
  "resolveHref href =
     (case href of
        None \<Rightarrow> (''#'', False)
      | Some h \<Rightarrow>
          if h = [] then (''#'', False)
          else if starts_with h ''http://'' \<or> starts_with h ''https://'' then (h, True)
          else case doc_link h of
            Some (slug, frag) \<Rightarrow> if slug \<in> dm_slug ` set DOCS then (''/docs/'' @ slug @ frag, False) else (h, False)
          | None \<Rightarrow> (h, False))"

section \<open>The search dialog\<close>

fun words_of :: "string \<Rightarrow> string \<Rightarrow> string list" where
  "words_of w [] = (if w = [] then [] else [w])"
| "words_of w (c # cs) = (if is_space c then (if w = [] then [] else [w]) @ words_of [] cs else words_of (w @ [c]) cs)"

definition search_terms :: "string \<Rightarrow> string list" where
  "search_terms query = words_of [] (map lower_latin query)"

definition term_score :: "search_entry \<Rightarrow> string \<Rightarrow> nat" where
  "term_score e t =
     (if str_includes (map lower_latin (case se_heading e of Some h \<Rightarrow> h | None \<Rightarrow> [])) t then 8 else 0) +
     (if str_includes (map lower_latin (se_docTitle e)) t then 4 else 0) +
     (if str_includes (map lower_latin (se_text e)) t then 1 else 0)"

fun score_from :: "nat \<Rightarrow> search_entry \<Rightarrow> string list \<Rightarrow> nat" where
  "score_from acc e [] = acc"
| "score_from acc e (t # ts) = (let s = term_score e t in if s = 0 then 0 else score_from (acc + s) e ts)"

definition search_results :: "search_entry list \<Rightarrow> string list \<Rightarrow> search_entry list" where
  "search_results index terms =
     (if terms = [] then take 8 (filter (\<lambda>e. se_heading e = None) index)
      else map fst (take 12 (sort_key (\<lambda>r. - int (snd r))
             (filter (\<lambda>r. 0 < snd r) (map (\<lambda>e. (e, score_from 0 e terms)) index)))))"

fun index_in :: "string \<Rightarrow> string \<Rightarrow> nat option" where
  "index_in [] t = (if t = [] then Some 0 else None)"
| "index_in (c # cs) t = (if starts_with (c # cs) t then Some 0 else map_option Suc (index_in cs t))"

definition snippet :: "string \<Rightarrow> string list \<Rightarrow> string" where
  "snippet text terms =
     (let lower = map lower_latin text;
          found = List.map_filter (index_in lower) terms;
          place = (case sort found of n # _ \<Rightarrow> n | [] \<Rightarrow> 0);
          start = place - 40 in
      (if 0 < start then ''...'' else []) @ take 140 (drop start text) @ (if start + 140 < length text then ''...'' else []))"

definition entry_href :: "search_entry \<Rightarrow> string" where
  "entry_href e =
     ''/docs/'' @ se_slug e @ (if truthy_text (se_anchor e) then ''#'' @ the (se_anchor e) else [])"

text \<open>The dialog: the keys move a cursor over the results; a new query or opening it resets the cursor.\<close>

record search_dialog =
  sd_query :: string
  sd_cursor :: int

datatype search_event = DialogOpened | QueryTyped string | KeyDown | KeyUp | Hovered nat

definition dialog_results :: "search_entry list \<Rightarrow> search_dialog \<Rightarrow> search_entry list" where
  "dialog_results index d = search_results index (search_terms (sd_query d))"

fun search_step :: "search_entry list \<Rightarrow> search_event \<Rightarrow> search_dialog \<Rightarrow> search_dialog" where
  "search_step index DialogOpened d = \<lparr> sd_query = [], sd_cursor = 0 \<rparr>"
| "search_step index (QueryTyped q) d = (if q = sd_query d then d else \<lparr> sd_query = q, sd_cursor = 0 \<rparr>)"
| "search_step index KeyDown d = d\<lparr> sd_cursor := min (sd_cursor d + 1) (int (length (dialog_results index d)) - 1) \<rparr>"
| "search_step index KeyUp d = d\<lparr> sd_cursor := max (sd_cursor d - 1) 0 \<rparr>"
| "search_step index (Hovered i) d = (if i < length (dialog_results index d) then d\<lparr> sd_cursor := int i \<rparr> else d)"

definition search_enter :: "search_entry list \<Rightarrow> search_dialog \<Rightarrow> string option" where
  "search_enter index d =
     (let rs = dialog_results index d in
      if 0 \<le> sd_cursor d \<and> sd_cursor d < int (length rs) then Some (entry_href (rs ! nat (sd_cursor d))) else None)"

inductive search_reachable :: "search_entry list \<Rightarrow> search_dialog \<Rightarrow> bool" for index where
  start: "search_reachable index \<lparr> sd_query = [], sd_cursor = 0 \<rparr>"
| step: "search_reachable index d \<Longrightarrow> search_reachable index (search_step index e d)"

section \<open>What the registry keeps\<close>

lemma docGroups_cover: "mset (concat (map snd docGroups)) = mset DOCS"
  by (simp add: docGroups_def DOCS_def DOC_GROUPS_def)

lemma doc_slugs_distinct: "distinct (map dm_slug DOCS)"
  by (simp add: DOCS_def)

lemma doc_index_nth:
  "distinct (map dm_slug ds) \<Longrightarrow> i < length ds \<Longrightarrow> doc_index (\<lambda>d. dm_slug d = dm_slug (ds ! i)) ds = int i"
proof (induction ds arbitrary: i)
  case (Cons d ds)
  show ?case
  proof (cases i)
    case (Suc k)
    with Cons have "doc_index (\<lambda>d. dm_slug d = dm_slug (ds ! k)) ds = int k" "dm_slug d \<noteq> dm_slug (ds ! k)" by auto
    then show ?thesis by (simp add: Suc Let_def)
  qed simp
qed simp

lemma docNeighbours_nth:
  assumes "i < length DOCS"
  shows "docNeighbours (dm_slug (DOCS ! i)) =
    (if 0 < i then Some (DOCS ! (i - 1)) else None, if i + 1 < length DOCS then Some (DOCS ! (i + 1)) else None)"
  unfolding docNeighbours_def doc_index_nth [OF doc_slugs_distinct assms] Let_def using assms
  by (auto simp: nat_add_distrib nat_diff_distrib)

text \<open>The next page's previous page is this one.\<close>

lemma docNeighbours_inverse:
  assumes "d \<in> set DOCS" "e \<in> set DOCS"
  shows "snd (docNeighbours (dm_slug d)) = Some e \<longleftrightarrow> fst (docNeighbours (dm_slug e)) = Some d"
proof -
  from assms obtain i j where ij: "d = DOCS ! i" "i < length DOCS" "e = DOCS ! j" "j < length DOCS"
    by (auto simp: in_set_conv_nth)
  have d: "distinct DOCS" using doc_slugs_distinct by (rule distinct_map [THEN iffD1, THEN conjunct1])
  have "snd (docNeighbours (dm_slug d)) = Some e \<longleftrightarrow> j = i + 1"
    unfolding ij(1) docNeighbours_nth [OF ij(2)] using ij nth_eq_iff_index_eq [OF d, of "i + 1" j] by auto
  moreover have "fst (docNeighbours (dm_slug e)) = Some d \<longleftrightarrow> j = i + 1"
    unfolding ij(3) docNeighbours_nth [OF ij(4)] using ij nth_eq_iff_index_eq [OF d, of "j - 1" i] by auto
  ultimately show ?thesis by simp
qed

text \<open>Every registered document is reached by the relative links the documents use.\<close>

lemma relative_links_resolve:
  "\<forall>d \<in> set DOCS. \<forall>pre \<in> set [[], ''./'', ''docs/'', ''../docs/''].
     resolveHref (Some (pre @ dm_file d)) = (''/docs/'' @ dm_slug d, False)"
  by code_simp

section \<open>Text\<close>

lemma scan_replace_set:
  assumes "\<And>m. set (f m) \<subseteq> set m"
  shows "set (scan_replace n r f s) \<subseteq> set (snd s)"
proof (induction n arbitrary: s)
  case (Suc n)
  have rest: "set (case snd s of [] \<Rightarrow> [] | c # cs \<Rightarrow> c # scan_replace n r f (Some c, cs)) \<subseteq> set (snd s)"
  proof (cases "snd s")
    case (Cons c cs)
    with Suc.IH [of "(Some c, cs)"] show ?thesis by auto
  qed simp
  show ?case
  proof (cases "rx_ends r s")
    case Nil
    with rest show ?thesis by simp
  next
    case (Cons t ts)
    then have "reaches s t" using rx_ends_reach [of t r s] by simp
    then obtain u where u: "snd s = u @ snd t" by (auto simp: reaches_def)
    have "f [] = []" using assms [of "[]"] by simp
    moreover have "set (f u) \<subseteq> set (snd s)" "set (scan_replace n r f t) \<subseteq> set (snd s)"
      using assms [of u] Suc.IH [of t] u by auto
    ultimately show ?thesis using Cons rest u
      by (cases "length (snd t) < length (snd s)") (simp_all only: scan_replace.simps list.case if_True if_False append_Nil, simp_all)
  qed
qed simp

lemma rx_replace_all_set: "(\<And>m. set (f m) \<subseteq> set m) \<Longrightarrow> set (rx_replace_all r f t) \<subseteq> set t"
  unfolding rx_replace_all_def using scan_replace_set [of f "Suc (length t)" r "(None, t)"] by simp

lemma replace_runs_set: "set (replace_runs p sep b s) \<subseteq> set sep \<union> {c \<in> set s. \<not> p c}"
  by (induction s arbitrary: b) auto

lemma trim_set: "set (trim s) \<subseteq> set s"
  by (auto simp: trim_def dest!: set_dropWhileD)

text \<open>Plain text has none of the marks left.\<close>

lemma plainText_clean: "c \<in> set (plainText md) \<Longrightarrow> \<not> is_markup c"
proof -
  let ?f = "filter (\<lambda>c. \<not> is_markup c) (rx_replace_all link_rx (\<lambda>m. takeWhile (\<lambda>c. c \<noteq> CHR '']'') (tl m)) (rx_replace_all image_rx (\<lambda>_. []) md))"
  assume "c \<in> set (plainText md)"
  then have "c \<in> set (replace_runs is_space '' '' False (rx_replace_all tag_rx (\<lambda>_. []) ?f))"
    using trim_set unfolding plainText_def by blast
  then have "c = CHR '' '' \<or> c \<in> set (rx_replace_all tag_rx (\<lambda>_. []) ?f)"
    using replace_runs_set [of is_space "'' ''" False "rx_replace_all tag_rx (\<lambda>_. []) ?f"] by auto
  then have "c = CHR '' '' \<or> c \<in> set ?f" using rx_replace_all_set [of "\<lambda>_. []" tag_rx ?f] by auto
  then show ?thesis by (auto simp: is_markup_def)
qed

text \<open>A slug is a non-empty fragment of lower-case letters, digits and dashes.\<close>

lemma slugify_chars: "c \<in> set (slugify t) \<Longrightarrow> is_slug_char c \<or> c = CHR ''-''"
proof -
  let ?a = "filter (\<lambda>c. is_slug_char c \<or> is_space c \<or> c = CHR ''-'') (map lower_latin (plainText t))"
  let ?b = "replace_runs is_space ''-'' False (trim ?a)"
  have b: "is_slug_char c \<or> c = CHR ''-''" if "c \<in> set ?b" for c
  proof -
    have "c = CHR ''-'' \<or> c \<in> set (trim ?a) \<and> \<not> is_space c"
      using replace_runs_set [of is_space "''-''" False "trim ?a"] that by auto
    then show ?thesis using trim_set [of ?a] by auto
  qed
  have s: "is_slug_char c \<or> c = CHR ''-''" if "c \<in> set (replace_runs (\<lambda>c. c = CHR ''-'') ''-'' False ?b)" for c
    using replace_runs_set [of "\<lambda>c. c = CHR ''-''" "''-''" False ?b] that b by auto
  have w: "\<forall>c \<in> set ''section''. is_slug_char c" by code_simp
  assume "c \<in> set (slugify t)"
  with s w show ?thesis unfolding slugify_def Let_def by (auto split: if_splits)
qed

lemma slugify_ne [simp]: "slugify t \<noteq> []"
  by (simp add: slugify_def Let_def)

section \<open>The headings of a document\<close>

lemma map_filter_Some_mem: "x # xs = List.map_filter f ys \<Longrightarrow> \<exists>y \<in> set ys. f y = Some x"
  by (induction ys) (auto simp: List.map_filter_def split: if_splits)

lemma spaced_text_space: "spaced_text s = Some t \<Longrightarrow> \<exists>c cs. s = c # cs \<and> is_space c"
proof -
  assume "spaced_text s = Some t"
  then have "takeWhile is_space s \<noteq> []" by (auto simp: spaced_text_def List.map_filter_def)
  then show ?thesis by (cases s) (auto split: if_splits)
qed

lemma heading_is_indexed: "heading_text l = Some h \<Longrightarrow> index_heading l"
proof -
  assume "heading_text l = Some h"
  then obtain xs where "h # xs = List.map_filter (\<lambda>n. map_option (Pair n) (spaced_text (drop n l))) (hashes l)"
    by (auto simp: heading_text_def split: list.splits)
  from map_filter_Some_mem [OF this] obtain n t where "n \<in> set (hashes l)" "spaced_text (drop n l) = Some t" by auto
  with spaced_text_space [OF this(2)] show ?thesis unfolding index_heading_def by (intro bexI [of _ n]) (auto)
qed

lemma hashes_start: "n \<in> set (hashes l) \<Longrightarrow> \<exists>cs. l = CHR ''#'' # cs"
  by (auto simp: hashes_def starts_with_iff numeral_3_eq_3 numeral_2_eq_2 split: if_splits)

text \<open>The fence that closes a block is no heading.\<close>

lemma fence_no_heading: "is_fence l \<Longrightarrow> h1_text l = None \<and> heading_text l = None \<and> \<not> index_heading l"
proof -
  assume f: "is_fence l"
  have no: "l \<noteq> CHR ''#'' # cs" for cs
  proof
    assume "l = CHR ''#'' # cs"
    moreover have "\<not> is_space (CHR ''#'')" by code_simp
    ultimately show False using f by (simp add: is_fence_def)
  qed
  then have "hashes l = []" using hashes_start [of _ l] by (cases "hashes l") auto
  moreover have "\<not> starts_with l ''#''" using no by (auto simp: starts_with_iff)
  ultimately show ?thesis by (simp add: h1_text_def heading_text_def index_heading_def List.map_filter_def)
qed

text \<open>The steps of the two scans over one line.\<close>

definition fence_after :: "doc_scan \<Rightarrow> string \<Rightarrow> bool" where
  "fence_after st l \<longleftrightarrow> (if is_fence l then \<not> ds_fence st else ds_fence st)"

lemma scan_line_fence:
  "ds_fence (scan_line st l) = fence_after st l"
  by (simp add: scan_line_def fence_after_def Let_def split: option.splits)

text \<open>What a line adds to the body and to the headings.\<close>

definition line_body :: "doc_scan \<Rightarrow> string \<Rightarrow> string list" where
  "line_body st l =
     (if \<not> fence_after st l \<and> h1_text l \<noteq> None \<and> ds_title st = None then [] else [l])"

lemma line_body_cases:
  "line_body st l = [] \<and> \<not> fence_after st l \<and> h1_text l \<noteq> None \<or> line_body st l = [l]"
  by (simp add: line_body_def)

definition line_headings :: "doc_scan \<Rightarrow> string \<Rightarrow> doc_heading list" where
  "line_headings st l =
     (if fence_after st l \<or> line_body st l = [] then []
      else case heading_text l of
        Some (level, raw) \<Rightarrow>
          [\<lparr> hd_level = level, hd_text = plainText raw,
             hd_id = numbered (slugify (plainText raw)) (case ds_used st (slugify (plainText raw)) of Some n \<Rightarrow> n | None \<Rightarrow> 0) \<rparr>]
      | None \<Rightarrow> [])"

lemma scan_line_adds:
  "ds_body (scan_line st l) = ds_body st @ line_body st l" "ds_headings (scan_line st l) = ds_headings st @ line_headings st l"
  by (auto simp: scan_line_def fence_after_def line_body_def line_headings_def Let_def split: option.splits)

fun rest_body :: "doc_scan \<Rightarrow> string list \<Rightarrow> string list" where
  "rest_body st [] = []"
| "rest_body st (l # ls) = line_body st l @ rest_body (scan_line st l) ls"

fun rest_headings :: "doc_scan \<Rightarrow> string list \<Rightarrow> doc_heading list" where
  "rest_headings st [] = []"
| "rest_headings st (l # ls) = line_headings st l @ rest_headings (scan_line st l) ls"

lemma scan_adds:
  "ds_body (foldl scan_line st ls) = ds_body st @ rest_body st ls"
  "ds_headings (foldl scan_line st ls) = ds_headings st @ rest_headings st ls"
  by (induction ls arbitrary: st) (simp_all add: scan_line_adds)

lemma rest_body_lines: "set (rest_body st ls) \<subseteq> set ls"
  by (induction st ls rule: rest_body.induct) (auto simp: line_body_def split: if_splits)

abbreviation entry_key :: "search_entry \<Rightarrow> string option \<times> string option" where
  "entry_key e \<equiv> (se_heading e, se_anchor e)"

abbreviation heading_key :: "doc_heading \<Rightarrow> string option \<times> string option" where
  "heading_key h \<equiv> (Some (hd_text h), Some (hd_id h))"

text \<open>
  The scan of the index and the scan of the document meet the same headings in the same order, as long as
  every line that is a heading to the index is one to the document.
\<close>

lemma flush_section_key:
  assumes "ss_hi st + 1 = int k" "k \<le> length hs"
  shows "\<exists>st'. flush_section meta hs st = Inr st' \<and> ss_fence st' = ss_fence st \<and> ss_hi st' = ss_hi st \<and>
    map entry_key (ss_entries st') = map entry_key (ss_entries st) @ (if k = 0 then [] else [heading_key (hs ! (k - 1))]) \<and>
    se_slug ` set (ss_entries st') \<subseteq> insert (dm_slug meta) (se_slug ` set (ss_entries st))"
proof (cases k)
  case 0
  with assms show ?thesis by (auto simp: flush_section_def)
next
  case (Suc n)
  with assms have "nat (ss_hi st) = n" "0 \<le> ss_hi st" "n < length hs" by auto
  then show ?thesis using Suc by (auto simp: flush_section_def Let_def)
qed

lemma index_line_step:
  assumes "ss_fence ist = ds_fence st"
  shows "fence_after st l \<or> \<not> index_heading l \<Longrightarrow>
      index_lines meta hs (l # ls) ist = index_lines meta hs ls (ist\<lparr> ss_fence := fence_after st l, ss_buf := ss_buf ist @ [l] \<rparr>)"
    and "\<not> fence_after st l \<Longrightarrow> index_heading l \<Longrightarrow>
      index_lines meta hs (l # ls) ist =
        js_try (flush_section meta hs (ist\<lparr> ss_fence := fence_after st l \<rparr>)) (\<lambda>r. index_lines meta hs ls (r\<lparr> ss_hi := ss_hi r + 1 \<rparr>))"
  using assms by (auto simp: fence_after_def Let_def)

lemma index_lines_keys:
  assumes "ss_hi ist + 1 = int (length (ds_headings st))" "ss_fence ist = ds_fence st"
    and "\<forall>l \<in> set ls. index_heading l \<longrightarrow> heading_text l \<noteq> None"
  shows "\<exists>r. index_lines meta (ds_headings st @ rest_headings st ls) (rest_body st ls) ist = Inr r \<and>
    map entry_key (ss_entries r) = map entry_key (ss_entries ist) @
      map heading_key (drop (length (ds_headings st) - 1) (ds_headings st @ rest_headings st ls)) \<and>
    se_slug ` set (ss_entries r) \<subseteq> insert (dm_slug meta) (se_slug ` set (ss_entries ist))"
  using assms
proof (induction ls arbitrary: st ist)
  case Nil
  let ?k = "length (ds_headings st)"
  from flush_section_key [OF Nil(1), of "ds_headings st" meta] obtain r where r:
    "flush_section meta (ds_headings st) ist = Inr r"
    "map entry_key (ss_entries r) = map entry_key (ss_entries ist) @ (if ?k = 0 then [] else [heading_key (ds_headings st ! (?k - 1))])"
    "se_slug ` set (ss_entries r) \<subseteq> insert (dm_slug meta) (se_slug ` set (ss_entries ist))" by auto
  have "drop (?k - 1) (ds_headings st) = (if ?k = 0 then [] else [ds_headings st ! (?k - 1)])"
    by (cases "ds_headings st" rule: rev_cases) auto
  with r show ?case by (intro exI [of _ r]) simp
next
  case (Cons l ls)
  let ?st = "scan_line st l" and ?k = "length (ds_headings st)"
  let ?fence = "fence_after st l"
  let ?H = "ds_headings st @ rest_headings st (l # ls)"
  have H: "?H = ds_headings ?st @ rest_headings ?st ls" by (simp add: scan_line_adds)
  have ls: "\<forall>l \<in> set ls. index_heading l \<longrightarrow> heading_text l \<noteq> None" using Cons.prems(3) by simp
  have fence: "ds_fence ?st = ?fence" by (rule scan_line_fence)
  consider (title) "line_body st l = []" | (plain) "line_body st l = [l]" "?fence \<or> \<not> index_heading l"
    | (heading) "line_body st l = [l]" "\<not> ?fence" "index_heading l"
    using line_body_cases [of st l] by blast
  then show ?case
  proof cases
    case title
    then have h1: "h1_text l \<noteq> None" using line_body_cases [of st l] by auto
    have "\<not> is_fence l"
    proof
      assume "is_fence l"
      from fence_no_heading [OF this] h1 show False by simp
    qed
    then have f: "ss_fence ist = ds_fence ?st" using fence Cons.prems(2) by (simp add: fence_after_def)
    have lh: "line_headings st l = []" using title by (simp add: line_headings_def)
    then have k: "length (ds_headings ?st) = ?k" by (simp add: scan_line_adds)
    from Cons.IH [of ist ?st] f ls Cons.prems(1) show ?thesis unfolding H using title k by simp
  next
    case plain
    have lh: "line_headings st l = []"
    proof (cases "heading_text l")
      case None
      then show ?thesis by (simp add: line_headings_def)
    next
      case (Some h)
      from heading_is_indexed [OF this] plain(2) have ?fence by simp
      then show ?thesis by (simp add: line_headings_def)
    qed
    then have k: "length (ds_headings ?st) = ?k" by (simp add: scan_line_adds)
    let ?ist = "ist\<lparr> ss_fence := ?fence, ss_buf := ss_buf ist @ [l] \<rparr>"
    have step: "index_lines meta ?H (l # rest_body ?st ls) ist = index_lines meta ?H (rest_body ?st ls) ?ist"
      by (rule index_line_step(1) [OF Cons.prems(2) plain(2)])
    from Cons.IH [of ?ist ?st] fence ls Cons.prems(1) k
    show ?thesis unfolding rest_body.simps plain(1) append_Cons append_Nil step unfolding H by simp
  next
    case heading
    from Cons.prems(3) heading(3) obtain level raw where ht: "heading_text l = Some (level, raw)" by auto
    then obtain h where lh: "line_headings st l = [h]" using heading by (auto simp: line_headings_def)
    then have k: "length (ds_headings ?st) = Suc ?k" by (simp add: scan_line_adds)
    let ?ist0 = "ist\<lparr> ss_fence := ?fence \<rparr>"
    have "?k \<le> length ?H" by simp
    from flush_section_key [OF _ this, of ?ist0 meta] Cons.prems(1) obtain r where r:
      "flush_section meta ?H ?ist0 = Inr r" "ss_fence r = ?fence" "ss_hi r = ss_hi ist"
      "map entry_key (ss_entries r) = map entry_key (ss_entries ist) @ (if ?k = 0 then [] else [heading_key (?H ! (?k - 1))])"
      "se_slug ` set (ss_entries r) \<subseteq> insert (dm_slug meta) (se_slug ` set (ss_entries ist))" by auto
    let ?ist = "r\<lparr> ss_hi := ss_hi r + 1 \<rparr>"
    have step: "index_lines meta ?H (l # rest_body ?st ls) ist = index_lines meta ?H (rest_body ?st ls) ?ist"
      unfolding index_line_step(2) [OF Cons.prems(2) heading(2,3)] r(1) by simp
    have "drop (?k - 1) ?H = (if ?k = 0 then [] else [?H ! (?k - 1)]) @ drop ?k ?H"
      by (cases "?k = 0") (simp_all add: Cons_nth_drop_Suc [symmetric] nth_append)
    then have d: "map heading_key (drop (?k - 1) ?H) = (if ?k = 0 then [] else [heading_key (?H ! (?k - 1))]) @ map heading_key (drop ?k ?H)"
      by simp
    from Cons.IH [of ?ist ?st] fence ls Cons.prems(1) k r(2,3) obtain q where q:
      "index_lines meta ?H (rest_body ?st ls) ?ist = Inr q"
      "map entry_key (ss_entries q) = map entry_key (ss_entries r) @ map heading_key (drop ?k ?H)"
      "se_slug ` set (ss_entries q) \<subseteq> insert (dm_slug meta) (se_slug ` set (ss_entries r))" unfolding H by auto
    have "map entry_key (ss_entries q) = map entry_key (ss_entries ist) @ map heading_key (drop (?k - 1) ?H)"
      using q(2) r(4) d by simp
    moreover have "se_slug ` set (ss_entries q) \<subseteq> insert (dm_slug meta) (se_slug ` set (ss_entries ist))"
      using q(3) r(5) by blast
    ultimately show ?thesis using q(1) step heading(1) by (intro exI [of _ q]) simp
  qed
qed

text \<open>Joining the lines of the body and splitting them again gives the same lines.\<close>

lemma split_join:
  "ls \<noteq> [] \<Longrightarrow> \<forall>l \<in> set ls. c \<notin> set l \<Longrightarrow> split_on c (join [c] ls) = ls"
proof (induction ls)
  case (Cons x ls)
  then show ?case by (cases ls) (simp_all add: split_on_none split_on_first)
qed simp

lemma drop_cr_idle: "CHR 0x0D \<notin> set l \<Longrightarrow> drop_cr l = l"
  by (auto simp: drop_cr_def dest: last_in_set)

lemma split_lines_join:
  assumes "ls \<noteq> []" "\<forall>l \<in> set ls. CHR 0x0A \<notin> set l \<and> CHR 0x0D \<notin> set l"
  shows "split_lines (join [CHR 0x0A] ls) = ls"
proof -
  have "split_on (CHR 0x0A) (join [CHR 0x0A] ls) = ls" using assms by (intro split_join) auto
  moreover have "map drop_cr (butlast ls) = butlast ls"
    using assms(2) by (intro map_idI) (auto intro!: drop_cr_idle dest: in_set_butlastD)
  ultimately show ?thesis using assms(1) by (simp add: split_lines_def Let_def)
qed

lemma drop_cr_set: "set (drop_cr l) \<subseteq> set l"
  by (auto simp: drop_cr_def dest: in_set_butlastD)

lemma split_lines_no_newline: "l \<in> set (split_lines s) \<Longrightarrow> CHR 0x0A \<notin> set l"
proof -
  assume "l \<in> set (split_lines s)"
  then consider p where "p \<in> set (split_on (CHR 0x0A) s)" "l = drop_cr p" | "l \<in> set (split_on (CHR 0x0A) s)"
    by (auto simp: split_lines_def Let_def dest: in_set_butlastD)
  then show ?thesis
  proof cases
    case 1
    with split_on_pieces [OF 1(1)] drop_cr_set [of p] show ?thesis by blast
  qed (rule split_on_pieces)
qed

text \<open>
  The index of a document has its summary and one entry per heading, in order and under the heading's own
  anchor, for a document whose lines hold no stray carriage return and no mark without a title.
\<close>

theorem index_has_every_section:
  assumes cr: "\<forall>l \<in> set (split_lines source). CHR 0x0D \<notin> set l"
    and titled: "\<forall>l \<in> set (split_lines source). index_heading l \<longrightarrow> heading_text l \<noteq> None"
  shows "\<exists>es. index_document meta source = Inr es \<and>
    map entry_key es = (None, None) # map heading_key (pd_headings (parseDoc source)) \<and>
    (\<forall>e \<in> set es. se_slug e = dm_slug meta)"
proof -
  let ?ls = "split_lines source" and ?i = "\<lparr> ss_fence = False, ss_hi = - 1, ss_buf = [], ss_entries = [doc_entry meta] \<rparr>"
  let ?b = "rest_body scan_start ?ls" and ?H = "rest_headings scan_start ?ls"
  have start: "ds_body scan_start = []" "ds_headings scan_start = []" "ds_fence scan_start = False"
    by (simp_all add: scan_start_def)
  have p: "pd_body (parseDoc source) = join [CHR 0x0A] ?b" "pd_headings (parseDoc source) = ?H"
    by (simp_all add: parseDoc_def Let_def scan_adds start)
  have "ss_hi ?i + 1 = int (length (ds_headings scan_start))" "ss_fence ?i = ds_fence scan_start" by (simp_all add: start)
  from index_lines_keys [OF this titled, of meta] start obtain r where r:
    "index_lines meta ?H ?b ?i = Inr r" "map entry_key (ss_entries r) = (None, None) # map heading_key ?H"
    "se_slug ` set (ss_entries r) \<subseteq> {dm_slug meta}" by (auto simp: doc_entry_def)
  have lines: "\<exists>r'. index_lines meta ?H (split_lines (join [CHR 0x0A] ?b)) ?i = Inr r' \<and> ss_entries r' = ss_entries r"
  proof (cases "?b = []")
    case True
    have "\<not> is_fence []" "\<not> index_heading []" by (code_simp, simp add: index_heading_def hashes_def)
    moreover have "split_lines (join [CHR 0x0A] ?b) = [[]]" unfolding True by (simp add: split_lines_def Let_def)
    ultimately have "index_lines meta ?H (split_lines (join [CHR 0x0A] ?b)) ?i = Inr (?i\<lparr> ss_buf := [] \<rparr>)"
      by (simp add: Let_def flush_section_def)
    moreover have "r = ?i\<lparr> ss_buf := [] \<rparr>" using r(1) by (auto simp: True flush_section_def)
    ultimately show ?thesis by simp
  next
    case False
    have "\<forall>l \<in> set ?b. CHR 0x0A \<notin> set l \<and> CHR 0x0D \<notin> set l"
      using rest_body_lines [of scan_start ?ls] cr split_lines_no_newline by blast
    from split_lines_join [OF False this] r(1) show ?thesis by simp
  qed
  then obtain r' where r': "index_lines meta ?H (split_lines (join [CHR 0x0A] ?b)) ?i = Inr r'" "ss_entries r' = ss_entries r"
    by blast
  have "index_document meta source = Inr (ss_entries r)"
    by (simp add: index_document_def Let_def p r')
  with r(2,3) p(2) show ?thesis by (intro exI [of _ "ss_entries r"]) auto
qed

text \<open>
  A heading mark followed by one space and nothing else is a heading to the index and none to the document:
  the index then reads past the last heading.
\<close>

lemma bare_mark_breaks_index:
  "case index_document (hd DOCS) (''# T'' @ [CHR 0x0A] @ ''## '') of Inl e \<Rightarrow> True | Inr es \<Rightarrow> False"
  by code_simp

text \<open>\<open>used\<close> counts the slugs, not the ids: two headings can still get one anchor.\<close>

lemma anchors_can_collide:
  "map hd_id (pd_headings (parseDoc (''## A'' @ [CHR 0x0A] @ ''## A'' @ [CHR 0x0A] @ ''## A 1''))) = [''a'', ''a-1'', ''a-1'']"
proof -
  have lines: "split_lines (''## A'' @ [CHR 0x0A] @ ''## A'' @ [CHR 0x0A] @ ''## A 1'') = [''## A'', ''## A'', ''## A 1'']"
    by code_simp
  have l: "\<not> is_fence ''## A''" "\<not> is_fence ''## A 1''" "h1_text ''## A'' = None" "h1_text ''## A 1'' = None"
    "heading_text ''## A'' = Some (2, ''A'')" "heading_text ''## A 1'' = Some (2, ''A 1'')"
    "plainText ''A'' = ''A''" "plainText ''A 1'' = ''A 1''" "slugify ''A'' = ''a''" "slugify ''A 1'' = ''a-1''"
    by code_simp+
  have one: "digit_char 1 = CHR ''1''" by code_simp
  have "numbered ''a'' 1 = ''a-1''" "numbered ''a'' 0 = ''a''" "numbered ''a-1'' 0 = ''a-1''"
    using one nat_text.simps [of 1] by (simp_all add: numbered_def)
  then show ?thesis by (simp add: parseDoc_def lines l scan_line_def scan_start_def Let_def del: append.simps)
qed

section \<open>Anchors\<close>

text \<open>Headings rendered in the document's own order get the anchors of the table of contents.\<close>

lemma rendered_ids_match:
  "map fst rendered = map hd_level hs \<Longrightarrow> rendered_ids hs rendered = map hd_id hs"
proof (induction rendered arbitrary: hs)
  case (Cons p ps)
  then obtain h hs' where "hs = h # hs'" "fst p = hd_level h" "map fst ps = map hd_level hs'" by (cases hs) auto
  with Cons.IH [of hs'] show ?case by (cases p) (simp add: next_id_def)
qed simp

section \<open>Search\<close>

lemma score_from_pos: "0 < acc \<or> ts \<noteq> [] \<Longrightarrow> 0 < score_from acc e ts \<longleftrightarrow> (\<forall>t \<in> set ts. 0 < term_score e t)"
proof (induction ts arbitrary: acc)
  case (Cons t ts)
  then show ?case by (cases "term_score e t") (simp_all add: Let_def)
qed simp

text \<open>Every result of a search is an entry of the index that matches every term.\<close>

lemma search_results_match:
  assumes "e \<in> set (search_results index ts)" "ts \<noteq> []"
  shows "e \<in> set index \<and> (\<forall>t \<in> set ts. 0 < term_score e t)"
proof -
  from assms have "e \<in> set index \<and> 0 < score_from 0 e ts"
    by (auto simp: search_results_def dest!: in_set_takeD)
  then show ?thesis using score_from_pos [of 0 ts e] assms(2) by auto
qed

lemma search_results_mem: "e \<in> set (search_results index ts) \<Longrightarrow> e \<in> set index"
  by (cases "ts = []") (auto simp: search_results_def dest!: in_set_takeD)

lemma search_cursor_bounds:
  "search_reachable index d \<Longrightarrow>
   - 1 \<le> sd_cursor d \<and> sd_cursor d \<le> max 0 (int (length (dialog_results index d)) - 1)"
proof (induction rule: search_reachable.induct)
  case (step d e)
  then show ?case by (cases e) (auto simp: dialog_results_def)
qed simp

text \<open>Enter opens the entry under the cursor, whenever there is a result at all and the cursor is on it.\<close>

lemma search_enter_lands:
  "search_enter index d = Some href \<Longrightarrow> \<exists>e \<in> set index. href = entry_href e"
  unfolding search_enter_def Let_def dialog_results_def
  by (auto split: if_splits intro!: bexI [OF _ search_results_mem] nth_mem)

lemma search_enter_works:
  assumes "search_reachable index d" "0 \<le> sd_cursor d" "dialog_results index d \<noteq> []"
  shows "search_enter index d \<noteq> None"
  using search_cursor_bounds [OF assms(1)] assms(2,3) by (auto simp: search_enter_def Let_def max_def split: if_splits)


section \<open>The index of all documents\<close>

text \<open>A text the index can be built from: no stray carriage return, and a title after every heading mark.\<close>

definition indexable :: "string \<Rightarrow> bool" where
  "indexable source \<longleftrightarrow>
     list_all (\<lambda>l. CHR 0x0D \<notin> set l \<and> (index_heading l \<longrightarrow> heading_text l \<noteq> None)) (split_lines source)"

definition doc_text :: "bool \<Rightarrow> (string \<Rightarrow> string option) \<Rightarrow> doc_cache \<Rightarrow> doc_meta \<Rightarrow> string" where
  "doc_text production readFile cache meta = fst (readDocSource production readFile meta cache)"

lemma missing_indexable:
  assumes "d \<in> set DOCS"
  shows "indexable (missing_doc d)"
proof -
  let ?nl = "CHR 0x0A" and ?cr = "CHR 0x0D"
  let ?u = "''This documentation file could not be found (`docs/'' @ dm_file d @ ''`).''"
  have "list_all (\<lambda>d. list_all (\<lambda>c. c \<noteq> ?nl \<and> c \<noteq> ?cr) (dm_title d @ dm_file d)) DOCS" by code_simp
  with assms have c: "?nl \<notin> set (dm_title d)" "?cr \<notin> set (dm_title d)" "?nl \<notin> set (dm_file d)" "?cr \<notin> set (dm_file d)"
    by (auto simp: list_all_iff)
  have u: "?nl \<notin> set ?u" "?cr \<notin> set ?u" "?nl \<notin> set (''# '' @ dm_title d)" "?cr \<notin> set (''# '' @ dm_title d)" using c by simp_all
  have "missing_doc d = (''# '' @ dm_title d) @ ?nl # [] @ ?nl # ?u" by (simp add: missing_doc_def)
  then have "split_on ?nl (missing_doc d) = [''# '' @ dm_title d, [], ?u]"
    using split_on_first [OF u(3), of "[] @ ?nl # ?u"] split_on_first [of ?nl "[]" ?u] split_on_none [OF u(1)] by simp
  then have "split_lines (missing_doc d) = [''# '' @ dm_title d, [], ?u]"
    using drop_cr_idle [OF u(4)] drop_cr_idle [of "[]"] by (simp add: split_lines_def Let_def)
  moreover have "\<not> index_heading (''# '' @ dm_title d)" "\<not> index_heading []" "\<not> index_heading ?u"
    by (simp_all add: index_heading_def hashes_def numeral_3_eq_3 numeral_2_eq_2)
  ultimately show ?thesis using u(2,4) by (simp add: indexable_def)
qed

lemma doc_files_distinct: "distinct (map dm_file DOCS)"
  by (simp add: DOCS_def)

lemma same_doc: "d \<in> set DOCS \<Longrightarrow> e \<in> set DOCS \<Longrightarrow> dm_file d = dm_file e \<Longrightarrow> d = e"
  using doc_files_distinct by (auto simp: distinct_map inj_on_def)

text \<open>Reading a document fills the cache and changes what is read of no document.\<close>

lemma doc_text_kept:
  assumes "d \<in> set DOCS" "e \<in> set DOCS"
  shows "doc_text production readFile (snd (readDocSource production readFile d cache)) e = doc_text production readFile cache e"
proof (cases "dm_file d = dm_file e")
  case True
  from same_doc [OF assms this] show ?thesis by (simp add: doc_text_def readDocSource_def Let_def split: option.split)
qed (simp add: doc_text_def readDocSource_def Let_def split: option.split)

lemma doc_text_indexable:
  assumes "\<And>t. t \<in> ran readFile \<union> ran cache \<Longrightarrow> indexable t" "d \<in> set DOCS"
  shows "indexable (doc_text production readFile cache d)"
  using assms(1) missing_indexable [OF assms(2)] by (auto simp: doc_text_def readDocSource_def Let_def ran_def split: option.split)

lemma read_cache_indexable:
  assumes "\<And>t. t \<in> ran readFile \<union> ran cache \<Longrightarrow> indexable t" "d \<in> set DOCS"
  shows "t \<in> ran readFile \<union> ran (snd (readDocSource production readFile d cache)) \<Longrightarrow> indexable t"
  using assms(1) missing_indexable [OF assms(2)]
  by (auto simp: readDocSource_def Let_def ran_def split: option.splits if_splits)

text \<open>What the entries of a document name.\<close>

definition entries_for :: "doc_meta \<Rightarrow> string \<Rightarrow> search_entry list \<Rightarrow> bool" where
  "entries_for m source es \<longleftrightarrow>
     (\<forall>e \<in> set es. se_slug e = dm_slug m) \<and>
     entry_key ` set es = insert (None, None) (heading_key ` set (pd_headings (parseDoc source)))"

lemma index_document_entries:
  assumes "indexable source"
  shows "\<exists>es. index_document m source = Inr es \<and> entries_for m source es"
proof -
  from assms have "\<forall>l \<in> set (split_lines source). CHR 0x0D \<notin> set l"
    "\<forall>l \<in> set (split_lines source). index_heading l \<longrightarrow> heading_text l \<noteq> None" by (simp_all add: indexable_def list_all_iff)
  from index_has_every_section [OF this, of m] obtain es where es: "index_document m source = Inr es"
    "map entry_key es = (None, None) # map heading_key (pd_headings (parseDoc source))" "\<forall>e \<in> set es. se_slug e = dm_slug m" by (elim exE conjE)
  have "entry_key ` set es = insert (None, None) (heading_key ` set (pd_headings (parseDoc source)))"
    using arg_cong [OF es(2), of set] by simp
  with es show ?thesis by (auto simp: entries_for_def)
qed

lemma index_documents_entries:
  assumes "\<And>t. t \<in> ran readFile \<union> ran cache \<Longrightarrow> indexable t" "set ms \<subseteq> set DOCS"
  shows "\<exists>ess cache'. index_documents production readFile ms cache = (Inr (concat ess), cache') \<and>
    list_all2 (\<lambda>m es. entries_for m (doc_text production readFile cache m) es) ms ess \<and>
    (\<forall>d \<in> set DOCS. doc_text production readFile cache' d = doc_text production readFile cache d)"
  using assms
proof (induction ms arbitrary: cache)
  case Nil
  then show ?case by (intro exI [of _ "[]"]) simp
next
  case (Cons m ms)
  let ?c = "snd (readDocSource production readFile m cache)" and ?t = "doc_text production readFile cache m"
  have m: "m \<in> set DOCS" and ms: "set ms \<subseteq> set DOCS" using Cons.prems(2) by simp_all
  have ok: "\<And>t. t \<in> ran readFile \<union> ran ?c \<Longrightarrow> indexable t" using read_cache_indexable [OF Cons.prems(1) m] .
  have kept: "\<forall>d \<in> set DOCS. doc_text production readFile ?c d = doc_text production readFile cache d"
    using doc_text_kept m by blast
  from Cons.IH [OF ok ms] obtain ess cache' where IH: "index_documents production readFile ms ?c = (Inr (concat ess), cache')"
    "list_all2 (\<lambda>m es. entries_for m (doc_text production readFile ?c m) es) ms ess"
    "\<forall>d \<in> set DOCS. doc_text production readFile cache' d = doc_text production readFile ?c d" by blast
  from index_document_entries [OF doc_text_indexable [OF Cons.prems(1) m]] obtain es where
    es: "index_document m ?t = Inr es" "entries_for m ?t es" by blast
  have "index_documents production readFile (m # ms) cache = (Inr (concat (es # ess)), cache')"
    using IH(1) es(1) by (simp add: doc_text_def case_prod_beta)
  moreover have "list_all2 (\<lambda>m es. entries_for m (doc_text production readFile cache m) es) ms ess"
    using IH(2) kept ms by (auto elim!: list_all2_mono simp: list_all2_conv_all_nth subset_iff)
  ultimately show ?case using es(2) IH(3) kept by (intro exI [of _ "es # ess"] exI [of _ cache']) simp
qed

text \<open>A place the search can open: a documentation page or a heading of it.\<close>

definition doc_places :: "doc_meta \<Rightarrow> string \<Rightarrow> string set" where
  "doc_places m source =
     insert (''/docs/'' @ dm_slug m) ((\<lambda>h. ''/docs/'' @ dm_slug m @ ''#'' @ hd_id h) ` set (pd_headings (parseDoc source)))"

lemma entry_href_place:
  assumes "entries_for m source es" "e \<in> set es"
  shows "entry_href e \<in> doc_places m source"
proof -
  have "entry_key e \<in> insert (None, None) (heading_key ` set (pd_headings (parseDoc source)))"
    using assms unfolding entries_for_def by blast
  then consider "se_anchor e = None" | h where "h \<in> set (pd_headings (parseDoc source))" "se_anchor e = Some (hd_id h)" by auto
  moreover have "se_slug e = dm_slug m" using assms by (simp add: entries_for_def)
  ultimately show ?thesis by cases (auto simp: entry_href_def doc_places_def truthy_text_def)
qed

lemma search_index_sound:
  assumes texts: "\<forall>t \<in> ran readFile \<union> ran cache. indexable t"
  shows "\<exists>index cache'. buildSearchIndex production readFile cache = (Inr index, cache') \<and>
    (\<forall>d href. search_reachable index d \<longrightarrow> search_enter index d = Some href \<longrightarrow>
       (\<exists>m \<in> set DOCS. href \<in> doc_places m (doc_text production readFile cache' m))) \<and>
    (\<forall>m \<in> set DOCS. \<forall>h \<in> set (pd_headings (parseDoc (doc_text production readFile cache' m))).
       \<exists>e \<in> set index. se_slug e = dm_slug m \<and> se_heading e = Some (hd_text h) \<and> se_anchor e = Some (hd_id h))"
proof -
  from index_documents_entries [OF texts [rule_format] subset_refl, where production = production] obtain ess cache' where
    i: "buildSearchIndex production readFile cache = (Inr (concat ess), cache')"
    and es: "list_all2 (\<lambda>m es. entries_for m (doc_text production readFile cache m) es) DOCS ess"
    and t: "\<forall>d \<in> set DOCS. doc_text production readFile cache' d = doc_text production readFile cache d"
    unfolding buildSearchIndex_def by blast
  have sound: "\<exists>m \<in> set DOCS. entry_href e \<in> doc_places m (doc_text production readFile cache' m)" if "e \<in> set (concat ess)" for e
  proof -
    from that obtain xs where xs: "xs \<in> set ess" "e \<in> set xs" by auto
    then obtain k where k: "k < length ess" "ess ! k = xs" by (auto simp: in_set_conv_nth)
    with es have "entries_for (DOCS ! k) (doc_text production readFile cache (DOCS ! k)) xs" "DOCS ! k \<in> set DOCS"
      by (auto simp: list_all2_conv_all_nth)
    with entry_href_place [OF this(1) xs(2)] t show ?thesis by auto
  qed
  have complete: "\<exists>e \<in> set (concat ess). se_slug e = dm_slug m \<and> entry_key e = heading_key h"
    if m: "m \<in> set DOCS" and h: "h \<in> set (pd_headings (parseDoc (doc_text production readFile cache' m)))" for m h
  proof -
    from m obtain k where k: "k < length DOCS" "DOCS ! k = m" by (auto simp: in_set_conv_nth)
    with es have e: "entries_for m (doc_text production readFile cache m) (ess ! k)" "k < length ess"
      by (auto simp: list_all2_conv_all_nth)
    from h t m have "heading_key h \<in> entry_key ` set (ess ! k)" using e(1) by (auto simp: entries_for_def)
    then obtain e' where "e' \<in> set (ess ! k)" "entry_key e' = heading_key h" by (metis (no_types, lifting) imageE)
    with e show ?thesis by (auto simp: entries_for_def intro!: bexI [of _ e'] bexI [of _ "ess ! k"])
  qed
  have "\<exists>m \<in> set DOCS. href \<in> doc_places m (doc_text production readFile cache' m)"
    if "search_enter (concat ess) d = Some href" for d href
    using search_enter_lands [OF that] sound by metis
  with i complete show ?thesis by (intro exI [of _ "concat ess"] exI [of _ cache']) simp
qed

end
