(* ===== verification/Web_Dashboard.thy ===== *)
theory Web_Dashboard
  imports Web_Activity Web_Market Web_Derive Web_Presets
begin

text \<open>
  What the dashboard and the activity page of a vault derive from the chain and the decision log: the feed,
  the claims, the onboarding steps, what needs attention (apps/web/src/app/dashboard/page.tsx), the list of
  treasuries with its filters (components/dashboard/PortfolioSection.tsx), the rows of
  components/dashboard/RecentActivity.tsx and of app/vault/[id]/activity/page.tsx.
\<close>

section \<open>The rows of the feed\<close>

text \<open>The middle dot between the parts of a detail.\<close>

definition dot_join :: "string option list \<Rightarrow> string" where
  "dot_join parts = join [CHR '' '', CHR 0xB7, CHR '' ''] (filter (\<lambda>t. t \<noteq> []) (List.map_filter id parts))"

datatype feed_source = FromChain | FromAi

record feed_item =
  fi_key :: string
  fi_time :: int
  fi_vaultId :: int
  fi_vaultName :: string
  fi_title :: string
  fi_detail :: "string option"
  fi_source :: feed_source
  fi_txId :: "string option"
  fi_status :: "intent_status option"

definition asset_field :: "vault_event \<Rightarrow> asset option" where
  "asset_field e =
     (case map_of (ve_data e) ''asset'' of
        Some (JStr a) \<Rightarrow> if a = ''STX'' \<or> a = ''SBTC'' then Some a else None
      | _ \<Rightarrow> None)"

text \<open>\<open>typeof d.k === "string" ? BigInt(d.k) : null\<close>.\<close>

definition bigint_field :: "vault_event \<Rightarrow> string \<Rightarrow> int option result" where
  "bigint_field e k =
     (case map_of (ve_data e) k of
        Some (JStr t) \<Rightarrow> js_try (to_bigint (JStr t)) (\<lambda>n. Inr (Some n))
      | _ \<Rightarrow> Inr None)"

definition event_time :: "vault_event \<Rightarrow> int result" where
  "event_time e =
     (if truthy (ve_time e) then js_try (as_string (ve_time e)) date_parse else Inr 0)"

text \<open>\<open>asset && amount !== null ? formatAsset(amount, asset) : null\<close>.\<close>

definition asset_text :: "asset option \<Rightarrow> int option \<Rightarrow> string option result" where
  "asset_text asset amount =
     (case (asset, amount) of
        (Some a, Some n) \<Rightarrow> js_try (formatAsset n a) (\<lambda>t. Inr (Some t))
      | _ \<Rightarrow> Inr None)"

definition mode_text :: "vault_event \<Rightarrow> string \<Rightarrow> string \<Rightarrow> string" where
  "mode_text e on off = (if map_of (ve_data e) ''autonomous-enabled'' = Some (JBool True) then on else off)"

definition event_row_key :: "vault_event \<Rightarrow> string" where
  "event_row_key e = ve_txId e @ '':'' @ int_text (ve_eventIndex e)"

definition chainItem :: "vault_event \<Rightarrow> string \<Rightarrow> feed_item result" where
  "chainItem e vaultName =
     js_try (bigint_field e ''amount'') (\<lambda>amount.
     js_try (bigint_field e ''shares'') (\<lambda>shares.
     js_try (event_time e) (\<lambda>time.
     js_try (asset_text (asset_field e) amount) (\<lambda>amount_text.
       let item = (\<lambda>title detail.
             \<lparr> fi_key = event_row_key e, fi_time = time, fi_vaultId = ve_vaultId e, fi_vaultName = vaultName,
               fi_title = title, fi_detail = detail, fi_source = FromChain, fi_txId = Some (ve_txId e), fi_status = None \<rparr>);
           kind = ve_kind e;
           shares_text = (\<lambda>verb. map_option (\<lambda>n. formatShares n @ '' shares '' @ verb) shares) in
       Inr (if kind = ''vault-created'' then item ''Treasury created'' None
         else if kind = ''deposit'' then item ''Deposit'' (Some (dot_join [amount_text, shares_text ''minted'']))
         else if kind = ''redeem'' then
           item ''Redemption'' (Some (dot_join [shares_text ''burned'', map_option (\<lambda>t. t @ '' received'') amount_text]))
         else if kind = ''risk-config-updated'' then item ''Risk settings updated'' None
         else if kind = ''autonomous-mode-updated'' then item ''Autonomous mode updated'' (Some (mode_text e ''Configured'' ''Off''))
         else if kind = ''vault-config-updated'' then item ''Vault settings updated'' None
         else if kind = ''vault-paused'' then item ''Vault paused'' None
         else if kind = ''vault-unpaused'' then item ''Vault unpaused'' None
         else item kind None)))))"

definition aiItem :: "decision_record \<Rightarrow> string \<Rightarrow> feed_item result" where
  "aiItem r vaultName =
     js_try (date_parse (dr_timestamp r)) (\<lambda>time.
       let hold = rec_decision (dr_recommendation r) = HOLD in
       Inr \<lparr> fi_key = ''ai:'' @ dr_id r, fi_time = time, fi_vaultId = dr_vaultId r, fi_vaultName = vaultName,
             fi_title = (if hold then ''AI analysis ('' @ ASSET_LABEL (dr_asset r) @ ''): no action''
                         else ''AI recommendation ('' @ ASSET_LABEL (dr_asset r) @ '')''),
             fi_detail = (if dr_status r = TESTNET_BLOCKED then Some ''Validated - execution disabled on Testnet'' else None),
             fi_source = FromAi, fi_txId = None, fi_status = (if hold then None else Some (dr_status r)) \<rparr>)"

text \<open>\<open>ago(ms)\<close>; the difference of two times in milliseconds is rounded to seconds, a half up.\<close>

definition ago :: "int \<Rightarrow> int \<Rightarrow> string" where
  "ago now ms =
     (if ms = 0 then ''pending''
      else let s = max 0 ((now - ms + 500) div 1000) in
        if s < 60 then ''just now''
        else if s < 3600 then int_text (s div 60) @ ''m ago''
        else if s < 86400 then int_text (s div 3600) @ ''h ago''
        else int_text (s div 86400) @ ''d ago'')"

section \<open>The activity page of a vault\<close>

record activity_row =
  aw_key :: string
  aw_time :: int
  aw_source :: feed_source
  aw_title :: string
  aw_lines :: "string list"
  aw_txId :: "string option"
  aw_status :: "intent_status option"

text \<open>\<open>String(d.k)\<close>.\<close>

definition field_text :: "vault_event \<Rightarrow> string \<Rightarrow> string result" where
  "field_text e k = (case map_of (ve_data e) k of Some v \<Rightarrow> js_text v | None \<Rightarrow> Inr ''undefined'')"

definition party_line :: "string \<Rightarrow> vault_event \<Rightarrow> string \<Rightarrow> string result" where
  "party_line label e k = js_try (field_text e k) (\<lambda>t. Inr (label @ shortAddress t 8))"

definition optional_line :: "string \<Rightarrow> string option \<Rightarrow> string list" where
  "optional_line label t = (case t of Some t \<Rightarrow> [label @ t] | None \<Rightarrow> [])"

definition event_lines :: "vault_event \<Rightarrow> string option \<Rightarrow> int option \<Rightarrow> (string \<times> string list) result" where
  "event_lines e amount_text shares =
     (let kind = ve_kind e; shares_text = map_option formatShares shares in
      if kind = ''vault-created'' then js_try (party_line ''Owner '' e ''owner'') (\<lambda>t. Inr (''Vault created'', [t]))
      else if kind = ''deposit'' then
        js_try (party_line ''By '' e ''depositor'') (\<lambda>t.
        Inr ((case asset_field e of Some a \<Rightarrow> ASSET_LABEL a @ '' deposited'' | None \<Rightarrow> ''Deposit''),
             optional_line ''Deposited '' amount_text @ optional_line ''Receipt tokens minted: '' shares_text @ [t]))
      else if kind = ''redeem'' then
        js_try (party_line ''By '' e ''holder'') (\<lambda>t.
        Inr (''Withdrawal'', optional_line ''Receipt tokens burned: '' shares_text @ optional_line ''Received '' amount_text @ [t]))
      else if kind = ''risk-config-updated'' then
        Inr (''Risk settings updated'', [''Autonomous mode '' @ mode_text e ''configured'' ''off''])
      else if kind = ''autonomous-mode-updated'' then
        Inr (''Autonomous mode updated'', [mode_text e ''Configured'' ''Off - manual approval''])
      else if kind = ''vault-config-updated'' then
        js_try (field_text e ''name'') (\<lambda>t.
        Inr (''Vault settings updated'',
             [''Name: '' @ t, ''Open deposits: '' @ (if map_of (ve_data e) ''open-deposits'' = Some (JBool True) then ''yes'' else ''no'')]))
      else if kind = ''vault-paused'' then Inr (''Vault paused'', [''Deposits disabled; redemptions unaffected''])
      else if kind = ''vault-unpaused'' then Inr (''Vault unpaused'', [])
      else if kind = ''rebalance-executed'' \<or> kind = ''intent-executed'' then
        Inr (''Strategy allocation executed'', (case amount_text of Some t \<Rightarrow> [t] | None \<Rightarrow> []))
      else Inr (kind, []))"

definition chainRow :: "vault_event \<Rightarrow> activity_row result" where
  "chainRow e =
     js_try (bigint_field e ''amount'') (\<lambda>amount.
     js_try (bigint_field e ''shares'') (\<lambda>shares.
     js_try (event_time e) (\<lambda>time.
     js_try (asset_text (asset_field e) amount) (\<lambda>amount_text.
     js_try (event_lines e amount_text shares) (\<lambda>(title, lines).
       Inr \<lparr> aw_key = event_row_key e, aw_time = time, aw_source = FromChain, aw_title = title, aw_lines = lines,
             aw_txId = Some (ve_txId e), aw_status = None \<rparr>)))))"

fun decision_words :: "recommendation_decision \<Rightarrow> string" where
  "decision_words REBALANCE = ''rebalance''"
| "decision_words REDUCE_EXPOSURE = ''reduce exposure''"
| "decision_words HOLD = ''hold''"
| "decision_words INSUFFICIENT_DATA = ''insufficient data''"

definition aiRow :: "decision_record \<Rightarrow> activity_row result" where
  "aiRow r =
     js_try (date_parse (dr_timestamp r)) (\<lambda>time.
       let d = rec_decision (dr_recommendation r) in
       Inr \<lparr> aw_key = ''ai:'' @ dr_id r, aw_time = time, aw_source = FromAi, aw_title = ''AI recommendation generated'',
             aw_lines =
               [if d = HOLD then ''No action recommended''
                else ''Recommendation: '' @ decision_words d @ '' ('' @ ASSET_LABEL (dr_asset r) @ '')''] @
               (if dr_intent r \<noteq> None then [''Intent generated''] else []) @
               (if dr_status r = REJECTED then [''Intent rejected''] else []) @
               (if dr_status r = TESTNET_BLOCKED then [''Testnet execution blocked - no transaction was submitted''] else []),
             aw_txId = dr_txId r, aw_status = Some (dr_status r) \<rparr>)"

definition activity_rows :: "vault_event list \<Rightarrow> decision_record list \<Rightarrow> activity_row list result" where
  "activity_rows events decisions =
     js_try (map_result chainRow events) (\<lambda>cs.
     js_try (map_result aiRow decisions) (\<lambda>rs. Inr (sort_key (\<lambda>r. - aw_time r) (cs @ rs))))"

section \<open>The list of treasuries\<close>

datatype portfolio_filter = AllVaults | OwnedVaults | DepositedVaults
datatype portfolio_sort = ByRecent | ByName | ByPurpose

definition filter_admits :: "portfolio_filter \<Rightarrow> my_vault \<Rightarrow> bool" where
  "filter_admits f v \<longleftrightarrow> \<not> (f = OwnedVaults \<and> snd v = RoleHolder) \<and> \<not> (f = DepositedVaults \<and> snd v = RoleOwner)"

definition query_admits :: "string \<Rightarrow> my_vault \<Rightarrow> bool" where
  "query_admits q v \<longleftrightarrow>
     q = [] \<or> str_includes (map lower_latin (vm_name (vo_meta (fst v)))) q \<or>
     str_includes (map lower_latin (vp_label (purposeById (vm_purpose (vo_meta (fst v)))))) q"

text \<open>\<open>localeCompare\<close> follows the tables of the platform: a parameter.\<close>

definition compare_vaults :: "(string \<Rightarrow> string \<Rightarrow> int) \<Rightarrow> portfolio_sort \<Rightarrow> my_vault \<Rightarrow> my_vault \<Rightarrow> int" where
  "compare_vaults localeCompare s a b =
     (let ma = vo_meta (fst a); mb = vo_meta (fst b) in
      case s of
        ByName \<Rightarrow> localeCompare (vm_name ma) (vm_name mb)
      | ByPurpose \<Rightarrow>
          if vm_purpose ma - vm_purpose mb \<noteq> 0 then vm_purpose ma - vm_purpose mb else vm_vaultId ma - vm_vaultId mb
      | ByRecent \<Rightarrow> vm_vaultId mb - vm_vaultId ma)"

definition shown_vaults ::
    "(string \<Rightarrow> string \<Rightarrow> int) \<Rightarrow> portfolio_filter \<Rightarrow> portfolio_sort \<Rightarrow> string \<Rightarrow> my_vault list \<Rightarrow> my_vault list" where
  "shown_vaults localeCompare f s query mine =
     (let q = map lower_latin (trim query) in
      js_sort (\<lambda>a b. Fin (rat_of_int (compare_vaults localeCompare s a b)))
        (filter (\<lambda>v. filter_admits f v \<and> query_admits q v) mine))"

fun filter_count :: "portfolio_filter \<Rightarrow> my_vault list \<Rightarrow> nat" where
  "filter_count AllVaults mine = length mine"
| "filter_count OwnedVaults mine = length (filter (\<lambda>v. snd v \<noteq> RoleHolder) mine)"
| "filter_count DepositedVaults mine = length (filter (\<lambda>v. snd v \<noteq> RoleOwner) mine)"

section \<open>The dashboard\<close>

definition vault_id_of :: "my_vault \<Rightarrow> int" where
  "vault_id_of v = vm_vaultId (vo_meta (fst v))"

definition owned_ids :: "my_vault list \<Rightarrow> int list" where
  "owned_ids mine = map vault_id_of (filter (\<lambda>v. snd v \<noteq> RoleHolder) mine)"

definition vault_title :: "my_vault list \<Rightarrow> int \<Rightarrow> string" where
  "vault_title mine i =
     (case map_of (rev (map (\<lambda>v. (vault_id_of v, vm_name (vo_meta (fst v)))) mine)) i of
        Some n \<Rightarrow> n
      | None \<Rightarrow> ''Vault #'' @ int_text i)"

text \<open>
  The decision log and the events are asked for together when the address, the vaults or the time of the last
  update change; the answers of a cancelled run are dropped. The vaults are those of the run.
\<close>

record dashboard_hook =
  dh_run :: nat
  dh_address :: "string option"
  dh_vaults :: "my_vault list"
  dh_decisions :: "decision_record list option"
  dh_activity :: "feed_item list option"

definition dashboard_effect :: "string option \<Rightarrow> my_vault list \<Rightarrow> int option \<Rightarrow> dashboard_hook \<Rightarrow> dashboard_hook" where
  "dashboard_effect address mine updatedAt h =
     (let h' = h\<lparr> dh_run := Suc (dh_run h), dh_address := address, dh_vaults := mine \<rparr> in
      if \<not> truthy_text address \<or> mine = [] then
        h'\<lparr> dh_decisions := None, dh_activity := (if mine = [] \<and> (\<exists>t. updatedAt = Some t \<and> t \<noteq> 0) then Some [] else None) \<rparr>
      else h')"

definition dashboard_decisions :: "nat \<Rightarrow> decision_record list result \<Rightarrow> dashboard_hook \<Rightarrow> dashboard_hook" where
  "dashboard_decisions run r h =
     (if run \<noteq> dh_run h then h
      else h\<lparr> dh_decisions := Some (case r of
               Inr rs \<Rightarrow> filter (\<lambda>d. dr_vaultId d \<in> set (map vault_id_of (dh_vaults h))) rs
             | Inl e \<Rightarrow> []) \<rparr>)"

definition dashboard_activity :: "nat \<Rightarrow> vault_event list result \<Rightarrow> dashboard_hook \<Rightarrow> dashboard_hook result" where
  "dashboard_activity run r h =
     (if run \<noteq> dh_run h then Inr h
      else case js_try r (map_result (\<lambda>e. chainItem e (vault_title (dh_vaults h) (ve_vaultId e)))) of
        Inr is \<Rightarrow> Inr (h\<lparr> dh_activity := Some is \<rparr>)
      | Inl e \<Rightarrow> if out_of_model e then Inl e else Inr (h\<lparr> dh_activity := Some [] \<rparr>))"

definition dashboard_feed :: "dashboard_hook \<Rightarrow> feed_item list result" where
  "dashboard_feed h =
     js_try (map_result (\<lambda>d. aiItem d (vault_title (dh_vaults h) (dr_vaultId d)))
              (take 6 (case dh_decisions h of Some ds \<Rightarrow> ds | None \<Rightarrow> []))) (\<lambda>ais.
     Inr (take 8 (sort_key (\<lambda>i. - fi_time i) ((case dh_activity h of Some is \<Rightarrow> is | None \<Rightarrow> []) @ ais))))"

definition position_claim :: "vault_overview \<Rightarrow> asset \<Rightarrow> int" where
  "position_claim ov a = (case vo_positions ov a of Some p \<Rightarrow> wp_claim p | None \<Rightarrow> 0)"

definition total_claim :: "my_vault list \<Rightarrow> asset \<Rightarrow> int" where
  "total_claim mine a = foldl (\<lambda>c v. c + position_claim (fst v) a) 0 mine"

definition has_deposit :: "my_vault list \<Rightarrow> bool" where
  "has_deposit mine \<longleftrightarrow>
     list_ex (\<lambda>v. list_ex (\<lambda>a. case vo_positions (fst v) a of Some p \<Rightarrow> 0 < wp_shares p | None \<Rightarrow> False) [''STX'', ''SBTC'']) mine"

record onboarding_step =
  st_key :: string
  st_title :: string
  st_detail :: string
  st_done :: bool
  st_href :: "string option"
  st_cta :: "string option"

definition vault_path :: "int option \<Rightarrow> string \<Rightarrow> string \<Rightarrow> string" where
  "vault_path i page otherwise = (case i of Some n \<Rightarrow> if n = 0 then otherwise else ''/vault/'' @ int_text n @ page | None \<Rightarrow> otherwise)"

definition head_id :: "int list \<Rightarrow> int option" where
  "head_id is = (case is of i # _ \<Rightarrow> Some i | [] \<Rightarrow> None)"

definition STX_FAUCET :: string where
  "STX_FAUCET = ''https://explorer.hiro.so/sandbox/faucet?chain=testnet''"

definition onboarding_steps ::
    "string option \<Rightarrow> int option \<Rightarrow> my_vault list \<Rightarrow> decision_record list option \<Rightarrow> onboarding_step list" where
  "onboarding_steps address stx mine decisions =
     (let first = head_id (map vault_id_of mine); firstOwned = head_id (owned_ids mine);
          is_set = (\<lambda>i. case i of Some n \<Rightarrow> n \<noteq> 0 | None \<Rightarrow> False) in
      [\<lparr> st_key = ''connect'', st_title = ''Connect wallet'',
         st_detail = ''Connected as '' @ (if truthy_text address then shortAddress (the address) 6 else []) @ ''.'',
         st_done = True, st_href = None, st_cta = None \<rparr>,
       \<lparr> st_key = ''fund'', st_title = ''Get testnet STX'',
         st_detail = ''Deposits and fees use real testnet STX. The faucet is free.'',
         st_done = (\<exists>n \<in> set_option stx. 1000000 \<le> n), st_href = Some STX_FAUCET, st_cta = Some ''Open faucet'' \<rparr>,
       \<lparr> st_key = ''create'', st_title = ''Create a treasury'',
         st_detail = ''Choose a purpose, name, assets and risk rules; sign once.'',
         st_done = owned_ids mine \<noteq> [], st_href = Some ''/vault/create'', st_cta = Some ''Create'' \<rparr>,
       \<lparr> st_key = ''deposit'', st_title = ''Make a deposit'',
         st_detail = ''Receive receipt shares - your on-chain claim on the treasury.'',
         st_done = has_deposit mine, st_href = Some (vault_path first ''/deposit'' ''/vault/create''),
         st_cta = Some (if is_set first then ''Deposit'' else ''Create first'') \<rparr>,
       \<lparr> st_key = ''ai'', st_title = ''Run an AI analysis'',
         st_detail = ''The AI reads your real state, recommends, and the contracts validate it.'',
         st_done = (\<exists>ds \<in> set_option decisions. ds \<noteq> []),
         st_href = Some (vault_path firstOwned ''/recommendations'' (vault_path first ''/recommendations'' ''/vault/create'')),
         st_cta = Some (if is_set first then ''Analyze'' else ''Create first'') \<rparr>])"

text \<open>The checklist: how many are done and what comes next (GettingStarted.tsx).\<close>

definition steps_done :: "onboarding_step list \<Rightarrow> nat" where
  "steps_done steps = length (filter st_done steps)"

definition next_step :: "onboarding_step list \<Rightarrow> onboarding_step option" where
  "next_step steps = find (\<lambda>s. \<not> st_done s) steps"

section \<open>What needs attention\<close>

datatype tone = Danger | Warning | Info

record attention_item =
  at_key :: string
  at_tone :: tone
  at_title :: string
  at_detail :: string
  at_href :: "string option"
  at_cta :: "string option"

definition LOW_STX :: int where
  "LOW_STX = 100000"

definition wallet_attention :: "string option \<Rightarrow> int option \<Rightarrow> attention_item list result" where
  "wallet_attention address stx =
     (let net = (if truthy_text address \<and> networkOfAddress (the address) = Mainnet then
            [\<lparr> at_key = ''net'', at_tone = Danger, at_title = ''Wallet is on a mainnet account'',
               at_detail = ''SovereigntyAI runs on Stacks Testnet. Switch to a testnet account before transacting.'',
               at_href = None, at_cta = None \<rparr>] else []) in
      case stx of
        Some n \<Rightarrow>
          if n < LOW_STX then
            js_try (formatAsset n ''STX'') (\<lambda>t.
            Inr (net @ [\<lparr> at_key = ''lowstx'', at_tone = Warning, at_title = ''Low STX for network fees'',
              at_detail = ''Your wallet holds '' @ t @ ''. Top up from the faucet to keep transacting.'',
              at_href = Some STX_FAUCET, at_cta = Some ''Get STX'' \<rparr>]))
          else Inr net
      | None \<Rightarrow> Inr net)"

definition vault_attention :: "my_vault \<Rightarrow> attention_item list" where
  "vault_attention v =
     (let m = vo_meta (fst v); i = int_text (vm_vaultId m); owner = snd v \<noteq> RoleHolder;
          empty = list_all (\<lambda>a. case vo_pools (fst v) a of Some p \<Rightarrow> ap_total p = 0 | None \<Rightarrow> True) [''STX'', ''SBTC''] in
      (if vm_paused m then
         [\<lparr> at_key = ''paused-'' @ i, at_tone = Warning, at_title = vm_name m @ '' is paused'',
            at_detail = ''Deposits and new allocations are disabled. Redemptions still work.'',
            at_href = Some (''/vault/'' @ i @ (if owner then ''/settings'' else [])),
            at_cta = Some (if owner then ''Unpause'' else ''View'') \<rparr>] else []) @
      (if owner \<and> empty \<and> \<not> vm_paused m then
         [\<lparr> at_key = ''empty-'' @ i, at_tone = Info, at_title = vm_name m @ '' is empty'',
            at_detail = ''Make the first deposit to mint receipt shares and start using it.'',
            at_href = Some (''/vault/'' @ i @ ''/deposit''), at_cta = Some ''Deposit'' \<rparr>] else []))"

text \<open>Only the newest decision of a vault counts: the log lists the newest first.\<close>

definition decision_attention :: "my_vault list \<Rightarrow> decision_record \<Rightarrow> attention_item list" where
  "decision_attention mine d =
     (let name = vault_title mine (dr_vaultId d); href = ''/vault/'' @ int_text (dr_vaultId d) @ ''/recommendations'' in
      case (dr_status d, map_option ov_errorCode (dr_validation d)) of
        (REJECTED, Some (Some code)) \<Rightarrow>
          [\<lparr> at_key = ''rej-'' @ dr_id d, at_tone = Warning, at_title = ''AI intent rejected for '' @ name,
             at_detail = explainClarityError code @ '' Nothing was executed.'', at_href = Some href, at_cta = Some ''Review'' \<rparr>]
      | (TESTNET_BLOCKED, _) \<Rightarrow>
          [\<lparr> at_key = ''blk-'' @ dr_id d, at_tone = Info, at_title = ''Recommendation ready for '' @ name,
             at_detail = ''Validated against your on-chain rules. Execution is disabled on Testnet, so your allocation is unchanged.'',
             at_href = Some href, at_cta = Some ''Review'' \<rparr>]
      | _ \<Rightarrow> [])"

fun latest_per_vault :: "int set \<Rightarrow> decision_record list \<Rightarrow> decision_record list" where
  "latest_per_vault seen [] = []"
| "latest_per_vault seen (d # ds) =
     (if dr_vaultId d \<in> seen then latest_per_vault seen ds
      else d # latest_per_vault (insert (dr_vaultId d) seen) ds)"

definition attention_items ::
    "string option \<Rightarrow> int option \<Rightarrow> my_vault list \<Rightarrow> decision_record list option \<Rightarrow> attention_item list result" where
  "attention_items address stx mine decisions =
     js_try (wallet_attention address stx) (\<lambda>wallet.
     Inr (take 6 (wallet @ concat (map vault_attention mine) @
       concat (map (decision_attention mine) (latest_per_vault {} (case decisions of Some ds \<Rightarrow> ds | None \<Rightarrow> []))))))"


section \<open>What is shown is what was read\<close>

lemma js_sort_mset: "mset (js_sort cmp xs) = mset xs"
proof -
  have i: "mset (js_insert cmp x ys) = add_mset x (mset ys)" for x ys
    by (induction ys) auto
  show ?thesis unfolding js_sort_def by (induction xs) (simp_all add: i)
qed

lemma map_result_parts:
  "map_result f xs = Inr ys \<Longrightarrow> length ys = length xs \<and> (\<forall>y \<in> set ys. \<exists>x \<in> set xs. f x = Inr y)"
  by (induction xs arbitrary: ys) (auto simp: js_try_Inr_iff, blast)

lemma map_result_mem: "map_result f xs = Inr ys \<Longrightarrow> y \<in> set ys \<Longrightarrow> \<exists>x \<in> set xs. f x = Inr y"
  using map_result_parts by blast

text \<open>A tab of the portfolio shows as many treasuries as its label counts.\<close>

lemma shown_count: "length (shown_vaults localeCompare f s [] mine) = filter_count f mine"
proof -
  have "length (shown_vaults localeCompare f s [] mine) = length (filter (filter_admits f) mine)"
    by (simp add: shown_vaults_def Let_def trim_def query_admits_def js_sort_mset flip: size_mset)
  moreover have "filter (filter_admits OwnedVaults) mine = filter (\<lambda>v. snd v \<noteq> RoleHolder) mine"
    "filter (filter_admits DepositedVaults) mine = filter (\<lambda>v. snd v \<noteq> RoleOwner) mine"
    "filter (filter_admits AllVaults) mine = mine" by (simp_all add: filter_admits_def cong: filter_cong)
  ultimately show ?thesis by (cases f) simp_all
qed

lemma shown_set:
  "set (shown_vaults localeCompare f s query mine) =
   {v \<in> set mine. filter_admits f v \<and> query_admits (map lower_latin (trim query)) v}"
  by (simp add: shown_vaults_def Let_def js_sort_mset flip: set_mset_mset)

lemma shown_recent_first:
  "sorted_wrt (\<lambda>a b. vault_id_of b \<le> vault_id_of a) (shown_vaults localeCompare f ByRecent query mine)"
proof -
  have "shown_vaults localeCompare f ByRecent query mine =
    sort_key (\<lambda>v. - vault_id_of v) (filter (\<lambda>v. filter_admits f v \<and> query_admits (map lower_latin (trim query)) v) mine)"
    unfolding shown_vaults_def Let_def by (rule js_sort_key) (auto simp: compare_vaults_def vault_id_of_def Let_def)
  then show ?thesis
    using sorted_sort_key [of "\<lambda>v. - vault_id_of v" "filter (\<lambda>v. filter_admits f v \<and> query_admits (map lower_latin (trim query)) v) mine"]
    by (simp add: sorted_wrt_map)
qed

text \<open>The claim on the tile is the sum of the viewer's claims on the pools of each treasury.\<close>

lemma total_claim_sum: "total_claim mine a = sum_list (map (\<lambda>v. position_claim (fst v) a) mine)"
proof -
  have "foldl (\<lambda>c v. c + position_claim (fst v) a) k mine = k + sum_list (map (\<lambda>v. position_claim (fst v) a) mine)" for k
    by (induction mine arbitrary: k) (simp_all add: add.assoc)
  then show ?thesis by (simp add: total_claim_def)
qed

text \<open>The states of the dashboard: a run, an answer to it, an answer to a run that was cancelled.\<close>

definition dashboard_start :: dashboard_hook where
  "dashboard_start = \<lparr> dh_run = 0, dh_address = None, dh_vaults = [], dh_decisions = None, dh_activity = None \<rparr>"

inductive dashboard_reachable :: "dashboard_hook \<Rightarrow> bool" where
  start: "dashboard_reachable dashboard_start"
| effect: "dashboard_reachable h \<Longrightarrow> dashboard_reachable (dashboard_effect address mine updatedAt h)"
| decisions: "dashboard_reachable h \<Longrightarrow> run \<le> dh_run h \<Longrightarrow> dashboard_reachable (dashboard_decisions run r h)"
| activity: "dashboard_reachable h \<Longrightarrow> run \<le> dh_run h \<Longrightarrow> dashboard_activity run r h = Inr h' \<Longrightarrow> dashboard_reachable h'"

text \<open>
  A decision taken from the log is about a treasury of the list the run began with. The effect keeps the
  decisions of the run before on the screen until its own answer is there, so they are about that list or an
  earlier one.
\<close>

lemma dashboard_decisions_mine:
  assumes "dh_decisions (dashboard_decisions run r h) = Some ds" "run = dh_run h" "d \<in> set ds"
  shows "dr_vaultId d \<in> vault_id_of ` set (dh_vaults h)"
  using assms by (cases r) (auto simp: dashboard_decisions_def)

lemma stale_decisions_dropped: "run \<noteq> dh_run h \<Longrightarrow> dashboard_decisions run r h = h \<and> dashboard_activity run r' h = Inr h"
  by (simp add: dashboard_decisions_def dashboard_activity_def)

text \<open>Without a wallet nothing of the log or of the chain is on the screen.\<close>

lemma disconnected_shows_nothing:
  assumes "\<not> truthy_text address"
  shows "dh_decisions (dashboard_effect address mine updatedAt h) = None \<and>
    (case dh_activity (dashboard_effect address mine updatedAt h) of Some is \<Rightarrow> is = [] | None \<Rightarrow> True)"
  using assms by (simp add: dashboard_effect_def Let_def)

text \<open>The feed: at most eight rows, the newest first, each one an event or a decision that was read.\<close>

lemma dashboard_feed_rows:
  assumes "dashboard_feed h = Inr rows"
  shows "length rows \<le> 8 \<and> sorted_wrt (\<lambda>a b. fi_time b \<le> fi_time a) rows \<and>
    (\<forall>i \<in> set rows. i \<in> set (case dh_activity h of Some is \<Rightarrow> is | None \<Rightarrow> []) \<or>
       (\<exists>d \<in> set (case dh_decisions h of Some ds \<Rightarrow> ds | None \<Rightarrow> []). aiItem d (vault_title (dh_vaults h) (dr_vaultId d)) = Inr i))"
proof -
  let ?as = "case dh_activity h of Some is \<Rightarrow> is | None \<Rightarrow> []"
  let ?ds = "case dh_decisions h of Some ds \<Rightarrow> ds | None \<Rightarrow> []"
  from assms obtain ais where ais: "map_result (\<lambda>d. aiItem d (vault_title (dh_vaults h) (dr_vaultId d))) (take 6 ?ds) = Inr ais"
    and rows: "rows = take 8 (sort_key (\<lambda>i. - fi_time i) (?as @ ais))"
    unfolding dashboard_feed_def by (auto simp: js_try_Inr_iff)
  have "sorted_wrt (\<lambda>a b. fi_time b \<le> fi_time a) (sort_key (\<lambda>i. - fi_time i) (?as @ ais))"
    using sorted_sort_key [of "\<lambda>i. - fi_time i" "?as @ ais"] by (simp only: sorted_wrt_map neg_le_iff_le)
  then have "sorted_wrt (\<lambda>a b. fi_time b \<le> fi_time a) rows" unfolding rows by (rule sorted_wrt_take)
  moreover have "i \<in> set ?as \<or> (\<exists>d \<in> set ?ds. aiItem d (vault_title (dh_vaults h) (dr_vaultId d)) = Inr i)" if "i \<in> set rows" for i
  proof -
    have "i \<in> set ?as \<or> i \<in> set ais" using that unfolding rows by (auto dest: in_set_takeD)
    moreover have "\<exists>d \<in> set (take 6 ?ds). aiItem d (vault_title (dh_vaults h) (dr_vaultId d)) = Inr i" if "i \<in> set ais"
      by (rule map_result_mem [OF ais that])
    ultimately show ?thesis by (meson in_set_takeD)
  qed
  ultimately show ?thesis by (auto simp: rows)
qed

text \<open>The activity page leaves nothing out and shows the newest first.\<close>

lemma activity_rows_complete:
  assumes "activity_rows events decisions = Inr rows"
  shows "length rows = length events + length decisions \<and> sorted_wrt (\<lambda>a b. aw_time b \<le> aw_time a) rows"
proof -
  from assms obtain cs rs where cs: "map_result chainRow events = Inr cs" "map_result aiRow decisions = Inr rs"
    and rows: "rows = sort_key (\<lambda>r. - aw_time r) (cs @ rs)"
    unfolding activity_rows_def by (auto simp: js_try_Inr_iff)
  have "length cs = length events" "length rs = length decisions" using map_result_parts [OF cs(1)] map_result_parts [OF cs(2)] by simp_all
  moreover have "sorted_wrt (\<lambda>a b. aw_time b \<le> aw_time a) rows" unfolding rows
    using sorted_sort_key [of "\<lambda>r. - aw_time r" "cs @ rs"] by (simp only: sorted_wrt_map neg_le_iff_le)
  ultimately show ?thesis by (simp add: rows)
qed

text \<open>Per treasury only the newest decision asks for attention.\<close>

lemma latest_per_vault_first:
  "d \<in> set (latest_per_vault seen ds) \<longleftrightarrow> dr_vaultId d \<notin> seen \<and> find (\<lambda>x. dr_vaultId x = dr_vaultId d) ds = Some d"
  by (induction seen ds rule: latest_per_vault.induct) auto

lemma latest_per_vault_distinct: "distinct (map dr_vaultId (latest_per_vault seen ds))"
proof (induction seen ds rule: latest_per_vault.induct)
  case (2 seen d ds)
  have "dr_vaultId d \<notin> dr_vaultId ` set (latest_per_vault (insert (dr_vaultId d) seen) ds)"
    by (auto simp: latest_per_vault_first)
  with 2 show ?case by simp
qed simp

lemma attention_bounded: "attention_items address stx mine decisions = Inr items \<Longrightarrow> length items \<le> 6"
  by (auto simp: attention_items_def js_try_Inr_iff)

text \<open>A wallet on the other network and a low balance always make it into the list.\<close>

lemma wallet_attention_shown:
  assumes "attention_items address stx mine decisions = Inr items" "wallet_attention address stx = Inr ws"
  shows "set ws \<subseteq> set items"
proof -
  have "length ws \<le> 2" using assms(2) by (auto simp: wallet_attention_def Let_def js_try_Inr_iff split: option.splits if_splits)
  with assms show ?thesis by (auto simp: attention_items_def)
qed

lemma next_step_none: "next_step steps = None \<longleftrightarrow> steps_done steps = length steps"
proof -
  have "next_step steps = None \<longleftrightarrow> (\<forall>s \<in> set steps. st_done s)" by (auto simp: next_step_def find_None_iff)
  also have "\<dots> \<longleftrightarrow> filter st_done steps = steps" by (simp add: filter_id_conv)
  also have "\<dots> \<longleftrightarrow> length (filter st_done steps) = length steps" by (metis length_filter_less less_irrefl filter_id_conv)
  finally show ?thesis by (simp add: steps_done_def)
qed

end
