(* ===== verification/Web_Recommendations.thy ===== *)
theory Web_Recommendations
  imports Web_Derive Web_Agent
begin

text \<open>
  The page of a vault's recommendations (apps/web/src/app/vault/[id]/recommendations/page.tsx) and the view of
  one recommendation (components/vault/RecommendationView.tsx): the two independent checks of a run, the
  history, and what the view says about the allocation the recommendation was made against.
\<close>

section \<open>The page\<close>

text \<open>
  \<open>history\<close> is \<open>undefined\<close> until the first answer (\<open>None\<close>), \<open>null\<close> when the log could not be read
  (\<open>Some None\<close>). The analysis is the answer of the agent as it came.
\<close>

record recommendation_page =
  rn_history :: "decision_record list option option"
  rn_historyError :: "string option"
  rn_running :: "asset option"
  rn_latest :: "decision_record option"
  rn_analysis :: "js option"
  rn_runError :: "string option"
  rn_guardrailError :: "string option"

definition recommendation_opened :: recommendation_page where
  "recommendation_opened =
     \<lparr> rn_history = None, rn_historyError = None, rn_running = None, rn_latest = None, rn_analysis = None,
       rn_runError = None, rn_guardrailError = None \<rparr>"

definition history_loaded :: "decision_record list result \<Rightarrow> recommendation_page \<Rightarrow> recommendation_page" where
  "history_loaded r p =
     (case r of
        Inr ds \<Rightarrow> p\<lparr> rn_history := Some (Some ds), rn_historyError := None \<rparr>
      | Inl e \<Rightarrow> p\<lparr> rn_history := Some None, rn_historyError := Some (err_message e) \<rparr>)"

definition run_started :: "asset \<Rightarrow> recommendation_page \<Rightarrow> recommendation_page" where
  "run_started asset p =
     p\<lparr> rn_running := Some asset, rn_runError := None, rn_guardrailError := None, rn_analysis := None, rn_latest := None \<rparr>"

text \<open>Both requests have settled; the history is read again only after a recommendation.\<close>

definition run_settled :: "js result \<Rightarrow> decision_record result \<Rightarrow> recommendation_page \<Rightarrow> recommendation_page" where
  "run_settled eco rec p =
     (let p = (case eco of Inr a \<Rightarrow> p\<lparr> rn_analysis := Some a \<rparr> | Inl e \<Rightarrow> p\<lparr> rn_runError := Some (err_message e) \<rparr>) in
      case rec of Inr d \<Rightarrow> p\<lparr> rn_latest := Some d \<rparr> | Inl e \<Rightarrow> p\<lparr> rn_guardrailError := Some (err_message e) \<rparr>)"

definition run_finished :: "recommendation_page \<Rightarrow> recommendation_page" where
  "run_finished p = p\<lparr> rn_running := None \<rparr>"

definition run_page ::
    "asset \<Rightarrow> js result \<Rightarrow> decision_record result \<Rightarrow> decision_record list result \<Rightarrow> recommendation_page \<Rightarrow> recommendation_page" where
  "run_page asset eco rec hist p =
     (let p = run_settled eco rec (run_started asset p) in
      run_finished (case rec of Inr d \<Rightarrow> history_loaded hist p | Inl e \<Rightarrow> p))"

text \<open>Which buttons can be pressed: none while a run is under way.\<close>

definition can_run :: "recommendation_page \<Rightarrow> bool" where
  "can_run p \<longleftrightarrow> rn_running p = None"

section \<open>The rows of the history\<close>

definition alloc_text :: "allocation_view option \<Rightarrow> asset \<Rightarrow> string" where
  "alloc_text v asset =
     (case v of
        None \<Rightarrow> ''-''
      | Some a \<Rightarrow>
          join [CHR '' '', CHR 0xB7, CHR '' '']
            ((''Idle '' @ bpsToPct (av_idleBps a) @ ''%'') #
             map (\<lambda>s. ae_name s @ '' '' @ bpsToPct (ae_bps s) @ ''%'') (av_strategies a))
          @ '' ('' @ ASSET_LABEL asset @ '')'')"

definition evaluation_text :: "on_chain_validation option \<Rightarrow> string" where
  "evaluation_text v =
     (case v of
        None \<Rightarrow> ''Not applicable''
      | Some o' \<Rightarrow>
          (case ov_status o' of
             PASSED \<Rightarrow> ''PASSED (on-chain, read-only)''
           | NOT_PASSED \<Rightarrow> ''FAILED - '' @ (case ov_errorCode o' of Some c \<Rightarrow> explainClarityError c | None \<Rightarrow> ov_detail o')
           | UNAVAILABLE \<Rightarrow> ''Unavailable''))"

definition row_title :: "decision_record \<Rightarrow> string result" where
  "row_title r =
     (case rec_decision (dr_recommendation r) of
        HOLD \<Rightarrow> Inr ''No action recommended''
      | REBALANCE \<Rightarrow>
          js_try (case dr_intent r of
              Some i \<Rightarrow> js_try (formatAsset (ei_amount i) (dr_asset r)) (\<lambda>t. Inr ('' - '' @ t @ '' from idle''))
            | None \<Rightarrow> Inr []) (\<lambda>t. Inr (''Rebalance '' @ ASSET_LABEL (dr_asset r) @ t))
      | REDUCE_EXPOSURE \<Rightarrow> Inr ''Reduce exposure (advisory)''
      | INSUFFICIENT_DATA \<Rightarrow> Inr ''Insufficient data'')"

section \<open>The view of a recommendation\<close>

text \<open>
  \<open>allocationUnchanged\<close>: does the vault's allocation still match the snapshot the recommendation was made
  against? \<open>None\<close> when either is missing; an empty pool has no allocation.
\<close>

definition allocationUnchanged :: "decision_record \<Rightarrow> vault_overview \<Rightarrow> bool option" where
  "allocationUnchanged r ov =
     (case (dr_currentAllocation r, poolAllocation ov (dr_asset r)) of
        (Some snapshot, Some live) \<Rightarrow>
          Some (list_all (\<lambda>s. case find (\<lambda>x. sh_strategyId x = ae_strategyId s) (pa_strategies live) of
                    Some now \<Rightarrow> int_text (sh_amount now) = ae_amount s
                  | None \<Rightarrow> False) (av_strategies snapshot) \<and>
                length (pa_strategies live) = length (av_strategies snapshot))
      | _ \<Rightarrow> None)"

text \<open>The line \<^verbatim>\<open>Vault allocation\<close> of a blocked recommendation.\<close>

definition allocation_line :: "decision_record \<Rightarrow> vault_overview \<Rightarrow> string" where
  "allocation_line r ov =
     (if allocationUnchanged r ov = Some False then ''Balances have changed since this recommendation'' else ''UNCHANGED'')"

definition moved_bps :: "decision_record \<Rightarrow> int option" where
  "moved_bps r =
     (case (dr_currentAllocation r, dr_proposedAllocation r) of
        (Some a, Some b) \<Rightarrow> Some (av_idleBps a - av_idleBps b)
      | _ \<Rightarrow> None)"

definition strategy_label :: "decision_record \<Rightarrow> int option \<Rightarrow> string" where
  "strategy_label r i =
     (case Option.bind (dr_currentAllocation r) (\<lambda>a. find (\<lambda>s. Some (ae_strategyId s) = i) (av_strategies a)) of
        Some s \<Rightarrow> ae_name s
      | None \<Rightarrow> (case i of Some n \<Rightarrow> ''Strategy #'' @ int_text n | None \<Rightarrow> ''strategy''))"

definition proposed_exposure :: "decision_record \<Rightarrow> int option" where
  "proposed_exposure r =
     Option.bind (dr_proposedAllocation r) (\<lambda>a.
     map_option ae_bps (find (\<lambda>s. Some (ae_strategyId s) = rec_destStrategyId (dr_recommendation r)) (av_strategies a)))"

definition allocation_slices :: "allocation_view option \<Rightarrow> (string \<times> int) list" where
  "allocation_slices v =
     (case v of None \<Rightarrow> [] | Some a \<Rightarrow> (''Idle'', av_idleBps a) # map (\<lambda>s. (ae_name s, ae_bps s)) (av_strategies a))"

section \<open>The checklist of a recommendation\<close>

text \<open>\<open>ExecutionStatusChecklist\<close> and the banner of components/vault/TestnetGate.tsx.\<close>

datatype row_state = RowOk | RowWarn | RowFail | RowNa

definition execution_checklist :: "decision_record \<Rightarrow> bool \<Rightarrow> (row_state \<times> string) list" where
  "execution_checklist r executionEnabled =
     (let v = dr_validation r; status = map_option ov_status v;
          evaluated = (v \<noteq> None \<and> status \<noteq> Some UNAVAILABLE); executed = dr_executionState r = CONFIRMED; intent = dr_intent r \<noteq> None in
      [(RowOk, ''Live data analyzed''), (RowOk, ''Recommendation generated''),
       (if evaluated then (RowOk, ''Vault limits evaluated'') else (RowWarn, ''Vault limits could not be evaluated'')),
       (case v of
          None \<Rightarrow> (RowNa, ''Risk parameters not evaluated (nothing to validate)'')
        | Some o' \<Rightarrow>
            (case ov_status o' of
               PASSED \<Rightarrow> (RowOk, ''Risk parameters checked'')
             | NOT_PASSED \<Rightarrow> (RowFail, ''Risk parameters rejected the intent'' @
                 (case ov_errorCode o' of Some c \<Rightarrow> '' - '' @ explainClarityError c | None \<Rightarrow> []))
             | UNAVAILABLE \<Rightarrow> (RowWarn, ''Risk parameters could not be checked''))),
       (if intent then (RowOk, ''Execution intent generated'') else (RowNa, ''No execution intent (no executable action)''))] @
      (if intent \<and> \<not> executionEnabled then [(RowWarn, ''Testnet execution restricted'')] else []) @
      (if intent then [if executed then (RowOk, ''Strategy reallocation executed'') else (RowFail, ''Strategy reallocation not executed'')]
       else []))"

definition assets_remain :: "decision_record \<Rightarrow> bool" where
  "assets_remain r \<longleftrightarrow> dr_intent r \<noteq> None \<and> dr_executionState r \<noteq> CONFIRMED"

definition execution_banner :: "chain_network \<Rightarrow> bool \<Rightarrow> string option" where
  "execution_banner network executionEnabled =
     (if executionEnabled then None
      else Some (if network = TESTNET then ''Autonomous execution disabled on Testnet'' else ''Strategy execution not armed''))"

text \<open>The badges (components/ui/StatusBadges.tsx).\<close>

datatype badge_tone = BadgeNeutral | BadgeAccent | BadgeEnforce | BadgeSuccess | BadgeDanger | BadgeWarning

fun status_badge :: "intent_status \<Rightarrow> badge_tone \<times> string" where
  "status_badge RECOMMENDED = (BadgeAccent, ''Recommended'')"
| "status_badge VALIDATING = (BadgeWarning, ''Validating'')"
| "status_badge VALIDATED = (BadgeEnforce, ''Validated'')"
| "status_badge TESTNET_BLOCKED = (BadgeWarning, ''Testnet blocked'')"
| "status_badge EXECUTED = (BadgeSuccess, ''Executed'')"
| "status_badge FAILED = (BadgeDanger, ''Failed'')"
| "status_badge EXPIRED = (BadgeNeutral, ''Expired'')"
| "status_badge REJECTED = (BadgeDanger, ''Rejected'')"

fun execution_badge :: "execution_state \<Rightarrow> badge_tone \<times> string" where
  "execution_badge NOT_APPLICABLE = (BadgeNeutral, ''Nothing to execute'')"
| "execution_badge NOT_EXECUTED_TESTNET = (BadgeWarning, ''Not executed - Testnet'')"
| "execution_badge NOT_SUBMITTED = (BadgeNeutral, ''Not submitted'')"
| "execution_badge SUBMITTED = (BadgeEnforce, ''Submitted'')"
| "execution_badge CONFIRMED = (BadgeSuccess, ''Confirmed'')"
| "execution_badge SUBMIT_FAILED = (BadgeDanger, ''Failed'')"

section \<open>A failure of one check does not hide the other\<close>

lemma run_keeps_analysis: "rn_analysis (run_page asset (Inr a) rec hist p) = Some a"
  by (simp add: run_page_def run_settled_def run_finished_def history_loaded_def Let_def split: sum.split)

lemma run_keeps_recommendation:
  "rn_latest (run_page asset eco (Inr d) hist p) = Some d"
  by (simp add: run_page_def run_settled_def run_finished_def history_loaded_def Let_def split: sum.split)

lemma run_reports_failures:
  "rn_runError (run_page asset eco rec hist p) = (case eco of Inl e \<Rightarrow> Some (err_message e) | Inr a \<Rightarrow> None)"
  "rn_guardrailError (run_page asset eco rec hist p) = (case rec of Inl e \<Rightarrow> Some (err_message e) | Inr d \<Rightarrow> None)"
  by (simp_all add: run_page_def run_settled_def run_started_def run_finished_def history_loaded_def Let_def split: sum.split)

text \<open>A run always ends, and nothing of the run before is left on the screen while it is under way.\<close>

lemma run_ends: "can_run (run_page asset eco rec hist p)"
  by (simp add: can_run_def run_page_def run_finished_def Let_def)

lemma run_started_clears:
  "rn_latest (run_started asset p) = None \<and> rn_analysis (run_started asset p) = None \<and> \<not> can_run (run_started asset p) \<and>
   rn_history (run_started asset p) = rn_history p"
  by (simp add: run_started_def can_run_def)

section \<open>What the view says of the allocation\<close>

lemma find_self:
  "distinct (map f xs) \<Longrightarrow> x \<in> set xs \<Longrightarrow> find (\<lambda>y. f y = f x) xs = Some x"
  by (induction xs) auto

text \<open>A snapshot of the allocation the overview shows is recognised as unchanged.\<close>

lemma same_allocation_unchanged:
  assumes "dr_currentAllocation r = Some v" "poolAllocation ov (dr_asset r) = Some live"
    and "map (\<lambda>s. (ae_strategyId s, ae_amount s)) (av_strategies v) =
      map (\<lambda>s. (sh_strategyId s, int_text (sh_amount s))) (pa_strategies live)"
    and "distinct (map sh_strategyId (pa_strategies live))"
  shows "allocationUnchanged r ov = Some True"
proof -
  have l: "length (pa_strategies live) = length (av_strategies v)" using assms(3) map_eq_imp_length_eq by metis
  have "case find (\<lambda>x. sh_strategyId x = ae_strategyId s) (pa_strategies live) of Some now \<Rightarrow> int_text (sh_amount now) = ae_amount s | None \<Rightarrow> False"
    if s: "s \<in> set (av_strategies v)" for s
  proof -
    have "(ae_strategyId s, ae_amount s) \<in> set (map (\<lambda>s. (sh_strategyId s, int_text (sh_amount s))) (pa_strategies live))"
      unfolding assms(3) [symmetric] using s by simp
    then obtain x where x: "x \<in> set (pa_strategies live)" "ae_strategyId s = sh_strategyId x" "ae_amount s = int_text (sh_amount x)"
      by auto
    from find_self [OF assms(4) x(1)] show ?thesis by (simp add: x(2,3))
  qed
  with l show ?thesis by (simp add: allocationUnchanged_def assms(1,2) list_all_iff)
qed

text \<open>Any other amount of a strategy, or another number of strategies, is reported.\<close>

lemma unchanged_means_same_amounts:
  assumes "allocationUnchanged r ov = Some True"
  shows "\<exists>v live. dr_currentAllocation r = Some v \<and> poolAllocation ov (dr_asset r) = Some live \<and>
    length (pa_strategies live) = length (av_strategies v) \<and>
    (\<forall>s \<in> set (av_strategies v). \<exists>x \<in> set (pa_strategies live).
       sh_strategyId x = ae_strategyId s \<and> int_text (sh_amount x) = ae_amount s)"
proof -
  from assms obtain v live where v: "dr_currentAllocation r = Some v" "poolAllocation ov (dr_asset r) = Some live"
    by (auto simp: allocationUnchanged_def split: option.splits)
  with assms have l: "length (pa_strategies live) = length (av_strategies v)"
    and a: "\<forall>s \<in> set (av_strategies v). case find (\<lambda>x. sh_strategyId x = ae_strategyId s) (pa_strategies live) of
      Some now \<Rightarrow> int_text (sh_amount now) = ae_amount s | None \<Rightarrow> False"
    by (simp_all add: allocationUnchanged_def list_all_iff)
  have "\<exists>x \<in> set (pa_strategies live). sh_strategyId x = ae_strategyId s \<and> int_text (sh_amount x) = ae_amount s"
    if "s \<in> set (av_strategies v)" for s
    using a [rule_format, OF that] by (auto split: option.splits simp: find_Some_iff)
  with v l show ?thesis by blast
qed

text \<open>
  A pool that has been emptied since has no allocation to compare with, and the view then says
  that the allocation is unchanged.
\<close>

lemma emptied_pool_reads_unchanged:
  assumes "vo_pools ov (dr_asset r) = Some p" "ap_total p = 0"
  shows "allocation_line r ov = ''UNCHANGED''"
  using assms by (simp add: allocation_line_def allocationUnchanged_def poolAllocation_def split: option.split)

lemma slices_cover:
  "allocation_slices (Some v) \<noteq> [] \<and> sum_list (map snd (allocation_slices (Some v))) = av_idleBps v + sum_list (map ae_bps (av_strategies v))"
  by (simp add: allocation_slices_def comp_def)


section \<open>What the checklist promises\<close>

text \<open>\<^verbatim>\<open>Strategy reallocation executed\<close> is shown for a confirmed execution of an intent only.\<close>

lemma checklist_executed:
  "(RowOk, ''Strategy reallocation executed'') \<in> set (execution_checklist r enabled) \<longleftrightarrow>
   dr_intent r \<noteq> None \<and> dr_executionState r = CONFIRMED"
  by (auto simp: execution_checklist_def Let_def split: option.splits validation_status.splits)

lemma checklist_risk_passed:
  "(RowOk, ''Risk parameters checked'') \<in> set (execution_checklist r enabled) \<longleftrightarrow>
   (\<exists>v. dr_validation r = Some v \<and> ov_status v = PASSED)"
  by (auto simp: execution_checklist_def Let_def split: option.splits validation_status.splits)

section \<open>A recommendation that was just made\<close>

text \<open>
  The agent and the web application read the same pool: the same strategies of the asset in the same order,
  the same allocations, and a positive total. Then the view of the record shows the allocation as unchanged.
\<close>

theorem fresh_recommendation_unchanged:
  assumes r: "dr_currentAllocation r = currentAllocation vault ctx" "dr_asset r = vs_asset vault" "0 < vs_totalBalance vault"
    and pool: "vo_pools ov (vs_asset vault) = Some p" "0 < ap_total p"
    and strategies: "map ss_strategyId (assetStrategies vault ctx) =
      map ss_strategyId (filter (\<lambda>x. ss_asset x = vs_asset vault \<and> ss_active x) (vo_strategies ov))"
    and once: "distinct (map ss_strategyId (assetStrategies vault ctx))"
    and allocations: "\<And>i. alloc_of vault i = (case find (\<lambda>a. sa_strategyId a = i \<and> sa_asset a = vs_asset vault) (vo_allocations ov) of
      Some a \<Rightarrow> sa_amount a | None \<Rightarrow> 0)"
  shows "allocationUnchanged r ov = Some True \<and> allocation_line r ov = ''UNCHANGED''"
proof -
  let ?xs = "filter (\<lambda>x. ss_asset x = vs_asset vault \<and> ss_active x) (vo_strategies ov)"
  from pool obtain live where live: "poolAllocation ov (dr_asset r) = Some live" and
    ps: "map (\<lambda>s. (sh_strategyId s, int_text (sh_amount s))) (pa_strategies live) =
      map (\<lambda>i. (i, int_text (alloc_of vault i))) (map ss_strategyId ?xs)"
    by (auto simp: poolAllocation_def r(2) allocations Let_def comp_def)
  obtain v where v: "dr_currentAllocation r = Some v"
    "map (\<lambda>s. (ae_strategyId s, ae_amount s)) (av_strategies v) = map (\<lambda>i. (i, int_text (alloc_of vault i))) (map ss_strategyId (assetStrategies vault ctx))"
    using r(1,3) by (auto simp: currentAllocation_def allocation_entry_of_def comp_def)
  have "map sh_strategyId (pa_strategies live) = map ss_strategyId ?xs"
    using arg_cong [OF ps, of "map fst"] by (simp add: comp_def)
  then have d: "distinct (map sh_strategyId (pa_strategies live))" using once strategies by simp
  from same_allocation_unchanged [OF v(1) live _ d] v(2) ps strategies show ?thesis by (simp add: allocation_line_def)
qed

end
