(* ===== verification/Web_Live.thy ===== *)
theory Web_Live
  imports Web_Hooks Pool_Ranking Web_Agent
begin

text \<open>
  Views over live data: the panel of the home page that polls the chain
  (apps/web/src/components/home/LiveConsole.tsx), the frame around a treasury's pages
  (apps/web/src/app/vault/[id]/layout.tsx) and the analysis of a pool
  (apps/web/src/components/vault/PoolEcosystemAnalysis.tsx).
\<close>

section \<open>The live panel\<close>

datatype 'a live_load = Loading | LoadError string | LoadOk 'a

text \<open>
  \<open>lc_timer\<close> is the delay set for the next round. Every round starts a read of the chain and one of the
  price; their answers come later, in any order.
\<close>

record live_console =
  lc_snap :: "protocol_snapshot live_load"
  lc_price :: "js live_load"
  lc_failures :: nat
  lc_timer :: "int option"
  lc_cancelled :: bool

definition POLL_MS :: int where
  "POLL_MS = 20000"

definition poll_delay :: "nat \<Rightarrow> int" where
  "poll_delay n = (if n = 0 then POLL_MS else min POLL_MS (4000 * 2 ^ (n - 1)))"

definition console_round :: "bool \<Rightarrow> live_console \<Rightarrow> live_console" where
  "console_round configured x =
     (let y = (if configured then x else x\<lparr>lc_snap := LoadError ''Protocol address not configured for this build.''\<rparr>) in
      y\<lparr>lc_timer := Some (poll_delay (lc_failures x))\<rparr>)"

definition console_opened :: "bool \<Rightarrow> live_console" where
  "console_opened configured = console_round configured
     \<lparr> lc_snap = Loading, lc_price = Loading, lc_failures = 0, lc_timer = None, lc_cancelled = False \<rparr>"

definition or_kept :: "'a live_load \<Rightarrow> js_error \<Rightarrow> 'a live_load" where
  "or_kept prev e = (case prev of LoadOk x \<Rightarrow> prev | _ \<Rightarrow> LoadError (err_message e))"

definition console_snap :: "protocol_snapshot result \<Rightarrow> live_console \<Rightarrow> live_console" where
  "console_snap r x =
     (if lc_cancelled x then x
      else case r of Inr d \<Rightarrow> x\<lparr>lc_snap := LoadOk d\<rparr> | Inl e \<Rightarrow> x\<lparr>lc_snap := or_kept (lc_snap x) e\<rparr>)"

definition console_price :: "js result \<Rightarrow> live_console \<Rightarrow> live_console" where
  "console_price r x =
     (if lc_cancelled x then x
      else case r of
        Inr d \<Rightarrow> x\<lparr>lc_failures := 0, lc_price := LoadOk d\<rparr>
      | Inl e \<Rightarrow> x\<lparr>lc_failures := Suc (lc_failures x), lc_price := or_kept (lc_price x) e\<rparr>)"

definition console_closed :: "live_console \<Rightarrow> live_console" where
  "console_closed x = x\<lparr>lc_cancelled := True, lc_timer := None\<rparr>"

text \<open>\<open>S d\<close>, \<open>P d\<close>: the chain, the service of the price may answer \<open>d\<close>. Reads are made of a configured protocol only.\<close>

inductive console_step ::
    "bool \<Rightarrow> (protocol_snapshot \<Rightarrow> bool) \<Rightarrow> (js \<Rightarrow> bool) \<Rightarrow> live_console \<Rightarrow> live_console \<Rightarrow> bool" for configured S P where
  round: "lc_timer x \<noteq> None \<Longrightarrow> console_step configured S P x (console_round configured x)"
| snap: "configured \<Longrightarrow> (\<forall>d. r = Inr d \<longrightarrow> S d) \<Longrightarrow> console_step configured S P x (console_snap r x)"
| price: "(\<forall>d. r = Inr d \<longrightarrow> P d) \<Longrightarrow> console_step configured S P x (console_price r x)"
| closed: "console_step configured S P x (console_closed x)"

inductive_cases console_stepE: "console_step configured S P x y"

inductive console_reachable ::
    "bool \<Rightarrow> (protocol_snapshot \<Rightarrow> bool) \<Rightarrow> (js \<Rightarrow> bool) \<Rightarrow> live_console \<Rightarrow> bool" for configured S P where
  opened: "console_reachable configured S P (console_opened configured)"
| step: "console_reachable configured S P x \<Longrightarrow> console_step configured S P x y \<Longrightarrow> console_reachable configured S P y"

section \<open>The frame of a treasury\<close>

record vault_context =
  vc_vaultId :: int
  vc_overview :: vault_overview
  vc_viewer :: "string option"
  vc_isOwner :: bool
  vc_refreshing :: bool

datatype vault_view =
    NotConfigured
  | InvalidVaultId
  | VaultUnreadable string
  | VaultLoading
  | VaultMissing int
  | VaultShown vault_context

text \<open>\<open>Number(params.id)\<close>, if it is a positive integer.\<close>

definition valid_vault_id :: "js_num \<Rightarrow> int option" where
  "valid_vault_id n =
     (case n of Fin q \<Rightarrow> if of_int \<lfloor>q\<rfloor> = q \<and> 0 < q then Some \<lfloor>q\<rfloor> else None | _ \<Rightarrow> None)"

definition layout_target :: "js_num \<Rightarrow> string option \<Rightarrow> overview_target" where
  "layout_target n address = ((case valid_vault_id n of Some i \<Rightarrow> i | None \<Rightarrow> 0), address)"

definition context_value :: "int \<Rightarrow> string option \<Rightarrow> bool \<Rightarrow> vault_overview \<Rightarrow> vault_context" where
  "context_value i address refreshing ov =
     \<lparr> vc_vaultId = i, vc_overview = ov, vc_viewer = address,
       vc_isOwner = (truthy_text address \<and> Some (vm_owner (vo_meta ov)) = address), vc_refreshing = refreshing \<rparr>"

definition vault_layout :: "bool \<Rightarrow> js_num \<Rightarrow> string option \<Rightarrow> overview_hook \<Rightarrow> vault_view" where
  "vault_layout configured n address h =
     (if \<not> configured then NotConfigured
      else (case valid_vault_id n of
              None \<Rightarrow> InvalidVaultId
            | Some i \<Rightarrow>
                (case (oh_overview h, oh_error h) of
                   (None, Some e) \<Rightarrow> if e \<noteq> [] then VaultUnreadable e else VaultLoading
                 | (None, None) \<Rightarrow> VaultLoading
                 | (Some None, _) \<Rightarrow> VaultMissing i
                 | (Some (Some ov), _) \<Rightarrow> VaultShown (context_value i address (oh_refreshing h) ov))))"

definition TABS :: "(string \<times> string) list" where
  "TABS =
     [([], ''Overview''), (''deposit'', ''Deposit''), (''redeem'', ''Redeem''), (''strategies'', ''Strategies''),
      (''recommendations'', ''AI recommendations''), (''activity'', ''Activity''), (''settings'', ''Settings'')]"

definition tab_href :: "string \<Rightarrow> string \<Rightarrow> string" where
  "tab_href base slug = (if slug \<noteq> [] then base @ ''/'' @ slug else base)"

definition tab_active :: "string \<Rightarrow> string \<Rightarrow> string \<Rightarrow> bool" where
  "tab_active base pathname slug =
     (if slug \<noteq> [] then starts_with pathname (tab_href base slug) else pathname = base)"

section \<open>The analysis of a pool\<close>

definition usd_whole :: "rat \<Rightarrow> string" where
  "usd_whole n = ''$'' @ locale_int \<lfloor>n + 1 / 2\<rfloor>"

definition share_text :: "rat \<Rightarrow> string" where
  "share_text p = (if p < 1 / 100 then ''<0.01%'' else to_fixed (Fin p) 2 @ ''%'')"

text \<open>The cards of the candidates; the one of the top pick is marked.\<close>

definition candidate_cards :: "pool_analysis \<Rightarrow> (strategy_evaluation \<times> bool) list" where
  "candidate_cards an =
     map (\<lambda>s. (s, Some (ev_protocolId s) = an_topPickId an)) (filter (\<lambda>s. ev_verdict s = CANDIDATE) (an_strategies an))"

definition excluded_cards :: "pool_analysis \<Rightarrow> strategy_evaluation list" where
  "excluded_cards an = filter (\<lambda>s. ev_verdict s = EXCLUDED) (an_strategies an)"

definition deployable_text :: "pool_analysis \<Rightarrow> string result" where
  "deployable_text an =
     js_try (bigint_of_string (pf_maxDeployable (an_pool an))) (\<lambda>d.
       if 0 < d then formatAsset d (an_asset an) else Inr ''Nothing right now'')"

definition contract_badge :: "strategy_evaluation \<Rightarrow> string" where
  "contract_badge s =
     (case ev_contractLive s of
        Some True \<Rightarrow> ''Contract live'' | Some False \<Rightarrow> ''Contract not found'' | None \<Rightarrow> ''Not verified'')"

definition tvl_text :: "strategy_evaluation \<Rightarrow> string" where
  "tvl_text s = (case ev_tvlUsd s of Some t \<Rightarrow> usd_whole t | None \<Rightarrow> ''Unavailable'')"

section \<open>Facts of the panel\<close>

lemma poll_delay_bounds: "4000 \<le> poll_delay n \<and> poll_delay n \<le> POLL_MS"
  by (simp add: poll_delay_def POLL_MS_def)

text \<open>What the panel shows was read, and a page that is open always has its next round set.\<close>

lemma console_invariant:
  "console_reachable configured S P x \<Longrightarrow>
     (\<forall>d. lc_snap x = LoadOk d \<longrightarrow> configured \<and> S d) \<and> (\<forall>d. lc_price x = LoadOk d \<longrightarrow> P d) \<and>
     (lc_timer x = None \<longleftrightarrow> lc_cancelled x) \<and> (\<not> configured \<longrightarrow> (\<exists>e. lc_snap x = LoadError e))"
proof (induction rule: console_reachable.induct)
  case opened
  then show ?case by (simp add: console_opened_def console_round_def)
next
  case (step x y)
  from step.hyps(2) step.IH show ?case
    by cases
      (auto simp: console_round_def console_snap_def console_price_def console_closed_def or_kept_def Let_def
        split: sum.splits live_load.splits if_splits)
qed

text \<open>A reading stays on the panel until a newer one replaces it.\<close>

lemma console_ok:
  "lc_snap x = LoadOk d \<Longrightarrow> \<exists>d'. lc_snap (console_round True x) = LoadOk d'"
  "lc_snap x = LoadOk d \<Longrightarrow> \<exists>d'. lc_snap (console_snap r x) = LoadOk d'"
  "lc_snap (console_price q x) = lc_snap x" "lc_snap (console_closed x) = lc_snap x"
  "lc_price (console_round c x) = lc_price x" "lc_price (console_snap r x) = lc_price x"
  "lc_price x = LoadOk p \<Longrightarrow> \<exists>p'. lc_price (console_price q x) = LoadOk p'" "lc_price (console_closed x) = lc_price x"
  by (simp_all add: console_round_def console_snap_def console_price_def console_closed_def or_kept_def Let_def split: sum.split)

lemma console_keeps_snapshot:
  assumes "console_step True S P x y" "lc_snap x = LoadOk d"
  shows "\<exists>d'. lc_snap y = LoadOk d'"
  using assms(1) by cases (simp_all only: assms(2) console_ok(3,4) console_ok(1,2) [OF assms(2)] live_load.inject ex_simps simp_thms)

lemma console_keeps_price:
  assumes "console_step configured S P x y" "lc_price x = LoadOk d"
  shows "\<exists>d'. lc_price y = LoadOk d'"
  using assms(1) by cases (simp_all only: console_ok assms(2) live_load.inject ex_simps simp_thms console_ok(7) [OF assms(2)])

text \<open>
  The delay of a round is set when it starts, before its own reads have answered: after the first failure
  the next round still is twenty seconds away.
\<close>

lemma first_retry_late:
  "lc_timer (console_price (Inl e) (console_opened configured)) = Some POLL_MS \<and>
   lc_failures (console_price (Inl e) (console_opened configured)) = 1"
  by (simp add: console_price_def console_opened_def console_round_def poll_delay_def)

section \<open>Facts of the frame\<close>

text \<open>
  A treasury that is shown is the one of the address bar, as the chain answered for the account that is
  connected now, and only its owner is shown as the owner.
\<close>

lemma layout_current:
  assumes "overview_reachable R h" "oh_target h = layout_target n address"
    "vault_layout configured n address h = VaultShown c"
  shows "valid_vault_id n = Some (vc_vaultId c) \<and> R (vc_vaultId c, address) (Inr (Some (vc_overview c))) \<and>
    (vc_isOwner c \<longrightarrow> address = Some (vm_owner (vo_meta (vc_overview c))))"
proof -
  from assms(3) obtain i ov where i: "valid_vault_id n = Some i" and ov: "oh_overview h = Some (Some ov)"
    and c: "c = context_value i address (oh_refreshing h) ov"
    by (auto simp: vault_layout_def split: if_splits option.splits)
  from overview_current [OF assms(1)] ov assms(2) have "R (layout_target n address) (Inr (Some ov))" by auto
  with i c show ?thesis by (auto simp: layout_target_def context_value_def)
qed

lemma layout_missing:
  assumes "overview_reachable R h" "oh_target h = layout_target n address"
    "vault_layout configured n address h = VaultMissing i"
  shows "R (i, address) (Inr None)"
proof -
  from assms(3) have i: "valid_vault_id n = Some i" and ov: "oh_overview h = Some None"
    by (auto simp: vault_layout_def split: if_splits option.splits)
  from overview_current [OF assms(1)] ov assms(2) have "R (layout_target n address) (Inr None)" by auto
  with i show ?thesis by (simp add: layout_target_def)
qed

text \<open>No tab of a page is marked with another one, as no name of a tab is the start of another.\<close>

lemma starts_with_append: "starts_with (base @ s) (base @ p) = starts_with s p"
  by (induction base) simp_all

lemma tab_active_other:
  "s \<noteq> [] \<Longrightarrow> t \<noteq> [] \<Longrightarrow> tab_active base (tab_href base s) t = starts_with s t"
  "tab_active base (tab_href base s) [] \<longleftrightarrow> s = []"
  "t \<noteq> [] \<Longrightarrow> \<not> tab_active base (tab_href base []) t"
  using starts_with_append [of base "CHR ''/'' # s"  "CHR ''/'' # t"] starts_with_append [of base "[]" "CHR ''/'' # t"]
  by (simp_all add: tab_active_def tab_href_def)

lemma tabs_disjoint:
  assumes "s \<in> set (map fst TABS)" "t \<in> set (map fst TABS)"
  shows "tab_active base (tab_href base s) t \<longleftrightarrow> s = t"
proof -
  have "list_all (\<lambda>s. list_all (\<lambda>t. s \<noteq> [] \<longrightarrow> t \<noteq> [] \<longrightarrow> starts_with s t = (s = t)) (map fst TABS)) (map fst TABS)"
    by code_simp
  with assms have "s \<noteq> [] \<Longrightarrow> t \<noteq> [] \<Longrightarrow> starts_with s t = (s = t)" by (auto simp: list_all_iff)
  then show ?thesis using tab_active_other by (cases "s = []"; cases "t = []") auto
qed

section \<open>Facts of the analysis\<close>

lemma candidate_cards_first:
  assumes "fst (analyzePoolAgainstEcosystem sv vault ctx network protocols w) = Inr an"
    "candidate_cards an = (s, top) # rest"
  shows "top"
proof -
  let ?C = "candidates (an_strategies an)"
  from assms(2) obtain r where C: "?C = s # r" and top: "top \<longleftrightarrow> Some (ev_protocolId s) = an_topPickId an"
    unfolding candidate_cards_def candidates_def by (cases "filter (\<lambda>s. ev_verdict s = CANDIDATE) (an_strategies an)") auto
  from analysis_ranking(7) [OF assms(1)] C top show ?thesis by simp
qed

end
