(* ===== verification/Operator_Scripts.thy ===== *)
theory Operator_Scripts
  imports Web_Activity Web_Agent
begin

text \<open>
  The scripts of the operator: the shared helpers of scripts/lib/testnet.ts (keys, reads, a transaction
  that is signed, broadcast and waited for) and the scripts bootstrap-testnet.ts, deploy-testnet.ts and
  verify-testnet.ts. What a script prints is left out, what it signs, runs and writes is a trace.
\<close>

section \<open>What the scripts call\<close>

text \<open>
  The environment, the files under the working directory, the wallet made from a mnemonic (the private
  key of its first account and that account's Testnet address), the libraries that read contracts, make
  and broadcast transactions and decode values, \<open>fetch\<close> with its \<open>ok\<close>, status and body (which may be no
  JSON), the clock, timers and the shell. A refused broadcast is the left value: the error and its reason.
\<close>

record operator_call =
  oc_contractAddress :: string
  oc_contractName :: string
  oc_functionName :: string
  oc_functionArgs :: "web_arg list"
  oc_senderKey :: string
  oc_network :: string
  oc_postConditions :: "post_condition list"
  oc_deny :: bool

record 'w operator =
  op_env :: process_env
  op_file :: "string \<Rightarrow> string option"
  op_wallet :: "string \<Rightarrow> ('w, string \<times> string) io"
  op_addressOfKey :: "string \<Rightarrow> string result"
  op_readOnly :: "string \<Rightarrow> string \<Rightarrow> string \<Rightarrow> cl_arg list \<Rightarrow> string \<Rightarrow> ('w, js) io"
  op_makeCall :: "operator_call \<Rightarrow> ('w, string) io"
  op_broadcast :: "string \<Rightarrow> ('w, (string \<times> string option) + string) io"
  op_decodeCV :: "string \<Rightarrow> js result"
  op_fetch :: "string \<Rightarrow> ('w, bool \<times> int \<times> js result) io"
  op_now :: "'w \<Rightarrow> int \<times> 'w"
  op_isoNow :: "'w \<Rightarrow> string \<times> 'w"
  op_sleep :: "int \<Rightarrow> 'w \<Rightarrow> 'w"
  op_command :: "string \<Rightarrow> ('w, unit) io"

text \<open>
  The state of a script: its trace, the log and the count of failed checks of the acceptance run, and
  the outside world.
\<close>

datatype op_effect =
    TxSigned operator_call
  | CommandRun string
  | FileWritten string js

record acceptance_entry =
  ae_step :: string
  ae_txid :: string
  ae_status :: string
  ae_detail :: string

record 'w script_host =
  sh_effects :: "op_effect list"
  sh_log :: "acceptance_entry list"
  sh_failures :: nat
  sh_ext :: 'w

definition op_outside :: "('w, 'a) io \<Rightarrow> ('w script_host, 'a) io" where
  "op_outside m = (\<lambda>h. case m (sh_ext h) of (r, w) \<Rightarrow> (r, h\<lparr>sh_ext := w\<rparr>))"

definition op_emit :: "op_effect \<Rightarrow> ('w script_host, unit) io" where
  "op_emit e = (\<lambda>h. (Inr (), h\<lparr>sh_effects := sh_effects h @ [e]\<rparr>))"

section \<open>Constants and keys\<close>

definition API :: "'w operator \<Rightarrow> string" where
  "API op = env_or (op_env op) ''STACKS_API_URL'' ''https://api.testnet.hiro.so''"

definition DEPLOYER :: "'w operator \<Rightarrow> string" where
  "DEPLOYER op = env_or (op_env op) ''DEPLOYER_ADDRESS'' ''ST1YBHMDH6ESJ1DBY8MK72XER9BG9646QMCS610PE''"

definition NAMES :: "(string \<times> string) list" where
  "NAMES =
     [(''vault'', ''sovereignty-vault-v7''), (''receipts'', ''receipt-token-v7''), (''risk'', ''risk-guard-v7''),
      (''engine'', ''execution-engine-v7''), (''admin'', ''sovereignty-protocol-admin-v4''),
      (''agents'', ''agent-registry-v4''), (''strategies'', ''strategy-registry-v6'')]"

definition deployed_name :: "string \<Rightarrow> string" where
  "deployed_name k = (case map_of NAMES k of Some n \<Rightarrow> n | None \<Rightarrow> [])"

definition SBTC_address :: string where
  "SBTC_address = ''SN3VMHXEN64ZZF71JQ5VESXDWTR301XTTXGF4J8F1''"

definition SBTC_name :: string where
  "SBTC_name = ''sbtc-token''"

definition id_of :: "'w operator \<Rightarrow> string \<Rightarrow> string" where
  "id_of op n = DEPLOYER op @ ''.'' @ n"

text \<open>The reader of environment files is the same function as in the web server's agentCore.ts.\<close>

definition op_readEnvFile :: "'w operator \<Rightarrow> string \<Rightarrow> process_env" where
  "op_readEnvFile op path = readEnvFile (op_file op path)"

text \<open>The first match of \<^verbatim>\<open>/mnemonic\s*=\s*"([^"]+)"/\<close>: its group.\<close>

definition match_mnemonic :: "string \<Rightarrow> string option" where
  "match_mnemonic s =
     (if \<not> starts_with s ''mnemonic'' then None
      else
        (let r = dropWhile is_space (drop 8 s); q = dropWhile is_space (tl r);
             body = takeWhile (\<lambda>c. c \<noteq> CHR 0x22) (tl q) in
         if starts_with r ''='' \<and> starts_with q [CHR 0x22] \<and> body \<noteq> [] \<and> CHR 0x22 \<in> set (tl q)
         then Some body else None))"

fun find_mnemonic :: "string \<Rightarrow> string option" where
  "find_mnemonic [] = None"
| "find_mnemonic (c # s) = (case match_mnemonic (c # s) of Some m \<Rightarrow> Some m | None \<Rightarrow> find_mnemonic s)"

definition deployer_mnemonic :: "'w operator \<Rightarrow> string option" where
  "deployer_mnemonic op =
     (let m = op_readEnvFile op ''.env'' ''STACKS_MNEMONIC'' in
      if truthy_text m then m
      else find_mnemonic (case op_file op ''settings/Testnet.toml'' of Some t \<Rightarrow> t | None \<Rightarrow> []))"

definition deployerKey :: "'w operator \<Rightarrow> ('w, string \<times> string) io" where
  "deployerKey op =
     (case deployer_mnemonic op of
        None \<Rightarrow> io_throw (JsError ''No deployer mnemonic found in .env (STACKS_MNEMONIC) or settings/Testnet.toml'')
      | Some m \<Rightarrow> op_wallet op m)"

definition executorKey :: "'w operator \<Rightarrow> string option" where
  "executorKey op =
     (let k = op_readEnvFile op ''agent/.env'' ''EXECUTOR_PRIVATE_KEY'' in if truthy_text k then k else None)"

section \<open>Reads\<close>

definition op_apiGet :: "'w operator \<Rightarrow> string \<Rightarrow> ('w, js) io" where
  "op_apiGet op path =
     io_bind (op_fetch op (API op @ path)) (\<lambda>(ok, status, body).
       if \<not> ok then io_throw (JsError (''GET '' @ path @ '' -> HTTP '' @ int_text status)) else io_lift body)"

definition op_read :: "'w operator \<Rightarrow> string \<Rightarrow> string \<Rightarrow> cl_arg list \<Rightarrow> string option \<Rightarrow> ('w, js) io" where
  "op_read op contract fn args sender =
     io_bind (io_lift (splitContract contract)) (\<lambda>(addr, name).
       op_readOnly op addr name fn args (case sender of Some p \<Rightarrow> p | None \<Rightarrow> DEPLOYER op))"

section \<open>A transaction\<close>

record call_result =
  cr_txid :: string
  cr_status :: string
  cr_result :: js
  cr_repr :: string
  cr_blockHeight :: js

definition settled_transaction :: "'w operator \<Rightarrow> string \<Rightarrow> js \<Rightarrow> call_result result" where
  "settled_transaction op txid t =
     js_try (js_try (js_get t ''tx_status'') as_string) (\<lambda>status.
     js_try (js_get t ''tx_result'') (\<lambda>res.
     js_try (if truthy (js_opt res ''hex'') then js_try (as_string (js_opt res ''hex'')) (op_decodeCV op) else Inr JNull) (\<lambda>cv.
     js_try (if nullish (js_opt res ''repr'') then Inr [] else as_string (js_opt res ''repr'')) (\<lambda>repr.
     js_try (js_get t ''block_height'') (\<lambda>bh.
     Inr \<lparr> cr_txid = txid, cr_status = status, cr_result = cv, cr_repr = repr, cr_blockHeight = bh \<rparr>)))))"

text \<open>
  The wait: the API answers 404 until it has indexed a transaction. With fuel: \<open>None\<close> is a wait that has
  not ended after \<open>n\<close> rounds.
\<close>

fun await_transaction :: "'w operator \<Rightarrow> nat \<Rightarrow> string \<Rightarrow> int \<Rightarrow> ('w, call_result option) io" where
  "await_transaction op 0 txid deadline = io_return None"
| "await_transaction op (Suc n) txid deadline =
     io_bind (io_of (op_now op)) (\<lambda>now.
       if \<not> now < deadline then io_throw (JsError (''timed out waiting for '' @ txid))
       else
         io_bind (op_fetch op (API op @ ''/extended/v1/tx/'' @ txid)) (\<lambda>(ok, status, body).
           let again = io_bind (\<lambda>w. (Inr (), op_sleep op 4000 w)) (\<lambda>_. await_transaction op n txid deadline) in
           if status = 404 then again
           else if \<not> ok then io_throw (JsError (''GET tx '' @ txid @ '' -> HTTP '' @ int_text status))
           else
             io_bind (io_lift body) (\<lambda>t.
             io_bind (io_lift (js_get t ''tx_status'')) (\<lambda>st.
               if st = JStr ''pending'' then again
               else io_bind (io_lift (settled_transaction op txid t)) (\<lambda>r. io_return (Some r))))))"

record call_opts =
  co_key :: string
  co_contract :: string
  co_fn :: string
  co_args :: "web_arg list"
  co_postConditions :: "post_condition list option"
  co_mode :: "string option"

definition call_of_opts :: "call_opts \<Rightarrow> string \<times> string \<Rightarrow> operator_call" where
  "call_of_opts opts c =
     \<lparr> oc_contractAddress = fst c, oc_contractName = snd c, oc_functionName = co_fn opts,
       oc_functionArgs = co_args opts, oc_senderKey = co_key opts, oc_network = ''testnet'',
       oc_postConditions = (case co_postConditions opts of Some ps \<Rightarrow> ps | None \<Rightarrow> []),
       oc_deny = (co_mode opts \<noteq> Some ''allow'') \<rparr>"

definition broadcast_id :: "(string \<times> string option) + string \<Rightarrow> string result" where
  "broadcast_id res =
     (case res of
        Inl (err, reason) \<Rightarrow>
          if err \<noteq> [] then
            Inl (JsError (''broadcast rejected: '' @ err @ '' '' @ (case reason of Some r \<Rightarrow> r | None \<Rightarrow> [])))
          else Inl (TypeError (''Cannot read properties of undefined (reading '' @ [CHR 0x27] @ ''startsWith'' @ [CHR 0x27] @ '')''))
      | Inr txid \<Rightarrow> Inr (with_0x txid))"

definition call_transaction :: "'w operator \<Rightarrow> nat \<Rightarrow> call_opts \<Rightarrow> ('w script_host, call_result) io" where
  "call_transaction op fuel opts =
     io_bind (io_lift (splitContract (co_contract opts))) (\<lambda>c.
     io_bind (op_outside (op_makeCall op (call_of_opts opts c))) (\<lambda>tx.
     io_bind (op_emit (TxSigned (call_of_opts opts c))) (\<lambda>_.
     io_bind (op_outside (op_broadcast op tx)) (\<lambda>res.
     io_bind (io_lift (broadcast_id res)) (\<lambda>txid.
     io_bind (op_outside (io_of (op_now op))) (\<lambda>now.
     io_bind (op_outside (await_transaction op fuel txid (now + 5 * 60000))) (\<lambda>r.
       (case r of Some x \<Rightarrow> io_return x | None \<Rightarrow> io_lift (Inl (OutOfModel ''out of fuel''))))))))))"

text \<open>A script ends with the code its main function exits with; an error it throws ends it with 1.\<close>

definition script_exit :: "('w, int) io \<Rightarrow> ('w, int) io" where
  "script_exit m = io_catch m (\<lambda>_. io_return 1)"

section \<open>bootstrap-testnet.ts\<close>

definition bootstrap_main :: "'w operator \<Rightarrow> nat \<Rightarrow> ('w script_host, int) io" where
  "bootstrap_main op fuel =
     io_bind (op_outside (deployerKey op)) (\<lambda>(key, address).
     io_bind (op_outside (op_read op (id_of op (deployed_name ''risk'')) ''get-approved-sbtc-asset'' [] None)) (\<lambda>current.
     io_bind (io_lift (js_get current ''value'')) (\<lambda>v.
       if js_opt v ''value'' = JStr (SBTC_address @ ''.'' @ SBTC_name) then io_return 0
       else
         io_bind (call_transaction op fuel
             \<lparr> co_key = key, co_contract = id_of op (deployed_name ''risk''), co_fn = ''set-approved-sbtc-asset'',
               co_args = [CvContractPrincipal SBTC_address SBTC_name], co_postConditions = None, co_mode = None \<rparr>) (\<lambda>res.
           if cr_status res \<noteq> ''success'' then io_return 1
           else
             io_bind (op_outside (op_read op (id_of op (deployed_name ''risk'')) ''get-approved-sbtc-asset'' [] None)) (\<lambda>after.
             io_bind (io_lift (js_get after ''value'')) (\<lambda>_. io_return 0))))))"

definition bootstrap_testnet :: "'w operator \<Rightarrow> nat \<Rightarrow> ('w script_host, int) io" where
  "bootstrap_testnet op fuel = script_exit (bootstrap_main op fuel)"

section \<open>verify-testnet.ts\<close>

definition VERIFY_CONTRACTS :: "string list" where
  "VERIFY_CONTRACTS =
     [''sip-010-trait-v4'', ''strategy-trait-v4'', ''sovereignty-protocol-admin-v4'', ''agent-registry-v4'',
      ''strategy-registry-v4'', ''risk-guard-v5'', ''sovereignty-vault-v5'', ''execution-engine-v5'']"

definition SBTC_DEPENDENCY :: string where
  "SBTC_DEPENDENCY = ''SN3VMHXEN64ZZF71JQ5VESXDWTR301XTTXGF4J8F1.sbtc-token''"

definition checkContract :: "'w operator \<Rightarrow> string \<Rightarrow> ('w, bool) io" where
  "checkContract op cid =
     io_bind (op_fetch op (API op @ ''/extended/v1/contract/'' @ cid)) (\<lambda>(ok, status, body).
       if ok then
         io_bind (io_lift body) (\<lambda>d. io_bind (io_lift (js_get d ''tx_id'')) (\<lambda>_. io_return True))
       else io_return False)"

definition verify_main :: "'w operator \<Rightarrow> ('w, int) io" where
  "verify_main op =
     (case op_env op ''DEPLOYER_ADDRESS'' of
        Some d \<Rightarrow>
          if d = [] then io_return 1
          else
            io_bind (checkContract op SBTC_DEPENDENCY) (\<lambda>_.
            io_bind (io_map (\<lambda>n. checkContract op (d @ ''.'' @ n)) VERIFY_CONTRACTS) (\<lambda>oks.
            io_return (if list_all (\<lambda>ok. ok) oks then 0 else 1)))
      | None \<Rightarrow> io_return 1)"

definition verify_testnet :: "'w operator \<Rightarrow> ('w, int) io" where
  "verify_testnet op = script_exit (verify_main op)"

section \<open>deploy-testnet.ts\<close>

definition MIN_STX_FOR_DEPLOY :: int where
  "MIN_STX_FOR_DEPLOY = 5000000"

definition PLACEHOLDER_MNEMONIC :: string where
  "PLACEHOLDER_MNEMONIC = ''<YOUR PRIVATE TESTNET MNEMONIC HERE>''"

text \<open>The first match of \<^verbatim>\<open>/stx_address:\s*(\S+)/\<close>: its group.\<close>

definition match_address :: "string \<Rightarrow> string option" where
  "match_address s =
     (if \<not> starts_with s ''stx_address:'' then None
      else (let a = takeWhile (\<lambda>c. \<not> is_space c) (dropWhile is_space (drop 12 s)) in if a = [] then None else Some a))"

fun find_address :: "string \<Rightarrow> string option" where
  "find_address [] = None"
| "find_address (c # s) = (case match_address (c # s) of Some a \<Rightarrow> Some a | None \<Rightarrow> find_address s)"

definition deploy_address :: "'w operator \<Rightarrow> string \<Rightarrow> string option" where
  "deploy_address op toml =
     (let explicit = op_env op ''DEPLOYER_ADDRESS'' in if truthy_text explicit then explicit else find_address toml)"

definition run_command :: "'w operator \<Rightarrow> string \<Rightarrow> ('w script_host, unit) io" where
  "run_command op cmd = io_bind (op_emit (CommandRun cmd)) (\<lambda>_. op_outside (op_command op cmd))"

text \<open>The check before anything is generated: is the balance of a known address enough? Unknown is enough.\<close>

definition deploy_funded :: "'w operator \<Rightarrow> string \<Rightarrow> ('w, bool) io" where
  "deploy_funded op toml =
     (case deploy_address op toml of
        None \<Rightarrow> io_return True
      | Some a \<Rightarrow>
          io_bind (op_fetch op (API op @ ''/extended/v1/address/'' @ a @ ''/stx'')) (\<lambda>(ok, status, body).
            if \<not> ok then io_return False
            else
              io_bind (io_lift (js_try body (\<lambda>d. js_try (js_get d ''balance'') to_bigint))) (\<lambda>balance.
              io_return (\<not> balance < MIN_STX_FOR_DEPLOY))))"

definition deploy_commands :: "'w operator \<Rightarrow> bool \<Rightarrow> ('w script_host, int) io" where
  "deploy_commands op dryRun =
     io_bind (run_command op ''clarinet deployments generate --testnet --medium-cost'') (\<lambda>_.
     io_bind (run_command op ''clarinet deployments check'') (\<lambda>_.
       if dryRun then io_return 0
       else io_bind (run_command op ''clarinet deployments apply --testnet'') (\<lambda>_. io_return 0)))"

definition deploy_main :: "'w operator \<Rightarrow> string list \<Rightarrow> ('w script_host, int) io" where
  "deploy_main op argv =
     (case op_file op ''settings/Testnet.toml'' of
        None \<Rightarrow> io_return 1
      | Some toml \<Rightarrow>
          if str_includes toml PLACEHOLDER_MNEMONIC then io_return 1
          else
            io_bind (op_outside (deploy_funded op toml)) (\<lambda>funded.
              if \<not> funded then io_return 1 else deploy_commands op (''--dry-run'' \<in> set argv)))"

definition deploy_testnet :: "'w operator \<Rightarrow> string list \<Rightarrow> ('w script_host, int) io" where
  "deploy_testnet op argv = script_exit (deploy_main op argv)"

section \<open>What a script leaves in its trace\<close>

text \<open>
  \<open>traces P m\<close>: all that \<open>m\<close> signs, runs or writes satisfies \<open>P\<close>, whether it returns or throws, and it
  erases nothing from the trace. The rules follow the structure of the scripts.
\<close>

definition traces :: "(op_effect \<Rightarrow> bool) \<Rightarrow> ('w script_host, 'a) io \<Rightarrow> bool" where
  "traces P m \<longleftrightarrow> (\<forall>h. \<exists>es. sh_effects (snd (m h)) = sh_effects h @ es \<and> list_all P es)"

named_theorems trace_rules \<open>rules for what a computation leaves in the trace of a script\<close>

lemma tracesD: "traces P m \<Longrightarrow> m h = (r, h') \<Longrightarrow> \<exists>es. sh_effects h' = sh_effects h @ es \<and> list_all P es"
  by (metis traces_def snd_conv)

lemma traces_return [trace_rules]: "traces P (io_return x)"
  by (simp add: traces_def io_return_def)

lemma traces_lift [trace_rules]: "traces P (io_lift r)"
  by (simp add: traces_def io_lift_def)

lemma traces_throw [trace_rules]: "traces P (io_throw e)"
  by (simp add: traces_def io_throw_def)

lemma traces_outside [trace_rules]: "traces P (op_outside m)"
  by (simp add: traces_def op_outside_def split: prod.split)

lemma traces_emit: "P e \<Longrightarrow> traces P (op_emit e)"
  by (simp add: traces_def op_emit_def)

lemma traces_bind [trace_rules]:
  assumes "traces P m" "\<And>x. traces P (g x)"
  shows "traces P (io_bind m g)"
  unfolding traces_def
proof
  fix h
  obtain r h1 where m: "m h = (r, h1)" by (cases "m h")
  from tracesD [OF assms(1) m] obtain es where es: "sh_effects h1 = sh_effects h @ es" "list_all P es" by blast
  show "\<exists>es. sh_effects (snd (io_bind m g h)) = sh_effects h @ es \<and> list_all P es"
  proof (cases r)
    case (Inl e)
    with m es show ?thesis by (simp add: io_bind_def)
  next
    case (Inr x)
    obtain fs where "sh_effects (snd (g x h1)) = sh_effects h1 @ fs" "list_all P fs"
      using assms(2) [of x] by (auto simp: traces_def)
    with Inr m es show ?thesis by (simp add: io_bind_def)
  qed
qed

lemma traces_catch [trace_rules]:
  assumes "traces P m" "\<And>e. traces P (g e)"
  shows "traces P (io_catch m g)"
  unfolding traces_def
proof
  fix h
  obtain r h1 where m: "m h = (r, h1)" by (cases "m h")
  from tracesD [OF assms(1) m] obtain es where es: "sh_effects h1 = sh_effects h @ es" "list_all P es" by blast
  show "\<exists>es. sh_effects (snd (io_catch m g h)) = sh_effects h @ es \<and> list_all P es"
  proof (cases r)
    case (Inl e)
    obtain fs where "sh_effects (snd (g e h1)) = sh_effects h1 @ fs" "list_all P fs"
      using assms(2) [of e] by (auto simp: traces_def)
    with Inl m es show ?thesis by (simp add: io_catch_def)
  next
    case (Inr x)
    with m es show ?thesis by (simp add: io_catch_def)
  qed
qed

lemma traces_call:
  assumes "\<And>c. splitContract (co_contract opts) = Inr c \<Longrightarrow> P (TxSigned (call_of_opts opts c))"
  shows "traces P (call_transaction op fuel opts)"
proof (cases "splitContract (co_contract opts)")
  case (Inl e)
  then show ?thesis by (simp add: call_transaction_def traces_def io_bind_def io_lift_def)
next
  case (Inr c)
  have "traces P (call_transaction op fuel opts) \<longleftrightarrow>
    traces P (io_bind (op_outside (op_makeCall op (call_of_opts opts c))) (\<lambda>tx.
     io_bind (op_emit (TxSigned (call_of_opts opts c))) (\<lambda>_.
     io_bind (op_outside (op_broadcast op tx)) (\<lambda>res.
     io_bind (io_lift (broadcast_id res)) (\<lambda>txid.
     io_bind (op_outside (io_of (op_now op))) (\<lambda>now.
     io_bind (op_outside (await_transaction op fuel txid (now + 5 * 60000))) (\<lambda>r.
       (case r of Some x \<Rightarrow> io_return x | None \<Rightarrow> io_lift (Inl (OutOfModel ''out of fuel''))))))))))"
    by (simp add: call_transaction_def traces_def Inr)
  then show ?thesis
    using assms [OF Inr] by (auto intro!: trace_rules traces_emit split: option.split)
qed

section \<open>Facts of the wait\<close>

text \<open>A result of the wait is the record the API returned for the transaction, and it is not pending.\<close>

lemma await_verdict:
  "await_transaction op n txid d w = (Inr (Some r), w') \<Longrightarrow>
     \<exists>u u' st t. op_fetch op (API op @ ''/extended/v1/tx/'' @ txid) u = (Inr (True, st, Inr t), u') \<and> st \<noteq> 404 \<and>
       js_get t ''tx_status'' = Inr (JStr (cr_status r)) \<and> cr_status r \<noteq> ''pending'' \<and> cr_txid r = txid"
proof (induction n arbitrary: w)
  case 0
  then show ?case by (simp add: io_return_def)
next
  case (Suc n)
  obtain now w1 where now: "op_now op w = (now, w1)" by (cases "op_now op w") auto
  obtain f w2 where f: "op_fetch op (API op @ ''/extended/v1/tx/'' @ txid) w1 = (f, w2)"
    by (cases "op_fetch op (API op @ ''/extended/v1/tx/'' @ txid) w1") auto
  from Suc.prems now f obtain ok st body where fe: "f = Inr (ok, st, body)" and "now < d"
    by (auto simp: io_bind_def io_of_def io_throw_def split: if_splits sum.splits)
  let ?again = "await_transaction op n txid d (op_sleep op 4000 w2) = (Inr (Some r), w')"
  consider ?again
    | t where "st \<noteq> 404" "ok" "body = Inr t" "js_get t ''tx_status'' \<noteq> Inr (JStr ''pending'')"
        "settled_transaction op txid t = Inr r"
    using Suc.prems now f fe \<open>now < d\<close>
    by (auto simp: io_bind_def io_of_def io_throw_def io_lift_def io_return_def Let_def split: if_splits sum.splits)
  then show ?case
  proof cases
    case 1
    then show ?thesis by (rule Suc.IH)
  next
    case (2 t)
    then have "js_get t ''tx_status'' = Inr (JStr (cr_status r)) \<and> cr_txid r = txid"
      by (auto simp: settled_transaction_def js_try_Inr_iff elim!: as_string.elims)
    with 2 f fe show ?thesis by auto
  qed
qed

text \<open>The wait ends: five minutes take 75 rounds when the clock follows the sleeps.\<close>

lemma await_terminates:
  assumes clock: "\<And>w. fst (op_now op w) = clk w" "\<And>w. clk (snd (op_now op w)) = clk w"
    and read: "\<And>w. clk w \<le> clk (snd (op_fetch op (API op @ ''/extended/v1/tx/'' @ txid) w))"
    and sleep: "\<And>w. clk w + 4000 \<le> clk (op_sleep op 4000 w)"
  shows "d \<le> clk w + int n * 4000 \<Longrightarrow> fst (await_transaction op (Suc n) txid d w) \<noteq> Inr None"
proof (induction n arbitrary: w)
  case 0
  obtain now w1 where n: "op_now op w = (now, w1)" by (cases "op_now op w") auto
  then have "now = clk w" using clock(1) [of w] by simp
  with 0 n show ?case by (simp add: io_bind_def io_of_def io_throw_def)
next
  case (Suc n)
  obtain now w1 where n: "op_now op w = (now, w1)" by (cases "op_now op w") auto
  obtain f w2 where f: "op_fetch op (API op @ ''/extended/v1/tx/'' @ txid) w1 = (f, w2)"
    by (cases "op_fetch op (API op @ ''/extended/v1/tx/'' @ txid) w1") auto
  have "clk w1 = clk w" using clock(2) [of w] n by simp
  then have "clk w \<le> clk w2" using read [of w1] f by simp
  then have "clk w + 4000 \<le> clk (op_sleep op 4000 w2)" using sleep [of w2] by linarith
  then have "d \<le> clk (op_sleep op 4000 w2) + int n * 4000" using Suc.prems by (simp add: algebra_simps)
  then have again: "fst (await_transaction op (Suc n) txid d (op_sleep op 4000 w2)) \<noteq> Inr None" by (rule Suc.IH)
  show ?case
    unfolding await_transaction.simps(2) [of op "Suc n"]
    using n f again
    by (simp del: await_transaction.simps add: io_bind_def io_of_def io_throw_def io_lift_def io_return_def Let_def
        split: sum.split prod.split)
qed

lemma five_minutes_suffice:
  assumes "\<And>w. fst (op_now op w) = clk w" "\<And>w. clk (snd (op_now op w)) = clk w"
    "\<And>w. clk w \<le> clk (snd (op_fetch op (API op @ ''/extended/v1/tx/'' @ txid) w))"
    "\<And>w. clk w + 4000 \<le> clk (op_sleep op 4000 w)"
  shows "fst (await_transaction op 76 txid (clk w + 5 * 60000) w) \<noteq> Inr None"
  using await_terminates [where n = 75, OF assms] by simp

section \<open>Facts of the scripts\<close>

text \<open>The bootstrap signs at most the one call that sets the approved sBTC asset, and none when it is set.\<close>

definition sets_approved_asset :: "op_effect \<Rightarrow> bool" where
  "sets_approved_asset e \<longleftrightarrow>
     (\<exists>c. e = TxSigned c \<and> oc_contractName c = ''risk-guard-v7'' \<and> oc_functionName c = ''set-approved-sbtc-asset'' \<and>
        oc_functionArgs c = [CvContractPrincipal SBTC_address SBTC_name] \<and> oc_deny c \<and> oc_network c = ''testnet'')"

lemma script_names [simp]:
  "deployed_name ''vault'' = ''sovereignty-vault-v7''" "deployed_name ''receipts'' = ''receipt-token-v7''"
  "deployed_name ''risk'' = ''risk-guard-v7''" "deployed_name ''engine'' = ''execution-engine-v7''"
  by (simp_all add: deployed_name_def NAMES_def)

lemma id_of_split:
  "CHR ''.'' \<notin> set (DEPLOYER op) \<Longrightarrow> splitContract (id_of op n) = Inr (DEPLOYER op, hd (split_on (CHR ''.'') n))"
  by (simp add: splitContract_def id_of_def split_on_first split: list.split)

lemma verify_names_old:
  "set (map deployed_name [''vault'', ''receipts'', ''risk'', ''engine'', ''strategies'']) \<inter> set VERIFY_CONTRACTS = {}"
  by (simp add: VERIFY_CONTRACTS_def deployed_name_def NAMES_def)

lemma bootstrap_signs:
  assumes "CHR ''.'' \<notin> set (DEPLOYER op)"
  shows "traces sets_approved_asset (bootstrap_testnet op fuel)"
proof -
  have "traces sets_approved_asset (call_transaction op fuel
      \<lparr> co_key = key, co_contract = id_of op (deployed_name ''risk''), co_fn = ''set-approved-sbtc-asset'',
        co_args = [CvContractPrincipal SBTC_address SBTC_name], co_postConditions = None, co_mode = None \<rparr>)" for key
    by (rule traces_call) (auto simp: sets_approved_asset_def call_of_opts_def id_of_split [OF assms])
  then show ?thesis
    unfolding bootstrap_testnet_def script_exit_def bootstrap_main_def
    by (intro trace_rules) (auto intro!: trace_rules split: prod.split)
qed

text \<open>Nothing is run by a deployment before its checks have passed, and a dry run broadcasts nothing.\<close>

lemma deploy_dry_run:
  assumes "''--dry-run'' \<in> set argv"
  shows "traces (\<lambda>e. e = CommandRun ''clarinet deployments generate --testnet --medium-cost'' \<or>
    e = CommandRun ''clarinet deployments check'') (deploy_testnet op argv)"
  using assms unfolding deploy_testnet_def script_exit_def deploy_main_def deploy_commands_def run_command_def
  by (auto intro!: trace_rules traces_emit split: option.split)

lemma deploy_needs_checks:
  assumes "deploy_testnet op argv h = (r, h')" "sh_effects h' \<noteq> sh_effects h"
  shows "\<exists>toml. op_file op ''settings/Testnet.toml'' = Some toml \<and> \<not> str_includes toml PLACEHOLDER_MNEMONIC \<and>
           fst (deploy_funded op toml (sh_ext h)) = Inr True"
proof (cases "op_file op ''settings/Testnet.toml''")
  case None
  with assms show ?thesis by (simp add: deploy_testnet_def deploy_main_def script_exit_def io_catch_def io_return_def)
next
  case (Some toml)
  obtain x w where f: "deploy_funded op toml (sh_ext h) = (x, w)" by (cases "deploy_funded op toml (sh_ext h)")
  have quiet: "sh_effects h' = sh_effects h" if "str_includes toml PLACEHOLDER_MNEMONIC \<or> x \<noteq> Inr True"
    using that assms(1) Some f
    by (auto simp: deploy_testnet_def deploy_main_def script_exit_def io_catch_def io_return_def io_bind_def
        op_outside_def split: if_splits sum.splits)
  with assms(2) Some f show ?thesis by auto
qed

text \<open>Exit code 0 says that every contract of the list was found, by one request for each.\<close>

lemma io_map_True:
  "io_map f xs w = (Inr ys, w') \<Longrightarrow> list_all (\<lambda>ok. ok) ys \<Longrightarrow> x \<in> set xs \<Longrightarrow> \<exists>u u'. f x u = (Inr True, u')"
  by (induction xs arbitrary: w ys) (auto 4 4 simp: io_bind_Inr_iff io_return_def)

lemma verify_found:
  assumes "verify_testnet op w = (Inr 0, w')"
  shows "\<exists>d. op_env op ''DEPLOYER_ADDRESS'' = Some d \<and> d \<noteq> [] \<and>
    (\<forall>n \<in> set VERIFY_CONTRACTS. \<exists>u u' st body. op_fetch op (API op @ ''/extended/v1/contract/'' @ d @ ''.'' @ n) u = (Inr (True, st, body), u'))"
proof -
  from assms have "verify_main op w = (Inr 0, w')"
    by (auto simp: verify_testnet_def script_exit_def io_catch_def io_return_def split: prod.splits sum.splits if_splits)
  then obtain d oks w1 where d: "op_env op ''DEPLOYER_ADDRESS'' = Some d" "d \<noteq> []" and "list_all (\<lambda>ok. ok) oks"
    and m: "io_map (\<lambda>n. checkContract op (d @ ''.'' @ n)) VERIFY_CONTRACTS w1 = (Inr oks, w')"
    by (auto simp: verify_main_def io_bind_Inr_iff io_return_def split: option.splits if_splits)
  have "\<exists>u u' st body. op_fetch op (API op @ ''/extended/v1/contract/'' @ d @ ''.'' @ n) u = (Inr (True, st, body), u')"
    if n: "n \<in> set VERIFY_CONTRACTS" for n
  proof -
    from io_map_True [OF m \<open>list_all (\<lambda>ok. ok) oks\<close> n] obtain u u' where "checkContract op (d @ ''.'' @ n) u = (Inr True, u')"
      by blast
    then show ?thesis by (auto simp: checkContract_def io_bind_Inr_iff io_return_def split: if_splits)
  qed
  with d show ?thesis by blast
qed

end
