(* ===== verification/Acceptance_Run.thy ===== *)
theory Acceptance_Run
  imports Operator_Scripts
begin

text \<open>
  The live acceptance run, scripts/acceptance-testnet.ts: it creates three vaults, deposits and redeems
  with two wallets, and checks what it reads back. A check that does not hold is counted and the run goes
  on; a call that throws ends it.
\<close>

section \<open>Checks and log\<close>

definition check :: "bool \<Rightarrow> ('w script_host, unit) io" where
  "check cond = (\<lambda>h. (Inr (), if cond then h else h\<lparr>sh_failures := Suc (sh_failures h)\<rparr>))"

definition log_tx :: "string \<Rightarrow> call_result \<Rightarrow> ('w script_host, unit) io" where
  "log_tx step r = (\<lambda>h. (Inr (), h\<lparr>sh_log := sh_log h @
     [\<lparr> ae_step = step, ae_txid = cr_txid r, ae_status = cr_status r, ae_detail = cr_repr r \<rparr>]\<rparr>))"

definition failures :: "('w script_host, nat) io" where
  "failures = (\<lambda>h. (Inr (sh_failures h), h))"

definition entry_json :: "acceptance_entry \<Rightarrow> js" where
  "entry_json e = JObj
     [(''step'', JStr (ae_step e)), (''txid'', JStr (ae_txid e)), (''status'', JStr (ae_status e)),
      (''detail'', JStr (ae_detail e))]"

definition write_log :: "string \<Rightarrow> (js \<Rightarrow> js) \<Rightarrow> ('w script_host, unit) io" where
  "write_log path f = (\<lambda>h. op_emit (FileWritten path (f (JArr (map entry_json (sh_log h))))) h)"

section \<open>Reads\<close>

definition num_of :: "js \<Rightarrow> int result" where
  "num_of j = js_try (js_get j ''value'') (\<lambda>v.
     let inner = js_opt v ''value'' in to_bigint (if nullish inner then v else inner))"

definition read_num ::
    "'w operator \<Rightarrow> string \<Rightarrow> string \<Rightarrow> cl_arg list \<Rightarrow> string option \<Rightarrow> ('w script_host, int) io" where
  "read_num op contract fn args sender =
     io_bind (op_outside (op_read op contract fn args sender)) (\<lambda>j. io_lift (num_of j))"

record acceptance_position =
  ap_shares :: int
  ap_supply :: int
  ap_total :: int
  ap_idle :: int
  ap_bps :: int
  ap_claim :: int
  ap_redeemable :: int

definition acceptance_position_of :: "js \<Rightarrow> acceptance_position result" where
  "acceptance_position_of j =
     js_try (js_get j ''value'') (\<lambda>t.
     let field = (\<lambda>k. js_try (js_path t [k, ''value'']) to_bigint) in
     js_try (field ''shares'') (\<lambda>shares.
     js_try (field ''supply'') (\<lambda>supply.
     js_try (field ''total-assets'') (\<lambda>total.
     js_try (field ''idle'') (\<lambda>idle.
     js_try (field ''ownership-bps'') (\<lambda>bps.
     js_try (field ''claim'') (\<lambda>claim.
     js_try (field ''redeemable'') (\<lambda>redeemable.
     Inr \<lparr> ap_shares = shares, ap_supply = supply, ap_total = total, ap_idle = idle, ap_bps = bps, ap_claim = claim,
           ap_redeemable = redeemable \<rparr>))))))))"

definition VAULT :: "'w operator \<Rightarrow> string" where
  "VAULT op = id_of op (deployed_name ''vault'')"

definition SBTC_ID :: string where
  "SBTC_ID = SBTC_address @ ''.'' @ SBTC_name"

definition read_position ::
    "'w operator \<Rightarrow> int \<Rightarrow> string \<Rightarrow> string \<Rightarrow> ('w script_host, acceptance_position) io" where
  "read_position op vaultId asset who =
     io_bind (op_outside (op_read op (VAULT op) ''get-position'' [ClUint vaultId, ClStringAscii asset, ClPrincipal who] (Some who)))
       (\<lambda>j. io_lift (acceptance_position_of j))"

definition stx_balance :: "'w operator \<Rightarrow> string \<Rightarrow> ('w script_host, int) io" where
  "stx_balance op who =
     io_bind (op_outside (op_apiGet op (''/extended/v1/address/'' @ who @ ''/stx''))) (\<lambda>d.
       io_lift (js_try (js_get d ''balance'') to_bigint))"

section \<open>Transactions\<close>

definition send_to_vault ::
    "'w operator \<Rightarrow> nat \<Rightarrow> string \<Rightarrow> string \<Rightarrow> web_arg list \<Rightarrow> post_condition list option \<Rightarrow>
     ('w script_host, call_result) io" where
  "send_to_vault op fuel key fn args pcs =
     call_transaction op fuel
       \<lparr> co_key = key, co_contract = VAULT op, co_fn = fn, co_args = args, co_postConditions = pcs, co_mode = None \<rparr>"

definition logged :: "string \<Rightarrow> ('w script_host, call_result) io \<Rightarrow> ('w script_host, call_result) io" where
  "logged step m = io_bind m (\<lambda>r. io_bind (log_tx step r) (\<lambda>_. io_return r))"

definition createVault ::
    "'w operator \<Rightarrow> nat \<Rightarrow> string \<Rightarrow> string \<Rightarrow> int \<Rightarrow> int \<Rightarrow> bool \<Rightarrow> bool \<Rightarrow> ('w script_host, int) io" where
  "createVault op fuel key name purpose assets opened auto =
     io_bind (logged (''create-vault '' @ [CHR 0x22] @ name @ [CHR 0x22])
       (send_to_vault op fuel key ''create-vault''
          [CvStringUtf8 name, CvUint purpose, CvUint assets, CvBool opened, CvUint 3000, CvUint 100000000, CvUint 10000000,
           CvUint 50, CvUint 2000, CvBool auto, CvUint 100] None)) (\<lambda>r.
       if cr_status r \<noteq> ''success'' then io_throw (JsError (''create-vault failed: '' @ cr_repr r))
       else io_lift (js_try (js_path (cr_result r) [''value'', ''value'']) to_bigint))"

definition deposit_stx_call ::
    "'w operator \<Rightarrow> nat \<Rightarrow> string \<Rightarrow> string \<Rightarrow> int \<Rightarrow> int \<Rightarrow> ('w script_host, call_result) io" where
  "deposit_stx_call op fuel key who vaultId amount =
     send_to_vault op fuel key ''deposit-stx'' [CvUint vaultId, CvUint amount] (Some [SendEq who amount None])"

definition sbtc_amount :: "string \<Rightarrow> int \<Rightarrow> post_condition" where
  "sbtc_amount who amount = SendEq who amount (Some (SBTC_ID, ''sbtc-token''))"

section \<open>The run\<close>

text \<open>0 and 1: what the chain reports, and three vaults of one owner.\<close>

definition check_environment :: "'w operator \<Rightarrow> ('w script_host, unit) io" where
  "check_environment op =
     io_bind (op_outside (op_read op (id_of op (deployed_name ''risk'')) ''get-execution-environment'' [] None)) (\<lambda>env.
     io_bind (io_lift (js_path env [''value'', ''network'', ''value''])) (\<lambda>network.
     io_bind (check (network = JStr ''TESTNET'')) (\<lambda>_.
     io_bind (io_lift (js_path env [''value'', ''strategy-execution-enabled'', ''value''])) (\<lambda>enabled.
     check (enabled = JBool False)))))"

definition owner_count :: "'w operator \<Rightarrow> string \<Rightarrow> ('w script_host, int) io" where
  "owner_count op dep =
     io_bind (read_num op (VAULT op) ''get-owner-vault-count'' [ClPrincipal dep] None) (\<lambda>n. io_return (js_Number n))"

definition create_three :: "'w operator \<Rightarrow> nat \<Rightarrow> string \<Rightarrow> string \<Rightarrow> ('w script_host, int \<times> int \<times> int) io" where
  "create_three op fuel dKey dep =
     io_bind (owner_count op dep) (\<lambda>before.
     io_bind (createVault op fuel dKey ''Conservative Treasury'' 0 1 False False) (\<lambda>vA.
     io_bind (createVault op fuel dKey ''Business Treasury'' 2 3 False True) (\<lambda>vB.
     io_bind (createVault op fuel dKey ''DAO Treasury'' 3 1 True False) (\<lambda>vC.
     io_bind (owner_count op dep) (\<lambda>after.
     io_bind (check (after - before = 3)) (\<lambda>_.
     io_bind (op_outside (op_read op (VAULT op) ''get-vault'' [ClUint vB] None)) (\<lambda>meta.
     io_bind (io_lift (js_path meta [''value'', ''value'', ''name'', ''value''])) (\<lambda>name.
     io_bind (if name = JStr ''Business Treasury''
              then io_bind (io_lift (js_path meta [''value'', ''value'', ''assets'', ''value''])) (\<lambda>assets. check (assets = JStr ''3''))
              else check False) (\<lambda>_.
     io_return (vA, vB, vC))))))))))"

text \<open>2 and 3: a first deposit mints shares one for one, and the other vaults are untouched.\<close>

definition first_deposit :: "'w operator \<Rightarrow> nat \<Rightarrow> string \<Rightarrow> string \<Rightarrow> int \<Rightarrow> ('w script_host, unit) io" where
  "first_deposit op fuel dKey dep vA =
     io_bind (stx_balance op dep) (\<lambda>stxBefore.
     io_bind (logged ''deposit-stx A'' (deposit_stx_call op fuel dKey dep vA 2000000)) (\<lambda>r1.
     io_bind (check (cr_status r1 = ''success'')) (\<lambda>_.
     io_bind (read_position op vA ''STX'' dep) (\<lambda>posA.
     io_bind (check (ap_shares posA = 2000000)) (\<lambda>_.
     io_bind (check (ap_supply posA = 2000000)) (\<lambda>_.
     io_bind (check (ap_bps posA = 10000)) (\<lambda>_.
     io_bind (check (ap_total posA = 2000000)) (\<lambda>_.
     io_bind (read_num op (id_of op (deployed_name ''receipts'')) ''get-balance''
                [ClUint vA, ClStringAscii ''STX'', ClPrincipal dep] None) (\<lambda>recBal.
     io_bind (check (recBal = 2000000)) (\<lambda>_.
     io_bind (stx_balance op dep) (\<lambda>stxAfter.
     check (stxBefore - stxAfter \<ge> 2000000))))))))))))"

definition check_untouched :: "'w operator \<Rightarrow> string \<Rightarrow> int \<Rightarrow> int \<Rightarrow> ('w script_host, unit) io" where
  "check_untouched op dep vB vC =
     io_bind (read_position op vB ''STX'' dep) (\<lambda>posB.
     io_bind (read_position op vC ''STX'' dep) (\<lambda>posC.
     io_bind (check (ap_supply posB = 0 \<and> ap_total posB = 0)) (\<lambda>_.
     check (ap_supply posC = 0 \<and> ap_total posC = 0))))"

text \<open>4: two depositors share an open vault; a vault that is not open refuses the second wallet.\<close>

definition two_depositors ::
    "'w operator \<Rightarrow> nat \<Rightarrow> string \<Rightarrow> string \<Rightarrow> string \<Rightarrow> string \<Rightarrow> int \<Rightarrow> int \<Rightarrow> ('w script_host, unit) io" where
  "two_depositors op fuel dKey eKey dep executor vA vC =
     io_bind (logged ''deposit-stx C (deployer 3 STX)'' (deposit_stx_call op fuel dKey dep vC 3000000)) (\<lambda>_.
     io_bind (logged ''deposit-stx C (second wallet 1 STX)'' (deposit_stx_call op fuel eKey executor vC 1000000)) (\<lambda>rBob.
     io_bind (check (cr_status rBob = ''success'')) (\<lambda>_.
     io_bind (read_position op vC ''STX'' dep) (\<lambda>cA.
     io_bind (read_position op vC ''STX'' executor) (\<lambda>cB.
     io_bind (check (ap_shares cA = 3000000 \<and> ap_bps cA = 7500)) (\<lambda>_.
     io_bind (check (ap_shares cB = 1000000 \<and> ap_bps cB = 2500)) (\<lambda>_.
     io_bind (check (ap_supply cA = 4000000)) (\<lambda>_.
     io_bind (read_position op vA ''STX'' dep) (\<lambda>pkA.
     io_bind (check (ap_shares pkA = 2000000 \<and> ap_supply pkA = 2000000)) (\<lambda>_.
     io_bind (deposit_stx_call op fuel eKey executor vA 1000000) (\<lambda>stranger.
     io_bind (log_tx ''deposit-stx A by non-owner (must be rejected: owner-only vault)'' stranger) (\<lambda>_.
     check (starts_with (cr_status stranger) ''abort_'' \<and> str_includes (cr_repr stranger) ''u113'')))))))))))))"

text \<open>5: a deposit of sBTC.\<close>

definition sbtc_deposit ::
    "'w operator \<Rightarrow> nat \<Rightarrow> string \<Rightarrow> string \<Rightarrow> int \<Rightarrow> ('w script_host, int) io" where
  "sbtc_deposit op fuel dKey dep vB =
     io_bind (read_num op SBTC_ID ''get-balance'' [ClPrincipal dep] (Some dep)) (\<lambda>sbtcBefore.
     io_bind (logged ''deposit-sbtc B''
        (send_to_vault op fuel dKey ''deposit-sbtc'' [CvUint vB, CvUint 100000, CvContractPrincipal SBTC_address SBTC_name]
           (Some [sbtc_amount dep 100000]))) (\<lambda>r5.
     io_bind (check (cr_status r5 = ''success'')) (\<lambda>_.
     io_bind (read_position op vB ''SBTC'' dep) (\<lambda>sB.
     io_bind (check (ap_shares sB = 100000 \<and> ap_total sB = 100000)) (\<lambda>_.
     io_bind (read_num op SBTC_ID ''get-balance'' [ClPrincipal dep] (Some dep)) (\<lambda>sbtcAfter.
     io_bind (check (sbtcBefore - sbtcAfter = 100000)) (\<lambda>_.
     io_bind (read_num op SBTC_ID ''get-balance'' [ClContractPrincipal dep (deployed_name ''vault'')] (Some dep)) (\<lambda>vaultSbtc.
     io_bind (check (vaultSbtc \<ge> 100000)) (\<lambda>_.
     io_bind (read_position op vB ''STX'' dep) (\<lambda>bStx.
     io_bind (check (ap_supply bStx = 0)) (\<lambda>_.
     io_return sbtcBefore)))))))))))"

text \<open>6 and 7: redemptions.\<close>

definition redeem_half :: "'w operator \<Rightarrow> nat \<Rightarrow> string \<Rightarrow> string \<Rightarrow> int \<Rightarrow> ('w script_host, unit) io" where
  "redeem_half op fuel dKey dep vA =
     io_bind (logged ''redeem-stx A''
        (send_to_vault op fuel dKey ''redeem-stx'' [CvUint vA, CvUint 1000000] (Some [SendEq (VAULT op) 1000000 None]))) (\<lambda>r6.
     io_bind (check (cr_status r6 = ''success'')) (\<lambda>_.
     io_bind (read_position op vA ''STX'' dep) (\<lambda>posA2.
     io_bind (check (ap_shares posA2 = 2000000 - 1000000 \<and> ap_supply posA2 = 2000000 - 1000000)) (\<lambda>_.
     check (ap_total posA2 = 2000000 - 1000000)))))"

definition redeem_sbtc_shares ::
    "'w operator \<Rightarrow> nat \<Rightarrow> string \<Rightarrow> string \<Rightarrow> int \<Rightarrow> int \<Rightarrow> ('w script_host, unit) io" where
  "redeem_sbtc_shares op fuel dKey dep vB sbtcBefore =
     io_bind (logged ''redeem-sbtc B''
        (send_to_vault op fuel dKey ''redeem-sbtc'' [CvUint vB, CvUint 100000, CvContractPrincipal SBTC_address SBTC_name]
           (Some [sbtc_amount (VAULT op) 100000]))) (\<lambda>r7.
     io_bind (check (cr_status r7 = ''success'')) (\<lambda>_.
     io_bind (read_num op SBTC_ID ''get-balance'' [ClPrincipal dep] (Some dep)) (\<lambda>sbtcRestored.
     check (sbtcRestored = sbtcBefore))))"

text \<open>8: the engine refuses an intent for a strategy that is not registered. \<open>String(v) === "202"\<close>.\<close>

definition check_evaluation :: "'w operator \<Rightarrow> string \<Rightarrow> int \<Rightarrow> ('w script_host, unit) io" where
  "check_evaluation op dep vA =
     io_bind (op_outside (op_read op (id_of op (deployed_name ''engine'')) ''evaluate-rebalance-intent''
        [ClUint vA, ClUint 1, ClStringAscii ''STX'', ClUint 100000, ClUint 50, ClUint 1, ClUint 9999999] (Some dep))) (\<lambda>ev.
     io_bind (io_lift (js_get ev ''success'')) (\<lambda>success.
       if success = JBool False
       then io_bind (io_lift (js_path ev [''value'', ''value''])) (\<lambda>code. check (code = JStr ''202'' \<or> code = JNum 202))
       else check False))"

definition acceptance_json :: "string \<Rightarrow> string \<Rightarrow> string \<Rightarrow> int \<times> int \<times> int \<Rightarrow> js \<Rightarrow> js" where
  "acceptance_json ranAt dep executor vs txs =
     (case vs of (vA, vB, vC) \<Rightarrow> JObj
        [(''ranAt'', JStr ranAt), (''deployer'', JStr dep), (''secondWallet'', JStr executor),
         (''vaults'', JObj [(''A'', JStr (int_text vA)), (''B'', JStr (int_text vB)), (''C'', JStr (int_text vC))]),
         (''txs'', txs)])"

definition acceptance_steps ::
    "'w operator \<Rightarrow> nat \<Rightarrow> string \<Rightarrow> string \<Rightarrow> string \<Rightarrow> string \<Rightarrow> ('w script_host, int) io" where
  "acceptance_steps op fuel dKey eKey dep executor =
     io_bind (check_environment op) (\<lambda>_.
     io_bind (create_three op fuel dKey dep) (\<lambda>(vA, vB, vC).
     io_bind (first_deposit op fuel dKey dep vA) (\<lambda>_.
     io_bind (check_untouched op dep vB vC) (\<lambda>_.
     io_bind (two_depositors op fuel dKey eKey dep executor vA vC) (\<lambda>_.
     io_bind (sbtc_deposit op fuel dKey dep vB) (\<lambda>sbtcBefore.
     io_bind (redeem_half op fuel dKey dep vA) (\<lambda>_.
     io_bind (redeem_sbtc_shares op fuel dKey dep vB sbtcBefore) (\<lambda>_.
     io_bind (check_evaluation op dep vA) (\<lambda>_.
     io_bind (op_outside (io_of (op_isoNow op))) (\<lambda>ranAt.
     io_bind (write_log ''docs/testnet-acceptance.json'' (acceptance_json ranAt dep executor (vA, vB, vC))) (\<lambda>_.
     io_bind failures (\<lambda>n. io_return (if n \<noteq> 0 then 1 else 0)))))))))))))"

definition acceptance_main :: "'w operator \<Rightarrow> nat \<Rightarrow> ('w script_host, int) io" where
  "acceptance_main op fuel =
     io_bind (op_outside (deployerKey op)) (\<lambda>(dKey, dep).
       (case executorKey op of
          None \<Rightarrow> io_throw (JsError ''agent/.env EXECUTOR_PRIVATE_KEY missing (needed as a second real wallet)'')
        | Some eKey \<Rightarrow>
            io_bind (io_lift (op_addressOfKey op eKey)) (\<lambda>executor.
              acceptance_steps op fuel dKey eKey dep executor)))"

definition acceptance_testnet :: "'w operator \<Rightarrow> nat \<Rightarrow> ('w script_host, int) io" where
  "acceptance_testnet op fuel = script_exit (acceptance_main op fuel)"

section \<open>What the run signs\<close>

text \<open>
  Every transaction of the run is a call of the vault in deny mode, and one that moves assets carries the
  one condition that exactly the amount it names is sent.
\<close>

definition exact_conditions :: "operator_call \<Rightarrow> bool" where
  "exact_conditions c \<longleftrightarrow>
     (oc_functionName c = ''create-vault'' \<and> oc_postConditions c = [] \<or>
      (\<exists>v n p. oc_functionName c \<in> {''deposit-stx'', ''redeem-stx''} \<and> oc_functionArgs c = [CvUint v, CvUint n] \<and>
         oc_postConditions c = [SendEq p n None]) \<or>
      (\<exists>v n p. oc_functionName c \<in> {''deposit-sbtc'', ''redeem-sbtc''} \<and>
         oc_functionArgs c = [CvUint v, CvUint n, CvContractPrincipal SBTC_address SBTC_name] \<and>
         oc_postConditions c = [SendEq p n (Some (SBTC_ID, ''sbtc-token''))]))"

definition vault_transaction :: "op_effect \<Rightarrow> bool" where
  "vault_transaction e \<longleftrightarrow>
     (\<exists>t. e = FileWritten ''docs/testnet-acceptance.json'' t) \<or>
     (\<exists>c. e = TxSigned c \<and> oc_contractName c = ''sovereignty-vault-v7'' \<and> oc_network c = ''testnet'' \<and> oc_deny c \<and>
        exact_conditions c)"

lemma traces_check [trace_rules]: "traces P (check c)"
  by (simp add: traces_def check_def)

lemma traces_log_tx [trace_rules]: "traces P (log_tx step r)"
  by (simp add: traces_def log_tx_def)

lemma traces_failures [trace_rules]: "traces P failures"
  by (simp add: traces_def failures_def)

lemma traces_write_log: "(\<And>t. P (FileWritten path t)) \<Longrightarrow> traces P (write_log path f)"
  by (simp add: traces_def write_log_def op_emit_def)

lemma traces_logged [trace_rules]: "traces P m \<Longrightarrow> traces P (logged step m)"
  unfolding logged_def by (intro trace_rules)

lemma traces_reads [trace_rules]:
  "traces P (read_num op c f a s)" "traces P (read_position op v x who)" "traces P (stx_balance op who)"
  "traces P (owner_count op who)" "traces P (check_environment op)" "traces P (check_evaluation op who v)"
  unfolding owner_count_def check_environment_def check_evaluation_def read_num_def read_position_def stx_balance_def
  by (auto intro!: trace_rules)

lemma traces_send:
  assumes "CHR ''.'' \<notin> set (DEPLOYER op)"
    "\<And>c. oc_functionName c = fn \<Longrightarrow> oc_functionArgs c = args \<Longrightarrow>
       oc_postConditions c = (case pcs of Some ps \<Rightarrow> ps | None \<Rightarrow> []) \<Longrightarrow> exact_conditions c"
  shows "traces vault_transaction (send_to_vault op fuel key fn args pcs)"
  unfolding send_to_vault_def
  by (rule traces_call)
    (auto simp: vault_transaction_def call_of_opts_def VAULT_def id_of_split [OF assms(1)] intro!: assms(2))

lemma acceptance_transactions:
  assumes d: "CHR ''.'' \<notin> set (DEPLOYER op)"
  shows "traces vault_transaction (acceptance_testnet op fuel)"
proof -
  have create: "traces vault_transaction (createVault op fuel key n p a b c)" for key n p a b c
    unfolding createVault_def by (auto intro!: trace_rules traces_send [OF d] simp: exact_conditions_def)
  have deposit: "traces vault_transaction (deposit_stx_call op fuel key who v n)" for key who v n
    unfolding deposit_stx_call_def by (rule traces_send [OF d]) (auto simp: exact_conditions_def)
  have three: "traces vault_transaction (create_three op fuel k who)" for k who
    unfolding create_three_def by (auto intro!: trace_rules create)
  have first: "traces vault_transaction (first_deposit op fuel k who v)" for k who v
    unfolding first_deposit_def by (auto intro!: trace_rules deposit)
  have untouched: "traces vault_transaction (check_untouched op who v w)" for who v w
    unfolding check_untouched_def by (auto intro!: trace_rules)
  have two: "traces vault_transaction (two_depositors op fuel k l who whom v w)" for k l who whom v w
    unfolding two_depositors_def by (auto intro!: trace_rules deposit)
  have sbtc: "traces vault_transaction (sbtc_deposit op fuel k who v)" for k who v
    unfolding sbtc_deposit_def sbtc_amount_def
    by (auto intro!: trace_rules traces_send [OF d] simp: exact_conditions_def)
  have half: "traces vault_transaction (redeem_half op fuel k who v)" for k who v
    unfolding redeem_half_def by (auto intro!: trace_rules traces_send [OF d] simp: exact_conditions_def)
  have all: "traces vault_transaction (redeem_sbtc_shares op fuel k who v n)" for k who v n
    unfolding redeem_sbtc_shares_def sbtc_amount_def
    by (auto intro!: trace_rules traces_send [OF d] simp: exact_conditions_def)
  show ?thesis
    unfolding acceptance_testnet_def script_exit_def acceptance_main_def acceptance_steps_def
    by (auto intro!: trace_rules three first untouched two sbtc half all traces_write_log
        simp: vault_transaction_def split: option.split prod.split)
qed

end
