(* ===== verification/Spec2Isabelle.thy ===== *)
theory Spec2Isabelle
  imports Scenario Protocol_Theorems Web_Scenario Pool_Ranking Strategy_Analysis Web_Chat Web_Ecosystem Web_Agent Web_Activity Sbtc_Balance Web_Explorer
    Web_Page_Effects Web_Docs Web_Dashboard Web_Recommendations Web_Live Acceptance_Run
begin

text \<open>
  SovereigntyAI: non-custodial treasuries on the Stacks chain. The repository has three parts. Clarity
  contracts (contracts/) hold the funds, price the shares and check every execution intent. An agent
  (agent/src) reads a vault, recommends one rebalance or none, and asks the contracts for their
  verdict. A web application (apps/web/src) shows vaults, builds the transactions their users sign and
  follows them to their result. The development models the three parts and states what they promise
  each other; nothing of the chain is taken from the agent's or the browser's word.

  \<^bold>\<open>The contracts.\<close> One record per contract holds its maps and variables, each extending the record of
  the contract it calls, so a function of a contract is a function on the state of everything below
  it: \<open>Protocol_Admin\<close>, \<open>Agent_Registry\<close>, \<open>Strategy_Registry\<close>, \<open>Risk_Guard\<close>, \<open>Receipt_Token\<close>,
  \<open>Sovereignty_Vault\<close>, \<open>Execution_Engine\<close>, over \<open>Clarity_Core\<close> (responses, 128-bit arithmetic that
  aborts). A response is \<open>Ok\<close>, \<open>Err\<close> with its code, or an abort; an error leaves no state behind. An
  asset or strategy contract outside the repository is a parameter (\<open>token\<close>, \<open>strategy_contract\<close>) on
  which nothing is assumed. \<open>Chain_Safety\<close> composes them: a step is a call of any public function by
  any principal. \<open>Pool_Accounting\<close> holds the interface of a fungible ledger as a locale and the
  arithmetic of shares, \<open>Protocol_Theorems\<close> the consequences for users, \<open>Vault_Index\<close> the directory of
  vaults and holders, \<open>Contract_Errors\<close> the set of error codes.

  \<^bold>\<open>JavaScript.\<close> \<open>Js_Runtime\<close>, \<open>Js_Number\<close>, \<open>Js_Values\<close> and \<open>Js_Json\<close> model what the TypeScript code uses
  of its language: thrown errors as values of a sum, bigints as \<open>int\<close>, numbers as integers or rationals
  rounded to a double, strings as lists of characters below 256, decoded JSON, and effects as functions of
  the state of the world in which a service answers. \<open>Js_Number_Order\<close> shows that the difference of two
  doubles has the sign of their order, which a comparison function of \<open>sort\<close> relies on; \<open>Js_Regex\<close> is a
  backtracking matcher for the patterns of the code; \<open>Js_Dates\<close> prints and reads ISO dates, with the proof
  that a printed date is read back as the same instant. The collation of \<open>localeCompare\<close> is a parameter.

  \<^bold>\<open>The agent.\<close> \<open>Agent_Config\<close>, \<open>Agent_Types\<close>, \<open>Decision_Engine\<close>, \<open>Build_Intent\<close>, \<open>Decision_Store\<close>,
  \<open>Protocol_State\<close>, \<open>Llm_Narrator\<close>, \<open>Execution_Service\<close> and \<open>Pipeline\<close> follow the files of agent/src one by
  one. The network, the wallet library, the hash and the language model are fields of a record of
  services; the model may answer anything. \<open>Chain_Reader\<close> answers the agent's reads from a state of the
  contracts, and \<open>Agent_On_Chain\<close> proves that what the analysis recommends is what the contracts accept.
  \<open>Ecosystem_Protocols\<close> is the catalogue of protocols, \<open>Market_Data\<close> the readings of prices and values
  with their sanity checks, \<open>Pool_Analysis\<close> and \<open>Pool_Ranking\<close> the comparison of a pool with the catalogue,
  \<open>Strategy_Analysis\<close> the explanation of one protocol, \<open>Chat_Handler\<close> the assistant, \<open>Agent_Server\<close> the
  routes of server.ts, \<open>Sbtc_Balance\<close> the one read of the client that nothing calls.

  \<^bold>\<open>The web application.\<close> \<open>Web_Amounts\<close>, \<open>Web_Config\<close>, \<open>Web_Onchain\<close>, \<open>Web_Errors\<close>, \<open>Web_Transaction\<close>,
  \<open>Web_Presets\<close>, \<open>Web_Forms\<close>, \<open>Web_Derive\<close> are its library; \<open>Web_Create\<close>, \<open>Web_Vault_Pages\<close> its pages as
  forms, guards and requests; \<open>Web_Hooks\<close> its React hooks as state machines whose answers come in any
  order. \<open>Web_Reader\<close> and \<open>Web_Discovery\<close> tie its reads to the contracts. \<open>Web_Page_Effects\<close> adds what runs
  on the deposit and redeem pages between the actions: the reads on opening, the preview with its timer and
  its late answers, the result. \<open>Web_Agent\<close> is the agent inside the web server and the clients of its
  routes; \<open>Web_Chat\<close> the route, the reader of the event stream and the widget of the assistant; \<open>Web_Market\<close>
  and \<open>Web_Ecosystem\<close> the two routes with caches, as state machines over the requests that share a fetch;
  \<open>Web_Catalogue\<close> the web copy of the catalogue, equal to the agent's; \<open>Web_Explorer\<close> the page that polls
  it; \<open>Web_Activity\<close> the event log of the vault contract; \<open>Web_Dashboard\<close> the dashboard, the list of
  treasuries and the activity page; \<open>Web_Recommendations\<close> a run of the agent from the page and the view of
  its result; \<open>Web_Docs\<close> the structure of the documents, their anchors and their search; \<open>Web_Live\<close> the
  panel that polls the chain, the frame around a treasury's pages and the view of a pool's analysis.

  \<^bold>\<open>The operator scripts.\<close> \<open>Operator_Scripts\<close> is scripts/lib/testnet.ts with the bootstrap, deployment and
  verification scripts, \<open>Acceptance_Run\<close> the live acceptance run. What a script signs, runs and writes is a
  trace in its state; \<open>traces\<close> says what a trace may hold, and its rules follow the structure of a script.

  \<^bold>\<open>What the theorems show.\<close> C1-C7 are the contracts alone: solvency, the price of a share, redemption,
  the testnet gate, reserved calls. C8-C19 are the agent against the contracts: what it recommends is
  accepted, what it runs reaches a verdict, nothing is signed off mainnet, the model's words never
  reach an intent. C20 is the search of the documentation. C21-C32 are the
  browser against the contracts: what a page shows is the chain's state, what it offers succeeds, what it
  refuses it explains. C33-C35 are the comparison with the catalogue, C36-C40 the servers: the assistant's
  answer arrives whole, a price or a row is a reading and never made up, no request signs off mainnet, the
  activity shown is the viewer's. \<open>Scenario\<close> and \<open>Web_Scenario\<close> run a concrete deployment; the witnesses
  use it. Beside the properties each theory proves the behaviour of its operations, errors included: that
  the explorer keeps polling and never clears what it has loaded, that a preview on the screen is the
  contract's answer for the form on the screen, that a failed check of a run does not hide the other, that
  a recommendation just made is shown as unchanged; that the bootstrap signs one call or none, a dry run of the
  deployment broadcasts nothing, and the acceptance run signs calls of the vault only, each with a condition
  on the exact amount it moves. Where the code does not do what it says, a lemma shows
  it and the manifest lists it as a finding.

  \<^bold>\<open>Bounds and fuel.\<close> The reads of the browser are exact for vault ids up to \<open>2 ^ 53\<close>, the integers a
  JavaScript number holds; conversions beyond it round, and C18 is a consequence of that. The waits
  for a transaction take fuel, and C30, \<open>poll_terminates\<close> and \<open>five_minutes_suffice\<close> give an amount that is
  enough: one more than the intervals in the timeout. The matcher of regular expressions is bounded by the length of the text, since an
  iteration must consume a character. Every other loop is structural.

  \<^bold>\<open>Not modelled.\<close> The layout of pages and components (their guards, effects and handlers are), styling,
  animation, focus and the colour theme: they compute nothing. Components that only print values of
  modelled functions are listed in the manifest as left out, as are the script that prints a contract's
  interface and the tests. What the scripts print is left out. The traits of the contracts are signatures without a body;
  calls through them are parameters. The transport of HTTP, the rendering of markdown, the wallet and the
  language model are services. The contracts' version strings and the events of \<open>print\<close> are values of the
  state where code reads them and left out elsewhere.
\<close>

section \<open>The pools of the protocol\<close>



text \<open>
  C2: The price of a share never falls: whatever transaction, block or outside event leads from a
  reachable state to the next one, the assets per share of every pool do not decrease
  (cross-multiplied, so that an empty pool needs no exception).
\<close>

theorem share_price_never_falls:
  assumes "reachable tt sd s" and "chain_step tt sd s s'"
  shows "get_total_balance vid asset s * get_total_supply vid asset s'
           \<le> get_total_balance vid asset s' * get_total_supply vid asset s"
  using step_price [OF assms(2) reachable_pools_ok [OF assms(1)]] by (simp add: price_kept_def)

theorem share_price_never_falls_witness:
  "get_total_balance 1 ''STX'' (scenario TESTNET_ID)
     * get_total_supply 1 ''STX'' ((scenario TESTNET_ID)\<lparr>block_height := 200\<rparr>)
   \<le> get_total_balance 1 ''STX'' ((scenario TESTNET_ID)\<lparr>block_height := 200\<rparr>)
     * get_total_supply 1 ''STX'' (scenario TESTNET_ID)"
  by (rule share_price_never_falls [OF scenario_reachable]) (rule new_block, simp)

text \<open>
  C3: A deposit that is redeemed at once, at the price it produced, pays back at most what was
  deposited: rounding never works against the pool.
\<close>

theorem deposit_then_redeem:
  assumes "compute_deposit_shares supply pool amount minimum = Ok shares"
    and "compute_redeem_assets shares (supply + shares) (pool + amount) = Ok payout"
  shows "payout \<le> amount"
  using assms by (rule deposit_redeem_no_gain)

theorem deposit_then_redeem_witness:
  "compute_deposit_shares 10 15 4 1 = Ok 2 \<and> compute_redeem_assets 2 12 19 = Ok 3 \<and> (3 :: nat) \<le> 4"
proof -
  have d: "compute_deposit_shares 10 15 4 1 = Ok 2" by (simp add: compute_deposit_shares_Ok u128_def)
  have r: "compute_redeem_assets 2 (10 + 2) (15 + 4) = Ok 3" by (simp add: compute_redeem_assets_Ok u128_def)
  from deposit_then_redeem [OF d r] d r show ?thesis by simp
qed



text \<open>
  C5: The contracts' testnet gate: in every reachable state of a deployment off mainnet the switch is
  not armed, nothing is allocated to a strategy, and no submission of an intent succeeds, whoever
  sends it and whatever it says.
\<close>

theorem testnet_gate_closed:
  assumes "reachable tt sd s" and "chain_id s \<noteq> MAINNET_CHAIN_ID"
  shows "\<not> mainnet_execution_armed s \<and> strategy_allocations s = Map.empty \<and>
    submit_rebalance_intent sd sender vid sid asset amount slippage nonce deadline strategy s \<noteq> Ok r"
proof -
  have t: "\<not> is_mainnet_chain s" using assms(2) by (simp add: is_mainnet_chain_def)
  then show ?thesis
    using reachable_gate_closed [OF assms(1)] submit_needs_enabled [OF disabled_on_testnet [OF t]]
    by (simp add: gate_closed_def)
qed

theorem testnet_gate_closed_witness:
  "\<forall>r. submit_rebalance_intent any_strategy ''ST1ALICE'' 1 1 ''STX'' 1000 100 1 120 ''SP9.pool'' (scenario TESTNET_ID) \<noteq> Ok r"
proof -
  have "chain_id (scenario TESTNET_ID) \<noteq> MAINNET_CHAIN_ID"
    by (simp add: scenario_facts(2)) (simp add: TESTNET_ID_def MAINNET_CHAIN_ID_def)
  from testnet_gate_closed [OF scenario_reachable this] show ?thesis by blast
qed

text \<open>
  C6: Minting and burning shares, transferring them inside the token contract, initialising or
  rewriting a risk configuration, recording an intent and moving a vault's funds to a strategy are
  reserved to the protocol's own contracts: sent by anybody else they fail in every state.
\<close>

theorem reserved_calls_fail:
  assumes "reserved k" and "\<not> is_protocol_contract s c"
  shows "exec tt sd c k s \<noteq> Ok s'"
  using assms by (rule reserved_fails)

theorem reserved_calls_fail_witness:
  "exec any_token any_strategy ''ST2BOB'' (Mint 1 ''STX'' 5 ''ST2BOB'') (scenario TESTNET_ID) \<noteq> Ok (scenario TESTNET_ID)"
  by (rule reserved_calls_fail) (simp_all add: user_not_contract)

text \<open>
  C7: In every reachable state the registered strategies are exactly the ids from 1 below the next
  one, each with a valid asset and a cap of 1 to 10000 basis points, and every vault's risk
  configuration is well-formed (positive limits, shares of at most 10000 basis points).
\<close>

theorem reachable_configurations:
  assumes "reachable tt sd s"
  shows "(strategies s i \<noteq> None \<longleftrightarrow> 0 < i \<and> i < next_strategy_id s) \<and>
    (strategies s i = Some e \<longrightarrow>
       is_valid_asset (strat_asset e) \<and> 0 < strat_max_allocation_bps e \<and> strat_max_allocation_bps e \<le> 10000) \<and>
    (vault_configs s vid = Some c \<longrightarrow> config_ok c)"
  using reachable_configs_ok [OF assms] by (auto simp: configs_ok_def registry_ok_def guard_ok_def)

theorem reachable_configurations_witness:
  "config_ok the_config \<and> strategies (scenario TESTNET_ID) 1 \<noteq> None"
  using reachable_configurations [OF scenario_reachable, of 1 _ 1 the_config] by simp

section \<open>From the analysis to the verdict of the contracts\<close>

text \<open>
  C8: What the agent recommends, the contracts accept: when the analysis of the pool the agent read
  from a reachable state recommends a rebalance, an intent is built from it, and the deployed
  evaluate-rebalance-intent accepts exactly that intent, given an authorised sender, an elapsed
  cooldown, a nonce below 2^53 and a deadline window that is not negative.
\<close>

theorem recommendation_accepted:
  assumes "reachable tt sd s" and "vaults s vid = Some v" and "vault_configs s vid = Some c"
    and "rec_decision (analyze cfg now (snapshot_of s vid asset v c) (context_of s)) = REBALANCE"
    and "submittable cfg s vid asset v c sender"
  shows "\<exists>i. buildIntent (analyze cfg now (snapshot_of s vid asset v c) (context_of s)) (snapshot_of s vid asset v c) = Inr i \<and>
    evaluate_rebalance_intent sender vid (nat (ei_destStrategyId i)) asset (nat (ei_amount i))
      (nat (ei_maxSlippageBps i)) (nat (ei_nonce i)) (nat (ei_deadline i)) s =
    Ok \<lparr>risk_validation_passed = True, caller_is_owner = (sender = v_owner v),
        strategy_execution_enabled = is_strategy_execution_enabled s\<rparr>"
proof -
  obtain x where x: "ready_to_allocate (snapshot_of s vid asset v c) (context_of s) x"
    using analyze_REBALANCE_ready [OF assms(4)] by blast
  have ok: "registry_ok s" "config_ok c"
    using reachable_configs_ok [OF assms(1)] assms(3) by (auto simp: configs_ok_def guard_ok_def)
  have "get_idle_balance vid asset s \<le> get_total_balance vid asset s"
    by (rule idle_le_total) (rule reachable_pools_ok [OF assms(1)])
  from recommended_accepted(1) [OF x ok assms(2,3,5) this refl] buildIntent_analyze [OF x]
  show ?thesis by blast
qed

theorem recommendation_accepted_witness:
  "\<exists>i. buildIntent (analyze (scenario_config ''testnet'') ''now''
        (snapshot_of (scenario TESTNET_ID) 1 ''STX'' the_vault the_config) (context_of (scenario TESTNET_ID)))
      (snapshot_of (scenario TESTNET_ID) 1 ''STX'' the_vault the_config) = Inr i \<and>
    evaluate_rebalance_intent ''ST1ALICE'' 1 (nat (ei_destStrategyId i)) ''STX'' (nat (ei_amount i))
      (nat (ei_maxSlippageBps i)) (nat (ei_nonce i)) (nat (ei_deadline i)) (scenario TESTNET_ID) =
    Ok \<lparr>risk_validation_passed = True, caller_is_owner = (''ST1ALICE'' = v_owner the_vault),
        strategy_execution_enabled = is_strategy_execution_enabled (scenario TESTNET_ID)\<rparr>"
  by (rule recommendation_accepted [OF scenario_reachable _ _ scenario_rebalance scenario_submittable]) simp_all






section \<open>Execution of the agent\<close>




text \<open>
  C14: A submission that returns has passed the service's gate: the service is configured for mainnet,
  and the execution environment it read just before reports mainnet with execution enabled.
\<close>

theorem submission_passed_gate:
  assumes "submitRebalanceIntent sv cfg i strategy h = (Inr res, h')"
  shows "cf_network cfg = ''mainnet'' \<and>
    (\<exists>env w. getExecutionEnvironment sv cfg (hs_ext h) = (Inr env, w) \<and> ee_network env = MAINNET \<and>
       ee_strategyExecutionEnabled env)"
  using submit_Inr_gate [OF assms]
  by (auto simp: executionBlockedReason_None outside_def split: prod.splits)

theorem submission_passed_gate_witness:
  "\<exists>env w. getExecutionEnvironment (scenario_services True armed) armed_config (hs_ext fresh_host) = (Inr env, w) \<and>
     ee_network env = MAINNET \<and> ee_strategyExecutionEnabled env"
proof -
  obtain res h' where "submitRebalanceIntent (scenario_services True armed) armed_config the_intent ''SP9.pool'' fresh_host
      = (Inr res, h')" using armed_submission by blast
  from submission_passed_gate [OF this] show ?thesis by blast
qed



text \<open>
  C16: Narration cannot change what is done: whatever the language model answers, the narrated
  recommendation differs from the deterministic one in its three texts only, so it yields the same
  intent and the same proposed allocation; and a failing model is not an error of the run.
\<close>

theorem narration_only_words:
  assumes "narrateWithLLM sv cfg r vault ctx w = (res, w')" and "\<And>e. res = Inl e \<Longrightarrow> \<not> out_of_model e"
  shows "\<exists>r'. res = Inr r' \<and> buildIntent r' vault = buildIntent r vault \<and>
    proposedAllocation vault ctx r' = proposedAllocation vault ctx r \<and>
    r' = r\<lparr>rec_reason := rec_reason r', rec_expectedBenefit := rec_expectedBenefit r', rec_riskAssessment := rec_riskAssessment r'\<rparr>"
proof (cases res)
  case (Inl e)
  then show ?thesis using narrate_total [of sv cfg r vault ctx w e] assms by simp
next
  case (Inr r')
  with assms(1) have "enforceable r' = enforceable r" by (auto intro: narrate_enforceable)
  with Inr buildIntent_enforceable [OF this, of vault] proposed_enforceable [OF this, of vault ctx]
  show ?thesis by (cases r; cases r') (simp add: enforceable_def)
qed

theorem narration_only_words_witness:
  "\<exists>r'. buildIntent r' (snapshot_of armed 1 ''STX'' the_vault the_config) =
     buildIntent (analyze armed_config ''n'' (snapshot_of armed 1 ''STX'' the_vault the_config) (context_of armed))
       (snapshot_of armed 1 ''STX'' the_vault the_config)"
proof -
  let ?cfg = "armed_config\<lparr>cf_anthropicApiKey := Some ''key''\<rparr>"
  let ?vs = "snapshot_of armed 1 ''STX'' the_vault the_config"
  let ?r = "analyze armed_config ''n'' ?vs (context_of armed)"
  have "narrateWithLLM (scenario_services True armed) ?cfg ?r ?vs (context_of armed) () = (Inr ?r, ())"
    by (simp add: narrateWithLLM_def scenario_services_def io_catch_def io_bind_def io_return_def)
  from narration_only_words [OF this] show ?thesis by auto
qed

section \<open>Intents, log and monitoring\<close>

text \<open>
  C17: The canonical text that is hashed determines the intent: two intents with the same text are
  equal, so their hashes differ unless SHA-256 collides.
\<close>

theorem canonical_text_injective:
  "canonical_intent i = canonical_intent j \<longleftrightarrow> i = j"
  using canonical_intent_inject by blast





text \<open>
  The list for a vault contains exactly the logged records of the currently deployed vault contract with
  that vault id, in the order of the log.
\<close>

lemma list_scoped:
  "listDecisions cfg vaultId h =
     (case contractId cfg ''sovereignty-vault'' of
        Inl e \<Rightarrow> (Inl e, h)
      | Inr c \<Rightarrow> (Inr (filter (\<lambda>r. dr_vaultContract r = cf_deployerAddress cfg @ ''.sovereignty-vault-v7''
                 \<and> (vaultId = None \<or> vaultId = Some (dr_vaultId r))) (load h)), h))"
  by (cases vaultId)
     (auto simp: listDecisions_def contractId_def deployed_names Let_def conj_commute eq_commute intro!: filter_cong
       split: option.split)

section \<open>The documentation\<close>

text \<open>
  C20: The search of the documentation finds every section and never leads nowhere: for texts without a
  stray carriage return whose heading marks all carry a title, the index is built, it has an entry for
  every heading of every registered document, and whatever the user types and whichever keys are pressed,
  Enter opens the page of a registered document or one of the headings that page has, under the anchor
  the renderer gives it when it renders the headings in the document's order.
\<close>

theorem search_opens_headings:
  assumes "\<forall>t \<in> ran readFile \<union> ran cache. indexable t"
  shows "\<exists>index cache'. buildSearchIndex production readFile cache = (Inr index, cache') \<and>
    (\<forall>d href. search_reachable index d \<longrightarrow> search_enter index d = Some href \<longrightarrow>
       (\<exists>m \<in> set DOCS. href = ''/docs/'' @ dm_slug m \<or>
          (\<forall>rendered. map fst rendered = map hd_level (pd_headings (parseDoc (doc_text production readFile cache' m))) \<longrightarrow>
             (\<exists>i \<in> set (rendered_ids (pd_headings (parseDoc (doc_text production readFile cache' m))) rendered).
                href = ''/docs/'' @ dm_slug m @ ''#'' @ i)))) \<and>
    (\<forall>m \<in> set DOCS. \<forall>h \<in> set (pd_headings (parseDoc (doc_text production readFile cache' m))).
       \<exists>e \<in> set index. se_slug e = dm_slug m \<and> se_heading e = Some (hd_text h) \<and> se_anchor e = Some (hd_id h))"
proof -
  have place: "href = ''/docs/'' @ dm_slug m \<or> (\<forall>rendered. map fst rendered = map hd_level (pd_headings (parseDoc t)) \<longrightarrow>
      (\<exists>i \<in> set (rendered_ids (pd_headings (parseDoc t)) rendered). href = ''/docs/'' @ dm_slug m @ ''#'' @ i))"
    if "href \<in> doc_places m t" for href m t
    using that rendered_ids_match by (auto simp: doc_places_def)
  from search_index_sound [OF assms, of production] obtain index cache' where
    "buildSearchIndex production readFile cache = (Inr index, cache')"
    "\<forall>d href. search_reachable index d \<longrightarrow> search_enter index d = Some href \<longrightarrow>
       (\<exists>m \<in> set DOCS. href \<in> doc_places m (doc_text production readFile cache' m))"
    "\<forall>m \<in> set DOCS. \<forall>h \<in> set (pd_headings (parseDoc (doc_text production readFile cache' m))).
       \<exists>e \<in> set index. se_slug e = dm_slug m \<and> se_heading e = Some (hd_text h) \<and> se_anchor e = Some (hd_id h)"
    by (elim exE conjE)
  with place show ?thesis by (intro exI [of _ index] exI [of _ cache']) meson
qed

theorem search_opens_headings_witness:
  "\<exists>index cache'. buildSearchIndex True (\<lambda>f. Some (''# T'' @ [CHR 0x0A] @ ''## A'')) Map.empty = (Inr index, cache')"
proof -
  have "indexable (''# T'' @ [CHR 0x0A] @ ''## A'')" by code_simp
  then have "\<forall>t \<in> ran (\<lambda>f::string. Some (''# T'' @ [CHR 0x0A] @ ''## A'')) \<union> ran (Map.empty :: doc_cache). indexable t"
    by (auto simp: ran_def)
  from search_opens_headings [OF this, where production = True] show ?thesis by blast
qed

section \<open>The directory of vaults\<close>

text \<open>
  C21: In every reachable state the vault ids are exactly the numbers from 1 below the next id, each
  vault is well formed, has a risk configuration and is listed in the index of its owner, and whoever
  holds shares of a pool of a vault that supports that asset is listed in the index of its holders.
\<close>

theorem vaults_well_formed:
  assumes "reachable tt sd s"
  shows "dom (vaults s) = {i. 0 < i \<and> i < next_vault_id s} \<and>
    (\<forall>i v. vaults s i = Some v \<longrightarrow> v_name v \<noteq> [] \<and> v_purpose v \<le> 5 \<and> v_assets v \<in> {1, 2, 3} \<and>
       vault_configs s i \<noteq> None \<and> (\<exists>j. owner_vaults s (v_owner v, j) = Some i)) \<and>
    (\<forall>i a p. 0 < get_balance i a p s \<longrightarrow> supports_asset i a s \<and> (\<exists>j. holder_vaults s (p, j) = Some i))"
proof -
  have d: "directory_ok s" using assms by (rule reachable_directory_ok)
  then have o: "\<exists>j. owner_vaults s (p, j) = Some i" if "owns s p i" for p i
    using that by (auto simp: directory_ok_def indexed_def)
  have h: "\<exists>j. holder_vaults s (p, j) = Some i" if "registered s p i" for p i
    using d that by (auto simp: directory_ok_def indexed_def)
  have "valid_vault v \<and> i \<in> dom (vault_configs s) \<and> owns s (v_owner v) i" if "vaults s i = Some v" for i v
    using d that by (auto simp: directory_ok_def owns_def)
  with o have v: "v_name v \<noteq> [] \<and> v_purpose v \<le> 5 \<and> v_assets v \<in> {1, 2, 3} \<and> vault_configs s i \<noteq> None \<and>
      (\<exists>j. owner_vaults s (v_owner v, j) = Some i)" if "vaults s i = Some v" for i v
    using that by (fastforce simp: valid_vault_def)
  have "supports_asset i a s \<and> (\<exists>j. holder_vaults s (p, j) = Some i)" if "0 < get_balance i a p s" for i a p
    using d that h [of p i] unfolding directory_ok_def by blast
  with v d show ?thesis by (simp add: directory_ok_def)
qed

theorem vaults_well_formed_witness:
  "dom (vaults (scenario TESTNET_ID)) = {i. 0 < i \<and> i < 2} \<and>
   (\<exists>j. holder_vaults (scenario TESTNET_ID) (''ST2BOB'', j) = Some 1)"
proof -
  note all = vaults_well_formed [OF scenario_reachable]
  have "0 < get_balance 1 ''STX'' ''ST2BOB'' (scenario TESTNET_ID)" by (simp add: get_balance_def get_or_def)
  with all show ?thesis unfolding scenario_next by blast
qed

section \<open>What the web application shows\<close>



text \<open>
  C23: ``My treasuries'' is complete and exact: the list the web application loads for an address
  holds, in the order of their ids and each once, precisely the vaults the address owns or is
  registered with as a holder, each with its true role and overview.
\<close>

theorem my_treasuries:
  assumes "reachable tt sd s" and ch: "web_chain_answers sv s w" and "next_vault_id s \<le> 2 ^ 53" and "a \<noteq> []"
    and pos: "\<And>i x. i \<in> dom (vaults s) \<Longrightarrow> get_position i x a s = Ok (f i x)" and now: "wb_now sv w = (now, w)"
  shows "load_my_vaults sv a w =
    (Inr (map (my_vault_of s a f now) (sorted_list_of_set {i. owns s a i \<or> registered s a i})), w)"
  by (rule my_vaults_complete [OF ch reachable_directory_ok [OF assms(1)] assms(3,4) pos now])

theorem my_treasuries_witness:
  "\<exists>o'. load_my_vaults (scenario_web (scenario TESTNET_ID)) ''ST2BOB'' () = (Inr [(o', RoleHolder)], ())"
proof -
  have "{i. owns (scenario TESTNET_ID) ''ST2BOB'' i \<or> registered (scenario TESTNET_ID) ''ST2BOB'' i} = {1}"
    by (auto simp: owns_def registered_def the_vault_def scenario_indexes get_or_def split: if_splits option.splits)
  moreover have "load_my_vaults (scenario_web (scenario TESTNET_ID)) ''ST2BOB'' () = (Inr (map
      (my_vault_of (scenario TESTNET_ID) ''ST2BOB'' bob_position 0) (sorted_list_of_set
        {i. owns (scenario TESTNET_ID) ''ST2BOB'' i \<or> registered (scenario TESTNET_ID) ''ST2BOB'' i})), ())"
    by (rule my_treasuries [OF scenario_reachable])
       (simp_all add: scenario_web_answers bob_position_Ok, simp_all add: scenario_web_def)
  moreover have "\<not> owns (scenario TESTNET_ID) ''ST2BOB'' 1" by (simp add: owns_def the_vault_def)
  ultimately show ?thesis by (simp add: my_vault_of_def)
qed

text \<open>
  C24: What the deposit page offers, the contracts deliver: when the button is enabled for an STX
  deposit and the page's reads reflect the state the transaction executes in, the signed request is a
  deposit that succeeds, mints exactly the previewed shares, and meets its post-conditions in deny
  mode.
\<close>

theorem deposit_page_delivers:
  assumes reach: "reachable tt sd s"
    and can: "can_deposit sv ov viewer (Some (int (stx_ledger s viewer))) d" and "dp_asset d = ''STX''"
    and ov: "ov = overview_of s vid v c pos now" "vaults s vid = Some v" and "''STX'' \<in> set (vaultAssets ov)"
    and amt: "deposit_amount d = Some n"
    and pv: "dp_preview d = preview_shown (preview_value (preview_deposit vid ''STX'' (nat n) s))"
    and "dp_protocolPaused d = Some (protocol_paused s)" and "viewer \<noteq> vault_contract s" "viewer \<noteq> []"
    and fits: "get_total_balance vid ''STX'' s + nat n < u128"
      "\<And>sh. preview_deposit vid ''STX'' (nat n) s = Ok sh \<Longrightarrow> get_total_supply vid ''STX'' s + sh < u128"
      "next_vault_id s + 1 < u128"
  shows "\<exists>fname args pcs k s' sh. deposit_request sv (int vid) viewer d = Some (fname, args, pcs) \<and>
     call_of_request fname args = Some k \<and> exec tt sd viewer k s = Ok s' \<and> dp_preview d = PreviewOk (int sh) \<and>
     get_balance vid ''STX'' viewer s' = get_balance vid ''STX'' viewer s + sh \<and>
     conditions_hold pcs (stx_ledger s) (stx_ledger s')"
  by (rule deposit_offered [OF can assms(3) ov assms(6) amt pv assms(9) reachable_pools_ok [OF reach]
        reachable_directory_ok [OF reach] assms(10,11) fits])

theorem deposit_page_delivers_witness:
  "\<exists>s' k. exec any_token any_strategy ''ST2BOB'' k (scenario TESTNET_ID) = Ok s' \<and>
     get_balance 1 ''STX'' ''ST2BOB'' s' = 5000001"
proof -
  have l: "stx_ledger (scenario TESTNET_ID) ''ST2BOB'' = 46999999" by (rule scenario_indexes(5))
  have b: "get_balance 1 ''STX'' ''ST2BOB'' (scenario TESTNET_ID) = 3000001" by (simp add: get_balance_def get_or_def)
  have "\<exists>fname args pcs k s' sh. deposit_request (scenario_web (scenario TESTNET_ID)) (int 1) ''ST2BOB'' bob_deposit =
       Some (fname, args, pcs) \<and> call_of_request fname args = Some k \<and>
     exec any_token any_strategy ''ST2BOB'' k (scenario TESTNET_ID) = Ok s' \<and> dp_preview bob_deposit = PreviewOk (int sh) \<and>
     get_balance 1 ''STX'' ''ST2BOB'' s' = get_balance 1 ''STX'' ''ST2BOB'' (scenario TESTNET_ID) + sh \<and>
     conditions_hold pcs (stx_ledger (scenario TESTNET_ID)) (stx_ledger s')"
    by (rule deposit_page_delivers [OF scenario_reachable, where ov = bob_overview and v = the_vault and c = the_config
          and pos = "Some (bob_position 1)" and now = 0, OF _ _ bob_overview_def _ _ bob_amount])
       (simp_all add: l bob_can_deposit bob_preview [unfolded One_nat_def] vault_contract_def contract_of_def get_total_balance_def
         get_total_supply_def get_or_def u128_def, simp_all add: bob_deposit_def)
  then show ?thesis unfolding b by (auto simp: bob_deposit_def)
qed





text \<open>
  C27: Saving the settings page unchanged is accepted and changes nothing: the fields show a vault's
  configuration exactly, they parse back to it, and the owner's request to write it succeeds and
  leaves the configuration as it was (for a configuration inside the current protocol limits).
\<close>

theorem unchanged_settings:
  assumes reach: "reachable tt sd s" and v: "vaults s vid = Some v" and c: "vault_configs s vid = Some c"
    and valid: "params_valid (max_exposure_bps c) (max_stx_tx_amount c) (max_sbtc_tx_amount c) (max_slippage_bps c)
      (min_idle_bps c) (cooldown_blocks c) s"
    and cool: "cooldown_blocks c \<le> 2 ^ 53"
    and page: "sp_values p = valuesFromConfig (web_risk_of c)" "sp_limits p = Some (limits_of s)"
  shows "\<exists>fname args k s'. save_risk (int vid) p = Some (Inr (fname, args)) \<and> call_of_request fname args = Some k \<and>
     exec tt sd (v_owner v) k s = Ok s' \<and> vault_configs s' = vault_configs s"
  by (rule settings_unchanged [OF reachable_configs_ok [OF reach] v c valid cool page])

theorem unchanged_settings_witness:
  "\<exists>k s'. exec any_token any_strategy ''ST1ALICE'' k (scenario TESTNET_ID) = Ok s' \<and>
     vault_configs s' = vault_configs (scenario TESTNET_ID)"
proof -
  let ?p = "(initial_settings bob_overview)\<lparr>sp_values := valuesFromConfig (web_risk_of the_config),
     sp_limits := Some (limits_of (scenario TESTNET_ID))\<rparr>"
  have valid: "params_valid (max_exposure_bps the_config) (max_stx_tx_amount the_config) (max_sbtc_tx_amount the_config)
      (max_slippage_bps the_config) (min_idle_bps the_config) (cooldown_blocks the_config) (scenario TESTNET_ID)"
    by (simp add: params_valid_def the_config_def scenario_eq [folded TESTNET_ID_def])
  have "\<exists>fname args k s'. save_risk (int 1) ?p = Some (Inr (fname, args)) \<and> call_of_request fname args = Some k \<and>
     exec any_token any_strategy (v_owner the_vault) k (scenario TESTNET_ID) = Ok s' \<and>
     vault_configs s' = vault_configs (scenario TESTNET_ID)"
    by (rule unchanged_settings [OF scenario_reachable _ _ valid]) (simp_all add: the_config_def)
  then show ?thesis by (auto simp: the_vault_def)
qed

text \<open>
  C28: The share calculator of the home page computes the contract's formula: for whole numbers of at
  most 15 digits it shows exactly the shares the contract would mint, and each of its refusals is the
  contract's refusal of the same deposit (zero amount, inconsistent pool, no share) - except the
  minimum of a first deposit, which the calculator does not know.
\<close>

theorem calculator_is_contract_formula:
  assumes "toInt assets = Some t" and "toInt supply = Some p" and "toInt deposit = Some a"
  shows "outcome_of (compute_deposit_shares (nat p) (nat t) (nat a) 0) (calculate assets supply deposit)"
  by (rule calculator_agrees [OF assms])

theorem calculator_is_contract_formula_witness:
  "outcome_of (compute_deposit_shares 100 120 12 0) (calculate ''120'' ''100'' ''12'')"
proof -
  have "toInt ''120'' = Some 120" "toInt ''100'' = Some 100" "toInt ''12'' = Some 12"
    by (simp_all add: toInt_def trim_def is_space_def Let_def is_digit_def digits_val_def digit_val_def)
  from calculator_is_contract_formula [OF this] show ?thesis by simp
qed

section \<open>Transactions and their errors\<close>

text \<open>
  C29: Every refusal of the contracts reaches the user in words: whatever public function fails with an
  error code, the web application reads the code back from the transaction's result and shows the
  sentence its table has for it.
\<close>

theorem refusals_explained:
  assumes "exec tt sd c k s = Err e"
  shows "\<exists>t. map_of MESSAGES (int e) = Some t \<and> t \<noteq> [] \<and>
    describeFailure (errorCodeFromRepr (Some (''(err u'' @ nat_text e @ '')''))) text = t"
proof -
  have "explained (int e)" using assms by (rule exec_explained)
  then obtain t where t: "map_of MESSAGES (int e) = Some t" unfolding explained_iff by blast
  have "e \<le> 704" using \<open>explained (int e)\<close> by (auto simp: explained_def)
  then have "js_Number (int e) = int e" by (intro safe_nat) simp
  then have "describeFailure (errorCodeFromRepr (Some (''(err u'' @ nat_text e @ '')''))) text = explainClarityError (int e)"
    using errorCode_repr [of e] by (simp add: describeFailure_def)
  moreover have "explainClarityError (int e) = t" by (simp add: explainClarityError_def t)
  ultimately show ?thesis using t explain_ne [of "int e"] by simp
qed

theorem refusals_explained_witness:
  "\<exists>t. map_of MESSAGES 101 = Some t \<and>
    describeFailure (errorCodeFromRepr (Some (''(err u'' @ nat_text 101 @ '')''))) None = t"
proof -
  have "exec any_token any_strategy ''ST2BOB'' (PauseVault 5) (scenario TESTNET_ID) = Err 101"
    by (simp add: pause_vault_def new_state_def)
  from refusals_explained [OF this, of None] show ?thesis by auto
qed



text \<open>
  C31: The vault page never shows a stale vault: whatever the order in which the answers of overlapping
  reads arrive and however often the page is pointed at another vault or viewer, the overview on
  the screen is an answer to a read of the vault and the viewer the page is about now.
\<close>

theorem overview_on_screen_current:
  assumes "overview_reachable R h" and "oh_overview h = Some x"
  shows "R (oh_target h) (Inr x) \<and> last (oh_requests h) = oh_target h"
  using overview_current [OF assms(1)] assms(2) by blast

theorem overview_on_screen_current_witness:
  "\<exists>h :: overview_hook. oh_overview h = Some None \<and> last (oh_requests h) = oh_target h"
proof -
  let ?R = "\<lambda>(t :: overview_target) (r :: vault_overview option result). r = Inr None"
  let ?h = "overview_response 2 (Inr None) (overview_retarget (2, None) (overview_mounted (1, None)))"
  have "overview_reachable ?R ?h"
    by (intro overview_reachable.intros) (simp_all add: overview_retarget_def overview_mounted_def overview_refresh_def)
  moreover have o': "oh_overview ?h = Some None"
    by (simp add: overview_response_def overview_retarget_def overview_mounted_def overview_refresh_def)
  ultimately have "last (oh_requests ?h) = oh_target ?h" using overview_on_screen_current by blast
  with o' show ?thesis by blast
qed

text \<open>
  C32: Amounts survive the screen: a non-negative amount in base units that is formatted with
  thousands separators and trimmed fraction digits parses back, once the separators are removed, to
  exactly the same amount, and so does a percentage in basis points.
\<close>

theorem amounts_round_trip:
  assumes "0 \<le> v" and "0 < d" and "0 \<le> b" and "b \<le> 2 ^ 53"
  shows "parseUnits (strip_commas (formatUnits v d 0)) d = Some v \<and> pctToBps (bpsToPct b) = Some b"
  using parse_format [OF assms(1,2)] pct_bps [OF assms(3,4)] by blast

theorem amounts_round_trip_witness:
  "parseUnits (strip_commas (formatUnits 1234500000 6 0)) 6 = Some 1234500000 \<and> pctToBps (bpsToPct 3050) = Some 3050"
  by (rule amounts_round_trip) simp_all

section \<open>The catalogue of protocols\<close>


text \<open>
  C34: The amount the comparison calls deployable is the decision engine's: at least what the engine
  would size for any strategy of the pool, exactly that for a strategy that holds nothing and is not
  capped tighter by the protocol, and never negative, above the owner's exposure cap or transaction
  limit, or into the idle reserve.
\<close>

theorem deployable_is_engine_sizing:
  assumes "0 \<le> alloc_of vault (ss_strategyId s)"
  shows "sized_amount vault s \<le> sizeDeployable vault \<and>
    (alloc_of vault (ss_strategyId s) = 0 \<longrightarrow> maxExposureAmount vault \<le> maxProtocolAmount vault s \<longrightarrow>
       sizeDeployable vault = max 0 (sized_amount vault s)) \<and>
    0 \<le> sizeDeployable vault \<and>
    (0 < sizeDeployable vault \<longrightarrow> sizeDeployable vault \<le> maxExposureAmount vault \<and>
       sizeDeployable vault \<le> rc_maxTxAmount (vs_riskConfig vault) \<and>
       minLiquidityReserve vault \<le> vs_idleBalance vault - sizeDeployable vault)"
  using engine_within_deployable [OF assms] deployable_mirrors_engine [of vault s] deployable_bounds [of vault] by blast

theorem deployable_is_engine_sizing_witness:
  "\<exists>v s. vs_totalBalance v = 1000 \<and> sizeDeployable v = 300 \<and> sized_amount v s \<le> 300"
proof -
  let ?rc = "\<lparr> rc_maxExposureBps = 3000, rc_maxTxAmount = 500, rc_maxSlippageBps = 50, rc_minIdleBps = 2000,
     rc_autonomousEnabled = False, rc_cooldownBlocks = 0, rc_lastUsedNonce = 0, rc_lastExecutionHeight = 0 \<rparr>"
  let ?v = "\<lparr> vs_vaultId = 1, vs_owner = [], vs_name = [], vs_purpose = 0, vs_supportsAsset = True, vs_paused = False,
     vs_asset = ''STX'', vs_idleBalance = 1000, vs_totalBalance = 1000, vs_shareSupply = 1000,
     vs_allocations = Map.empty, vs_riskConfig = ?rc \<rparr>"
  let ?s = "\<lparr> ss_strategyId = 1, ss_name = [], ss_contract = [], ss_asset = ''STX'', ss_active = True,
     ss_maxAllocationBps = 10000 \<rparr>"
  have "0 \<le> alloc_of ?v (ss_strategyId ?s)" by (simp add: alloc_of_def get_or_def)
  from deployable_is_engine_sizing [OF this] have "sized_amount ?v ?s \<le> sizeDeployable ?v" by blast
  moreover have "sizeDeployable ?v = 300" by (simp add: sizeDeployable_def big_div_def BPS_def Let_def)
  ultimately show ?thesis by (intro exI [of _ ?v] exI [of _ ?s]) simp
qed



text \<open>
  C36: The answer of the assistant reaches the screen as it was given: wherever the body of the response is
  cut on its way, the widget ends with the user's message followed by one answer whose text is the
  pieces of the model in order, no longer pending, and with the model's error when there was one.
\<close>

theorem chat_reply_delivered:
  assumes key: "cf_anthropicApiKey cfg = Some k" "k \<noteq> []"
    and ground: "load_grounding sv cfg None None w = (Inr (ctx, vault, notes), w1)"
    and model: "sv_stream sv k (system_text (buildContextBlock vault ctx None))
           (map (\<lambda>m. (cm_role m, sanitizeChatInput (cm_content m))) (chat_history cw (trim text))) w1 = ((pieces, err), w2)"
    and widget: "\<not> cw_streaming cw" "trim text \<noteq> []" "a \<notin> dm_id ` set (cw_messages cw)" "a \<noteq> u"
    and served: "fst (post_chat sv (Inr cfg) (request_json (chat_history cw (trim text))) w) = Inr (ChatStream chunks)"
    and cut: "concat received = concat chunks"
  shows "widget_send u a (\<lambda>h. web_streamChat (Inr (True, 200, Some (received, None)))) text cw =
    (cw\<lparr> cw_messages := cw_messages cw @
          [\<lparr> dm_id = u, dm_role = ''user'', dm_content = trim text, dm_pending = False, dm_error = None \<rparr>,
           reply_message a pieces err], cw_input := [], cw_streaming := False \<rparr>, None)"
proof -
  have "concat received = concat (sink_chunks False ([SSE_HEAD] @ notes @ stream_events pieces err @ [SinkEnd] @ [SinkEnd]))"
    using cut served post_reply [OF key ground model] by simp
  then have run: "read_loop None [] received = (reply_callbacks pieces err, None)"
    by (rule reply_run [OF grounding_notes [OF ground]])
  have ids: "a \<notin> dm_id ` set (cw_messages cw @ [\<lparr> dm_id = u, dm_role = ''user'', dm_content = trim text, dm_pending = False, dm_error = None \<rparr>])"
    using widget(3,4) by simp
  show ?thesis
    using widget(1,2) fold_others [OF ids, of "reply_callbacks pieces err"]
    by (simp add: widget_send_def web_streamChat_def run send_started_def Let_def fold_reply)
qed

theorem chat_reply_delivered_witness:
  "\<exists>sv cfg chunks. fst (post_chat (sv :: unit services) (Inr cfg) (request_json [\<lparr> cm_role = ''user'', cm_content = ''hi'' \<rparr>]) ()) =
       Inr (ChatStream chunks) \<and>
     widget_send ''u'' ''a'' (\<lambda>h. web_streamChat (Inr (True, 200, Some (map (\<lambda>c. [c]) (concat chunks), None)))) '' hi ''
         \<lparr> cw_messages = [], cw_input = ''hi'', cw_streaming = False \<rparr> =
       (\<lparr> cw_messages = [\<lparr> dm_id = ''u'', dm_role = ''user'', dm_content = ''hi'', dm_pending = False, dm_error = None \<rparr>,
           \<lparr> dm_id = ''a'', dm_role = ''assistant'', dm_content = ''Hello!'', dm_pending = False, dm_error = None \<rparr>],
          cw_input = [], cw_streaming = False \<rparr>, None)"
proof -
  let ?sv = "scenario_services False (scenario TESTNET_ID)"
  let ?cfg = "(scenario_config ''testnet'')\<lparr>cf_anthropicApiKey := Some ''k''\<rparr>"
  let ?h = "[\<lparr> cm_role = ''user'', cm_content = ''hi'' \<rparr>]"
  let ?cw = "\<lparr> cw_messages = [], cw_input = ''hi'', cw_streaming = False \<rparr>"
  have answers: "chain_answers ?sv ?cfg (scenario TESTNET_ID) ()"
    by (simp add: chain_answers_def scenario_services_def scenario_config_def)
  have ground: "load_grounding ?sv ?cfg None None () = (Inr (Some (context_of (scenario TESTNET_ID)), None, []), ())"
    by (simp add: load_grounding_def context_answers [OF answers] io_defs)
  have model: "sv_stream ?sv k sys ms () = (([''Hello'', ''!''], None), ())" for k sys ms
    by (simp add: scenario_services_def)
  have hist: "trim '' hi '' = ''hi''" "chat_history ?cw ''hi'' = ?h" by code_simp+
  obtain chunks where served: "fst (post_chat ?sv (Inr ?cfg) (request_json ?h) ()) = Inr (ChatStream chunks)"
    using post_reply [OF _ _ ground model, of "''k''"] by fastforce
  have "widget_send ''u'' ''a'' (\<lambda>h. web_streamChat (Inr (True, 200, Some (map (\<lambda>c. [c]) (concat chunks), None)))) '' hi '' ?cw =
      (?cw\<lparr> cw_messages := cw_messages ?cw @
          [\<lparr> dm_id = ''u'', dm_role = ''user'', dm_content = trim '' hi '', dm_pending = False, dm_error = None \<rparr>,
           reply_message ''a'' [''Hello'', ''!''] None], cw_input := [], cw_streaming := False \<rparr>, None)"
    by (rule chat_reply_delivered [OF _ _ ground model, of "''k''", where chunks = chunks])
      (use served in \<open>simp_all add: hist\<close>)
  with served show ?thesis by (auto simp: hist reply_message_def intro!: exI [of _ ?sv] exI [of _ ?cfg])
qed

text \<open>
  C37: The price route never makes a price up: whatever requests arrive and however the sources answer, a
  price it returns is a sane reading that the source it names gave, at most 20 seconds old by its own
  account, or it is marked stale, at most an hour old, and every source has just failed.
\<close>

theorem prices_are_readings:
  assumes "price_reachable sv s" "price_step sv s out s'" "(i, PriceOk b) \<in> set out"
  shows "(\<exists>p \<in> set PROVIDERS. \<exists>u w' status body x y. fst p = pb_source b \<and>
      sv_fetch sv (fst (snd p)) u = (Inr (True, status, body), w') \<and> snd (snd p) body = Inr \<lparr> q_usd = Fin x, q_change = Fin y \<rparr> \<and>
      pb_usd b = Fin x \<and> pb_change b = Fin y \<and> 0 < x \<and> x < 1000 \<and> \<bar>y\<bar> < 100) \<and>
    0 \<le> pb_ageSeconds b \<and>
    (if pb_stale b then pb_ageSeconds b \<le> 3600 \<and> (\<exists>e. fst (fetchFresh sv (ps_world s)) = Inl e) else pb_ageSeconds b \<le> 20)"
proof -
  from price_step_answers [OF price_reachable_inv [OF assms(1)] assms(2,3)] have ok: "answer_ok sv s b" .
  then obtain q where q: "read_from sv q" "pb_usd b = wq_usd q" "pb_change b = wq_change q" "pb_source b = wq_source q"
    unfolding answer_ok_def by blast
  show ?thesis
  proof (intro conjI)
    show "0 \<le> pb_ageSeconds b" using ok unfolding answer_ok_def by blast
    show "if pb_stale b then pb_ageSeconds b \<le> 3600 \<and> (\<exists>e. fst (fetchFresh sv (ps_world s)) = Inl e) else pb_ageSeconds b \<le> 20"
      using ok unfolding answer_ok_def by blast
  qed (use q(1) in \<open>simp add: read_from_def q(2-4)\<close>)
qed

theorem prices_are_readings_witness:
  "\<exists>sv s s' b. price_reachable (sv :: unit services) s \<and> price_step sv s [(7, PriceOk b)] s' \<and>
     pb_source b = ''binance'' \<and> pb_usd b = Fin 2 \<and> pb_ageSeconds b \<le> 3600"
proof -
  let ?sv = "(scenario_services False (scenario TESTNET_ID))\<lparr>sv_fetch := \<lambda>u w.
     (Inr (True, 200, JObj [(''lastPrice'', JNum 2), (''priceChangePercent'', JNum 1)]), w)\<rparr>"
  let ?q = "\<lparr> wq_usd = Fin 2, wq_change = Fin 1, wq_source = ''binance'' \<rparr>"
  let ?s0 = "price_started () 0 :: unit price_server"
  let ?s1 = "snd (price_get 7 0 ?s0)"
  let ?b = "price_body_of \<lparr> cached_quote = ?q, cached_at = 100 \<rparr> 100 False"
  have binance: "fst (ask_provider ?sv (n, u, binance_quote) w) = Inr \<lparr> wq_usd = Fin 2, wq_change = Fin 1, wq_source = n \<rparr>" for n u w
    by (simp add: ask_provider_def getJson_def bind_Inr binance_quote_def number_at_def valid_quote_def)
  have coingecko: "\<exists>e. fst (ask_provider ?sv (n, u, coingecko_quote) w) = Inl (TypeError e)" for n u w
    by (simp add: ask_provider_def getJson_def bind_Inl bind_Inr coingecko_quote_def number_at_def)
  obtain ps n u m v where ps: "PROVIDERS = (n, u, coingecko_quote) # (''binance'', v, binance_quote) # ps"
    by (simp add: PROVIDERS_def)
  obtain e where "fst (ask_provider ?sv (n, u, coingecko_quote) ()) = Inl (TypeError e)" using coingecko by blast
  then have "first_fulfilled (fst (io_all (map (ask_provider ?sv) PROVIDERS) ())) = Inr (Some ?q)"
    by (simp add: ps binance del: io_all.simps)
  then have "fst (promise_any ?sv (map (ask_provider ?sv) PROVIDERS) ()) = Inr (Some ?q)"
    by (subst promise_any_in_order) (simp_all add: scenario_services_def)
  then have f: "fetchFresh ?sv () = (Inr ?q, ())" by (simp add: prod_eq_iff fetchFresh_def bind_Inr)
  have s1: "?s1 = \<lparr> ps_cache = None, ps_waiting = [(7, 0)], ps_world = (), ps_clock = 0 \<rparr>"
    by (simp add: price_get_def price_started_def younger_def)
  have "price_step ?sv ?s0 (fst (price_get 7 0 ?s0)) ?s1"
    by (rule price_step.arrives [of ?s0 0 7]) (simp_all add: price_started_def)
  then have r: "price_reachable ?sv ?s1" by (rule price_reachable.step [OF price_reachable.started])
  have st: "price_step ?sv ?s1 [(7, PriceOk ?b)] (snd (price_settle ?sv 100 ?s1))"
    by (rule price_step.settles [of ?s1 100]) (simp_all add: s1 price_settle_def f Let_def)
  have "pb_ageSeconds ?b \<le> 3600"
    using prices_are_readings [OF r st, of 7 ?b] by (simp split: if_splits)
  then show ?thesis using r st
    by (intro exI [of _ ?sv] exI [of _ ?s1] exI [of _ "snd (price_settle ?sv 100 ?s1)"] exI [of _ ?b]) (simp add: price_body_of_def)
qed

text \<open>
  C38: The ecosystem route shows the agent's catalogue in its order, and only readings: a contract is
  reported missing without the mark of an unreachable check only after an explorer host answered 404
  for it, found only after one answered with its deployment, and a total value locked is a number the
  source gave.
\<close>

theorem ecosystem_rows_are_readings:
  assumes "eco_reachable sv s" "eco_step sv s out s'" "(i, rows) \<in> set out"
  shows "map er_protocol rows = ECOSYSTEM_PROTOCOLS \<and>
    (\<forall>r \<in> set rows.
       (er_unreachable r \<and> \<not> er_exists r \<or>
        (\<exists>v. contract_answered sv (ep_mainnetContract (er_protocol r)) v \<and> er_exists r = cv_exists v \<and>
           er_txId r = cv_txId v \<and> er_blockHeight r = cv_blockHeight v)) \<and>
       (\<forall>n. er_tvlUsd r = Some n \<longrightarrow> tvl_answered sv (er_protocol r) n))"
  using eco_step_rows [OF eco_reachable_inv [OF assms(1)] assms(2,3)] by (simp add: list_all_iff row_ok_def)

theorem ecosystem_rows_are_readings_witness:
  "\<exists>sv s rows s'. eco_reachable (sv :: unit services) s \<and> eco_step sv s [(7, rows)] s' \<and> length rows = 9"
proof -
  let ?sv = "(scenario_services False (scenario TESTNET_ID))\<lparr>sv_fetch := \<lambda>u w. (Inl (JsError ''offline''), w),
     sv_fetchText := \<lambda>u w. (Inl (JsError ''offline''), w)\<rparr>"
  let ?s0 = "eco_started () 0 :: unit eco_server"
  let ?s1 = "snd (eco_get 7 0 ?s0)"
  have none: "fst (promise_any ?sv (map (ask_contract_host ?sv t c) HIRO_HOSTS) w) = Inr None" for t c w
    by (rule rejected_all) (auto simp: ask_contract_host_def bind_Inl)
  have contract: "fst (settled (verifyContract ?sv c) w) = Inr None" for c w
    by (simp add: settled_def verifyContract_def catch_Inr bind_Inl bind_Inr none io_of_def split: prod.split)
  have tvl: "\<exists>t. fst (settled (tvl_check ?sv p) w) = Inr t" for p w
    by (cases "ep_defiLlamaSlug p") (auto simp: settled_def tvl_check_def fetchTvl_def catch_Inr bind_Inl bind_Inr)
  have total: "\<exists>e. fst (refresh_entry ?sv p prev now w) = Inr e" for p prev now w
    using tvl by (auto simp: refresh_entry_def bind_Inr contract)
  have need: "needsRefresh Map.empty 0"
    by (simp add: needsRefresh_def WEB_ECOSYSTEM_PROTOCOLS_def)
  have "eco_step ?sv ?s0 (fst (eco_get 7 0 ?s0)) ?s1"
    by (rule eco_step.arrives [of ?s0 0 7]) (simp_all add: eco_started_def)
  then have "eco_reachable ?sv ?s1" by (rule eco_reachable.step [OF eco_reachable.started])
  from refresh_completes [OF total this] obtain s where s: "eco_reachable ?sv s" "es_pending s = []"
      "es_inflight s" "es_waiting s = [7]"
    by (auto simp: eco_get_def eco_started_def need)
  let ?rows = "eco_rows (es_cache s) (es_clock s)"
  have st: "eco_step ?sv s [(7, ?rows)] (snd (eco_finish (es_clock s) s))"
    by (rule eco_step.finishes [of s "es_clock s"]) (use s in \<open>simp_all add: eco_finish_def\<close>)
  have "length ?rows = 9"
    using ecosystem_rows_are_readings [OF s(1) st, of 7 ?rows] by (auto simp: ECOSYSTEM_PROTOCOLS_def dest!: arg_cong [of _ _ length])
  with s(1) st show ?thesis by blast
qed





end
